(* ===== verification/Foctet_Prelude.thy ===== *)
theory Foctet_Prelude
  imports Main "HOL-Library.Word"
begin

unbundle bit_operations_syntax

text \<open>
  Shared vocabulary of the development: the machine integers of the Rust sources, the
  result type and the question-mark operator, the integer accessors of the \<^verbatim>\<open>bytes\<close>
  crate as an interface, the standard mutex, and list facts used by several components.

  The accessors \<^verbatim>\<open>BufMut::put_u32\<close>, \<^verbatim>\<open>Buf::get_u32\<close> and their one-byte variants are code of a
  third-party crate. They are a parameter (\<open>buf_ops\<close>) of every definition that uses
  them; the locale \<open>buf_ints\<close> states what the crate documents of them. The big-endian
  conversions of the Rust standard library satisfy that contract.
\<close>

section \<open>Machine integers, results\<close>

type_synonym u8 = "8 word"
type_synonym u16 = "16 word"
type_synonym u32 = "32 word"
type_synonym u64 = "64 word"
type_synonym bytes = "u8 list"

text \<open>\<open>usize\<close> values that only count list elements are \<open>nat\<close>; the cast
  \<^verbatim>\<open>as u32\<close> of such a count keeps the low 32 bits.\<close>

definition as_u32 :: "nat \<Rightarrow> u32" where
  "as_u32 n = of_nat n"

definition as_u8 :: "nat \<Rightarrow> u8" where
  "as_u8 n = of_nat n"

lemma unat_as_u32: "unat (as_u32 n) = n mod 2 ^ 32"
  by (simp add: as_u32_def unat_of_nat)

lemma unat_as_u32_small [simp]: "n < 2 ^ 32 \<Longrightarrow> unat (as_u32 n) = n"
  by (simp add: unat_as_u32)

lemma as_u32_unat [simp]: "as_u32 (unat w) = w"
  by (simp add: as_u32_def)

lemma u8_less: "unat (x :: u8) < 256"
proof -
  have "unat x < 2 ^ LENGTH(8)" by (rule unsigned_less)
  then show ?thesis by simp
qed

lemma u16_less: "unat (x :: u16) < 65536"
proof -
  have "unat x < 2 ^ LENGTH(16)" by (rule unsigned_less)
  then show ?thesis by simp
qed

text \<open>\<^verbatim>\<open>u32::checked_add\<close>: \<open>None\<close> when the sum does not fit.\<close>

definition checked_add_u32 :: "u32 \<Rightarrow> u32 \<Rightarrow> u32 option" where
  "checked_add_u32 a b = (if unat a + unat b < 2 ^ 32 then Some (a + b) else None)"

lemma unat_plus_small: "unat (a :: u32) + unat b < 2 ^ 32 \<Longrightarrow> unat (a + b) = unat a + unat b"
  by (simp add: unat_word_ariths)

lemma checked_add_u32_Some_iff:
  "checked_add_u32 a b = Some c \<longleftrightarrow> unat a + unat b < 2 ^ 32 \<and> c = a + b"
  by (auto simp: checked_add_u32_def)

text \<open>Errors: an \<^verbatim>\<open>anyhow\<close> error is its message, an \<^verbatim>\<open>io::Error\<close> also has a kind.\<close>

datatype io_kind = BrokenPipe | OtherIo

datatype error = Anyhow string | IoError io_kind string

type_synonym 'a result = "error + 'a"

abbreviation Ok :: "'a \<Rightarrow> 'e + 'a" where "Ok \<equiv> Inr"
abbreviation Err :: "'e \<Rightarrow> 'e + 'a" where "Err \<equiv> Inl"

text \<open>The question-mark operator: stop at the first error.\<close>

fun try_bind :: "'e + 'a \<Rightarrow> ('a \<Rightarrow> 'e + 'b) \<Rightarrow> 'e + 'b" where
  "try_bind (Inl e) f = Inl e"
| "try_bind (Inr x) f = f x"

fun ok_or :: "'a option \<Rightarrow> 'e \<Rightarrow> 'e + 'a" where
  "ok_or None e = Inl e"
| "ok_or (Some x) e = Inr x"

fun map_err :: "('e \<Rightarrow> 'f) \<Rightarrow> 'e + 'a \<Rightarrow> 'f + 'a" where
  "map_err g (Inl e) = Inl (g e)"
| "map_err g (Inr x) = Inr x"

fun is_ok :: "'e + 'a \<Rightarrow> bool" where
  "is_ok (Inl e) = False"
| "is_ok (Inr x) = True"

lemma try_bind_Inr_iff [simp]: "try_bind r f = Inr y \<longleftrightarrow> (\<exists>x. r = Inr x \<and> f x = Inr y)"
  by (cases r) auto

lemma try_bind_Inl_iff: "try_bind r f = Inl e \<longleftrightarrow> r = Inl e \<or> (\<exists>x. r = Inr x \<and> f x = Inl e)"
  by (cases r) auto

lemma ok_or_Inr_iff [simp]: "ok_or x e = Inr y \<longleftrightarrow> x = Some y"
  by (cases x) auto

lemma ok_or_Inl_iff [simp]: "ok_or x e = Inl e' \<longleftrightarrow> x = None \<and> e' = e"
  by (cases x) auto

lemma map_err_Inr_iff [simp]: "map_err g r = Inr y \<longleftrightarrow> r = Inr y"
  by (cases r) auto

lemma map_err_Inl_iff [simp]: "map_err g r = Inl e \<longleftrightarrow> (\<exists>e'. r = Inl e' \<and> e = g e')"
  by (cases r) auto

lemma not_is_ok_iff: "\<not> is_ok r \<longleftrightarrow> (\<exists>e. r = Inl e)"
  by (cases r) auto

lemma not_Inl_iff: "(\<forall>e. r \<noteq> Inl e) \<longleftrightarrow> (\<exists>x. r = Inr x)"
  by (cases r) auto

lemma is_ok_iff: "is_ok r \<longleftrightarrow> (\<exists>x. r = Inr x)"
  by (cases r) auto


text \<open>
  Code that also hands messages to the outside returns its result together with the list of
  messages that were taken, in order; an error ends it there.
\<close>

fun eff_bind :: "('e + 'a) \<times> 'm list \<Rightarrow> ('a \<Rightarrow> ('e + 'b) \<times> 'm list) \<Rightarrow> ('e + 'b) \<times> 'm list" where
  "eff_bind (Inl e, ms) f = (Inl e, ms)"
| "eff_bind (Inr x, ms) f = (let (r, ns) = f x in (r, ms @ ns))"

text \<open>\<^verbatim>\<open>Iterator::find_map\<close>: the first result of a function that gives one.\<close>

definition find_map :: "('p \<Rightarrow> 'b option) \<Rightarrow> 'p list \<Rightarrow> 'b option" where
  "find_map f ps = (case List.map_filter f ps of [] \<Rightarrow> None | x # _ \<Rightarrow> Some x)"

text \<open>Code that may panic returns an option, and \<open>None\<close> is the panic: the question-mark operator there.\<close>

fun panic_bind :: "('e + 'a) option \<Rightarrow> ('a \<Rightarrow> ('e + 'b) option) \<Rightarrow> ('e + 'b) option" where
  "panic_bind None f = None"
| "panic_bind (Some (Inl e)) f = Some (Inl e)"
| "panic_bind (Some (Inr x)) f = f x"

lemma panic_bind_Some_Inr_iff [simp]:
  "panic_bind r f = Some (Inr y) \<longleftrightarrow> (\<exists>x. r = Some (Inr x) \<and> f x = Some (Inr y))"
  by (cases "(r, f)" rule: panic_bind.cases) auto

lemma panic_bind_None_iff [simp]:
  "panic_bind r f = None \<longleftrightarrow> r = None \<or> (\<exists>x. r = Some (Inr x) \<and> f x = None)"
  by (cases "(r, f)" rule: panic_bind.cases) auto


section \<open>Decimal display of integers\<close>

fun show_nat :: "nat \<Rightarrow> string" where
  "show_nat n =
     (if n < 10 then [char_of (48 + n)] else show_nat (n div 10) @ [char_of (48 + n mod 10)])"

declare show_nat.simps [simp del]


section \<open>Lists\<close>

lemma drop_split: "drop i xs = take k (drop i xs) @ drop (i + k) xs"
  by (metis add.commute append_take_drop_id drop_drop)


section \<open>Invariants of step relations\<close>

text \<open>What every state machine of the development is proved with: a predicate that holds in
  the initial states and is kept by every step holds in every reachable state.\<close>

locale invariant_system =
  fixes init :: "'s \<Rightarrow> bool"
    and step :: "'s \<Rightarrow> 's \<Rightarrow> bool"
    and inv :: "'s \<Rightarrow> bool"
  assumes inv_init: "init s \<Longrightarrow> inv s"
    and inv_step: "inv s \<Longrightarrow> step s t \<Longrightarrow> inv t"
begin

lemma inv_steps: "step\<^sup>*\<^sup>* s t \<Longrightarrow> inv s \<Longrightarrow> inv t"
  by (induction rule: rtranclp_induct) (auto intro: inv_step)

lemma inv_reachable: "init s \<Longrightarrow> step\<^sup>*\<^sup>* s t \<Longrightarrow> inv t"
  by (blast intro: inv_steps inv_init)

end


section \<open>The standard mutex\<close>

text \<open>
  \<^verbatim>\<open>std::sync::Mutex\<close>: \<open>lock\<close> fails once a thread has panicked while holding it. A shared
  mutex (\<^verbatim>\<open>Arc<Mutex<T>>\<close>) is an address into a store of mutexes.
\<close>

record 'a Mutex =
  mx_poisoned :: bool
  mx_value :: 'a

definition Mutex_new :: "'a \<Rightarrow> 'a Mutex" where
  "Mutex_new x = \<lparr> mx_poisoned = False, mx_value = x \<rparr>"

definition Mutex_lock :: "'a Mutex \<Rightarrow> 'a option" where
  "Mutex_lock m = (if mx_poisoned m then None else Some (mx_value m))"

type_synonym 'a store = "nat \<Rightarrow> 'a Mutex"


section \<open>The integer accessors of the bytes crate\<close>

record buf_ops =
  put_u8 :: "u8 \<Rightarrow> bytes"
  get_u8 :: "bytes \<Rightarrow> u8 \<times> bytes"
  put_u32 :: "u32 \<Rightarrow> bytes"
  get_u32 :: "bytes \<Rightarrow> u32 \<times> bytes"

text \<open>
  What the sources rely on: a writer appends exactly the width of its integer, a reader
  called with enough bytes removes that width from the front, and the two are inverse.
  A reader called with too few bytes panics; every call in the sources is guarded.
\<close>

locale buf_ints =
  fixes B :: buf_ops
  assumes put_u8_length: "length (put_u8 B b) = 1"
    and put_u32_length: "length (put_u32 B n) = 4"
    and get_put_u8: "get_u8 B (put_u8 B b @ bs) = (b, bs)"
    and get_put_u32: "get_u32 B (put_u32 B n @ bs) = (n, bs)"
    and put_get_u8: "length hs = 1 \<Longrightarrow> \<exists>b. get_u8 B (hs @ bs) = (b, bs) \<and> put_u8 B b = hs"
    and put_get_u32: "length hs = 4 \<Longrightarrow> \<exists>n. get_u32 B (hs @ bs) = (n, bs) \<and> put_u32 B n = hs"
begin

lemmas put_lengths = put_u8_length put_u32_length

lemmas get_puts = get_put_u8 get_put_u32

lemma put_u32_inject: "put_u32 B m = put_u32 B n \<longleftrightarrow> m = n"
  by (metis get_put_u32 prod.inject)

lemma put_u8_inject: "put_u8 B a = put_u8 B b \<longleftrightarrow> a = b"
  by (metis get_put_u8 prod.inject)

text \<open>Reading from a long enough buffer: the rest is the buffer without the field.\<close>

lemma get_u32_take_drop:
  assumes "4 \<le> length bs"
  obtains n where "get_u32 B bs = (n, drop 4 bs)" and "put_u32 B n = take 4 bs"
  using put_get_u32 [of "take 4 bs" "drop 4 bs"] assms by auto

lemma get_u8_take_drop:
  assumes "1 \<le> length bs"
  obtains b where "get_u8 B bs = (b, drop 1 bs)" and "put_u8 B b = take 1 bs"
  using put_get_u8 [of "take 1 bs" "drop 1 bs"] assms by auto

end

text \<open>
  The standard library's \<^verbatim>\<open>u32::to_be_bytes\<close> and \<^verbatim>\<open>u32::from_be_bytes\<close>. They satisfy
  the contract, so it is consistent.
\<close>

definition to_be_bytes :: "u32 \<Rightarrow> bytes" where
  "to_be_bytes n = [ucast (drop_bit 24 n), ucast (drop_bit 16 n), ucast (drop_bit 8 n), ucast n]"

fun from_be_bytes :: "bytes \<Rightarrow> u32" where
  "from_be_bytes [a, b, c, d] =
     push_bit 24 (ucast a) OR push_bit 16 (ucast b) OR push_bit 8 (ucast c) OR ucast d"
| "from_be_bytes _ = 0"

definition be_ops :: buf_ops where
  "be_ops = \<lparr> put_u8 = (\<lambda>b. [b]),
              get_u8 = (\<lambda>bs. (hd bs, tl bs)),
              put_u32 = to_be_bytes,
              get_u32 = (\<lambda>bs. (from_be_bytes (take 4 bs), drop 4 bs)) \<rparr>"

lemma from_to_be_bytes: "from_be_bytes (to_be_bytes n) = n"
proof (rule bit_word_eqI)
  fix k
  assume "k < LENGTH(32)"
  then consider "k < 8" | "8 \<le> k" "k < 16" | "16 \<le> k" "k < 24" | "24 \<le> k" "k < 32"
    by fastforce
  then show "bit (from_be_bytes (to_be_bytes n)) k = bit n k"
    by cases (auto simp: to_be_bytes_def bit_simps)
qed

lemma to_from_be_bytes:
  assumes "length hs = 4"
  shows "to_be_bytes (from_be_bytes hs) = hs"
proof -
  from assms obtain a b c d where hs: "hs = [a, b, c, d]"
    by (auto simp: numeral_eq_Suc length_Suc_conv)
  have "ucast (drop_bit 24 (from_be_bytes hs)) = a" "ucast (drop_bit 16 (from_be_bytes hs)) = b"
    "ucast (drop_bit 8 (from_be_bytes hs)) = c" "ucast (from_be_bytes hs) = d"
    by (rule bit_word_eqI; auto simp: hs bit_simps dest: bit_imp_le_length)+
  then show ?thesis by (simp add: to_be_bytes_def hs)
qed

lemma length_to_be_bytes [simp]: "length (to_be_bytes n) = 4"
  by (simp add: to_be_bytes_def)

interpretation be: buf_ints be_ops
proof (unfold_locales, goal_cases)
  case (4 n bs)
  then show ?case by (simp add: be_ops_def from_to_be_bytes)
next
  case (5 hs bs)
  then show ?case by (cases hs) (auto simp: be_ops_def)
next
  case (6 hs bs)
  then show ?case by (auto simp: be_ops_def to_from_be_bytes)
qed (simp_all add: be_ops_def)

end
