(* ===== verification/Ids.thy ===== *)
theory Ids
  imports Foctet_Prelude
begin

text \<open>
  Identifiers of \<^verbatim>\<open>foctet-core\<close>: \<^verbatim>\<open>stream.rs\<close> (StreamId, OperationId), \<^verbatim>\<open>connection.rs\<close>
  (SessionId, ConnectionSide, Direction) and \<^verbatim>\<open>transport.rs\<close> (ListenerId and its global
  counter). A \<^verbatim>\<open>&mut self\<close> method returns its result together with the new value. The
  three allocating identifiers share one contract, the locale \<open>id_counter\<close>.
\<close>

section \<open>Stream and operation identifiers\<close>

datatype StreamId = StreamId (StreamId_id: u32)

definition StreamId_new :: "u32 \<Rightarrow> StreamId" where
  "StreamId_new n = StreamId n"

definition StreamId_next :: "StreamId \<Rightarrow> StreamId" where
  "StreamId_next s =
     StreamId (case checked_add_u32 (StreamId_id s) 1 of Some m \<Rightarrow> m | None \<Rightarrow> 0)"

definition StreamId_fetch_add :: "StreamId \<Rightarrow> u32 \<Rightarrow> StreamId \<times> StreamId" where
  "StreamId_fetch_add s n =
     (let old = StreamId_id s
      in (StreamId old,
          StreamId (case checked_add_u32 (StreamId_id s) n of Some m \<Rightarrow> m | None \<Rightarrow> 0)))"

definition StreamId_fmt :: "StreamId \<Rightarrow> string" where
  "StreamId_fmt s = show_nat (unat (StreamId_id s))"

datatype OperationId = OperationId (OperationId_id: u32)

definition OperationId_new :: "u32 \<Rightarrow> OperationId" where
  "OperationId_new n = OperationId n"

definition OperationId_next :: "OperationId \<Rightarrow> OperationId" where
  "OperationId_next s =
     OperationId (case checked_add_u32 (OperationId_id s) 1 of Some m \<Rightarrow> m | None \<Rightarrow> 0)"

definition OperationId_fetch_add :: "OperationId \<Rightarrow> u32 \<Rightarrow> OperationId \<times> OperationId" where
  "OperationId_fetch_add s n =
     (let old = OperationId_id s
      in (OperationId old,
          OperationId (case checked_add_u32 (OperationId_id s) n of Some m \<Rightarrow> m | None \<Rightarrow> 0)))"

text \<open>\<^verbatim>\<open>foctet-mux/src/lib.rs\<close>: the identifier 0 is reserved for the session.\<close>

definition RESERVED_STREAM_ID :: StreamId where
  "RESERVED_STREAM_ID = StreamId 0"


section \<open>Sessions and connections\<close>

datatype SessionId = SessionId (SessionId_id: u32)

definition SessionId_new :: "u32 \<Rightarrow> SessionId" where
  "SessionId_new n = SessionId n"

definition SessionId_fmt :: "SessionId \<Rightarrow> string" where
  "SessionId_fmt s = show_nat (unat (SessionId_id s))"

datatype ConnectionSide = Connector | Listener

datatype Direction = Incoming | Outgoing


section \<open>Listener identifiers\<close>

datatype ListenerId = ListenerId (ListenerId_id: u32)

definition ListenerId_new :: "u32 \<Rightarrow> ListenerId" where
  "ListenerId_new n = ListenerId n"

text \<open>\<^verbatim>\<open>AtomicU32::fetch_add\<close> of the standard library wraps around.\<close>

definition atomic_fetch_add :: "u32 \<Rightarrow> u32 \<Rightarrow> u32 \<times> u32" where
  "atomic_fetch_add cell n = (cell, cell + n)"

definition NEXT_LISTENER_ID :: u32 where
  "NEXT_LISTENER_ID = 1"

text \<open>\<open>ListenerId_next\<close> takes and returns the global counter.\<close>

definition ListenerId_next :: "u32 \<Rightarrow> ListenerId \<times> u32" where
  "ListenerId_next cell =
     (let (old, cell') = atomic_fetch_add cell 1 in (ListenerId old, cell'))"

definition ListenerId_fetch_add :: "ListenerId \<Rightarrow> u32 \<Rightarrow> ListenerId \<times> ListenerId" where
  "ListenerId_fetch_add s n =
     (let old = ListenerId_id s
      in (ListenerId old,
          ListenerId (case checked_add_u32 (ListenerId_id s) n of Some m \<Rightarrow> m | None \<Rightarrow> 0)))"

definition ListenerId_fmt :: "ListenerId \<Rightarrow> string" where
  "ListenerId_fmt s = show_nat (unat (ListenerId_id s))"


section \<open>The allocation contract\<close>

text \<open>The identifiers handed out by \<open>k\<close> successive calls of \<open>fetch_add(1)\<close>.\<close>

fun alloc_run :: "('i \<Rightarrow> u32 \<Rightarrow> 'i \<times> 'i) \<Rightarrow> nat \<Rightarrow> 'i \<Rightarrow> 'i list \<times> 'i" where
  "alloc_run fetch 0 i = ([], i)"
| "alloc_run fetch (Suc k) i =
     (let (old, i') = fetch i 1; (ids, i'') = alloc_run fetch k i' in (old # ids, i''))"

locale id_counter =
  fixes mk :: "u32 \<Rightarrow> 'i"
    and val :: "'i \<Rightarrow> u32"
    and fetch :: "'i \<Rightarrow> u32 \<Rightarrow> 'i \<times> 'i"
  assumes mk_val: "mk (val i) = i"
    and fetch_old: "fst (fetch i n) = i"
    and fetch_fits: "unat (val i) + unat n < 2 ^ 32 \<Longrightarrow> val (snd (fetch i n)) = val i + n"
    and fetch_wraps: "2 ^ 32 \<le> unat (val i) + unat n \<Longrightarrow> val (snd (fetch i n)) = 0"
begin

lemma run_ids:
  assumes "unat (val i) + k \<le> 2 ^ 32"
  shows "map (\<lambda>x. unat (val x)) (fst (alloc_run fetch k i)) = [unat (val i) ..< unat (val i) + k]"
  using assms
proof (induction k arbitrary: i)
  case 0
  then show ?case by simp
next
  case (Suc k)
  obtain i' where f: "fetch i 1 = (i, i')"
    using fetch_old [of i 1] by (cases "fetch i 1") auto
  obtain ids j where r: "alloc_run fetch k i' = (ids, j)" by fastforce
  have "map (\<lambda>x. unat (val x)) ids = [Suc (unat (val i)) ..< Suc (unat (val i)) + k]"
  proof (cases k)
    case 0
    with r show ?thesis by simp
  next
    case (Suc k')
    with Suc.prems have fits: "unat (val i) + 1 < 2 ^ 32" by simp
    then have "val i' = val i + 1" using fetch_fits [of i 1] f by simp
    with fits have "unat (val i') = Suc (unat (val i))" by (simp add: unat_plus_small)
    with Suc.IH [of i'] Suc.prems r show ?thesis by simp
  qed
  with f r Suc.prems show ?case by (simp add: upt_rec [of "unat (val i)"])
qed

text \<open>Until the counter overflows, no identifier is handed out twice.\<close>

lemma run_distinct:
  assumes "unat (val i) + k \<le> 2 ^ 32"
  shows "distinct (fst (alloc_run fetch k i))"
proof -
  have "distinct (map (\<lambda>x. unat (val x)) (fst (alloc_run fetch k i)))"
    by (simp add: run_ids [OF assms])
  then show ?thesis by (simp add: distinct_map)
qed

lemma run_bounds:
  assumes "unat (val i) + k \<le> 2 ^ 32" and "x \<in> set (fst (alloc_run fetch k i))"
  shows "unat (val i) \<le> unat (val x) \<and> unat (val x) < unat (val i) + k"
proof -
  have "unat (val x) \<in> set (map (\<lambda>x. unat (val x)) (fst (alloc_run fetch k i)))"
    using assms(2) by simp
  then show ?thesis unfolding run_ids [OF assms(1)] by simp
qed

end

lemmas fetch_add_defs = StreamId_fetch_add_def OperationId_fetch_add_def ListenerId_fetch_add_def
  Let_def checked_add_u32_def

interpretation stream_ids: id_counter StreamId StreamId_id StreamId_fetch_add
  by unfold_locales (auto simp: fetch_add_defs)

interpretation operation_ids: id_counter OperationId OperationId_id OperationId_fetch_add
  by unfold_locales (auto simp: fetch_add_defs)

interpretation listener_ids: id_counter ListenerId ListenerId_id ListenerId_fetch_add
  by unfold_locales (auto simp: fetch_add_defs)

lemma StreamId_fetch_add_simp:
  "StreamId_fetch_add (StreamId n) m =
     (StreamId n, StreamId (if unat n + unat m < 2 ^ 32 then n + m else 0))"
  by (simp add: fetch_add_defs)

lemma StreamId_next_fetch_add: "StreamId_next s = snd (StreamId_fetch_add s 1)"
  by (simp add: StreamId_next_def StreamId_fetch_add_def)

end
