(* ===== verification/Frame.thy ===== *)
theory Frame
  imports Ids
begin

unbundle bit_operations_syntax

text \<open>
  \<^verbatim>\<open>foctet-core/src/frame.rs\<close>: the frame flags, the frame type, the header, the frame with its
  byte format, and the frame builder. The flags are the \<^verbatim>\<open>bitflags!\<close> declaration read as
  its u8 representation with the bit operations the macro documents. A \<^verbatim>\<open>&mut self\<close>
  setter returns the changed value.
\<close>

section \<open>Frame flags\<close>

datatype FrameFlags = FrameFlags (flag_bits: u8)

definition FLAG_EMPTY :: FrameFlags where "FLAG_EMPTY = FrameFlags 0b00000000"
definition FLAG_REQUEST :: FrameFlags where "FLAG_REQUEST = FrameFlags 0b00000001"
definition FLAG_RESPONSE :: FrameFlags where "FLAG_RESPONSE = FrameFlags 0b00000010"
definition FLAG_FRAGMENTED :: FrameFlags where "FLAG_FRAGMENTED = FrameFlags 0b00000100"
definition FLAG_FIN :: FrameFlags where "FLAG_FIN = FrameFlags 0b00001000"
definition FLAG_OPEN :: FrameFlags where "FLAG_OPEN = FrameFlags 0b00010000"
definition FLAG_RESET :: FrameFlags where "FLAG_RESET = FrameFlags 0b00100000"
definition FLAG_CLOSE :: FrameFlags where "FLAG_CLOSE = FrameFlags 0b01000000"

lemmas flag_consts = FLAG_EMPTY_def FLAG_REQUEST_def FLAG_RESPONSE_def FLAG_FRAGMENTED_def
  FLAG_FIN_def FLAG_OPEN_def FLAG_RESET_def FLAG_CLOSE_def

text \<open>The bit operations of the macro.\<close>

definition flags_union :: "FrameFlags \<Rightarrow> FrameFlags \<Rightarrow> FrameFlags" where
  "flags_union a b = FrameFlags (flag_bits a OR flag_bits b)"

definition FLAGS_ALL :: u8 where
  "FLAGS_ALL = flag_bits (fold flags_union
     [FLAG_EMPTY, FLAG_REQUEST, FLAG_RESPONSE, FLAG_FRAGMENTED, FLAG_FIN, FLAG_OPEN,
      FLAG_RESET, FLAG_CLOSE] FLAG_EMPTY)"

definition flags_from_bits_truncate :: "u8 \<Rightarrow> FrameFlags" where
  "flags_from_bits_truncate v = FrameFlags (v AND FLAGS_ALL)"

definition flags_from_bits :: "u8 \<Rightarrow> FrameFlags option" where
  "flags_from_bits v = (if v AND FLAGS_ALL = v then Some (FrameFlags v) else None)"

definition flags_contains :: "FrameFlags \<Rightarrow> FrameFlags \<Rightarrow> bool" where
  "flags_contains a b \<longleftrightarrow> flag_bits a AND flag_bits b = flag_bits b"

definition flags_is_empty :: "FrameFlags \<Rightarrow> bool" where
  "flags_is_empty a \<longleftrightarrow> flag_bits a = 0"

definition flags_insert :: "FrameFlags \<Rightarrow> FrameFlags \<Rightarrow> FrameFlags" where
  "flags_insert a b = FrameFlags (flag_bits a OR flag_bits b)"

definition flags_remove :: "FrameFlags \<Rightarrow> FrameFlags \<Rightarrow> FrameFlags" where
  "flags_remove a b = FrameFlags (flag_bits a AND NOT (flag_bits b))"

lemmas flags_ops = flags_union_def flags_contains_def flags_is_empty_def flags_insert_def
  flags_remove_def

text \<open>The methods of \<^verbatim>\<open>impl FrameFlags\<close>, in source order.\<close>

definition FrameFlags_set_flag :: "FrameFlags \<Rightarrow> FrameFlags \<Rightarrow> FrameFlags" where
  "FrameFlags_set_flag self flag = flags_insert self flag"

definition FrameFlags_unset_flag :: "FrameFlags \<Rightarrow> FrameFlags \<Rightarrow> FrameFlags" where
  "FrameFlags_unset_flag self flag = flags_remove self flag"

definition FrameFlags_new :: FrameFlags where
  "FrameFlags_new = flags_from_bits_truncate (flag_bits FLAG_EMPTY)"

definition FrameFlags_open_request :: FrameFlags where
  "FrameFlags_open_request =
     (let flags = FrameFlags_new;
          flags = FrameFlags_set_flag flags FLAG_REQUEST;
          flags = FrameFlags_set_flag flags FLAG_OPEN
      in flags)"

definition FrameFlags_open_response :: FrameFlags where
  "FrameFlags_open_response =
     (let flags = FrameFlags_new;
          flags = FrameFlags_set_flag flags FLAG_RESPONSE;
          flags = FrameFlags_set_flag flags FLAG_OPEN
      in flags)"

definition FrameFlags_open_reset :: FrameFlags where
  "FrameFlags_open_reset =
     (let flags = FrameFlags_new;
          flags = FrameFlags_set_flag flags FLAG_RESPONSE;
          flags = FrameFlags_set_flag flags FLAG_OPEN;
          flags = FrameFlags_set_flag flags FLAG_RESET
      in flags)"

definition FrameFlags_close_request :: FrameFlags where
  "FrameFlags_close_request =
     (let flags = FrameFlags_new;
          flags = FrameFlags_set_flag flags FLAG_REQUEST;
          flags = FrameFlags_set_flag flags FLAG_CLOSE
      in flags)"

definition FrameFlags_close_response :: FrameFlags where
  "FrameFlags_close_response =
     (let flags = FrameFlags_new;
          flags = FrameFlags_set_flag flags FLAG_RESPONSE;
          flags = FrameFlags_set_flag flags FLAG_CLOSE
      in flags)"

definition FrameFlags_is_none :: "FrameFlags \<Rightarrow> bool" where
  "FrameFlags_is_none self = flags_is_empty self"

definition FrameFlags_is_request :: "FrameFlags \<Rightarrow> bool" where
  "FrameFlags_is_request self = flags_contains self FLAG_REQUEST"

definition FrameFlags_is_response :: "FrameFlags \<Rightarrow> bool" where
  "FrameFlags_is_response self = flags_contains self FLAG_RESPONSE"

definition FrameFlags_is_fragmented :: "FrameFlags \<Rightarrow> bool" where
  "FrameFlags_is_fragmented self = flags_contains self FLAG_FRAGMENTED"

definition FrameFlags_is_open :: "FrameFlags \<Rightarrow> bool" where
  "FrameFlags_is_open self = flags_contains self FLAG_OPEN"

definition FrameFlags_is_fin :: "FrameFlags \<Rightarrow> bool" where
  "FrameFlags_is_fin self = flags_contains self FLAG_FIN"

definition FrameFlags_is_reset :: "FrameFlags \<Rightarrow> bool" where
  "FrameFlags_is_reset self = flags_contains self FLAG_RESET"

definition FrameFlags_is_open_request :: "FrameFlags \<Rightarrow> bool" where
  "FrameFlags_is_open_request self \<longleftrightarrow> self = flags_union FLAG_REQUEST FLAG_OPEN"

definition FrameFlags_is_open_response :: "FrameFlags \<Rightarrow> bool" where
  "FrameFlags_is_open_response self \<longleftrightarrow> self = flags_union FLAG_RESPONSE FLAG_OPEN"

definition FrameFlags_is_open_reset :: "FrameFlags \<Rightarrow> bool" where
  "FrameFlags_is_open_reset self \<longleftrightarrow>
     self = flags_union (flags_union FLAG_RESPONSE FLAG_OPEN) FLAG_RESET"

definition FrameFlags_is_close_request :: "FrameFlags \<Rightarrow> bool" where
  "FrameFlags_is_close_request self \<longleftrightarrow> self = flags_union FLAG_REQUEST FLAG_CLOSE"

definition FrameFlags_is_close_response :: "FrameFlags \<Rightarrow> bool" where
  "FrameFlags_is_close_response self \<longleftrightarrow> self = flags_union FLAG_RESPONSE FLAG_CLOSE"

text \<open>\<^verbatim>\<open>from_u8\<close> takes \<^verbatim>\<open>&mut self\<close>, computes the truncated flags and drops them.\<close>

definition FrameFlags_from_u8 :: "FrameFlags \<Rightarrow> u8 \<Rightarrow> FrameFlags" where
  "FrameFlags_from_u8 self value = (let _ = flags_from_bits_truncate value in self)"

definition FrameFlags_as_u8 :: "FrameFlags \<Rightarrow> u8" where
  "FrameFlags_as_u8 self = flag_bits self"

definition FrameFlags_serialize :: "FrameFlags \<Rightarrow> u8" where
  "FrameFlags_serialize self = flag_bits self"

definition FrameFlags_deserialize :: "u8 \<Rightarrow> FrameFlags result" where
  "FrameFlags_deserialize bits = ok_or (flags_from_bits bits) (Anyhow ''Invalid FrameFlags bits'')"


section \<open>Frame types\<close>

datatype FrameType = Control | Data | Meta | FileMeta | FileData | ContentRequest | Reserved u8

definition FrameType_from_u8 :: "u8 \<Rightarrow> FrameType" where
  "FrameType_from_u8 value =
     (if value = 0 then Control
      else if value = 1 then Data
      else if value = 2 then Meta
      else if value = 3 then FileMeta
      else if value = 4 then FileData
      else if value = 5 then ContentRequest
      else Reserved value)"

fun FrameType_into_u8 :: "FrameType \<Rightarrow> u8" where
  "FrameType_into_u8 Control = 0"
| "FrameType_into_u8 Data = 1"
| "FrameType_into_u8 Meta = 2"
| "FrameType_into_u8 FileMeta = 3"
| "FrameType_into_u8 FileData = 4"
| "FrameType_into_u8 ContentRequest = 5"
| "FrameType_into_u8 (Reserved other) = other"


section \<open>Headers and frames\<close>

record FrameHeader =
  hdr_stream_id :: StreamId
  hdr_operation_id :: OperationId
  hdr_flags :: FrameFlags
  hdr_frame_type :: FrameType
  hdr_payload_len :: u32

definition FrameHeader_new ::
  "StreamId \<Rightarrow> OperationId \<Rightarrow> FrameFlags \<Rightarrow> FrameType \<Rightarrow> FrameHeader" where
  "FrameHeader_new sid oid fl ty =
     \<lparr> hdr_stream_id = sid, hdr_operation_id = oid, hdr_flags = fl, hdr_frame_type = ty,
       hdr_payload_len = 0 \<rparr>"

definition FrameHeader_empty :: FrameHeader where
  "FrameHeader_empty =
     \<lparr> hdr_stream_id = StreamId 0, hdr_operation_id = OperationId 0, hdr_flags = FLAG_EMPTY,
       hdr_frame_type = Data, hdr_payload_len = 0 \<rparr>"

definition FrameHeader_set_flag :: "FrameHeader \<Rightarrow> FrameFlags \<Rightarrow> FrameHeader" where
  "FrameHeader_set_flag self flag =
     self\<lparr>hdr_flags := FrameFlags_set_flag (hdr_flags self) flag\<rparr>"

definition FrameHeader_unset_flag :: "FrameHeader \<Rightarrow> FrameFlags \<Rightarrow> FrameHeader" where
  "FrameHeader_unset_flag self flag =
     self\<lparr>hdr_flags := FrameFlags_unset_flag (hdr_flags self) flag\<rparr>"

definition FrameHeader_has_flag :: "FrameHeader \<Rightarrow> FrameFlags \<Rightarrow> bool" where
  "FrameHeader_has_flag self flag = flags_contains (hdr_flags self) flag"

definition FrameHeader_is_fin :: "FrameHeader \<Rightarrow> bool" where
  "FrameHeader_is_fin self = FrameFlags_is_fin (hdr_flags self)"

definition FrameHeader_is_request :: "FrameHeader \<Rightarrow> bool" where
  "FrameHeader_is_request self = FrameFlags_is_request (hdr_flags self)"

definition FrameHeader_is_response :: "FrameHeader \<Rightarrow> bool" where
  "FrameHeader_is_response self = FrameFlags_is_response (hdr_flags self)"

definition FrameHeader_is_fragmented :: "FrameHeader \<Rightarrow> bool" where
  "FrameHeader_is_fragmented self = FrameFlags_is_fragmented (hdr_flags self)"

definition FrameHeader_set_request :: "FrameHeader \<Rightarrow> FrameHeader" where
  "FrameHeader_set_request self = self\<lparr>hdr_flags := FrameFlags_set_flag (hdr_flags self) FLAG_REQUEST\<rparr>"

definition FrameHeader_set_response :: "FrameHeader \<Rightarrow> FrameHeader" where
  "FrameHeader_set_response self = self\<lparr>hdr_flags := FrameFlags_set_flag (hdr_flags self) FLAG_RESPONSE\<rparr>"

definition FrameHeader_set_fragmented :: "FrameHeader \<Rightarrow> FrameHeader" where
  "FrameHeader_set_fragmented self = self\<lparr>hdr_flags := FrameFlags_set_flag (hdr_flags self) FLAG_FRAGMENTED\<rparr>"

record Frame =
  fr_header :: FrameHeader
  fr_payload :: bytes

definition FRAME_HEADER_LEN :: nat where
  "FRAME_HEADER_LEN = 14"

definition Frame_empty :: Frame where
  "Frame_empty = \<lparr> fr_header = FrameHeader_empty, fr_payload = [] \<rparr>"

definition Frame_to_bytes :: "buf_ops \<Rightarrow> Frame \<Rightarrow> bytes result" where
  "Frame_to_bytes B self =
     (let buf = [];
          buf = buf @ put_u32 B (StreamId_id (hdr_stream_id (fr_header self)));
          buf = buf @ put_u32 B (OperationId_id (hdr_operation_id (fr_header self)));
          buf = buf @ put_u8 B (flag_bits (hdr_flags (fr_header self)));
          buf = buf @ put_u8 B (FrameType_into_u8 (hdr_frame_type (fr_header self)));
          buf = buf @ put_u32 B (as_u32 (length (fr_payload self)));
          buf = buf @ fr_payload self
      in Ok buf)"

definition Frame_from_bytes :: "buf_ops \<Rightarrow> bytes \<Rightarrow> Frame result" where
  "Frame_from_bytes B bytes =
     (if length bytes < FRAME_HEADER_LEN
      then Err (Anyhow ''Not enough bytes to read frame header'')
      else let (v, bytes) = get_u32 B bytes; stream_id = StreamId v;
               (v, bytes) = get_u32 B bytes; operation_id = OperationId v;
               (v, bytes) = get_u8 B bytes; flags = flags_from_bits_truncate v;
               (v, bytes) = get_u8 B bytes; frame_type = FrameType_from_u8 v;
               (payload_len, bytes) = get_u32 B bytes
           in Ok \<lparr> fr_header = \<lparr> hdr_stream_id = stream_id, hdr_operation_id = operation_id,
                                  hdr_flags = flags, hdr_frame_type = frame_type,
                                  hdr_payload_len = payload_len \<rparr>,
                    fr_payload = bytes \<rparr>)"

definition Frame_to_byte_array :: "buf_ops \<Rightarrow> Frame \<Rightarrow> bytes result" where
  "Frame_to_byte_array B self =
     map_err (\<lambda>e. e) (try_bind (Frame_to_bytes B self) (\<lambda>bytes. Ok bytes))"

definition Frame_from_byte_array :: "buf_ops \<Rightarrow> bytes \<Rightarrow> Frame result" where
  "Frame_from_byte_array B bytes = map_err (\<lambda>e. e) (Frame_from_bytes B bytes)"

definition Frame_len :: "Frame \<Rightarrow> nat" where
  "Frame_len self = FRAME_HEADER_LEN + length (fr_payload self)"

definition Frame_payload_len :: "Frame \<Rightarrow> nat" where
  "Frame_payload_len self = length (fr_payload self)"


section \<open>The frame builder\<close>

record FrameBuilder =
  fb_header :: FrameHeader
  fb_payload :: bytes

definition FrameBuilder_new :: FrameBuilder where
  "FrameBuilder_new = \<lparr> fb_header = FrameHeader_empty, fb_payload = [] \<rparr>"

definition Frame_builder :: FrameBuilder where
  "Frame_builder = FrameBuilder_new"

definition FrameBuilder_with_fin :: "bool \<Rightarrow> FrameBuilder \<Rightarrow> FrameBuilder" where
  "FrameBuilder_with_fin fin self =
     (if fin
      then self\<lparr>fb_header := (fb_header self)\<lparr>hdr_flags :=
             FrameFlags_set_flag (hdr_flags (fb_header self)) FLAG_FIN\<rparr>\<rparr>
      else self\<lparr>fb_header := (fb_header self)\<lparr>hdr_flags :=
             FrameFlags_unset_flag (hdr_flags (fb_header self)) FLAG_FIN\<rparr>\<rparr>)"

definition FrameBuilder_with_stream_id :: "StreamId \<Rightarrow> FrameBuilder \<Rightarrow> FrameBuilder" where
  "FrameBuilder_with_stream_id sid self =
     self\<lparr>fb_header := (fb_header self)\<lparr>hdr_stream_id := sid\<rparr>\<rparr>"

definition FrameBuilder_with_operation_id :: "OperationId \<Rightarrow> FrameBuilder \<Rightarrow> FrameBuilder" where
  "FrameBuilder_with_operation_id oid self =
     self\<lparr>fb_header := (fb_header self)\<lparr>hdr_operation_id := oid\<rparr>\<rparr>"

definition FrameBuilder_with_flags :: "FrameFlags \<Rightarrow> FrameBuilder \<Rightarrow> FrameBuilder" where
  "FrameBuilder_with_flags fl self = self\<lparr>fb_header := (fb_header self)\<lparr>hdr_flags := fl\<rparr>\<rparr>"

definition FrameBuilder_with_frame_type :: "FrameType \<Rightarrow> FrameBuilder \<Rightarrow> FrameBuilder" where
  "FrameBuilder_with_frame_type ty self =
     self\<lparr>fb_header := (fb_header self)\<lparr>hdr_frame_type := ty\<rparr>\<rparr>"

definition FrameBuilder_as_request :: "FrameBuilder \<Rightarrow> FrameBuilder" where
  "FrameBuilder_as_request self =
     self\<lparr>fb_header := (fb_header self)\<lparr>hdr_flags :=
       FrameFlags_set_flag (hdr_flags (fb_header self)) FLAG_REQUEST\<rparr>\<rparr>"

definition FrameBuilder_as_response :: "FrameBuilder \<Rightarrow> FrameBuilder" where
  "FrameBuilder_as_response self =
     self\<lparr>fb_header := (fb_header self)\<lparr>hdr_flags :=
       FrameFlags_set_flag (hdr_flags (fb_header self)) FLAG_RESPONSE\<rparr>\<rparr>"

definition FrameBuilder_as_fragmented :: "FrameBuilder \<Rightarrow> FrameBuilder" where
  "FrameBuilder_as_fragmented self =
     self\<lparr>fb_header := (fb_header self)\<lparr>hdr_flags :=
       FrameFlags_set_flag (hdr_flags (fb_header self)) FLAG_FRAGMENTED\<rparr>\<rparr>"

definition FrameBuilder_with_payload :: "bytes \<Rightarrow> FrameBuilder \<Rightarrow> FrameBuilder" where
  "FrameBuilder_with_payload payload self = self\<lparr>fb_payload := payload\<rparr>"

definition FrameBuilder_build :: "FrameBuilder \<Rightarrow> Frame" where
  "FrameBuilder_build self = \<lparr> fr_header = fb_header self, fr_payload = fb_payload self \<rparr>"

lemmas builder_defs = Frame_builder_def FrameBuilder_new_def FrameBuilder_with_fin_def
  FrameBuilder_with_stream_id_def FrameBuilder_with_operation_id_def FrameBuilder_with_flags_def
  FrameBuilder_with_frame_type_def FrameBuilder_as_request_def FrameBuilder_as_response_def
  FrameBuilder_as_fragmented_def FrameBuilder_with_payload_def FrameBuilder_build_def
  FrameHeader_empty_def


section \<open>Facts about the flags\<close>

lemma flags_all_value: "FLAGS_ALL = 0x7F"
  by (simp add: FLAGS_ALL_def flags_union_def flag_consts)

text \<open>A flag value is well formed when it has no bit outside the declared ones.\<close>

definition flags_wf :: "FrameFlags \<Rightarrow> bool" where
  "flags_wf f \<longleftrightarrow> flag_bits f AND FLAGS_ALL = flag_bits f"

lemma flags_wf_truncate [simp]: "flags_wf (flags_from_bits_truncate v)"
  by (simp add: flags_wf_def flags_from_bits_truncate_def and.assoc)

lemma flags_truncate_wf [simp]: "flags_wf f \<Longrightarrow> flags_from_bits_truncate (flag_bits f) = f"
  by (cases f) (simp add: flags_wf_def flags_from_bits_truncate_def)

lemma flags_wf_consts [simp]:
  "flags_wf FLAG_EMPTY" "flags_wf FLAG_REQUEST" "flags_wf FLAG_RESPONSE" "flags_wf FLAG_FRAGMENTED"
  "flags_wf FLAG_FIN" "flags_wf FLAG_OPEN" "flags_wf FLAG_RESET" "flags_wf FLAG_CLOSE"
  by (simp_all add: flags_wf_def flags_all_value flag_consts)

lemma flags_wf_insert [simp]: "flags_wf a \<Longrightarrow> flags_wf b \<Longrightarrow> flags_wf (flags_insert a b)"
  by (simp add: flags_wf_def flags_insert_def bit.conj_disj_distrib2)

lemma flags_wf_remove [simp]: "flags_wf a \<Longrightarrow> flags_wf (flags_remove a b)"
  by (metis (no_types, lifting) FrameFlags.sel and.assoc and.commute flags_remove_def flags_wf_def)

lemma flag_set_values:
  "FrameFlags_open_request = FrameFlags 0x11" "FrameFlags_open_response = FrameFlags 0x12"
  "FrameFlags_open_reset = FrameFlags 0x32" "FrameFlags_close_request = FrameFlags 0x41"
  "FrameFlags_close_response = FrameFlags 0x42"
  by (simp_all add: FrameFlags_open_request_def FrameFlags_open_response_def
      FrameFlags_open_reset_def FrameFlags_close_request_def FrameFlags_close_response_def
      FrameFlags_new_def FrameFlags_set_flag_def flags_from_bits_truncate_def flags_all_value
      flags_ops flag_consts Let_def)

lemma control_flag_tests:
  "FrameFlags_is_open_request f \<longleftrightarrow> f = FrameFlags_open_request"
  "FrameFlags_is_open_response f \<longleftrightarrow> f = FrameFlags_open_response"
  "FrameFlags_is_open_reset f \<longleftrightarrow> f = FrameFlags_open_reset"
  "FrameFlags_is_close_request f \<longleftrightarrow> f = FrameFlags_close_request"
  "FrameFlags_is_close_response f \<longleftrightarrow> f = FrameFlags_close_response"
  by (simp_all add: FrameFlags_is_open_request_def FrameFlags_is_open_response_def
      FrameFlags_is_open_reset_def FrameFlags_is_close_request_def FrameFlags_is_close_response_def
      flag_set_values flags_ops flag_consts)

lemma flags_contains_bit:
  "flags_contains a b \<longleftrightarrow> (\<forall>k. bit (flag_bits b) k \<longrightarrow> bit (flag_bits a) k)"
proof
  assume "flags_contains a b"
  then have "flag_bits a AND flag_bits b = flag_bits b" by (simp add: flags_contains_def)
  then show "\<forall>k. bit (flag_bits b) k \<longrightarrow> bit (flag_bits a) k" by (metis bit_and_iff)
next
  assume "\<forall>k. bit (flag_bits b) k \<longrightarrow> bit (flag_bits a) k"
  then show "flags_contains a b"
    by (auto simp: flags_contains_def intro!: bit_word_eqI simp: bit_and_iff)
qed

lemma flags_contains_insert:
  "flags_contains (flags_insert a b) c \<longleftrightarrow>
     (\<forall>k. bit (flag_bits c) k \<longrightarrow> bit (flag_bits a) k \<or> bit (flag_bits b) k)"
  by (simp add: flags_contains_bit flags_insert_def bit_or_iff)

lemma flags_contains_remove:
  "flags_contains (flags_remove a b) c \<longleftrightarrow>
     (\<forall>k. bit (flag_bits c) k \<longrightarrow> bit (flag_bits a) k \<and> \<not> bit (flag_bits b) k)"
  by (auto simp: flags_contains_bit flags_remove_def bit_and_iff bit_not_iff dest: bit_imp_le_length)


section \<open>The byte format\<close>

text \<open>The fourteen header bytes, as the encoders write them.\<close>

definition header_bytes :: "buf_ops \<Rightarrow> u32 \<Rightarrow> u32 \<Rightarrow> u8 \<Rightarrow> u8 \<Rightarrow> u32 \<Rightarrow> bytes" where
  "header_bytes B s q fl ty n =
     put_u32 B s @ put_u32 B q @ put_u8 B fl @ put_u8 B ty @ put_u32 B n"

definition frame_header_bytes :: "buf_ops \<Rightarrow> Frame \<Rightarrow> bytes" where
  "frame_header_bytes B f =
     header_bytes B (StreamId_id (hdr_stream_id (fr_header f)))
       (OperationId_id (hdr_operation_id (fr_header f)))
       (flag_bits (hdr_flags (fr_header f)))
       (FrameType_into_u8 (hdr_frame_type (fr_header f)))
       (as_u32 (length (fr_payload f)))"

text \<open>The header that the decoders build from the five fields.\<close>

definition decoded_header :: "u32 \<Rightarrow> u32 \<Rightarrow> u8 \<Rightarrow> u8 \<Rightarrow> u32 \<Rightarrow> FrameHeader" where
  "decoded_header s q fl ty n =
     \<lparr> hdr_stream_id = StreamId s, hdr_operation_id = OperationId q,
       hdr_flags = flags_from_bits_truncate fl, hdr_frame_type = FrameType_from_u8 ty,
       hdr_payload_len = n \<rparr>"

lemma Frame_to_bytes_eq: "Frame_to_bytes B f = Ok (frame_header_bytes B f @ fr_payload f)"
  by (simp add: Frame_to_bytes_def frame_header_bytes_def header_bytes_def)

text \<open>A frame type is canonical when it is not a reserved value that names a known type.\<close>

fun FrameType_canonical :: "FrameType \<Rightarrow> bool" where
  "FrameType_canonical (Reserved v) \<longleftrightarrow> v \<notin> set [0, 1, 2, 3, 4, 5]"
| "FrameType_canonical _ \<longleftrightarrow> True"

lemma FrameType_into_from: "FrameType_into_u8 (FrameType_from_u8 v) = v"
  by (simp add: FrameType_from_u8_def)

lemma FrameType_from_into_iff:
  "FrameType_from_u8 (FrameType_into_u8 t) = t \<longleftrightarrow> FrameType_canonical t"
  by (cases t) (auto simp: FrameType_from_u8_def)

definition Frame_canonical :: "Frame \<Rightarrow> bool" where
  "Frame_canonical f \<longleftrightarrow>
     flags_wf (hdr_flags (fr_header f)) \<and> FrameType_canonical (hdr_frame_type (fr_header f))"

text \<open>The frame a receiver sees: the header carries the length of the payload.\<close>

definition with_wire_len :: "Frame \<Rightarrow> Frame" where
  "with_wire_len f =
     f\<lparr>fr_header := (fr_header f)\<lparr>hdr_payload_len := as_u32 (length (fr_payload f))\<rparr>\<rparr>"

lemma decoded_header_canonical:
  "Frame_canonical f \<Longrightarrow>
   decoded_header (StreamId_id (hdr_stream_id (fr_header f)))
       (OperationId_id (hdr_operation_id (fr_header f)))
       (flag_bits (hdr_flags (fr_header f)))
       (FrameType_into_u8 (hdr_frame_type (fr_header f))) n
   = (fr_header f)\<lparr>hdr_payload_len := n\<rparr>"
  by (cases "fr_header f") (simp add: decoded_header_def Frame_canonical_def FrameType_from_into_iff)

context buf_ints
begin

lemma header_bytes_length [simp]: "length (header_bytes B s q fl ty n) = 14"
  by (simp add: header_bytes_def put_lengths)

lemma frame_header_bytes_length [simp]: "length (frame_header_bytes B f) = 14"
  by (simp add: frame_header_bytes_def)

text \<open>Every fourteen bytes are the header bytes of some fields.\<close>

lemma header_bytes_surj:
  assumes "length hs = 14"
  obtains s q fl ty n where "hs = header_bytes B s q fl ty n"
proof -
  obtain s where s: "put_u32 B s = take 4 hs"
    using get_u32_take_drop [of hs] assms by auto
  obtain q where q: "put_u32 B q = take 4 (drop 4 hs)"
    using get_u32_take_drop [of "drop 4 hs"] assms by auto
  obtain fl where fl: "put_u8 B fl = take 1 (drop 8 hs)"
    using get_u8_take_drop [of "drop 8 hs"] assms by auto
  obtain ty where ty: "put_u8 B ty = take 1 (drop 9 hs)"
    using get_u8_take_drop [of "drop 9 hs"] assms by auto
  obtain n where n: "put_u32 B n = drop 10 hs"
    using get_u32_take_drop [of "drop 10 hs"] assms by auto
  have "hs = take 4 hs @ take 4 (drop 4 hs) @ take 1 (drop 8 hs) @ take 1 (drop 9 hs) @ drop 10 hs"
    using drop_split [of 0 hs 4] drop_split [of 4 hs 4] drop_split [of 8 hs 1]
      drop_split [of 9 hs 1] by simp
  then show thesis using that s q fl ty n by (metis header_bytes_def)
qed

lemma Frame_from_bytes_header:
  "Frame_from_bytes B (header_bytes B s q fl ty n @ rest) =
     Ok \<lparr> fr_header = decoded_header s q fl ty n, fr_payload = rest \<rparr>"
  by (simp add: Frame_from_bytes_def header_bytes_def put_lengths get_puts FRAME_HEADER_LEN_def
      decoded_header_def)

lemma Frame_from_bytes_Ok:
  assumes "Frame_from_bytes B bs = Ok f"
  obtains s q fl ty n rest where "bs = header_bytes B s q fl ty n @ rest"
    and "f = \<lparr> fr_header = decoded_header s q fl ty n, fr_payload = rest \<rparr>"
proof -
  from assms have "14 \<le> length bs"
    by (auto simp: Frame_from_bytes_def FRAME_HEADER_LEN_def split: if_splits)
  then obtain s q fl ty n where h: "take 14 bs = header_bytes B s q fl ty n"
    using header_bytes_surj [of "take 14 bs"] by (metis length_take min.absorb2)
  then have bs: "bs = header_bytes B s q fl ty n @ drop 14 bs"
    by (metis append_take_drop_id)
  then have "Frame_from_bytes B bs = Ok \<lparr> fr_header = decoded_header s q fl ty n, fr_payload = drop 14 bs \<rparr>"
    by (metis Frame_from_bytes_header)
  with assms bs show thesis using that by auto
qed

lemma Frame_reprint:
  assumes "Frame_from_bytes B bs = Ok f"
  shows "fr_payload f = drop FRAME_HEADER_LEN bs \<and>
         (\<exists>v. put_u8 B v = take 1 (drop 8 bs) \<and>
              (Frame_to_bytes B f = Ok bs \<longleftrightarrow>
                 v AND FLAGS_ALL = v \<and>
                 hdr_payload_len (fr_header f) = as_u32 (length (fr_payload f))))"
proof -
  from assms obtain s q fl ty n rest where bs: "bs = header_bytes B s q fl ty n @ rest"
    and f: "f = \<lparr> fr_header = decoded_header s q fl ty n, fr_payload = rest \<rparr>"
    by (rule Frame_from_bytes_Ok)
  have "put_u8 B fl = take 1 (drop 8 bs)"
    by (simp add: bs header_bytes_def put_lengths)
  moreover have "Frame_to_bytes B f = Ok bs \<longleftrightarrow>
    header_bytes B s q (fl AND FLAGS_ALL) ty (as_u32 (length rest)) = header_bytes B s q fl ty n"
    by (simp add: Frame_to_bytes_eq f bs frame_header_bytes_def decoded_header_def
        flags_from_bits_truncate_def FrameType_into_from)
  moreover have "\<dots> \<longleftrightarrow> fl AND FLAGS_ALL = fl \<and> n = as_u32 (length rest)"
    by (auto simp: header_bytes_def put_lengths put_u32_inject put_u8_inject)
  ultimately show ?thesis
    by (auto simp: bs f decoded_header_def FRAME_HEADER_LEN_def)
qed

end


lemma Frame_from_bytes_fails:
  "(\<exists>e. Frame_from_bytes B bs = Err e) = (length bs < FRAME_HEADER_LEN)"
  by (auto simp: Frame_from_bytes_def Let_def split: prod.splits)

section \<open>Properties\<close>

text \<open>C23. Parsing the bytes of a frame gives the frame back, with the header's length field
  set to the payload's length; the encoding is exactly the length that \<open>Frame_len\<close>
  announces.\<close>

theorem Frame_roundtrip:
  assumes "buf_ints B" and "Frame_canonical f"
  shows "try_bind (Frame_to_bytes B f) (Frame_from_bytes B) = Ok (with_wire_len f) \<and>
         (\<exists>bs. Frame_to_bytes B f = Ok bs \<and> length bs = Frame_len f)"
  using assms buf_ints.Frame_from_bytes_header [OF assms(1)]
    buf_ints.frame_header_bytes_length [OF assms(1)]
  by (simp add: Frame_to_bytes_eq frame_header_bytes_def decoded_header_canonical with_wire_len_def
      Frame_len_def FRAME_HEADER_LEN_def)

definition demo_frame :: Frame where
  "demo_frame =
     FrameBuilder_build (FrameBuilder_with_payload [116, 101, 115, 116]
       (FrameBuilder_with_frame_type Data (FrameBuilder_with_flags FLAG_FIN
         (FrameBuilder_with_operation_id (OperationId 456)
           (FrameBuilder_with_stream_id (StreamId 123) Frame_builder)))))"

lemma demo_frame_canonical: "Frame_canonical demo_frame"
  by (simp add: demo_frame_def builder_defs Frame_canonical_def)

theorem Frame_roundtrip_witness:
  "Frame_canonical demo_frame \<and>
   try_bind (Frame_to_bytes be_ops demo_frame) (Frame_from_bytes be_ops)
     = Ok (with_wire_len demo_frame)"
  using Frame_roundtrip [OF be.buf_ints_axioms demo_frame_canonical] demo_frame_canonical by simp

text \<open>Every byte is the code of the frame type it decodes to; a frame type survives the
  trip through its byte exactly when it is not a reserved value below 6.\<close>

theorem FrameType_byte_roundtrip:
  "FrameType_into_u8 (FrameType_from_u8 v) = v \<and>
   (FrameType_from_u8 (FrameType_into_u8 t) = t \<longleftrightarrow> FrameType_canonical t)"
  by (simp add: FrameType_into_from FrameType_from_into_iff)

text \<open>C24. Parsing fails exactly on inputs shorter than the header. A parsed frame carries the
  bytes after the header, and printing it reproduces the input exactly when the flag byte
  has no undeclared bit and the length field agrees with the payload.\<close>

theorem Frame_from_bytes_exact:
  assumes "buf_ints B"
  shows "(\<exists>e. Frame_from_bytes B bs = Err e) = (length bs < FRAME_HEADER_LEN) \<and>
         (\<forall>f. Frame_from_bytes B bs = Ok f \<longrightarrow>
            fr_payload f = drop FRAME_HEADER_LEN bs \<and>
            (\<exists>v. put_u8 B v = take 1 (drop 8 bs) \<and>
                 (Frame_to_bytes B f = Ok bs \<longleftrightarrow>
                    v AND FLAGS_ALL = v \<and>
                    hdr_payload_len (fr_header f) = as_u32 (length (fr_payload f)))))"
  using buf_ints.Frame_reprint [OF assms] Frame_from_bytes_fails by blast

theorem Frame_from_bytes_exact_witness:
  "(\<exists>e. Frame_from_bytes be_ops [1, 2, 3] = Err e) \<and>
   (\<exists>f. Frame_from_bytes be_ops (replicate 14 0) = Ok f \<and> fr_payload f = [])"
proof -
  have "\<exists>e. Frame_from_bytes be_ops [1, 2, 3] = Err e"
    using Frame_from_bytes_exact [OF be.buf_ints_axioms, of "[1, 2, 3]"]
    by (simp add: FRAME_HEADER_LEN_def)
  moreover have "\<nexists>e. Frame_from_bytes be_ops (replicate 14 0) = Err e"
    using Frame_from_bytes_exact [OF be.buf_ints_axioms, of "replicate 14 0"]
    by (simp add: FRAME_HEADER_LEN_def)
  then obtain f where "Frame_from_bytes be_ops (replicate 14 0) = Ok f"
    by (cases "Frame_from_bytes be_ops (replicate 14 0)") auto
  moreover from this have "fr_payload f = []"
    using Frame_from_bytes_exact [OF be.buf_ints_axioms, of "replicate 14 0"]
    by (simp add: FRAME_HEADER_LEN_def)
  ultimately show ?thesis by blast
qed

text \<open>The five control flag sets are told apart by the five tests: each constructor
  passes its own test and no other, and no other flag value passes any of them.\<close>

theorem control_flags_exact:
  "map (\<lambda>p. map p [FrameFlags_open_request, FrameFlags_open_response, FrameFlags_open_reset,
                   FrameFlags_close_request, FrameFlags_close_response])
     [FrameFlags_is_open_request, FrameFlags_is_open_response, FrameFlags_is_open_reset,
      FrameFlags_is_close_request, FrameFlags_is_close_response]
   = [[True, False, False, False, False],
      [False, True, False, False, False],
      [False, False, True, False, False],
      [False, False, False, True, False],
      [False, False, False, False, True]] \<and>
   (\<exists>p\<in>{FrameFlags_is_open_request, FrameFlags_is_open_response, FrameFlags_is_open_reset,
         FrameFlags_is_close_request, FrameFlags_is_close_response}. p f) =
   (f \<in> {FrameFlags_open_request, FrameFlags_open_response, FrameFlags_open_reset,
         FrameFlags_close_request, FrameFlags_close_response})"
  by (simp add: control_flag_tests flag_set_values)

end
