(* ===== verification/Codec.thy ===== *)
theory Codec
  imports Frame
begin

text \<open>
  \<^verbatim>\<open>foctet-core/src/codec.rs\<close>: the incremental decoder and the encoder of frames. The
  decoder is a two-state machine over a receive buffer; the framing layer above it calls
  \<^verbatim>\<open>decode\<close> until it asks for more bytes. The contract between the two is the locale
  \<open>incremental_decoder\<close>: what it gives is that the way the bytes were cut into
  network reads does not matter.
\<close>

section \<open>The codec\<close>

datatype DecodeState = ReadingHeader | ReadingPayload FrameHeader nat

record FrameCodec =
  codec_state :: DecodeState

definition FrameCodec_new :: FrameCodec where
  "FrameCodec_new = \<lparr> codec_state = ReadingHeader \<rparr>"

text \<open>The loop of \<^verbatim>\<open>decode\<close>. \<open>split_to\<close> cuts the front off the buffer.\<close>

function decode_loop ::
  "buf_ops \<Rightarrow> DecodeState \<Rightarrow> bytes \<Rightarrow> Frame option result \<times> DecodeState \<times> bytes" where
  "decode_loop B ReadingHeader src =
     (if length src < FRAME_HEADER_LEN then (Ok None, ReadingHeader, src)
      else let header_bytes = take FRAME_HEADER_LEN src; src = drop FRAME_HEADER_LEN src;
               (stream_id, header_bytes) = get_u32 B header_bytes;
               (operation_id, header_bytes) = get_u32 B header_bytes;
               (v, header_bytes) = get_u8 B header_bytes; flags = flags_from_bits_truncate v;
               (v, header_bytes) = get_u8 B header_bytes; frame_type = FrameType_from_u8 v;
               (v, header_bytes) = get_u32 B header_bytes; payload_len = unat v;
               header = \<lparr> hdr_stream_id = StreamId stream_id,
                          hdr_operation_id = OperationId operation_id,
                          hdr_flags = flags, hdr_frame_type = frame_type,
                          hdr_payload_len = as_u32 payload_len \<rparr>
           in decode_loop B (ReadingPayload header payload_len) src)"
| "decode_loop B (ReadingPayload header remaining) src =
     (if length src < remaining then (Ok None, ReadingPayload header remaining, src)
      else let payload = take remaining src; src = drop remaining src;
               frame = \<lparr> fr_header = header, fr_payload = payload \<rparr>
           in (Ok (Some frame), ReadingHeader, src))"
  by pat_completeness auto
termination
  by (relation "measure (\<lambda>(B, st, src). case st of ReadingHeader \<Rightarrow> 1 | _ \<Rightarrow> 0)") auto

definition FrameCodec_decode ::
  "buf_ops \<Rightarrow> FrameCodec \<Rightarrow> bytes \<Rightarrow> Frame option result \<times> FrameCodec \<times> bytes" where
  "FrameCodec_decode B self src =
     (let (r, st, src) = decode_loop B (codec_state self) src
      in (r, self\<lparr>codec_state := st\<rparr>, src))"

definition FrameCodec_encode ::
  "buf_ops \<Rightarrow> FrameCodec \<Rightarrow> Frame \<Rightarrow> bytes \<Rightarrow> unit result \<times> FrameCodec \<times> bytes" where
  "FrameCodec_encode B self frame dst =
     (let dst = dst @ put_u32 B (StreamId_id (hdr_stream_id (fr_header frame)));
          dst = dst @ put_u32 B (OperationId_id (hdr_operation_id (fr_header frame)));
          dst = dst @ put_u8 B (flag_bits (hdr_flags (fr_header frame)));
          dst = dst @ put_u8 B (FrameType_into_u8 (hdr_frame_type (fr_header frame)));
          dst = dst @ put_u32 B (as_u32 (length (fr_payload frame)));
          dst = dst @ fr_payload frame
      in (Ok (), self, dst))"


section \<open>The framing layer's view of a decoder\<close>

text \<open>
  The framed reader appends what it receives to its buffer and calls the decoder until it
  returns no frame. \<open>drains dec s b fs s' b'\<close>: from decoder state \<open>s\<close> and buffer
  \<open>b\<close> this loop yields the frames \<open>fs\<close> and stops in state \<open>s'\<close> with \<open>b'\<close> left.
\<close>

inductive drains ::
  "('s \<Rightarrow> bytes \<Rightarrow> 'f option \<times> 's \<times> bytes) \<Rightarrow> 's \<Rightarrow> bytes \<Rightarrow> 'f list \<Rightarrow> 's \<Rightarrow> bytes \<Rightarrow> bool"
  for dec where
  drains_stop: "dec s b = (None, s', b') \<Longrightarrow> drains dec s b [] s' b'"
| drains_more: "dec s b = (Some f, s', b') \<Longrightarrow> drains dec s' b' fs s'' b'' \<Longrightarrow>
     drains dec s b (f # fs) s'' b''"

inductive_cases drains_NilE: "drains dec s b [] s' b'"
inductive_cases drains_ConsE: "drains dec s b (f # fs) s' b'"

locale incremental_decoder =
  fixes dec :: "'s \<Rightarrow> bytes \<Rightarrow> 'f option \<times> 's \<times> bytes"
    and rank :: "'s \<Rightarrow> nat"
  assumes frame_append: "dec s b = (Some f, s', b') \<Longrightarrow> dec s (b @ c) = (Some f, s', b' @ c)"
    and more_append: "dec s b = (None, s', b') \<Longrightarrow> dec s (b @ c) = dec s' (b' @ c)"
    and frame_progress: "dec s b = (Some f, s', b') \<Longrightarrow> length b' + rank s' < length b + rank s"
begin

lemma drains_det:
  "drains dec s b fs s1 b1 \<Longrightarrow> drains dec s b fs' s2 b2 \<Longrightarrow> fs' = fs \<and> s2 = s1 \<and> b2 = b1"
proof (induction arbitrary: fs' rule: drains.induct)
  case (drains_stop s b s' b')
  from drains_stop.prems drains_stop.hyps show ?case by cases auto
next
  case (drains_more s b f s' b' fs s'' b'')
  from drains_more.prems drains_more.hyps(1) show ?case
    by cases (auto dest: drains_more.IH)
qed

text \<open>The loop ends: every frame shrinks the buffer or the decoder's rank.\<close>

lemma drains_total: "\<exists>fs s' b'. drains dec s b fs s' b'"
proof (induction "length b + rank s" arbitrary: s b rule: less_induct)
  case less
  obtain r s1 b1 where d: "dec s b = (r, s1, b1)" by (cases "dec s b") auto
  show ?case
  proof (cases r)
    case None
    with d show ?thesis by (blast intro: drains.drains_stop)
  next
    case (Some f)
    with d less [of b1 s1] frame_progress show ?thesis by (blast intro: drains.drains_more)
  qed
qed

lemma drains_after:
  assumes "dec s (b @ c) = dec s' (b' @ c)" and "drains dec s' (b' @ c) fs s'' b''"
  shows "drains dec s (b @ c) fs s'' b''"
  using assms(2)
proof cases
  case drains_stop
  with assms(1) show ?thesis by (auto intro: drains.drains_stop)
next
  case (drains_more f s1 b1 fs1)
  with assms(1) show ?thesis by (auto intro: drains.drains_more)
qed

text \<open>After the loop has stopped, the decoder asks for more until more arrives.\<close>

lemma drains_idle: "drains dec s b fs s' b' \<Longrightarrow> drains dec s' b' [] s' b'"
proof (induction rule: drains.induct)
  case (drains_stop s b s' b')
  with more_append [of s b s' b' "[]"] show ?case by (auto intro: drains.drains_stop)
qed

text \<open>Draining what has arrived and then the rest is draining everything at once.\<close>

lemma drains_append:
  "drains dec s b fs s' b' \<Longrightarrow> drains dec s' (b' @ c) gs s'' b'' \<Longrightarrow>
   drains dec s (b @ c) (fs @ gs) s'' b''"
proof (induction rule: drains.induct)
  case (drains_stop s b s' b')
  then show ?case using drains_after [OF more_append] by simp
next
  case (drains_more s b f s' b' fs s2 b2)
  then show ?case using frame_append by (auto intro: drains.drains_more)
qed

end


section \<open>The frame codec meets the contract\<close>

definition parse_header :: "buf_ops \<Rightarrow> bytes \<Rightarrow> FrameHeader \<times> nat" where
  "parse_header B hs =
     (let (s, hs) = get_u32 B hs; (q, hs) = get_u32 B hs; (fl, hs) = get_u8 B hs;
          (ty, hs) = get_u8 B hs; (n, hs) = get_u32 B hs
      in (decoded_header s q fl ty n, unat n))"

lemma decode_loop_header:
  assumes "FRAME_HEADER_LEN \<le> length src" and "parse_header B (take FRAME_HEADER_LEN src) = (h, n)"
  shows "decode_loop B ReadingHeader src = decode_loop B (ReadingPayload h n) (drop FRAME_HEADER_LEN src)"
  using assms
  by (auto simp: parse_header_def decoded_header_def Let_def split: prod.splits simp del: decode_loop.simps(2))

declare decode_loop.simps(1) [simp del]

lemma decode_loop_short [simp]:
  "length src < FRAME_HEADER_LEN \<Longrightarrow> decode_loop B ReadingHeader src = (Ok None, ReadingHeader, src)"
  by (simp add: decode_loop.simps(1))

text \<open>One call of the decoder, with the (never used) error case folded into no frame.\<close>

definition frame_dec :: "buf_ops \<Rightarrow> FrameCodec \<Rightarrow> bytes \<Rightarrow> Frame option \<times> FrameCodec \<times> bytes" where
  "frame_dec B c src =
     (let (r, c', src') = FrameCodec_decode B c src
      in (case r of Inr fo \<Rightarrow> fo | Inl _ \<Rightarrow> None, c', src'))"

fun codec_rank :: "FrameCodec \<Rightarrow> nat" where
  "codec_rank c = (case codec_state c of ReadingHeader \<Rightarrow> 0 | ReadingPayload _ _ \<Rightarrow> 1)"

lemma frame_dec_payload:
  "codec_state c = ReadingPayload h n \<Longrightarrow>
   frame_dec B c src =
     (if length src < n then (None, c, src)
      else (Some \<lparr> fr_header = h, fr_payload = take n src \<rparr>, c\<lparr>codec_state := ReadingHeader\<rparr>, drop n src))"
  by (cases c) (simp add: frame_dec_def FrameCodec_decode_def)

lemma frame_dec_short:
  "codec_state c = ReadingHeader \<Longrightarrow> length src < FRAME_HEADER_LEN \<Longrightarrow> frame_dec B c src = (None, c, src)"
  by (cases c) (simp add: frame_dec_def FrameCodec_decode_def)

lemma frame_dec_header:
  "codec_state c = ReadingHeader \<Longrightarrow> FRAME_HEADER_LEN \<le> length src \<Longrightarrow>
   parse_header B (take FRAME_HEADER_LEN src) = (h, n) \<Longrightarrow>
   frame_dec B c src = frame_dec B (c\<lparr>codec_state := ReadingPayload h n\<rparr>) (drop FRAME_HEADER_LEN src)"
  by (cases c) (simp add: frame_dec_def FrameCodec_decode_def decode_loop_header)

text \<open>The three ways a call can go, as one case analysis.\<close>

lemma frame_dec_cases:
  obtains (short) "codec_state c = ReadingHeader" "length src < FRAME_HEADER_LEN"
      "\<And>d. length (src @ d) < FRAME_HEADER_LEN \<Longrightarrow> frame_dec B c (src @ d) = (None, c, src @ d)"
    | (header) h n where "codec_state c = ReadingHeader" "FRAME_HEADER_LEN \<le> length src"
      "\<And>d. frame_dec B c (src @ d) =
            frame_dec B (c\<lparr>codec_state := ReadingPayload h n\<rparr>) (drop FRAME_HEADER_LEN src @ d)"
    | (payload) h n where "codec_state c = ReadingPayload h n"
proof (cases "codec_state c")
  case ReadingHeader
  show thesis
  proof (cases "length src < FRAME_HEADER_LEN")
    case True
    with ReadingHeader show thesis by (intro short) (auto intro: frame_dec_short)
  next
    case False
    obtain h n where p: "parse_header B (take FRAME_HEADER_LEN src) = (h, n)" by fastforce
    have "frame_dec B c (src @ d) =
            frame_dec B (c\<lparr>codec_state := ReadingPayload h n\<rparr>) (drop FRAME_HEADER_LEN src @ d)" for d
      using frame_dec_header [of c "src @ d" B h n] ReadingHeader False p by simp
    with ReadingHeader False show thesis by (intro header) auto
  qed
next
  case (ReadingPayload h n)
  then show thesis by (rule payload)
qed

lemma frame_dec_append:
  "frame_dec B c src = (Some f, c', src') \<Longrightarrow> frame_dec B c (src @ d) = (Some f, c', src' @ d)"
  "frame_dec B c src = (None, c', src') \<Longrightarrow> frame_dec B c (src @ d) = frame_dec B c' (src' @ d)"
proof -
  have pay_some: "frame_dec B e xs = (Some f, c', src') \<Longrightarrow> frame_dec B e (xs @ d) = (Some f, c', src' @ d)"
    if "codec_state e = ReadingPayload h n" for e h n xs
    using that by (auto simp: frame_dec_payload split: if_splits)
  have pay_none: "frame_dec B e xs = (None, c', src') \<Longrightarrow> frame_dec B e (xs @ d) = frame_dec B c' (src' @ d)"
    if "codec_state e = ReadingPayload h n" for e h n xs
    using that by (auto simp: frame_dec_payload split: if_splits)
  show "frame_dec B c src = (Some f, c', src') \<Longrightarrow> frame_dec B c (src @ d) = (Some f, c', src' @ d)"
  proof (cases rule: frame_dec_cases [where c = c and src = src and B = B])
    case short
    then show "frame_dec B c src = (Some f, c', src') \<Longrightarrow> ?thesis" by (simp add: frame_dec_short)
  next
    case (header h n)
    with header(3) [of "[]"] show "frame_dec B c src = (Some f, c', src') \<Longrightarrow> ?thesis"
      by (simp add: pay_some)
  qed (rule pay_some)
  show "frame_dec B c src = (None, c', src') \<Longrightarrow> frame_dec B c (src @ d) = frame_dec B c' (src' @ d)"
  proof (cases rule: frame_dec_cases [where c = c and src = src and B = B])
    case short
    then show "frame_dec B c src = (None, c', src') \<Longrightarrow> ?thesis" by (simp add: frame_dec_short)
  next
    case (header h n)
    with header(3) [of "[]"] show "frame_dec B c src = (None, c', src') \<Longrightarrow> ?thesis"
      by (simp add: pay_none)
  qed (rule pay_none)
qed

lemma frame_dec_progress:
  assumes "frame_dec B c src = (Some f, c', src')"
  shows "length src' + codec_rank c' < length src + codec_rank c"
proof (cases rule: frame_dec_cases [where c = c and src = src and B = B])
  case short
  with assms show ?thesis by (simp add: frame_dec_short)
next
  case (header h n)
  with header(3) [of "[]"] assms show ?thesis
    by (auto simp: frame_dec_payload FRAME_HEADER_LEN_def split: if_splits)
next
  case (payload h n)
  with assms show ?thesis by (auto simp: frame_dec_payload split: if_splits)
qed

declare codec_rank.simps [simp del]

interpretation fc: incremental_decoder "frame_dec B" codec_rank for B
  by unfold_locales (auto intro: frame_dec_append frame_dec_progress)

text \<open>The draining loop of the framed reader as a function, and its run over a list of reads.\<close>

function decode_all :: "buf_ops \<Rightarrow> FrameCodec \<Rightarrow> bytes \<Rightarrow> Frame list \<times> FrameCodec \<times> bytes" where
  "decode_all B c b =
     (case frame_dec B c b of
        (None, c', b') \<Rightarrow> ([], c', b')
      | (Some f, c', b') \<Rightarrow> (let (fs, c'', b'') = decode_all B c' b' in (f # fs, c'', b'')))"
  by pat_completeness auto
termination
  by (relation "measure (\<lambda>(B, c, b). length b + codec_rank c)") (auto dest!: frame_dec_progress [OF sym])

declare decode_all.simps [simp del]

lemma drains_decode_all:
  "drains (frame_dec B) c b fs c' b' \<longleftrightarrow> decode_all B c b = (fs, c', b')"
proof
  show "drains (frame_dec B) c b fs c' b' \<Longrightarrow> decode_all B c b = (fs, c', b')"
    by (induction rule: drains.induct) (simp_all add: decode_all.simps)
next
  assume "decode_all B c b = (fs, c', b')"
  moreover obtain gs d e where "drains (frame_dec B) c b gs d e"
    using fc.drains_total by blast
  moreover from this have "decode_all B c b = (gs, d, e)"
    by (induction rule: drains.induct) (simp_all add: decode_all.simps)
  ultimately show "drains (frame_dec B) c b fs c' b'" by simp
qed

lemma decode_all_append:
  assumes "decode_all B c b = (fs, c', b')" and "decode_all B c' (b' @ d) = (gs, c'', b'')"
  shows "decode_all B c (b @ d) = (fs @ gs, c'', b'')"
  using fc.drains_append assms by (simp flip: drains_decode_all)

fun read_chunks :: "buf_ops \<Rightarrow> FrameCodec \<Rightarrow> bytes \<Rightarrow> bytes list \<Rightarrow> Frame list \<times> FrameCodec \<times> bytes" where
  "read_chunks B c b [] = ([], c, b)"
| "read_chunks B c b (x # xs) =
     (let (fs, c', b') = decode_all B c (b @ x); (gs, c'', b'') = read_chunks B c' b' xs
      in (fs @ gs, c'', b''))"

fun write_frames :: "buf_ops \<Rightarrow> FrameCodec \<Rightarrow> Frame list \<Rightarrow> bytes \<Rightarrow> bytes" where
  "write_frames B c [] dst = dst"
| "write_frames B c (f # fs) dst =
     (let (_, c', dst') = FrameCodec_encode B c f dst in write_frames B c' fs dst')"

lemma read_chunks_decode_all:
  "decode_all B c b = ([], c, b) \<Longrightarrow> read_chunks B c b xs = decode_all B c (b @ concat xs)"
proof (induction xs arbitrary: c b)
  case Nil
  then show ?case by simp
next
  case (Cons x xs)
  obtain fs c' b' where d: "decode_all B c (b @ x) = (fs, c', b')" by (cases "decode_all B c (b @ x)")
  obtain gs c'' b'' where e: "decode_all B c' (b' @ concat xs) = (gs, c'', b'')"
    by (cases "decode_all B c' (b' @ concat xs)")
  from d have "decode_all B c' b' = ([], c', b')"
    using fc.drains_idle by (simp flip: drains_decode_all)
  then have "read_chunks B c' b' xs = (gs, c'', b'')" using Cons.IH e by simp
  moreover have "decode_all B c (b @ x @ concat xs) = (fs @ gs, c'', b'')"
    using decode_all_append [OF d e] by simp
  ultimately show ?case using d by simp
qed

lemma FrameCodec_encode_eq:
  "FrameCodec_encode B c f dst = (Ok (), c, dst @ frame_header_bytes B f @ fr_payload f)"
  by (simp add: FrameCodec_encode_def frame_header_bytes_def header_bytes_def)

lemma write_frames_eq:
  "write_frames B c fs dst = dst @ concat (map (\<lambda>f. frame_header_bytes B f @ fr_payload f) fs)"
  by (induction fs arbitrary: dst) (simp_all add: FrameCodec_encode_eq)

lemma codec_new_state [simp]: "codec_state FrameCodec_new = ReadingHeader"
  by (simp add: FrameCodec_new_def)

lemma codec_new_set [simp]: "FrameCodec_new\<lparr>codec_state := ReadingHeader\<rparr> = FrameCodec_new"
  by (simp add: FrameCodec_new_def)

lemma decode_all_new_Nil [simp]: "decode_all B FrameCodec_new [] = ([], FrameCodec_new, [])"
  by (subst decode_all.simps) (simp add: frame_dec_short FRAME_HEADER_LEN_def)

lemma read_chunks_new: "read_chunks B FrameCodec_new [] xs = decode_all B FrameCodec_new (concat xs)"
  by (simp add: read_chunks_decode_all)

text \<open>The codec's invariant, and how many bytes each state waits for.\<close>

fun codec_inv :: "DecodeState \<Rightarrow> bool" where
  "codec_inv ReadingHeader \<longleftrightarrow> True"
| "codec_inv (ReadingPayload h n) \<longleftrightarrow> n = unat (hdr_payload_len h)"

fun needed :: "DecodeState \<Rightarrow> nat" where
  "needed ReadingHeader = FRAME_HEADER_LEN"
| "needed (ReadingPayload h n) = n"

context buf_ints
begin

lemma parse_header_bytes:
  "parse_header B (header_bytes B s q fl ty n) = (decoded_header s q fl ty n, unat n)"
  using get_put_u32 [of n "[]"] by (simp add: parse_header_def header_bytes_def get_puts)

lemma frame_dec_frame:
  assumes "Frame_canonical f"
  defines "n \<equiv> length (fr_payload f) mod 2 ^ 32"
  shows "frame_dec B FrameCodec_new (frame_header_bytes B f @ fr_payload f @ rest) =
           (Some \<lparr> fr_header = (fr_header f)\<lparr>hdr_payload_len := as_u32 (length (fr_payload f))\<rparr>,
                   fr_payload = take n (fr_payload f) \<rparr>,
            FrameCodec_new, drop n (fr_payload f) @ rest)"
proof -
  have p: "parse_header B (frame_header_bytes B f) =
      ((fr_header f)\<lparr>hdr_payload_len := as_u32 (length (fr_payload f))\<rparr>, n)"
    using assms by (simp add: frame_header_bytes_def parse_header_bytes decoded_header_canonical
        unat_as_u32)
  have "n \<le> length (fr_payload f)" by (simp add: n_def)
  then show ?thesis
    using p by (simp add: frame_dec_header FRAME_HEADER_LEN_def frame_dec_payload)
qed

lemma decode_all_frames:
  assumes "\<forall>f \<in> set fs. Frame_canonical f \<and> length (fr_payload f) < 2 ^ 32"
  shows "decode_all B FrameCodec_new (concat (map (\<lambda>f. frame_header_bytes B f @ fr_payload f) fs)) =
           (map with_wire_len fs, FrameCodec_new, [])"
  using assms
proof (induction fs)
  case Nil
  then show ?case by simp
next
  case (Cons f fs)
  then have "frame_dec B FrameCodec_new (frame_header_bytes B f @ fr_payload f @ rest) =
      (Some (with_wire_len f), FrameCodec_new, rest)" for rest
    by (simp add: frame_dec_frame with_wire_len_def)
  with Cons show ?case by (subst decode_all.simps) simp
qed

end


section \<open>Properties\<close>

text \<open>C2. Frames written one after the other by the encoder are recovered by the decoder, in
  order and complete, however the byte stream is cut into reads; nothing is left over.\<close>

theorem codec_stream_roundtrip:
  assumes "buf_ints B"
    and "\<forall>f \<in> set fs. Frame_canonical f \<and> length (fr_payload f) < 2 ^ 32"
    and "concat reads = write_frames B FrameCodec_new fs []"
  shows "read_chunks B FrameCodec_new [] reads = (map with_wire_len fs, FrameCodec_new, [])"
  using assms by (simp add: read_chunks_new write_frames_eq buf_ints.decode_all_frames)

theorem codec_stream_roundtrip_witness:
  "let w = write_frames be_ops FrameCodec_new [demo_frame, demo_frame] []
   in read_chunks be_ops FrameCodec_new [] [take 3 w, take 20 (drop 3 w), drop 23 w] =
        (map with_wire_len [demo_frame, demo_frame], FrameCodec_new, [])"
proof -
  let ?w = "write_frames be_ops FrameCodec_new [demo_frame, demo_frame] []"
  have "\<forall>f \<in> set [demo_frame, demo_frame]. Frame_canonical f \<and> length (fr_payload f) < 2 ^ 32"
    by (simp add: demo_frame_canonical) (simp add: demo_frame_def builder_defs)
  moreover have "concat [take 3 ?w, take 20 (drop 3 ?w), drop 23 ?w] = ?w"
    using drop_split [of 0 ?w 3] drop_split [of 3 ?w 20] by simp
  ultimately show ?thesis
    using codec_stream_roundtrip [OF be.buf_ints_axioms] by metis
qed

text \<open>C12. On any byte stream, well formed or not, the frames produced, the decoder state and the
  bytes left over depend on the bytes alone and not on how they were cut into reads.\<close>

theorem decode_chunk_independent:
  assumes "concat xs = concat ys"
  shows "read_chunks B FrameCodec_new [] xs = read_chunks B FrameCodec_new [] ys"
  by (simp add: read_chunks_new assms)

theorem decode_chunk_independent_witness:
  "concat [[0, 1], [2 :: u8]] = concat [[0], [1, 2]] \<and>
   read_chunks be_ops FrameCodec_new [] [[0, 1], [2]] = read_chunks be_ops FrameCodec_new [] [[0], [1, 2]]"
  using decode_chunk_independent [of "[[0, 1], [2]]" "[[0], [1, 2]]" be_ops] by simp

text \<open>C13. One call of \<open>decode\<close> never fails; it keeps the codec's invariant (the remaining
  count is the announced length); a returned frame has exactly the announced number of
  payload bytes; and if no frame is returned there are indeed fewer bytes than needed.\<close>

theorem decode_invariant:
  assumes "codec_inv (codec_state c)" and "FrameCodec_decode B c src = (r, c', src')"
  shows "codec_inv (codec_state c') \<and>
         (case r of
            Inl e \<Rightarrow> False
          | Inr None \<Rightarrow> length src' < needed (codec_state c')
          | Inr (Some f) \<Rightarrow> codec_state c' = ReadingHeader \<and>
              length (fr_payload f) = unat (hdr_payload_len (fr_header f)))"
proof -
  have pay: "codec_inv (ReadingPayload h n) \<Longrightarrow> decode_loop B (ReadingPayload h n) xs = (r, st, ys) \<Longrightarrow>
    codec_inv st \<and> (case r of Inl e \<Rightarrow> False | Inr None \<Rightarrow> length ys < needed st
      | Inr (Some f) \<Rightarrow> st = ReadingHeader \<and> length (fr_payload f) = unat (hdr_payload_len (fr_header f)))"
    for h n xs st ys by (auto split: if_splits)
  obtain st where st: "decode_loop B (codec_state c) src = (r, st, src')" "codec_state c' = st"
    using assms(2) by (auto simp: FrameCodec_decode_def split: prod.splits)
  show ?thesis
  proof (cases "codec_state c")
    case ReadingHeader
    show ?thesis
    proof (cases "length src < FRAME_HEADER_LEN")
      case True
      with ReadingHeader st show ?thesis by auto
    next
      case False
      obtain h n where p: "parse_header B (take FRAME_HEADER_LEN src) = (h, n)" by fastforce
      then have inv: "codec_inv (ReadingPayload h n)"
        by (auto simp: parse_header_def decoded_header_def split: prod.splits)
      have "decode_loop B (ReadingPayload h n) (drop FRAME_HEADER_LEN src) = (r, st, src')"
        using decode_loop_header [OF _ p] ReadingHeader False st(1) by (simp del: decode_loop.simps)
      from pay [OF inv this] show ?thesis by (simp only: st(2))
    qed
  next
    case (ReadingPayload h n)
    with pay [of h n src st src'] assms(1) st show ?thesis by (simp only:)
  qed
qed

theorem decode_invariant_witness:
  "codec_inv (codec_state FrameCodec_new) \<and>
   (\<exists>c' src'. FrameCodec_decode be_ops FrameCodec_new [7, 8] = (Ok None, c', src') \<and>
      length src' < needed (codec_state c'))"
proof -
  have d: "FrameCodec_decode be_ops FrameCodec_new [7, 8] = (Ok None, FrameCodec_new, [7, 8])"
    by (simp add: FrameCodec_decode_def FRAME_HEADER_LEN_def)
  have "codec_inv (codec_state FrameCodec_new)" by simp
  from decode_invariant [OF this d] d show ?thesis by auto
qed

text \<open>C14. The announced length is the payload length modulo \<open>2 ^ 32\<close>. For any payload
  the receiver gets that many payload bytes and reads the rest as the next header, so the
  stream stays in step exactly for payloads below 4 GiB.\<close>

theorem decode_encode_wraps:
  assumes "buf_ints B" and "Frame_canonical f"
    and "FrameCodec_encode B FrameCodec_new f [] = (Ok (), c, w)"
  shows "FrameCodec_decode B FrameCodec_new (w @ rest) =
           (Ok (Some \<lparr> fr_header = (fr_header f)\<lparr>hdr_payload_len := as_u32 (length (fr_payload f))\<rparr>,
                       fr_payload = take (length (fr_payload f) mod 2 ^ 32) (fr_payload f) \<rparr>),
            FrameCodec_new, drop (length (fr_payload f) mod 2 ^ 32) (fr_payload f) @ rest)"
proof -
  have w: "w = frame_header_bytes B f @ fr_payload f"
    using assms(3) by (simp add: FrameCodec_encode_eq)
  obtain r c' xs where d: "FrameCodec_decode B FrameCodec_new (w @ rest) = (r, c', xs)"
    by (cases "FrameCodec_decode B FrameCodec_new (w @ rest)")
  with buf_ints.frame_dec_frame [OF assms(1,2), of rest]
  show ?thesis by (simp add: frame_dec_def w split: sum.splits)
qed

theorem decode_encode_wraps_witness:
  "FrameCodec_decode be_ops FrameCodec_new
     (snd (snd (FrameCodec_encode be_ops FrameCodec_new demo_frame [])) @ [9]) =
     (Ok (Some (with_wire_len demo_frame)), FrameCodec_new, [9])"
proof -
  obtain r c w where e: "FrameCodec_encode be_ops FrameCodec_new demo_frame [] = (r, c, w)"
    by (cases "FrameCodec_encode be_ops FrameCodec_new demo_frame []")
  then have r: "r = Ok ()" by (simp add: FrameCodec_encode_eq)
  have len: "length (fr_payload demo_frame) = 4" by (simp add: demo_frame_def builder_defs)
  show ?thesis
    using decode_encode_wraps [OF be.buf_ints_axioms demo_frame_canonical e [unfolded r], of "[9]"]
    by (simp add: e len with_wire_len_def)
qed

text \<open>The stream encoder and the datagram encoder agree: encoding appends exactly the bytes
  of \<open>Frame_to_bytes\<close>, leaves what was in the buffer alone and never fails.\<close>

theorem encode_appends_to_bytes:
  "\<exists>bs. Frame_to_bytes B f = Ok bs \<and> FrameCodec_encode B c f dst = (Ok (), c, dst @ bs)"
  by (simp add: Frame_to_bytes_eq FrameCodec_encode_eq)

end
