(* ===== verification/MuxStream.thy ===== *)
theory MuxStream
  imports Frame
begin

text \<open>
  \<^verbatim>\<open>foctet-mux/src/stream.rs\<close>: the logical stream, its writer and reader halves, and the state
  they share after \<^verbatim>\<open>split\<close>.

  The bounded channels are tokio's. Whether a channel takes a message is an argument of
  each operation (\<open>ok\<close>: \<^verbatim>\<open>send(m).await\<close> is \<^verbatim>\<open>Ok\<close>, or \<^verbatim>\<open>try_send(m)\<close> is
  \<^verbatim>\<open>Ok\<close>), what a receive returns is an argument too; an operation returns its
  result and the messages the channel took. The state cell shared by the two halves is an
  address into a store of mutexes.
\<close>

section \<open>Data\<close>

datatype StreamState = Init | OpenSent | OpenReceived | Established | LocalClosing
  | RemoteClosing | Closed | Reset

datatype StreamEvent = EvFrame Frame | EvClosed StreamId | EvError

record LogicalStreamWriter =
  lw_session_id :: SessionId
  lw_stream_id :: StreamId
  lw_state :: nat

record LogicalStreamReader =
  lr_session_id :: SessionId
  lr_stream_id :: StreamId
  lr_state :: nat

record LogicalStream =
  ls_session_id :: SessionId
  ls_stream_id :: StreamId
  ls_state :: StreamState

type_synonym sent = "unit result \<times> StreamEvent list"
type_synonym states = "StreamState store"

definition broken_pipe :: "string \<Rightarrow> error" where
  "broken_pipe msg = IoError BrokenPipe msg"

section \<open>The writer half\<close>

definition LogicalStreamWriter_set_state ::
  "LogicalStreamWriter \<Rightarrow> StreamState \<Rightarrow> states \<Rightarrow> states" where
  "LogicalStreamWriter_set_state self st h =
     (case Mutex_lock (h (lw_state self)) of
        Some _ \<Rightarrow> h(lw_state self := (h (lw_state self))\<lparr>mx_value := st\<rparr>)
      | None \<Rightarrow> h)"

definition LogicalStreamWriter_state :: "LogicalStreamWriter \<Rightarrow> states \<Rightarrow> StreamState" where
  "LogicalStreamWriter_state self h =
     (case Mutex_lock (h (lw_state self)) of Some st \<Rightarrow> st | None \<Rightarrow> Closed)"

definition LogicalStreamWriter_send_event ::
  "(StreamEvent \<Rightarrow> bool) \<Rightarrow> LogicalStreamWriter \<Rightarrow> StreamEvent \<Rightarrow> sent" where
  "LogicalStreamWriter_send_event ok self event =
     (if ok event then (Ok (), [event]) else (Err (broken_pipe ''Failed to send event''), []))"

definition LogicalStreamWriter_send_frame ::
  "(StreamEvent \<Rightarrow> bool) \<Rightarrow> LogicalStreamWriter \<Rightarrow> Frame \<Rightarrow> sent" where
  "LogicalStreamWriter_send_frame ok self frame =
     (if ok (EvFrame frame) then (Ok (), [EvFrame frame])
      else (Err (broken_pipe ''Failed to send frame''), []))"

definition LogicalStreamWriter_send_bytes ::
  "(StreamEvent \<Rightarrow> bool) \<Rightarrow> LogicalStreamWriter \<Rightarrow> bytes \<Rightarrow> sent" where
  "LogicalStreamWriter_send_bytes ok self bytes =
     (let frame = FrameBuilder_build (FrameBuilder_with_payload bytes
            (FrameBuilder_with_frame_type Data
              (FrameBuilder_with_stream_id (lw_stream_id self) FrameBuilder_new)))
      in LogicalStreamWriter_send_frame ok self frame)"

definition LogicalStreamWriter_send_close_request ::
  "(StreamEvent \<Rightarrow> bool) \<Rightarrow> LogicalStreamWriter \<Rightarrow> sent" where
  "LogicalStreamWriter_send_close_request ok self =
     (let frame_flags = FrameFlags_close_request;
          close_frame = FrameBuilder_build (FrameBuilder_with_flags frame_flags
            (FrameBuilder_with_stream_id (lw_stream_id self) Frame_builder))
      in if ok (EvFrame close_frame) then (Ok (), [EvFrame close_frame])
         else (Err (broken_pipe ''Failed to send close frame''), []))"

definition LogicalStreamWriter_close ::
  "(StreamEvent \<Rightarrow> bool) \<Rightarrow> LogicalStreamWriter \<Rightarrow> states \<Rightarrow> sent \<times> states" where
  "LogicalStreamWriter_close ok self h =
     (let state = (case Mutex_lock (h (lw_state self)) of Some st \<Rightarrow> st | None \<Rightarrow> Closed)
      in if state = OpenSent \<or> state = OpenReceived \<or> state = Established \<or> state = Init
         then (eff_bind (LogicalStreamWriter_send_close_request ok self) (\<lambda>_. (Ok (), [])),
               LogicalStreamWriter_set_state self LocalClosing h)
         else if state = RemoteClosing
         then (eff_bind (LogicalStreamWriter_send_close_request ok self) (\<lambda>_.
                 eff_bind (LogicalStreamWriter_send_event ok self (EvClosed (lw_stream_id self)))
                   (\<lambda>_. (Ok (), []))),
               LogicalStreamWriter_set_state self Closed h)
         else if state = Reset \<or> state = Closed
         then (eff_bind (LogicalStreamWriter_send_event ok self (EvClosed (lw_stream_id self)))
                 (\<lambda>_. (Ok (), [])),
               LogicalStreamWriter_set_state self Closed h)
         else \<comment> \<open>LocalClosing\<close>
              (eff_bind (LogicalStreamWriter_send_event ok self (EvClosed (lw_stream_id self)))
                 (\<lambda>_. (Ok (), [])),
               LogicalStreamWriter_set_state self Closed h))"

text \<open>The \<^verbatim>\<open>AsyncWrite\<close> side; \<open>ok\<close> is the outcome of \<^verbatim>\<open>try_send\<close>.\<close>

datatype 'a poll = Pending | Ready 'a

definition LogicalStreamWriter_poll_write ::
  "(StreamEvent \<Rightarrow> bool) \<Rightarrow> LogicalStreamWriter \<Rightarrow> bytes \<Rightarrow> nat result poll \<times> StreamEvent list" where
  "LogicalStreamWriter_poll_write ok self buf =
     (let payload = buf;
          frame = FrameBuilder_build (FrameBuilder_with_payload payload
            (FrameBuilder_with_frame_type Data
              (FrameBuilder_with_stream_id (lw_stream_id self) FrameBuilder_new)))
      in if ok (EvFrame frame) then (Ready (Ok (length buf)), [EvFrame frame])
         else (Ready (Err (broken_pipe ''Failed to send frame'')), []))"

definition LogicalStreamWriter_poll_flush :: "LogicalStreamWriter \<Rightarrow> unit result poll" where
  "LogicalStreamWriter_poll_flush self = Ready (Ok ())"

definition LogicalStreamWriter_poll_shutdown :: "LogicalStreamWriter \<Rightarrow> unit result poll" where
  "LogicalStreamWriter_poll_shutdown self = Ready (Ok ())"


section \<open>The reader half\<close>

definition LogicalStreamReader_set_state ::
  "LogicalStreamReader \<Rightarrow> StreamState \<Rightarrow> states \<Rightarrow> states" where
  "LogicalStreamReader_set_state self st h =
     (case Mutex_lock (h (lr_state self)) of
        Some _ \<Rightarrow> h(lr_state self := (h (lr_state self))\<lparr>mx_value := st\<rparr>)
      | None \<Rightarrow> h)"

definition LogicalStreamReader_state :: "LogicalStreamReader \<Rightarrow> states \<Rightarrow> StreamState" where
  "LogicalStreamReader_state self h =
     (case Mutex_lock (h (lr_state self)) of Some st \<Rightarrow> st | None \<Rightarrow> Closed)"

definition LogicalStreamReader_set_state_from_flags ::
  "LogicalStreamReader \<Rightarrow> FrameFlags \<Rightarrow> states \<Rightarrow> states" where
  "LogicalStreamReader_set_state_from_flags self flags h =
     (if FrameFlags_is_open_request flags then LogicalStreamReader_set_state self OpenReceived h
      else if FrameFlags_is_open_response flags then LogicalStreamReader_set_state self Established h
      else if FrameFlags_is_open_reset flags then LogicalStreamReader_set_state self Reset h
      else h)"

text \<open>\<open>received\<close> is what \<^verbatim>\<open>frame_receiver.recv().await\<close> returned, \<open>closed\<close> what
  \<^verbatim>\<open>frame_receiver.is_closed()\<close> says.\<close>

definition LogicalStreamReader_recv_frame ::
  "Frame option \<Rightarrow> bool \<Rightarrow> LogicalStreamReader \<Rightarrow> states \<Rightarrow> Frame result \<times> states" where
  "LogicalStreamReader_recv_frame received closed self h =
     (case received of
        Some frame \<Rightarrow>
          (Ok frame, LogicalStreamReader_set_state_from_flags self (hdr_flags (fr_header frame)) h)
      | None \<Rightarrow>
          (if closed then Err (broken_pipe ''Channel closed'')
           else Err (broken_pipe ''Failed to receive frame''), h))"

definition LogicalStreamReader_recv_bytes ::
  "Frame option \<Rightarrow> bool \<Rightarrow> LogicalStreamReader \<Rightarrow> states \<Rightarrow> bytes result \<times> states" where
  "LogicalStreamReader_recv_bytes received closed self h =
     (let (frame, h) = LogicalStreamReader_recv_frame received closed self h
      in (try_bind frame (\<lambda>frame. Ok (fr_payload frame)), h))"

text \<open>\<^verbatim>\<open>poll_read\<close>: \<open>received\<close> is the result of \<^verbatim>\<open>try_recv\<close>. \<open>put_slice\<close> is
  \<^verbatim>\<open>ReadBuf::put_slice\<close>, with \<open>None\<close> for its panic; the operation then panics too.\<close>

datatype try_recv = TryFrame Frame | TryEmpty | TryDisconnected

definition LogicalStreamReader_poll_read ::
  "('b \<Rightarrow> bytes \<Rightarrow> 'b option) \<Rightarrow> try_recv \<Rightarrow> LogicalStreamReader \<Rightarrow> 'b \<Rightarrow> states
     \<Rightarrow> (unit result poll \<times> 'b) option \<times> states" where
  "LogicalStreamReader_poll_read put_slice received self buf h =
     (case received of
        TryFrame frame \<Rightarrow>
          (let h = LogicalStreamReader_set_state_from_flags self (hdr_flags (fr_header frame)) h
           in (case put_slice buf (fr_payload frame) of
                 Some buf \<Rightarrow> (Some (Ready (Ok ()), buf), h)
               | None \<Rightarrow> (None, h)))
      | TryEmpty \<Rightarrow> (Some (Pending, buf), h)
      | TryDisconnected \<Rightarrow>
          (Some (Ready (Ok ()), buf), LogicalStreamReader_set_state self Closed h))"


section \<open>The logical stream\<close>

definition LogicalStream_new :: "SessionId \<Rightarrow> StreamId \<Rightarrow> StreamState \<Rightarrow> LogicalStream" where
  "LogicalStream_new session_id stream_id state =
     \<lparr> ls_session_id = session_id, ls_stream_id = stream_id, ls_state = state \<rparr>"

definition LogicalStream_send_frame ::
  "(StreamEvent \<Rightarrow> bool) \<Rightarrow> LogicalStream \<Rightarrow> Frame \<Rightarrow> sent" where
  "LogicalStream_send_frame ok self frame =
     (if ok (EvFrame frame) then (Ok (), [EvFrame frame])
      else (Err (broken_pipe ''Failed to send frame''), []))"

definition LogicalStream_set_state_from_flags :: "LogicalStream \<Rightarrow> FrameFlags \<Rightarrow> LogicalStream" where
  "LogicalStream_set_state_from_flags self flags =
     (if FrameFlags_is_open_request flags then self\<lparr>ls_state := OpenReceived\<rparr>
      else if FrameFlags_is_open_response flags then self\<lparr>ls_state := Established\<rparr>
      else if FrameFlags_is_open_reset flags then self\<lparr>ls_state := Reset\<rparr>
      else if FrameFlags_is_close_request flags then self\<lparr>ls_state := RemoteClosing\<rparr>
      else if FrameFlags_is_close_response flags then self\<lparr>ls_state := Closed\<rparr>
      else self)"

definition LogicalStream_recv_frame ::
  "Frame option \<Rightarrow> LogicalStream \<Rightarrow> Frame result \<times> LogicalStream" where
  "LogicalStream_recv_frame received self =
     (case received of
        Some frame \<Rightarrow>
          (Ok frame, LogicalStream_set_state_from_flags self (hdr_flags (fr_header frame)))
      | None \<Rightarrow> (Err (broken_pipe ''Failed to receive frame''), self))"

definition LogicalStream_send_event ::
  "(StreamEvent \<Rightarrow> bool) \<Rightarrow> LogicalStream \<Rightarrow> StreamEvent \<Rightarrow> sent" where
  "LogicalStream_send_event ok self event =
     (if ok event then (Ok (), [event]) else (Err (broken_pipe ''Failed to send event''), []))"

definition LogicalStream_send_close_request :: "(StreamEvent \<Rightarrow> bool) \<Rightarrow> LogicalStream \<Rightarrow> sent" where
  "LogicalStream_send_close_request ok self =
     (let frame_flags = FrameFlags_close_request;
          close_frame = FrameBuilder_build (FrameBuilder_with_flags frame_flags
            (FrameBuilder_with_stream_id (ls_stream_id self) Frame_builder))
      in if ok (EvFrame close_frame) then (Ok (), [EvFrame close_frame])
         else (Err (broken_pipe ''Failed to send close frame''), []))"

definition LogicalStream_close ::
  "(StreamEvent \<Rightarrow> bool) \<Rightarrow> LogicalStream \<Rightarrow> sent \<times> LogicalStream" where
  "LogicalStream_close ok self =
     (let state = ls_state self
      in if state = OpenSent \<or> state = OpenReceived \<or> state = Established \<or> state = Init
         then let self = self\<lparr>ls_state := LocalClosing\<rparr>
              in (eff_bind (LogicalStream_send_close_request ok self) (\<lambda>_. (Ok (), [])), self)
         else if state = RemoteClosing
         then let self = self\<lparr>ls_state := Closed\<rparr>
              in (eff_bind (LogicalStream_send_close_request ok self) (\<lambda>_.
                    eff_bind (LogicalStream_send_event ok self (EvClosed (ls_stream_id self)))
                      (\<lambda>_. (Ok (), []))), self)
         else if state = Reset \<or> state = Closed
         then let self = self\<lparr>ls_state := Closed\<rparr>
              in (eff_bind (LogicalStream_send_event ok self (EvClosed (ls_stream_id self)))
                    (\<lambda>_. (Ok (), [])), self)
         else \<comment> \<open>LocalClosing\<close>
              let self = self\<lparr>ls_state := Closed\<rparr>
              in (eff_bind (LogicalStream_send_event ok self (EvClosed (ls_stream_id self)))
                    (\<lambda>_. (Ok (), [])), self))"

text \<open>\<open>split\<close> puts the state into a new shared mutex at the free address \<open>p\<close>.\<close>

definition LogicalStream_split ::
  "nat \<Rightarrow> LogicalStream \<Rightarrow> states \<Rightarrow> (LogicalStreamWriter \<times> LogicalStreamReader) \<times> states" where
  "LogicalStream_split p self h =
     (let h = h(p := Mutex_new (ls_state self));
          writer = \<lparr> lw_session_id = ls_session_id self, lw_stream_id = ls_stream_id self, lw_state = p \<rparr>;
          reader = \<lparr> lr_session_id = ls_session_id self, lr_stream_id = ls_stream_id self, lr_state = p \<rparr>
      in ((writer, reader), h))"

definition LogicalStream_stream_id :: "LogicalStream \<Rightarrow> StreamId" where
  "LogicalStream_stream_id self = ls_stream_id self"

definition LogicalStream_state :: "LogicalStream \<Rightarrow> StreamState" where
  "LogicalStream_state self = ls_state self"

definition LogicalStream_session_id :: "LogicalStream \<Rightarrow> SessionId" where
  "LogicalStream_session_id self = ls_session_id self"

definition LogicalStreamWriter_stream_id :: "LogicalStreamWriter \<Rightarrow> StreamId" where
  "LogicalStreamWriter_stream_id self = lw_stream_id self"

definition LogicalStreamWriter_session_id :: "LogicalStreamWriter \<Rightarrow> SessionId" where
  "LogicalStreamWriter_session_id self = lw_session_id self"

definition LogicalStreamReader_stream_id :: "LogicalStreamReader \<Rightarrow> StreamId" where
  "LogicalStreamReader_stream_id self = lr_stream_id self"

definition LogicalStreamReader_session_id :: "LogicalStreamReader \<Rightarrow> SessionId" where
  "LogicalStreamReader_session_id self = lr_session_id self"

definition LogicalStream_set_state :: "LogicalStream \<Rightarrow> StreamState \<Rightarrow> LogicalStream" where
  "LogicalStream_set_state self st = self\<lparr>ls_state := st\<rparr>"


section \<open>What closing does\<close>

text \<open>The abstract specification of \<^verbatim>\<open>close\<close>: the next state and the messages for the session.\<close>

definition close_frame :: "StreamId \<Rightarrow> Frame" where
  "close_frame sid = FrameBuilder_build (FrameBuilder_with_flags FrameFlags_close_request
     (FrameBuilder_with_stream_id sid Frame_builder))"

fun close_next :: "StreamState \<Rightarrow> StreamState" where
  "close_next OpenSent = LocalClosing"
| "close_next OpenReceived = LocalClosing"
| "close_next Established = LocalClosing"
| "close_next Init = LocalClosing"
| "close_next _ = Closed"

fun close_events :: "StreamId \<Rightarrow> StreamState \<Rightarrow> StreamEvent list" where
  "close_events sid OpenSent = [EvFrame (close_frame sid)]"
| "close_events sid OpenReceived = [EvFrame (close_frame sid)]"
| "close_events sid Established = [EvFrame (close_frame sid)]"
| "close_events sid Init = [EvFrame (close_frame sid)]"
| "close_events sid RemoteClosing = [EvFrame (close_frame sid), EvClosed sid]"
| "close_events sid _ = [EvClosed sid]"

text \<open>What sending a list of messages in order does: stop at the first refusal.\<close>

definition sends :: "(StreamEvent \<Rightarrow> bool) \<Rightarrow> StreamEvent list \<Rightarrow> bool \<times> StreamEvent list" where
  "sends ok es = (list_all ok es, takeWhile ok es)"

definition sent_view :: "sent \<Rightarrow> bool \<times> StreamEvent list" where
  "sent_view x = (is_ok (fst x), snd x)"

fun close_run :: "('s \<Rightarrow> sent \<times> 's) \<Rightarrow> nat \<Rightarrow> 's \<Rightarrow> StreamEvent list \<times> 's" where
  "close_run cl 0 s = ([], s)"
| "close_run cl (Suc n) s =
     (let (r, s') = cl s; (es, s'') = close_run cl n s' in (snd r @ es, s''))"

definition is_close_request :: "StreamEvent \<Rightarrow> bool" where
  "is_close_request e =
     (case e of EvFrame f \<Rightarrow> FrameFlags_is_close_request (hdr_flags (fr_header f)) | _ \<Rightarrow> False)"

lemma is_close_request_simps [simp]:
  "is_close_request (EvFrame (close_frame sid))" "\<not> is_close_request (EvClosed sid)"
  by (simp_all add: is_close_request_def close_frame_def builder_defs control_flag_tests)

text \<open>The contract of anything that can be closed.\<close>

locale stream_closer =
  fixes get :: "'s \<Rightarrow> StreamState"
    and sid :: "'s \<Rightarrow> StreamId"
    and close :: "(StreamEvent \<Rightarrow> bool) \<Rightarrow> 's \<Rightarrow> sent \<times> 's"
  assumes close_state: "get (snd (close ok s)) = close_next (get s)"
    and close_sid: "sid (snd (close ok s)) = sid s"
    and close_sent: "sent_view (fst (close ok s)) = sends ok (close_events (sid s) (get s))"
begin

lemma close_taken: "snd (fst (close ok s)) = takeWhile ok (close_events (sid s) (get s))"
  using close_sent [of ok s] by (simp add: sent_view_def sends_def)

text \<open>A closing stream has nothing left to tell its peer.\<close>

lemma run_closing_no_request:
  "get s \<in> {LocalClosing, Closed, Reset} \<Longrightarrow> filter is_close_request (fst (close_run (close ok) n s)) = []"
proof (induction n arbitrary: s)
  case (Suc n)
  obtain r s' where c: "close ok s = (r, s')" by fastforce
  have "get s' = Closed" using close_state [of ok s] c Suc.prems by auto
  then have "filter is_close_request (fst (close_run (close ok) n s')) = []" by (simp add: Suc.IH)
  moreover have "snd r = takeWhile ok [EvClosed (sid s)]"
    using close_taken [of ok s] c Suc.prems by auto
  ultimately show ?case using c by (auto split: prod.splits)
qed simp

text \<open>However often a stream is closed, the peer gets at most one close request.\<close>

lemma run_one_request: "length (filter is_close_request (fst (close_run (close ok) n s))) \<le> 1"
proof (cases n)
  case (Suc m)
  obtain r s' where c: "close ok s = (r, s')" by fastforce
  have "get s' \<in> {LocalClosing, Closed, Reset}"
    using close_state [of ok s] c by (cases "get s") auto
  then have "filter is_close_request (fst (close_run (close ok) m s')) = []"
    by (rule run_closing_no_request)
  moreover have "snd r = takeWhile ok (close_events (sid s) (get s))"
    using close_taken [of ok s] c by simp
  then have "length (filter is_close_request (snd r)) \<le> 1"
    by (cases "get s") auto
  ultimately show ?thesis using c Suc by (auto split: prod.splits)
qed simp

lemma run_closed: "get s = Closed \<Longrightarrow> get (snd (close_run (close ok) n s)) = Closed"
proof (induction n arbitrary: s)
  case (Suc n)
  obtain r s' where c: "close ok s = (r, s')" by fastforce
  moreover have "get s' = Closed" using close_state [of ok s] c Suc.prems by simp
  ultimately show ?case using Suc.IH [of s'] by (auto split: prod.splits)
qed simp

text \<open>Two calls are enough to reach the final state from anywhere.\<close>

lemma run_two_closed: "get (snd (close_run (close ok) (Suc (Suc n)) s)) = Closed"
proof -
  obtain r s' where c: "close ok s = (r, s')" by fastforce
  obtain r' s'' where c': "close ok s' = (r', s'')" by fastforce
  have "get s'' = close_next (close_next (get s))"
    using close_state [of ok s] close_state [of ok s'] c c' by simp
  then have "get s'' = Closed" by (cases "get s") auto
  then show ?thesis using run_closed [of s'' ok n] c c' by (auto split: prod.splits)
qed

end

lemmas close_defs = LogicalStream_send_close_request_def LogicalStream_send_event_def
  LogicalStreamWriter_send_close_request_def LogicalStreamWriter_send_event_def
  close_frame_def sends_def sent_view_def

interpretation whole: stream_closer ls_state ls_stream_id LogicalStream_close
proof (unfold_locales, goal_cases)
  case (1 ok s)
  show ?case by (cases "ls_state s") (simp_all add: LogicalStream_close_def Let_def)
next
  case (2 ok s)
  show ?case by (cases "ls_state s") (simp_all add: LogicalStream_close_def Let_def)
next
  case (3 ok s)
  show ?case by (cases "ls_state s") (simp_all add: LogicalStream_close_def Let_def close_defs)
qed

abbreviation writer_get :: "LogicalStreamWriter \<times> states \<Rightarrow> StreamState" where
  "writer_get x \<equiv> LogicalStreamWriter_state (fst x) (snd x)"

abbreviation writer_sid :: "LogicalStreamWriter \<times> states \<Rightarrow> StreamId" where
  "writer_sid x \<equiv> lw_stream_id (fst x)"

definition writer_close ::
  "(StreamEvent \<Rightarrow> bool) \<Rightarrow> LogicalStreamWriter \<times> states \<Rightarrow> sent \<times> LogicalStreamWriter \<times> states" where
  "writer_close ok x =
     (let (r, h) = LogicalStreamWriter_close ok (fst x) (snd x) in (r, fst x, h))"

lemma writer_state_set_state:
  "LogicalStreamWriter_state w (LogicalStreamWriter_set_state w st h) =
     (if mx_poisoned (h (lw_state w)) then Closed else st)"
  by (simp add: LogicalStreamWriter_state_def LogicalStreamWriter_set_state_def Mutex_lock_def)

lemma writer_state_live:
  "LogicalStreamWriter_state w h \<noteq> Closed \<Longrightarrow> \<not> mx_poisoned (h (lw_state w))"
  by (auto simp: LogicalStreamWriter_state_def Mutex_lock_def)

lemma writer_close_state_def:
  "LogicalStreamWriter_close ok w h =
     (let r = (case LogicalStreamWriter_state w h of
                 RemoteClosing \<Rightarrow> eff_bind (LogicalStreamWriter_send_close_request ok w) (\<lambda>_.
                   eff_bind (LogicalStreamWriter_send_event ok w (EvClosed (lw_stream_id w)))
                     (\<lambda>_. (Ok (), [])))
               | st \<Rightarrow> if close_next st = LocalClosing
                        then eff_bind (LogicalStreamWriter_send_close_request ok w) (\<lambda>_. (Ok (), []))
                        else eff_bind (LogicalStreamWriter_send_event ok w (EvClosed (lw_stream_id w)))
                               (\<lambda>_. (Ok (), [])))
      in (r, LogicalStreamWriter_set_state w (close_next (LogicalStreamWriter_state w h)) h))"
  by (cases "LogicalStreamWriter_state w h")
    (simp_all add: LogicalStreamWriter_close_def LogicalStreamWriter_state_def)

interpretation half: stream_closer writer_get writer_sid writer_close
proof (unfold_locales, goal_cases)
  case (1 ok s)
  show ?case
    using writer_state_live [of "fst s" "snd s"]
    by (cases "writer_get s")
      (simp_all add: writer_close_def writer_close_state_def writer_state_set_state Let_def)
next
  case (2 ok s)
  show ?case by (simp add: writer_close_def split: prod.splits)
next
  case (3 ok s)
  show ?case
    by (cases "writer_get s")
      (simp_all add: writer_close_def writer_close_state_def close_defs)
qed


section \<open>A split stream\<close>

text \<open>Everything the two halves can do to the state they share.\<close>

inductive split_step ::
  "LogicalStreamWriter \<Rightarrow> LogicalStreamReader \<Rightarrow> states \<Rightarrow> states \<Rightarrow> bool"
  for w :: LogicalStreamWriter and r :: LogicalStreamReader where
  close: "split_step w r h (snd (LogicalStreamWriter_close ok w h))"
| recv: "split_step w r h (snd (LogicalStreamReader_recv_frame received closed r h))"
| recv_bytes: "split_step w r h (snd (LogicalStreamReader_recv_bytes received closed r h))"
| poll_read: "split_step w r h
     (snd (LogicalStreamReader_poll_read (put_slice :: bytes \<Rightarrow> bytes \<Rightarrow> bytes option) tried r buf h))"

inductive_cases split_stepE: "split_step w r h h'"

text \<open>The two halves name the same cell, it is not poisoned, and it never holds
  \<^term>\<open>RemoteClosing\<close> (nor a state from before the handshake).\<close>

definition split_inv :: "LogicalStreamWriter \<Rightarrow> LogicalStreamReader \<Rightarrow> states \<Rightarrow> bool" where
  "split_inv w r h \<longleftrightarrow> lw_state w = lr_state r \<and> \<not> mx_poisoned (h (lw_state w)) \<and>
     mx_value (h (lw_state w)) \<in> {OpenReceived, Established, LocalClosing, Closed, Reset}"

definition split_init :: "LogicalStreamWriter \<Rightarrow> LogicalStreamReader \<Rightarrow> states \<Rightarrow> bool" where
  "split_init w r h \<longleftrightarrow>
     (\<exists>p ls h0. LogicalStream_split p ls h0 = ((w, r), h) \<and> ls_state ls = Established)"

lemma writer_set_state_inv:
  "split_inv w r h \<Longrightarrow> st \<in> {OpenReceived, Established, LocalClosing, Closed, Reset} \<Longrightarrow>
     split_inv w r (LogicalStreamWriter_set_state w st h)"
  by (auto simp: split_inv_def LogicalStreamWriter_set_state_def Mutex_lock_def)

lemma reader_set_state_inv:
  "split_inv w r h \<Longrightarrow> st \<in> {OpenReceived, Established, LocalClosing, Closed, Reset} \<Longrightarrow>
     split_inv w r (LogicalStreamReader_set_state r st h)"
  by (auto simp: split_inv_def LogicalStreamReader_set_state_def Mutex_lock_def)

lemma reader_flags_inv:
  "split_inv w r h \<Longrightarrow> split_inv w r (LogicalStreamReader_set_state_from_flags r fl h)"
  by (simp add: LogicalStreamReader_set_state_from_flags_def reader_set_state_inv)

lemma close_next_range:
  "close_next st \<in> {OpenReceived, Established, LocalClosing, Closed, Reset}"
  by (cases st) simp_all

lemma split_step_inv: "split_inv w r h \<Longrightarrow> split_step w r h h' \<Longrightarrow> split_inv w r h'"
proof (erule split_stepE, goal_cases)
  case (1 ok)
  have "split_inv w r (LogicalStreamWriter_set_state w (close_next (LogicalStreamWriter_state w h)) h)"
    by (rule writer_set_state_inv [OF 1(1) close_next_range])
  with 1 show ?case by (simp add: writer_close_state_def Let_def)
next
  case (2 received closed)
  then show ?case
    by (simp add: LogicalStreamReader_recv_frame_def reader_flags_inv split: option.splits)
next
  case (3 received closed)
  then show ?case
    by (simp add: LogicalStreamReader_recv_bytes_def LogicalStreamReader_recv_frame_def
        reader_flags_inv split: option.splits prod.splits)
next
  case (4 put_slice tried buf)
  then show ?case
    by (simp add: LogicalStreamReader_poll_read_def Let_def reader_flags_inv reader_set_state_inv
        split: try_recv.splits option.splits)
qed

interpretation split: invariant_system "split_init w r" "split_step w r" "split_inv w r" for w r
proof (unfold_locales, goal_cases)
  case (1 h)
  then show ?case
    by (auto simp: split_init_def LogicalStream_split_def split_inv_def Mutex_new_def)
next
  case (2 h h')
  then show ?case by (rule split_step_inv)
qed

lemma split_inv_states:
  "split_inv w r h \<Longrightarrow> LogicalStreamWriter_state w h = LogicalStreamReader_state r h \<and>
     LogicalStreamWriter_state w h \<in> {OpenReceived, Established, LocalClosing, Closed, Reset}"
  by (auto simp: split_inv_def LogicalStreamWriter_state_def LogicalStreamReader_state_def
      Mutex_lock_def)


text \<open>\<^verbatim>\<open>poll_read\<close> copies a whole frame or panics: with a read buffer of fixed room, for which
  copying more than fits panics, a frame is delivered exactly when its payload fits.\<close>

lemma poll_read_room:
  assumes "\<And>b bs. put_slice b bs = (if length bs \<le> room b then Some (fill b bs) else None)"
  shows "fst (LogicalStreamReader_poll_read put_slice (TryFrame f) r buf h) =
    (if length (fr_payload f) \<le> room buf then Some (Ready (Ok ()), fill buf (fr_payload f)) else None)"
  by (simp add: LogicalStreamReader_poll_read_def assms Let_def)


section \<open>Properties\<close>

text \<open>C18. \<^verbatim>\<open>LogicalStream::close\<close> and \<^verbatim>\<open>LogicalStreamWriter::close\<close> implement one specification: from every
  state each moves to the same next state, hands the same messages to the session in the
  same order (a close request while the stream is open, the closed notice once it is done,
  both when the peer closed first), stops at the first message the channel refuses, and
  reports success exactly when all of them were taken.\<close>

theorem close_refines:
  "sent_view (fst (LogicalStream_close ok s)) = sends ok (close_events (ls_stream_id s) (ls_state s)) \<and>
   snd (LogicalStream_close ok s) = s\<lparr>ls_state := close_next (ls_state s)\<rparr> \<and>
   sent_view (fst (LogicalStreamWriter_close ok w h)) =
     sends ok (close_events (lw_stream_id w) (LogicalStreamWriter_state w h)) \<and>
   snd (LogicalStreamWriter_close ok w h) =
     LogicalStreamWriter_set_state w (close_next (LogicalStreamWriter_state w h)) h"
proof (intro conjI)
  show "sent_view (fst (LogicalStream_close ok s)) = sends ok (close_events (ls_stream_id s) (ls_state s))"
    by (rule whole.close_sent)
  show "snd (LogicalStream_close ok s) = s\<lparr>ls_state := close_next (ls_state s)\<rparr>"
    by (cases "ls_state s") (simp_all add: LogicalStream_close_def Let_def)
  show "sent_view (fst (LogicalStreamWriter_close ok w h)) =
     sends ok (close_events (lw_stream_id w) (LogicalStreamWriter_state w h))"
    using half.close_sent [of ok "(w, h)"] by (simp add: writer_close_def split: prod.splits)
  show "snd (LogicalStreamWriter_close ok w h) =
     LogicalStreamWriter_set_state w (close_next (LogicalStreamWriter_state w h)) h"
    by (simp add: writer_close_state_def Let_def)
qed

text \<open>Closing is idempotent towards the peer: whatever the state and whatever the
  channel accepts, any number of calls of the writer's \<^verbatim>\<open>close\<close> hands over at most one close
  request, and from the second call on the stream is in its final state.\<close>

theorem writer_close_repeated:
  "length (filter is_close_request (fst (close_run (writer_close ok) n (w, h)))) \<le> 1 \<and>
   writer_get (snd (close_run (writer_close ok) (Suc (Suc n)) (w, h))) = Closed"
  by (rule conjI [OF half.run_one_request half.run_two_closed])


definition demo_stream :: LogicalStream where
  "demo_stream = LogicalStream_new (SessionId 7) (StreamId 3) Established"




end
