(* ===== verification/Session.thy ===== *)
theory Session
  imports MuxStream
begin

text \<open>
  \<^verbatim>\<open>foctet-mux/src/session.rs\<close>: the session actor, which multiplexes logical streams over one
  framed connection, and the session handle.

  The actor owns its maps and its stream counter (the record \<open>SessionActor\<close>); its channel
  ends and the framed connection are tokio's. What they answer is the record \<open>senv\<close>: the
  result of writing a frame to the connection, whether a channel takes a message, and how
  an error is formatted. A
  handler returns its result and, in order, what it handed to the outside
  (\<open>sa_effect\<close>). Channels are named by natural numbers: a handler that creates one is
  given its name, and a registered stream is the name of the channel its frames go to.
\<close>

section \<open>Data\<close>

datatype SessionSide = Client | Server

definition SessionSide_is_client :: "SessionSide \<Rightarrow> bool" where
  "SessionSide_is_client self \<longleftrightarrow> self = Client"

definition SessionSide_is_server :: "SessionSide \<Rightarrow> bool" where
  "SessionSide_is_server self \<longleftrightarrow> self = Server"

text \<open>A command carries the sending end of a one-shot channel for the answer.\<close>

datatype Command = OpenStream nat | Shutdown nat

record SessionActor =
  sa_session_id :: SessionId
  sa_next_stream_id :: StreamId
  sa_remote_closed :: bool
  sa_local_closed :: bool
  sa_pending_streams :: "StreamId \<rightharpoonup> nat"
  sa_streams :: "StreamId \<rightharpoonup> nat"
  sa_keepalive :: "nat option"

record senv =
  env_wire :: "Frame \<Rightarrow> unit result"
  env_close :: "unit result"
  env_chan :: "nat \<Rightarrow> Frame \<Rightarrow> bool"
  env_accept :: "LogicalStream \<Rightarrow> bool"
  env_oneshot :: "nat \<Rightarrow> bool"
  env_dbg :: "error \<Rightarrow> string"

text \<open>A logical stream travels together with the receiving end of its channel.\<close>

type_synonym opened = "LogicalStream \<times> nat"

datatype sa_effect =
    Wire Frame \<comment> \<open>frame written to the connection\<close>
  | WireClosed
  | ToStream nat Frame \<comment> \<open>frame put into a stream's channel\<close>
  | Accepted opened \<comment> \<open>new stream for \<^verbatim>\<open>accept_stream\<close>\<close>
  | Resolved nat "opened result" \<comment> \<open>answer for a pending open\<close>
  | Spawned nat nat \<comment> \<open>task forwarding the first channel to the second\<close>
  | ShutdownAck nat

type_synonym handled = "(unit result \<times> sa_effect list) \<times> SessionActor"

section \<open>The actor\<close>

definition open_response_frame :: "StreamId \<Rightarrow> Frame" where
  "open_response_frame stream_id = FrameBuilder_build (FrameBuilder_with_flags FrameFlags_open_response
     (FrameBuilder_with_stream_id stream_id Frame_builder))"

definition open_request_frame :: "StreamId \<Rightarrow> Frame" where
  "open_request_frame stream_id = FrameBuilder_build (FrameBuilder_with_flags FrameFlags_open_request
     (FrameBuilder_with_stream_id stream_id Frame_builder))"

text \<open>\<open>ch\<close> names the channel created for a new stream.\<close>

definition SessionActor_handle_incoming_frame ::
  "senv \<Rightarrow> nat \<Rightarrow> SessionActor \<Rightarrow> Frame \<Rightarrow> handled" where
  "SessionActor_handle_incoming_frame env ch self frame =
     (let stream_id = hdr_stream_id (fr_header frame); flags = hdr_flags (fr_header frame)
      in case sa_streams self stream_id of
        Some sender \<Rightarrow>
          if env_chan env sender frame then ((Ok (), [ToStream sender frame]), self)
          else ((Ok (), []), self\<lparr>sa_streams := (sa_streams self)(stream_id := None)\<rparr>)
      | None \<Rightarrow>
          if FrameFlags_is_open_request flags then
            (let logical_stream = LogicalStream_new (sa_session_id self) stream_id Established;
                 self = self\<lparr>sa_streams := (sa_streams self)(stream_id \<mapsto> ch)\<rparr>;
                 (accepted, self) =
                   (if env_accept env logical_stream then ([Accepted (logical_stream, ch)], self)
                    else ([], self\<lparr>sa_streams := (sa_streams self)(stream_id := None)\<rparr>));
                 responded =
                   (case env_wire env (open_response_frame stream_id) of
                      Inr _ \<Rightarrow> [Wire (open_response_frame stream_id)] | Inl _ \<Rightarrow> [])
             in ((Ok (), accepted @ responded), self))
          else if FrameFlags_is_open_response flags then
            (case sa_pending_streams self stream_id of
               Some sender \<Rightarrow>
                 (let self = self\<lparr>sa_pending_streams := (sa_pending_streams self)(stream_id := None)\<rparr>;
                      self = self\<lparr>sa_streams := (sa_streams self)(stream_id \<mapsto> ch)\<rparr>;
                      stream = LogicalStream_new (sa_session_id self) stream_id Established
                  in ((Ok (), if env_oneshot env sender then [Resolved sender (Ok (stream, ch))] else []),
                      self))
             | None \<Rightarrow> ((Ok (), []), self))
          else if FrameFlags_is_open_reset flags then
            (case sa_pending_streams self stream_id of
               Some sender \<Rightarrow>
                 ((Ok (), if env_oneshot env sender
                          then [Resolved sender (Err (Anyhow (''Stream '' @
                             show_nat (unat (StreamId_id stream_id)) @ '' rejected by remote'')))] else []),
                  self\<lparr>sa_pending_streams := (sa_pending_streams self)(stream_id := None)\<rparr>)
             | None \<Rightarrow> ((Ok (), []), self))
          else ((Ok (), []), self))"

text \<open>\<open>resp\<close> names the one-shot channel created for the answer of the peer.\<close>

definition SessionActor_handle_control_command ::
  "senv \<Rightarrow> nat \<Rightarrow> SessionActor \<Rightarrow> Command \<Rightarrow> handled" where
  "SessionActor_handle_control_command env resp self cmd =
     (case cmd of
        OpenStream reply_tx \<Rightarrow>
          (let (stream_id, next) = StreamId_fetch_add (sa_next_stream_id self) 1;
               self = self\<lparr>sa_next_stream_id := next\<rparr>;
               self = self\<lparr>sa_pending_streams := (sa_pending_streams self)(stream_id \<mapsto> resp)\<rparr>;
               open_frame = open_request_frame stream_id
           in (case env_wire env open_frame of
                 Inl e \<Rightarrow> ((Err e, []), self)
               | Inr _ \<Rightarrow> ((Ok (), [Wire open_frame, Spawned resp reply_tx]), self)))
      | Shutdown reply_tx \<Rightarrow>
          ((Ok (), if env_oneshot env reply_tx then [ShutdownAck reply_tx] else []),
           self\<lparr>sa_local_closed := True\<rparr>))"

text \<open>What the task spawned for an open forwards to the caller, given what its own
  one-shot channel delivered (\<open>None\<close>: the actor dropped the sending end).\<close>

fun open_task :: "opened result option \<Rightarrow> opened result" where
  "open_task (Some (Inr stream)) = Ok stream"
| "open_task (Some (Inl e)) = Err e"
| "open_task None = Err (Anyhow ''No response received'')"

definition SessionActor_handle_stream_event ::
  "senv \<Rightarrow> SessionActor \<Rightarrow> StreamEvent \<Rightarrow> handled" where
  "SessionActor_handle_stream_event env self event =
     (case event of
        EvFrame frame \<Rightarrow>
          (case env_wire env frame of
             Inl e \<Rightarrow> ((Err (Anyhow (''Failed to send frame to writer: '' @ env_dbg env e)), []), self)
           | Inr _ \<Rightarrow> ((Ok (), [Wire frame]), self))
      | EvClosed stream_id \<Rightarrow>
          ((Ok (), []), self\<lparr>sa_streams := (sa_streams self)(stream_id := None)\<rparr>)
      | EvError \<Rightarrow> ((Ok (), []), self))"

definition SessionActor_shutdown :: "senv \<Rightarrow> SessionActor \<Rightarrow> sa_effect list \<times> SessionActor" where
  "SessionActor_shutdown env self =
     (let self = self\<lparr>sa_streams := Map.empty\<rparr>
      in (case env_close env of Inl e \<Rightarrow> [] | Inr _ \<Rightarrow> [WireClosed], self))"

definition SessionActor_keepalive_tick :: "SessionActor \<Rightarrow> SessionActor" where
  "SessionActor_keepalive_tick self = (case sa_keepalive self of Some _ \<Rightarrow> self | None \<Rightarrow> self)"

text \<open>One turn of the loop: the branch that \<^verbatim>\<open>select!\<close> took. The pattern \<^verbatim>\<open>Some(..)\<close> of the other
  branches disables a branch whose source has ended, so an end of stream is no event.
  The first component says whether the loop goes on.\<close>

datatype run_event = Cancelled | FrameRead "Frame result" | ControlCmd Command | StreamEv StreamEvent

fun SessionActor_run_step ::
  "senv \<Rightarrow> nat \<Rightarrow> SessionActor \<Rightarrow> run_event \<Rightarrow> (bool \<times> sa_effect list) \<times> SessionActor" where
  "SessionActor_run_step env ch self Cancelled = ((False, []), self)"
| "SessionActor_run_step env ch self (FrameRead (Inr frame)) =
     (let ((r, es), self) = SessionActor_handle_incoming_frame env ch self frame
      in ((is_ok r, es), self))"
| "SessionActor_run_step env ch self (FrameRead (Inl e)) =
     ((False, []), self\<lparr>sa_remote_closed := True\<rparr>)"
| "SessionActor_run_step env ch self (ControlCmd cmd) =
     (let ((r, es), self) = SessionActor_handle_control_command env ch self cmd
      in ((is_ok r, es), self))"
| "SessionActor_run_step env ch self (StreamEv event) =
     (let ((r, es), self) = SessionActor_handle_stream_event env self event
      in ((is_ok r, es), self))"

text \<open>The loop over the events it is given, each with what the outside answers then and the
  name of a new channel; the first component says whether the loop has ended.\<close>

fun SessionActor_run ::
  "(senv \<times> nat \<times> run_event) list \<Rightarrow> SessionActor \<Rightarrow> (bool \<times> sa_effect list) \<times> SessionActor" where
  "SessionActor_run [] self = ((False, []), self)"
| "SessionActor_run ((env, ch, ev) # evs) self =
     (let ((continue, es), self) = SessionActor_run_step env ch self ev
      in if continue
         then let ((ended, es'), self) = SessionActor_run evs self in ((ended, es @ es'), self)
         else let (es', self) = SessionActor_shutdown env self in ((True, es @ es'), self))"


section \<open>The session handle\<close>

record 'addr Session =
  se_session_id :: SessionId
  se_side :: SessionSide
  se_local_addr :: "'addr option"
  se_remote_addr :: "'addr option"

definition Session_spawn ::
  "SessionSide \<Rightarrow> SessionId \<Rightarrow> 'addr option \<Rightarrow> 'addr option \<Rightarrow> 'addr Session \<times> SessionActor" where
  "Session_spawn side session_id local_addr remote_addr =
     (let next_stream_id = (case side of Client \<Rightarrow> StreamId 1 | Server \<Rightarrow> StreamId 2);
          actor = \<lparr> sa_session_id = session_id, sa_next_stream_id = next_stream_id,
                    sa_remote_closed = False, sa_local_closed = False,
                    sa_pending_streams = Map.empty, sa_streams = Map.empty,
                    sa_keepalive = None \<rparr>
      in (\<lparr> se_session_id = session_id, se_side = side, se_local_addr = local_addr,
            se_remote_addr = remote_addr \<rparr>, actor))"

definition Session_new_client :: "SessionId \<Rightarrow> 'addr Session \<times> SessionActor" where
  "Session_new_client session_id = Session_spawn Client session_id None None"

definition Session_new_server :: "SessionId \<Rightarrow> 'addr Session \<times> SessionActor" where
  "Session_new_server session_id = Session_spawn Server session_id None None"

text \<open>\<open>sent\<close> is the outcome of handing the command to the actor, \<open>reply\<close> what the one-shot
  channel delivered; \<open>dbg\<close> is the debug format of an error.\<close>

definition Session_open_stream ::
  "(error \<Rightarrow> string) \<Rightarrow> unit result \<Rightarrow> (error + opened result) \<Rightarrow> opened result" where
  "Session_open_stream dbg sent reply =
     try_bind (map_err (\<lambda>e. Anyhow (''Failed to send OpenStream command: '' @ dbg e)) sent) (\<lambda>_.
       (case reply of
          Inr (Inr stream) \<Rightarrow> Ok stream
        | Inr (Inl e) \<Rightarrow> Err (Anyhow (''Stream open failed: '' @ dbg e))
        | Inl e \<Rightarrow> Err (Anyhow (''Stream open response failed: '' @ dbg e))))"

definition Session_accept_stream :: "opened option \<Rightarrow> opened result" where
  "Session_accept_stream received =
     (case received of Some stream \<Rightarrow> Ok stream | None \<Rightarrow> Err (Anyhow ''Session closed''))"

text \<open>The second component: whether the cancel token was fired.\<close>

definition Session_shutdown :: "(error \<Rightarrow> string) \<Rightarrow> unit result \<Rightarrow> unit result option \<Rightarrow> unit result \<times> bool" where
  "Session_shutdown dbg sent reply =
     (case map_err (\<lambda>e. Anyhow (''Failed to send Shutdown command: '' @ dbg e)) sent of
        Inl e \<Rightarrow> (Err e, False)
      | Inr _ \<Rightarrow> (Ok (), True))"

definition Session_session_id :: "'addr Session \<Rightarrow> SessionId" where
  "Session_session_id self = se_session_id self"

definition Session_side :: "'addr Session \<Rightarrow> SessionSide" where
  "Session_side self = se_side self"

text \<open>\<open>finished\<close>: whether the actor's task has ended.\<close>

definition Session_is_active :: "bool \<Rightarrow> bool" where
  "Session_is_active finished \<longleftrightarrow> \<not> finished"

definition Session_set_local_addr :: "'addr \<Rightarrow> 'addr Session \<Rightarrow> 'addr Session" where
  "Session_set_local_addr addr self = self\<lparr>se_local_addr := Some addr\<rparr>"

definition Session_set_remote_addr :: "'addr \<Rightarrow> 'addr Session \<Rightarrow> 'addr Session" where
  "Session_set_remote_addr addr self = self\<lparr>se_remote_addr := Some addr\<rparr>"

definition Session_local_addr :: "'addr Session \<Rightarrow> 'addr option" where
  "Session_local_addr self = se_local_addr self"

definition Session_remote_addr :: "'addr Session \<Rightarrow> 'addr option" where
  "Session_remote_addr self = se_remote_addr self"


section \<open>The loop\<close>

text \<open>What ends the loop: a cancellation, a read error, or a connection that refuses a frame the
  actor has to write.\<close>

fun breaks :: "senv \<Rightarrow> SessionActor \<Rightarrow> run_event \<Rightarrow> bool" where
  "breaks env self Cancelled \<longleftrightarrow> True"
| "breaks env self (FrameRead r) \<longleftrightarrow> \<not> is_ok r"
| "breaks env self (ControlCmd (OpenStream reply)) \<longleftrightarrow>
     \<not> is_ok (env_wire env (open_request_frame (sa_next_stream_id self)))"
| "breaks env self (ControlCmd (Shutdown reply)) \<longleftrightarrow> False"
| "breaks env self (StreamEv (EvFrame f)) \<longleftrightarrow> \<not> is_ok (env_wire env f)"
| "breaks env self (StreamEv e) \<longleftrightarrow> False"

lemma handle_incoming_frame_ok:
  "fst (fst (SessionActor_handle_incoming_frame env ch self frame)) = Ok ()"
  by (simp add: SessionActor_handle_incoming_frame_def Let_def split: option.splits)

lemma handle_open_stream:
  "SessionActor_handle_control_command env resp self (OpenStream reply) =
     (let self' = self\<lparr>sa_next_stream_id := snd (StreamId_fetch_add (sa_next_stream_id self) 1),
                       sa_pending_streams := (sa_pending_streams self)(sa_next_stream_id self \<mapsto> resp)\<rparr>;
          f = open_request_frame (sa_next_stream_id self)
      in (case env_wire env f of Inl e \<Rightarrow> ((Err e, []), self')
          | Inr _ \<Rightarrow> ((Ok (), [Wire f, Spawned resp reply]), self')))"
  by (simp add: SessionActor_handle_control_command_def case_prod_beta Let_def stream_ids.fetch_old
      split: sum.split)

lemma handle_shutdown:
  "SessionActor_handle_control_command env resp self (Shutdown reply) =
     ((Ok (), if env_oneshot env reply then [ShutdownAck reply] else []),
      self\<lparr>sa_local_closed := True\<rparr>)"
  by (simp add: SessionActor_handle_control_command_def)

lemma run_step_continues:
  "fst (fst (SessionActor_run_step env ch self ev)) \<longleftrightarrow> \<not> breaks env self ev"
proof (cases "(env, self, ev)" rule: breaks.cases)
  case (2 env self r)
  then show ?thesis
    by (cases r) (simp_all add: handle_incoming_frame_ok case_prod_beta)
next
  case (3 env self reply)
  then show ?thesis by (simp add: handle_open_stream Let_def split: sum.splits)
qed (auto simp: SessionActor_handle_control_command_def SessionActor_handle_stream_event_def
        split: prod.splits sum.splits)

lemma run_append:
  "SessionActor_run (xs @ ys) self =
     (let ((ended, es), self') = SessionActor_run xs self
      in if ended then ((True, es), self')
         else let ((ended', es'), self'') = SessionActor_run ys self'
              in ((ended', es @ es'), self''))"
  by (induction xs self rule: SessionActor_run.induct) (auto split: prod.splits if_splits)

lemma run_ended_iff:
  "fst (fst (SessionActor_run evs self)) \<longleftrightarrow>
     (\<exists>xs env ch ev ys. evs = xs @ (env, ch, ev) # ys \<and> \<not> fst (fst (SessionActor_run xs self)) \<and>
        breaks env (snd (SessionActor_run xs self)) ev)"
proof (induction evs rule: rev_induct)
  case (snoc x evs)
  note IH = snoc.IH
  obtain env ch ev where x: "x = (env, ch, ev)" by (cases x)
  obtain e es s where r: "SessionActor_run evs self = ((e, es), s)" by (metis prod.exhaust)
  show ?case
  proof (cases e)
    case True
    then have "fst (fst (SessionActor_run (evs @ [x]) self))" by (simp add: run_append r)
    moreover from True snoc.IH r obtain xs env ch ev ys where
      "evs = xs @ (env, ch, ev) # ys" "\<not> fst (fst (SessionActor_run xs self))"
      "breaks env (snd (SessionActor_run xs self)) ev" by auto
    then have "\<exists>xs env ch ev ys. evs @ [x] = xs @ (env, ch, ev) # ys \<and>
        \<not> fst (fst (SessionActor_run xs self)) \<and> breaks env (snd (SessionActor_run xs self)) ev"
      by (metis append.assoc append_Cons)
    ultimately show ?thesis by blast
  next
    case False
    then have "fst (fst (SessionActor_run (evs @ [x]) self)) \<longleftrightarrow> breaks env s ev"
      using run_step_continues [of env ch s ev]
      by (auto simp: run_append r x split: prod.splits)
    moreover have "breaks env s ev \<longleftrightarrow>
        (\<exists>xs env ch ev ys. evs @ [x] = xs @ (env, ch, ev) # ys \<and>
           \<not> fst (fst (SessionActor_run xs self)) \<and> breaks env (snd (SessionActor_run xs self)) ev)"
      (is "_ \<longleftrightarrow> ?ex")
    proof
      assume "breaks env s ev"
      with False r x show ?ex by (metis fst_conv snd_conv)
    next
      assume ?ex
      then obtain xs env' ch' ev' ys where
        eq: "evs @ [x] = xs @ (env', ch', ev') # ys" and
        b: "\<not> fst (fst (SessionActor_run xs self))" "breaks env' (snd (SessionActor_run xs self)) ev'"
        by blast
      show "breaks env s ev"
      proof (cases ys rule: rev_exhaust)
        case Nil
        with eq x r b show ?thesis by simp
      next
        case (snoc ys' y)
        with eq have "evs = xs @ (env', ch', ev') # ys'" by simp
        with IH b have "fst (fst (SessionActor_run evs self))" by blast
        with r False show ?thesis by simp
      qed
    qed
    ultimately show ?thesis by simp
  qed
qed simp

lemma run_ended_streams:
  "fst (fst (SessionActor_run evs self)) \<Longrightarrow> sa_streams (snd (SessionActor_run evs self)) = Map.empty"
proof (induction evs arbitrary: self)
  case (Cons x evs)
  then show ?case
    by (cases x) (auto simp: SessionActor_shutdown_def Let_def case_prod_beta split: if_splits)
qed simp


section \<open>Multiplexing\<close>

type_synonym turn = "senv \<times> nat \<times> run_event"

definition frames_to :: "nat \<Rightarrow> sa_effect list \<Rightarrow> Frame list" where
  "frames_to c es = concat (map (\<lambda>e. case e of ToStream d f \<Rightarrow> if d = c then [f] else [] | _ \<Rightarrow> []) es)"

definition wire_frames :: "sa_effect list \<Rightarrow> Frame list" where
  "wire_frames es = concat (map (\<lambda>e. case e of Wire f \<Rightarrow> [f] | _ \<Rightarrow> []) es)"

fun frame_read :: "run_event \<Rightarrow> Frame list" where
  "frame_read (FrameRead (Inr f)) = [f]"
| "frame_read _ = []"

fun frame_emitted :: "run_event \<Rightarrow> Frame list" where
  "frame_emitted (StreamEv (EvFrame f)) = [f]"
| "frame_emitted _ = []"

definition frames_read :: "turn list \<Rightarrow> Frame list" where
  "frames_read evs = concat (map (\<lambda>(env, ch, ev). frame_read ev) evs)"

definition frames_emitted :: "turn list \<Rightarrow> Frame list" where
  "frames_emitted evs = concat (map (\<lambda>(env, ch, ev). frame_emitted ev) evs)"

abbreviation frame_stream :: "Frame \<Rightarrow> StreamId" where
  "frame_stream f \<equiv> hdr_stream_id (fr_header f)"

definition is_open_control :: "Frame \<Rightarrow> bool" where
  "is_open_control f \<longleftrightarrow> FrameFlags_is_open_request (hdr_flags (fr_header f)) \<or>
     FrameFlags_is_open_response (hdr_flags (fr_header f))"

text \<open>Stream \<open>i\<close> is registered with channel \<open>c\<close>, and no other stream is.\<close>

definition registered :: "StreamId \<Rightarrow> nat \<Rightarrow> SessionActor \<Rightarrow> bool" where
  "registered i c self \<longleftrightarrow> sa_streams self i = Some c \<and> (\<forall>j. j \<noteq> i \<longrightarrow> sa_streams self j \<noteq> Some c)"

text \<open>A turn that does not end the loop: nothing is cancelled, the connection works.\<close>

definition steady :: "turn \<Rightarrow> bool" where
  "steady t \<longleftrightarrow> (case t of (env, ch, ev) \<Rightarrow>
     ev \<noteq> Cancelled \<and> (\<forall>e. ev \<noteq> FrameRead (Inl e)) \<and> env_wire env = (\<lambda>_. Ok ()))"

text \<open>A turn that leaves stream \<open>i\<close> with its channel \<open>c\<close>.\<close>

definition keeps :: "StreamId \<Rightarrow> nat \<Rightarrow> turn \<Rightarrow> bool" where
  "keeps i c t \<longleftrightarrow> (case t of (env, ch, ev) \<Rightarrow>
     ch \<noteq> c \<and> ev \<noteq> StreamEv (EvClosed i) \<and> env_chan env c = (\<lambda>_. True))"

lemma frames_to_simps [simp]:
  "frames_to c [] = []" "frames_to c (es @ es') = frames_to c es @ frames_to c es'"
  "frames_to c (ToStream d f # es) = (if d = c then f # frames_to c es else frames_to c es)"
  "frames_to c (Wire f # es) = frames_to c es" "frames_to c (WireClosed # es) = frames_to c es"
  "frames_to c (Accepted x # es) = frames_to c es" "frames_to c (Resolved n r # es) = frames_to c es"
  "frames_to c (Spawned n m # es) = frames_to c es" "frames_to c (ShutdownAck n # es) = frames_to c es"
  by (simp_all add: frames_to_def)

lemma wire_frames_simps [simp]:
  "wire_frames [] = []" "wire_frames (es @ es') = wire_frames es @ wire_frames es'"
  "wire_frames (ToStream d f # es) = wire_frames es"
  "wire_frames (Wire f # es) = f # wire_frames es" "wire_frames (WireClosed # es) = wire_frames es"
  "wire_frames (Accepted x # es) = wire_frames es" "wire_frames (Resolved n r # es) = wire_frames es"
  "wire_frames (Spawned n m # es) = wire_frames es" "wire_frames (ShutdownAck n # es) = wire_frames es"
  by (simp_all add: wire_frames_def)

lemma frames_read_Cons [simp]:
  "frames_read [] = []" "frames_read ((env, ch, ev) # evs) = frame_read ev @ frames_read evs"
  "frames_emitted [] = []" "frames_emitted ((env, ch, ev) # evs) = frame_emitted ev @ frames_emitted evs"
  by (simp_all add: frames_read_def frames_emitted_def)

lemma steady_continues: "steady (env, ch, ev) \<Longrightarrow> \<not> breaks env self ev"
  by (cases "(env, self, ev)" rule: breaks.cases) (auto simp: steady_def not_is_ok_iff)

lemma steady_run_step:
  "steady (env, ch, ev) \<Longrightarrow>
     \<exists>es self'. SessionActor_run_step env ch self ev = ((True, es), self')"
  using run_step_continues [of env ch self ev] steady_continues [of env ch ev self]
  by (metis prod.collapse)

text \<open>The handler of incoming frames, branch by branch.\<close>

lemma incoming_known:
  "sa_streams self (frame_stream f) = Some c \<Longrightarrow>
   SessionActor_handle_incoming_frame env ch self f =
     (if env_chan env c f then ((Ok (), [ToStream c f]), self)
      else ((Ok (), []), self\<lparr>sa_streams := (sa_streams self)(frame_stream f := None)\<rparr>))"
  by (simp add: SessionActor_handle_incoming_frame_def)

lemma incoming_request:
  "sa_streams self (frame_stream f) = None \<Longrightarrow> hdr_flags (fr_header f) = FrameFlags_open_request \<Longrightarrow>
   SessionActor_handle_incoming_frame env ch self f =
     (let i = frame_stream f; st = LogicalStream_new (sa_session_id self) i Established;
          r = (if is_ok (env_wire env (open_response_frame i)) then [Wire (open_response_frame i)] else [])
      in if env_accept env st
         then ((Ok (), Accepted (st, ch) # r), self\<lparr>sa_streams := (sa_streams self)(i \<mapsto> ch)\<rparr>)
         else ((Ok (), r), self))"
  by (auto simp: SessionActor_handle_incoming_frame_def Let_def control_flag_tests fun_upd_idem
      split: sum.split)

lemma incoming_response:
  "sa_streams self (frame_stream f) = None \<Longrightarrow> hdr_flags (fr_header f) = FrameFlags_open_response \<Longrightarrow>
   SessionActor_handle_incoming_frame env ch self f =
     (let i = frame_stream f; st = LogicalStream_new (sa_session_id self) i Established
      in case sa_pending_streams self i of
           Some p \<Rightarrow> ((Ok (), if env_oneshot env p then [Resolved p (Ok (st, ch))] else []),
                      self\<lparr>sa_pending_streams := (sa_pending_streams self)(i := None),
                           sa_streams := (sa_streams self)(i \<mapsto> ch)\<rparr>)
         | None \<Rightarrow> ((Ok (), []), self))"
  by (simp add: SessionActor_handle_incoming_frame_def Let_def control_flag_tests flag_set_values
      split: option.split)

lemma incoming_other:
  assumes "sa_streams self (frame_stream f) = None"
    and "hdr_flags (fr_header f) \<noteq> FrameFlags_open_request"
    and "hdr_flags (fr_header f) \<noteq> FrameFlags_open_response"
  shows "sa_streams (snd (SessionActor_handle_incoming_frame env ch self f)) = sa_streams self"
    and "frames_to c (snd (fst (SessionActor_handle_incoming_frame env ch self f))) = []"
    and "wire_frames (snd (fst (SessionActor_handle_incoming_frame env ch self f))) = []"
  using assms
  by (simp_all add: SessionActor_handle_incoming_frame_def Let_def control_flag_tests split: option.split)

lemmas incoming_branches = incoming_known incoming_request incoming_response

lemma handle_incoming_keeps:
  assumes "registered i c self" and "ch \<noteq> c" and "env_chan env c = (\<lambda>_. True)"
    and "SessionActor_handle_incoming_frame env ch self f = ((r, es), self')"
  shows "registered i c self' \<and> frames_to c es = filter (\<lambda>f. frame_stream f = i) [f]"
proof (cases "sa_streams self (frame_stream f)")
  case (Some d)
  with assms show ?thesis
    by (cases "d = c") (auto simp: incoming_known registered_def split: if_splits)
next
  case None
  then have ne: "frame_stream f \<noteq> i" using assms(1) by (auto simp: registered_def)
  consider "hdr_flags (fr_header f) = FrameFlags_open_request"
    | "hdr_flags (fr_header f) = FrameFlags_open_response"
    | "hdr_flags (fr_header f) \<noteq> FrameFlags_open_request" "hdr_flags (fr_header f) \<noteq> FrameFlags_open_response"
    by blast
  then show ?thesis
  proof cases
    case 1
    with assms None ne show ?thesis
      by (auto simp: incoming_request registered_def Let_def split: if_splits)
  next
    case 2
    with assms None ne show ?thesis
      by (auto simp: incoming_response registered_def Let_def split: if_splits option.splits)
  next
    case 3
    show ?thesis
      using assms(1,4) ne incoming_other(1) [OF None 3, of env ch]
        incoming_other(2) [OF None 3, of c env ch] by (simp add: registered_def)
  qed
qed

lemma run_step_keeps:
  assumes "registered i c self" and "keeps i c (env, ch, ev)"
    and "SessionActor_run_step env ch self ev = ((b, es), self')"
  shows "registered i c self' \<and> frames_to c es = filter (\<lambda>f. frame_stream f = i) (frame_read ev)"
proof (cases ev)
  case Cancelled
  with assms show ?thesis by (auto simp: registered_def)
next
  case (FrameRead r)
  show ?thesis
  proof (cases r)
    case (Inr f)
    obtain q where "SessionActor_handle_incoming_frame env ch self f = ((q, es), self')"
      using assms(3) FrameRead Inr by (auto split: prod.splits)
    with assms(1,2) FrameRead Inr handle_incoming_keeps [of i c self ch env f q es self']
    show ?thesis by (simp add: keeps_def)
  qed (use assms FrameRead in \<open>auto simp: registered_def\<close>)
next
  case (ControlCmd cmd)
  with assms show ?thesis
    by (cases cmd) (auto simp: handle_open_stream handle_shutdown Let_def
        registered_def split: if_splits sum.splits)
next
  case (StreamEv event)
  with assms show ?thesis
    by (cases event) (auto simp: SessionActor_handle_stream_event_def registered_def keeps_def
        split: sum.splits if_splits)
qed

lemma open_frames_control [simp]:
  "is_open_control (open_request_frame i)" "is_open_control (open_response_frame i)"
  by (simp_all add: is_open_control_def open_request_frame_def open_response_frame_def builder_defs
      control_flag_tests)

lemma incoming_wire_control:
  "filter (\<lambda>f. \<not> is_open_control f)
     (wire_frames (snd (fst (SessionActor_handle_incoming_frame env ch self f)))) = []"
  by (simp add: SessionActor_handle_incoming_frame_def Let_def split: option.split sum.split)

lemma run_step_wire:
  assumes "steady (env, ch, ev)" and "SessionActor_run_step env ch self ev = ((b, es), self')"
  shows "filter (\<lambda>f. \<not> is_open_control f) (wire_frames es) =
    filter (\<lambda>f. \<not> is_open_control f) (frame_emitted ev)"
proof (cases ev)
  case (FrameRead r)
  with assms show ?thesis
    by (cases r) (auto simp: incoming_wire_control case_prod_beta)
next
  case (ControlCmd cmd)
  with assms show ?thesis
    by (cases cmd) (auto simp: handle_open_stream handle_shutdown Let_def
        split: if_splits sum.splits)
next
  case (StreamEv event)
  with assms show ?thesis
    by (cases event) (auto simp: SessionActor_handle_stream_event_def steady_def)
qed (use assms in auto)

lemma run_demux:
  assumes "registered i c self" and "list_all (keeps i c) evs" and "list_all steady evs"
    and "SessionActor_run evs self = ((ended, es), self')"
  shows "\<not> ended \<and> registered i c self' \<and>
    frames_to c es = filter (\<lambda>f. frame_stream f = i) (frames_read evs)"
  using assms
proof (induction evs arbitrary: self es)
  case (Cons t evs)
  obtain env ch ev where t: "t = (env, ch, ev)" by (cases t)
  obtain es1 self1 where s: "SessionActor_run_step env ch self ev = ((True, es1), self1)"
    using Cons.prems t steady_run_step by force
  obtain ended2 es2 self2 where r: "SessionActor_run evs self1 = ((ended2, es2), self2)"
    by (metis prod.exhaust)
  have 1: "registered i c self1 \<and> frames_to c es1 = filter (\<lambda>f. frame_stream f = i) (frame_read ev)"
    using run_step_keeps [OF Cons.prems(1) _ s] Cons.prems(2) t by simp
  have e: "ended = ended2" "es = es1 @ es2" "self' = self2"
    using Cons.prems(4) by (simp_all add: t s r)
  have "\<not> ended2 \<and> registered i c self2 \<and>
      frames_to c es2 = filter (\<lambda>f. frame_stream f = i) (frames_read evs)"
    using Cons.IH [of self1 es2] 1 Cons.prems(2,3) r e by simp
  with 1 show ?case by (simp add: e t)
qed simp

lemma run_mux:
  assumes "list_all steady evs" and "SessionActor_run evs self = ((ended, es), self')"
  shows "\<not> ended \<and> filter (\<lambda>f. \<not> is_open_control f) (wire_frames es) =
    filter (\<lambda>f. \<not> is_open_control f) (frames_emitted evs)"
  using assms
proof (induction evs arbitrary: self es)
  case (Cons t evs)
  obtain env ch ev where t: "t = (env, ch, ev)" by (cases t)
  obtain es1 self1 where s: "SessionActor_run_step env ch self ev = ((True, es1), self1)"
    using Cons.prems t steady_run_step by force
  obtain ended2 es2 self2 where r: "SessionActor_run evs self1 = ((ended2, es2), self2)"
    by (metis prod.exhaust)
  have e: "ended = ended2" "es = es1 @ es2" "self' = self2"
    using Cons.prems(2) by (simp_all add: t s r)
  have "filter (\<lambda>f. \<not> is_open_control f) (wire_frames es1) =
      filter (\<lambda>f. \<not> is_open_control f) (frame_emitted ev)"
    using run_step_wire [OF _ s] Cons.prems(1) t by simp
  with Cons.IH [of self1 es2] Cons.prems(1) r e show ?case by (simp add: t)
qed simp


lemma incoming_local_closed:
  "SessionActor_handle_incoming_frame env ch (self\<lparr>sa_local_closed := b\<rparr>) f =
     (let (x, s) = SessionActor_handle_incoming_frame env ch self f in (x, s\<lparr>sa_local_closed := b\<rparr>))"
  by (simp add: SessionActor_handle_incoming_frame_def Let_def split: option.split)

lemma run_local_closed:
  "fst (SessionActor_run evs (self\<lparr>sa_local_closed := b\<rparr>)) = fst (SessionActor_run evs self)"
proof (induction evs arbitrary: self b)
  case (Cons t evs)
  obtain env ch ev where t: "t = (env, ch, ev)" by (cases t)
  obtain b' where "SessionActor_run_step env ch (self\<lparr>sa_local_closed := b\<rparr>) ev =
      (let (x, s) = SessionActor_run_step env ch self ev in (x, s\<lparr>sa_local_closed := b'\<rparr>))"
  proof (cases ev)
    case (ControlCmd cmd)
    then show ?thesis
      by (cases cmd) (rule that [of b], simp add: handle_open_stream Let_def split: sum.split,
          rule that [of True], simp add: handle_shutdown)
  next
    case (FrameRead r)
    then show ?thesis
      by (cases r) (rule that [of b], simp, rule that [of b], simp add: incoming_local_closed case_prod_beta)
  next
    case (StreamEv e)
    then show ?thesis
      by (intro that [of b])
        (simp add: SessionActor_handle_stream_event_def split: StreamEvent.split sum.split)
  qed (rule that [of b], simp)
  with Cons.IH show ?case
    by (simp add: t case_prod_beta Let_def SessionActor_shutdown_def)
qed simp

definition env_all :: senv where
  "env_all = \<lparr> env_wire = (\<lambda>_. Ok ()), env_close = Ok (), env_chan = (\<lambda>_ _. True),
     env_accept = (\<lambda>_. True), env_oneshot = (\<lambda>_. True), env_dbg = (\<lambda>_. []) \<rparr>"

lemma env_all_simps [simp]:
  "env_wire env_all = (\<lambda>_. Ok ())" "env_close env_all = Ok ()" "env_chan env_all = (\<lambda>_ _. True)"
  "env_accept env_all = (\<lambda>_. True)" "env_oneshot env_all = (\<lambda>_. True)"
  by (simp_all add: env_all_def)


section \<open>Properties\<close>

text \<open>C17. The actor's loop ends exactly when some turn is a cancellation, a read error, or a write
  of an open request or of a stream's frame that the connection refuses; no incoming
  frame, no shutdown command and no end of the incoming stream ends it. Once it has ended no
  stream is registered.\<close>

theorem actor_loop_ends:
  "(fst (fst (SessionActor_run evs self)) \<longleftrightarrow>
     (\<exists>xs env ch ev ys. evs = xs @ (env, ch, ev) # ys \<and> \<not> fst (fst (SessionActor_run xs self)) \<and>
        breaks env (snd (SessionActor_run xs self)) ev)) \<and>
   (fst (fst (SessionActor_run evs self)) \<longrightarrow> sa_streams (snd (SessionActor_run evs self)) = Map.empty)"
  by (intro conjI impI run_ended_iff run_ended_streams)

definition demo_frame_on :: "u32 \<Rightarrow> u8 \<Rightarrow> Frame" where
  "demo_frame_on i b = FrameBuilder_build (FrameBuilder_with_payload [b]
     (FrameBuilder_with_frame_type Data (FrameBuilder_with_stream_id (StreamId i) FrameBuilder_new)))"

lemma demo_frame_on_simps [simp]:
  "hdr_stream_id (fr_header (demo_frame_on i b)) = StreamId i"
  "fr_payload (demo_frame_on i b) = [b]"
  "is_open_control (demo_frame_on i b) \<longleftrightarrow> False"
  by (simp_all add: demo_frame_on_def builder_defs is_open_control_def control_flag_tests flag_set_values flag_consts)

definition demo_actor :: SessionActor where
  "demo_actor = (snd (Session_new_server (SessionId 1) :: nat Session \<times> SessionActor))
     \<lparr>sa_streams := [StreamId 1 \<mapsto> 10, StreamId 3 \<mapsto> 11]\<rparr>"

definition demo_turns :: "turn list" where
  "demo_turns = [(env_all, 20, FrameRead (Ok (demo_frame_on 1 7))),
     (env_all, 21, StreamEv (EvFrame (demo_frame_on 3 1))),
     (env_all, 22, FrameRead (Ok (demo_frame_on 3 8))),
     (env_all, 23, FrameRead (Ok (demo_frame_on 1 9)))]"

lemma demo_turns_ok: "list_all (keeps (StreamId 1) 10) demo_turns" "list_all steady demo_turns"
    "registered (StreamId 1) 10 demo_actor"
  by (simp_all add: demo_turns_def keeps_def steady_def registered_def demo_actor_def)

theorem actor_loop_ends_witness:
  "fst (fst (SessionActor_run [(env_all, 0, Cancelled)] demo_actor)) \<and>
   sa_streams (snd (SessionActor_run [(env_all, 0, Cancelled)] demo_actor)) = Map.empty"
proof -
  have "fst (fst (SessionActor_run [(env_all, 0, Cancelled)] demo_actor))"
    by (simp add: SessionActor_shutdown_def Let_def)
  with actor_loop_ends [of "[(env_all, 0, Cancelled)]" demo_actor] show ?thesis by blast
qed

text \<open>C5. Demultiplexing: over any run in which stream \<open>i\<close> keeps its channel (its receiver is
  alive, the stream is not closed, the loop goes on), exactly the frames of stream \<open>i\<close> that are read
  from the connection reach that channel, each once and in the order they were read, whatever
  frames of other streams, opens, closes and outgoing traffic come between.\<close>

theorem actor_demultiplexes:
  assumes "registered i c self" and "list_all (keeps i c) evs" and "list_all steady evs"
  shows "frames_to c (snd (fst (SessionActor_run evs self))) =
     filter (\<lambda>f. frame_stream f = i) (frames_read evs)"
  using run_demux [OF assms] by (metis prod.collapse)

theorem actor_demultiplexes_witness:
  "frames_to 10 (snd (fst (SessionActor_run demo_turns demo_actor))) =
     [demo_frame_on 1 7, demo_frame_on 1 9]"
  using actor_demultiplexes [OF demo_turns_ok(3,1,2)] by (simp add: demo_turns_def)

text \<open>C6. Multiplexing: over any run in which the connection takes what is written, what the actor
  writes is exactly what the streams emitted, in that order, plus its own open requests and
  open responses.\<close>

theorem actor_multiplexes:
  assumes "list_all steady evs"
  shows "filter (\<lambda>f. \<not> is_open_control f) (wire_frames (snd (fst (SessionActor_run evs self)))) =
     filter (\<lambda>f. \<not> is_open_control f) (frames_emitted evs)"
  using run_mux [OF assms] by (metis prod.collapse)

theorem actor_multiplexes_witness:
  "filter (\<lambda>f. \<not> is_open_control f) (wire_frames (snd (fst (SessionActor_run demo_turns demo_actor)))) =
     [demo_frame_on 3 1]"
  using actor_multiplexes [OF demo_turns_ok(2)] by (simp add: demo_turns_def)

text \<open>An incoming frame is handled without error and touches only its own stream: the tables
  of every other stream, the stream counter and the flags of the session are as before,
  and a frame of an unknown stream that opens nothing is answered with nothing.\<close>

theorem incoming_frame_isolated:
  assumes "SessionActor_handle_incoming_frame env ch self f = ((r, es), self')"
  shows "r = Ok () \<and>
    (\<forall>j. j \<noteq> frame_stream f \<longrightarrow> sa_streams self' j = sa_streams self j \<and>
       sa_pending_streams self' j = sa_pending_streams self j) \<and>
    sa_next_stream_id self' = sa_next_stream_id self \<and> sa_local_closed self' = sa_local_closed self \<and>
    sa_remote_closed self' = sa_remote_closed self \<and>
    (sa_streams self (frame_stream f) = None \<and> sa_pending_streams self (frame_stream f) = None \<and>
       \<not> FrameFlags_is_open_request (hdr_flags (fr_header f)) \<longrightarrow> es = [] \<and> self' = self)"
  using assms
  by (auto simp: SessionActor_handle_incoming_frame_def Let_def split: option.splits if_splits)

theorem incoming_frame_isolated_witness:
  "\<exists>es self'. SessionActor_handle_incoming_frame env_all 5 demo_actor (demo_frame_on 9 0) = ((Ok (), es), self') \<and>
     sa_streams self' (StreamId 1) = Some 10 \<and> es = [] \<and> self' = demo_actor"
proof -
  obtain r es self' where h: "SessionActor_handle_incoming_frame env_all 5 demo_actor (demo_frame_on 9 0) = ((r, es), self')"
    by (metis prod.exhaust)
  have "sa_streams demo_actor (StreamId 1) = Some 10" "sa_streams demo_actor (StreamId 9) = None"
    "sa_pending_streams demo_actor (StreamId 9) = None"
    "\<not> FrameFlags_is_open_request (hdr_flags (fr_header (demo_frame_on 9 0)))"
    using demo_frame_on_simps(3) [of 9 0]
    by (auto simp: demo_actor_def Session_new_server_def Session_spawn_def Let_def is_open_control_def)
  with h incoming_frame_isolated [OF h] show ?thesis by simp
qed

text \<open>The flag \<^verbatim>\<open>local_closed\<close>, documented to stop the session from accepting streams, is never
  read: an actor with the flag set does exactly what it does without it, for every sequence of
  events, new incoming streams and local opens included.\<close>

theorem local_closed_unused:
  "fst (SessionActor_run evs (self\<lparr>sa_local_closed := b\<rparr>)) = fst (SessionActor_run evs self)"
  by (rule run_local_closed)

end
