(* ===== verification/SessionPair.thy ===== *)
theory SessionPair
  imports Session
begin

text \<open>
  Two session actors connected to each other: how the handlers of
  \<^verbatim>\<open>foctet-mux/src/session.rs\<close> work together across a connection. An \<open>endpoint\<close> is an actor with
  the frames on their way to it and what its user got so far. The connection delivers
  frames in order; that the bytes between two framed connections do so is proved of the
  frame codec. All channels accept.
\<close>

section \<open>Endpoints\<close>

record endpoint =
  ep_actor :: SessionActor
  ep_fresh :: nat
  ep_in :: "Frame list"
  ep_calls :: "(nat \<times> nat) list"
  ep_results :: "nat \<rightharpoonup> opened result"
  ep_accepted :: "opened list"

definition endpoint_new :: "SessionSide \<Rightarrow> SessionId \<Rightarrow> endpoint" where
  "endpoint_new side sid =
     \<lparr> ep_actor = snd (Session_spawn side sid (None :: nat option) None), ep_fresh = 0, ep_in = [],
       ep_calls = [], ep_results = Map.empty, ep_accepted = [] \<rparr>"

fun note_effect :: "sa_effect \<Rightarrow> endpoint \<Rightarrow> endpoint" where
  "note_effect (Resolved n r) e = e\<lparr>ep_results := (ep_results e)(n \<mapsto> r)\<rparr>"
| "note_effect (Spawned n m) e = e\<lparr>ep_calls := ep_calls e @ [(n, m)]\<rparr>"
| "note_effect (Accepted x) e = e\<lparr>ep_accepted := ep_accepted e @ [x]\<rparr>"
| "note_effect _ e = e"

text \<open>One turn of an endpoint's actor: the endpoint afterwards and the frames it wrote.\<close>

definition endpoint_turn :: "run_event \<Rightarrow> endpoint \<Rightarrow> endpoint \<times> Frame list" where
  "endpoint_turn ev e =
     (let ((continue, es), actor) = SessionActor_run_step env_all (ep_fresh e) (ep_actor e) ev
      in (fold note_effect es (e\<lparr>ep_actor := actor, ep_fresh := Suc (ep_fresh e)\<rparr>), wire_frames es))"

type_synonym pair = "endpoint \<times> endpoint"

text \<open>What can happen on one side: an arriving frame is read, the user opens a stream, a
  stream emits an event.\<close>

datatype action = Deliver | Open nat | Emit StreamEvent

fun act :: "action \<Rightarrow> pair \<Rightarrow> pair option" where
  "act Deliver (a, b) =
     (case ep_in a of
        [] \<Rightarrow> None
      | f # fs \<Rightarrow> (let (a', out) = endpoint_turn (FrameRead (Ok f)) (a\<lparr>ep_in := fs\<rparr>)
                 in Some (a', b\<lparr>ep_in := ep_in b @ out\<rparr>)))"
| "act (Open reply) (a, b) =
     (let (a', out) = endpoint_turn (ControlCmd (OpenStream reply)) a
      in Some (a', b\<lparr>ep_in := ep_in b @ out\<rparr>))"
| "act (Emit ev) (a, b) =
     (let (a', out) = endpoint_turn (StreamEv ev) a
      in Some (a', b\<lparr>ep_in := ep_in b @ out\<rparr>))"

definition act_on :: "SessionSide \<Rightarrow> action \<Rightarrow> pair \<Rightarrow> pair option" where
  "act_on side x p =
     (case side of Client \<Rightarrow> act x p | Server \<Rightarrow> map_option prod.swap (act x (prod.swap p)))"

fun run_actions :: "(SessionSide \<times> action) list \<Rightarrow> pair \<Rightarrow> pair option" where
  "run_actions [] p = Some p"
| "run_actions ((side, x) # xs) p = Option.bind (act_on side x p) (run_actions xs)"

definition pair_new :: pair where
  "pair_new = (endpoint_new Client (SessionId 1), endpoint_new Server (SessionId 1))"

definition waiting :: "endpoint \<Rightarrow> StreamId set" where
  "waiting e = dom (sa_pending_streams (ep_actor e))"


section \<open>Turns\<close>

abbreviation ep_streams :: "endpoint \<Rightarrow> StreamId \<rightharpoonup> nat" where
  "ep_streams e \<equiv> sa_streams (ep_actor e)"

abbreviation ep_pending :: "endpoint \<Rightarrow> StreamId \<rightharpoonup> nat" where
  "ep_pending e \<equiv> sa_pending_streams (ep_actor e)"

abbreviation ep_next :: "endpoint \<Rightarrow> StreamId" where
  "ep_next e \<equiv> sa_next_stream_id (ep_actor e)"

abbreviation frame_flags :: "Frame \<Rightarrow> FrameFlags" where
  "frame_flags f \<equiv> hdr_flags (fr_header f)"

definition is_data :: "Frame \<Rightarrow> bool" where
  "is_data f \<longleftrightarrow> frame_flags f \<notin> {FrameFlags_open_request, FrameFlags_open_response, FrameFlags_open_reset}"

lemma turn_open:
  "endpoint_turn (ControlCmd (OpenStream reply)) e =
     (e\<lparr>ep_actor := (ep_actor e)
           \<lparr>sa_next_stream_id := snd (StreamId_fetch_add (ep_next e) 1),
            sa_pending_streams := (ep_pending e)(ep_next e \<mapsto> ep_fresh e)\<rparr>,
        ep_fresh := Suc (ep_fresh e), ep_calls := ep_calls e @ [(ep_fresh e, reply)]\<rparr>,
      [open_request_frame (ep_next e)])"
  by (simp add: endpoint_turn_def handle_open_stream Let_def)

lemma turn_request:
  "ep_streams e (frame_stream f) = None \<Longrightarrow> frame_flags f = FrameFlags_open_request \<Longrightarrow>
   endpoint_turn (FrameRead (Ok f)) e =
     (e\<lparr>ep_actor := (ep_actor e)\<lparr>sa_streams := (ep_streams e)(frame_stream f \<mapsto> ep_fresh e)\<rparr>,
        ep_fresh := Suc (ep_fresh e),
        ep_accepted := ep_accepted e @
          [(LogicalStream_new (sa_session_id (ep_actor e)) (frame_stream f) Established, ep_fresh e)]\<rparr>,
      [open_response_frame (frame_stream f)])"
  by (simp add: endpoint_turn_def incoming_request Let_def)

lemma turn_response:
  "ep_streams e (frame_stream f) = None \<Longrightarrow> frame_flags f = FrameFlags_open_response \<Longrightarrow>
   ep_pending e (frame_stream f) = Some n \<Longrightarrow>
   endpoint_turn (FrameRead (Ok f)) e =
     (e\<lparr>ep_actor := (ep_actor e)
           \<lparr>sa_pending_streams := (ep_pending e)(frame_stream f := None),
            sa_streams := (ep_streams e)(frame_stream f \<mapsto> ep_fresh e)\<rparr>,
        ep_fresh := Suc (ep_fresh e),
        ep_results := (ep_results e)(n \<mapsto>
          Ok (LogicalStream_new (sa_session_id (ep_actor e)) (frame_stream f) Established, ep_fresh e))\<rparr>, [])"
  by (simp add: endpoint_turn_def incoming_response Let_def)

lemma turn_known:
  "ep_streams e (frame_stream f) = Some c \<Longrightarrow>
   endpoint_turn (FrameRead (Ok f)) e = (e\<lparr>ep_fresh := Suc (ep_fresh e)\<rparr>, [])"
  by (simp add: endpoint_turn_def incoming_known)

lemma turn_data:
  assumes "is_data f"
  shows "endpoint_turn (FrameRead (Ok f)) e = (e\<lparr>ep_fresh := Suc (ep_fresh e)\<rparr>, [])"
proof (cases "ep_streams e (frame_stream f)")
  case None
  with assms have "SessionActor_handle_incoming_frame env_all (ep_fresh e) (ep_actor e) f = ((Ok (), []), ep_actor e)"
    by (simp add: SessionActor_handle_incoming_frame_def control_flag_tests is_data_def)
  then show ?thesis by (simp add: endpoint_turn_def)
qed (rule turn_known)

lemma turn_emit:
  "endpoint_turn (StreamEv (EvFrame f)) e = (e\<lparr>ep_fresh := Suc (ep_fresh e)\<rparr>, [f])"
  "endpoint_turn (StreamEv (EvClosed i)) e =
     (e\<lparr>ep_actor := (ep_actor e)\<lparr>sa_streams := (ep_streams e)(i := None)\<rparr>,
        ep_fresh := Suc (ep_fresh e)\<rparr>, [])"
  "endpoint_turn (StreamEv EvError) e = (e\<lparr>ep_fresh := Suc (ep_fresh e)\<rparr>, [])"
  by (simp_all add: endpoint_turn_def SessionActor_handle_stream_event_def)

lemmas turns = turn_open turn_request turn_response turn_known turn_data turn_emit

lemma open_frames [simp]:
  "frame_stream (open_request_frame i) = i" "frame_stream (open_response_frame i) = i"
  "frame_flags (open_request_frame i) = FrameFlags_open_request"
  "frame_flags (open_response_frame i) = FrameFlags_open_response"
  by (simp_all add: open_request_frame_def open_response_frame_def builder_defs)

lemma open_flags_distinct [simp]:
  "FrameFlags_open_request \<noteq> FrameFlags_open_response" "FrameFlags_open_response \<noteq> FrameFlags_open_request"
  "FrameFlags_open_request \<noteq> FrameFlags_open_reset" "FrameFlags_open_response \<noteq> FrameFlags_open_reset"
  by (simp_all add: flag_set_values)


section \<open>One side opens\<close>

text \<open>Every behaviour of the pair in which only the client opens streams, before its counter
  overflows; streams emit anything but the frames of the open handshake.\<close>

inductive client_step :: "pair \<Rightarrow> pair \<Rightarrow> bool" where
  opens: "unat (StreamId_id (ep_next (fst p))) + 1 < 2 ^ 32 \<Longrightarrow> act_on Client (Open reply) p = Some q \<Longrightarrow>
     client_step p q"
| delivers: "act_on side Deliver p = Some q \<Longrightarrow> client_step p q"
| emits: "(\<And>f. ev = EvFrame f \<Longrightarrow> is_data f) \<Longrightarrow> act_on side (Emit ev) p = Some q \<Longrightarrow> client_step p q"

inductive_cases client_stepE: "client_step p q"

definition req_ids :: "Frame list \<Rightarrow> StreamId list" where
  "req_ids fs = map (\<lambda>f. frame_stream f) (filter (\<lambda>f. frame_flags f = FrameFlags_open_request) fs)"

definition resp_ids :: "Frame list \<Rightarrow> StreamId list" where
  "resp_ids fs = map (\<lambda>f. frame_stream f) (filter (\<lambda>f. frame_flags f = FrameFlags_open_response) fs)"

lemma ids_simps [simp]:
  "req_ids [] = []" "req_ids (fs @ gs) = req_ids fs @ req_ids gs"
  "frame_flags f = FrameFlags_open_request \<Longrightarrow> req_ids (f # fs) = frame_stream f # req_ids fs"
  "frame_flags f \<noteq> FrameFlags_open_request \<Longrightarrow> req_ids (f # fs) = req_ids fs"
  "resp_ids [] = []" "resp_ids (fs @ gs) = resp_ids fs @ resp_ids gs"
  "frame_flags f = FrameFlags_open_response \<Longrightarrow> resp_ids (f # fs) = frame_stream f # resp_ids fs"
  "frame_flags f \<noteq> FrameFlags_open_response \<Longrightarrow> resp_ids (f # fs) = resp_ids fs"
  by (simp_all add: req_ids_def resp_ids_def)

abbreviation id_of :: "StreamId \<Rightarrow> nat" where
  "id_of i \<equiv> unat (StreamId_id i)"

definition accepted_ids :: "endpoint \<Rightarrow> StreamId set" where
  "accepted_ids e = (\<lambda>x. ls_stream_id (fst x)) ` set (ep_accepted e)"

text \<open>A call of \<^verbatim>\<open>open_stream\<close> has been answered with an established stream that the peer accepted.\<close>

definition answered :: "endpoint \<Rightarrow> endpoint \<Rightarrow> nat \<Rightarrow> bool" where
  "answered a b n \<longleftrightarrow> (\<exists>st ch. ep_results a n = Some (Ok (st, ch)) \<and> ls_state st = Established \<and>
     ls_stream_id st \<in> accepted_ids b)"

text \<open>The invariant. In flight, requests to the server and responses to the client name exactly
  the streams the client waits for, each once; none of them is registered yet where it would
  be handled; every call is waiting or answered.\<close>

definition link_inv :: "Frame list \<Rightarrow> Frame list \<Rightarrow> StreamId set \<Rightarrow> bool" where
  "link_inv to_client to_server w \<longleftrightarrow>
     distinct (req_ids to_server @ resp_ids to_client) \<and>
     set (req_ids to_server) \<union> set (resp_ids to_client) = w \<and>
     (\<forall>f \<in> set to_client. frame_flags f \<noteq> FrameFlags_open_request \<and> frame_flags f \<noteq> FrameFlags_open_reset) \<and>
     (\<forall>f \<in> set to_server. frame_flags f \<noteq> FrameFlags_open_response \<and> frame_flags f \<noteq> FrameFlags_open_reset)"

definition table_inv :: "endpoint \<Rightarrow> endpoint \<Rightarrow> bool" where
  "table_inv a b \<longleftrightarrow> waiting b = {} \<and> waiting a \<inter> dom (ep_streams a) = {} \<and>
     set (req_ids (ep_in b)) \<inter> dom (ep_streams b) = {} \<and>
     (\<forall>i \<in> waiting a \<union> dom (ep_streams a) \<union> dom (ep_streams b). id_of i < id_of (ep_next a))"

definition call_inv :: "endpoint \<Rightarrow> endpoint \<Rightarrow> bool" where
  "call_inv a b \<longleftrightarrow> set (resp_ids (ep_in a)) \<subseteq> accepted_ids b \<and>
     (\<forall>(n, m) \<in> set (ep_calls a). n \<in> ran (ep_pending a) \<or> answered a b n)"

definition client_inv :: "pair \<Rightarrow> bool" where
  "client_inv p \<longleftrightarrow> (case p of (a, b) \<Rightarrow>
     link_inv (ep_in a) (ep_in b) (waiting a) \<and> table_inv a b \<and> call_inv a b)"

lemmas client_inv_defs = client_inv_def link_inv_def table_inv_def call_inv_def waiting_def

lemma inv_open:
  assumes "client_inv (a, b)" and "id_of (ep_next a) + 1 < 2 ^ 32" and "act (Open r) (a, b) = Some q"
  shows "client_inv q"
proof -
  let ?i = "ep_next a"
  have nx: "id_of (snd (StreamId_fetch_add ?i 1)) = id_of ?i + 1"
    using assms(2) by (cases ?i) (simp add: StreamId_fetch_add_simp unat_plus_small)
  have new: "?i \<notin> dom (ep_pending a)" "?i \<notin> dom (ep_streams a)" "?i \<notin> dom (ep_streams b)"
    using assms(1) by (auto simp: client_inv_defs)
  have q: "q = (fst (endpoint_turn (ControlCmd (OpenStream r)) a), b\<lparr>ep_in := ep_in b @ [open_request_frame ?i]\<rparr>)"
    using assms(3) by (simp add: turn_open)
  have link: "link_inv (ep_in a) (ep_in b @ [open_request_frame ?i]) (insert ?i (waiting a))"
    using assms(1) new by (auto simp: client_inv_def link_inv_def waiting_def)
  have table: "table_inv (fst q) (snd q)"
    using assms(1) new nx by (auto simp: q turn_open client_inv_defs less_Suc_eq)
  have "ran (ep_pending a) \<subseteq> ran ((ep_pending a)(?i \<mapsto> ep_fresh a))"
    using new(1) by (auto simp: ran_def) (metis option.distinct(1))
  moreover have "ep_fresh a \<in> ran ((ep_pending a)(?i \<mapsto> ep_fresh a))" by (auto simp: ran_def)
  ultimately have "call_inv (fst q) (snd q)"
    using assms(1) by (auto simp: q turn_open client_inv_def call_inv_def answered_def accepted_ids_def)
  with link table show ?thesis by (simp add: q turn_open client_inv_def waiting_def)
qed

lemma inv_deliver_client:
  assumes "client_inv (a, b)" and "act Deliver (a, b) = Some q"
  shows "client_inv q"
proof -
  obtain f fs where f: "ep_in a = f # fs" using assms(2) by (cases "ep_in a") auto
  show ?thesis
  proof (cases "frame_flags f = FrameFlags_open_response")
    case False
    with f assms(1) have "is_data f" by (auto simp: client_inv_defs is_data_def)
    with assms f have "q = (a\<lparr>ep_in := fs, ep_fresh := Suc (ep_fresh a)\<rparr>, b)" by (simp add: turn_data)
    with assms(1) f False show ?thesis
      by (auto simp: client_inv_defs answered_def split: prod.splits)
  next
    case True
    let ?i = "frame_stream f"
    have "?i \<in> dom (ep_pending a)" using assms(1) f True by (auto simp: client_inv_defs)
    then obtain n where n: "ep_pending a ?i = Some n" by blast
    have s: "ep_streams a ?i = None" using assms(1) n by (auto simp: client_inv_defs)
    let ?st = "(LogicalStream_new (sa_session_id (ep_actor a)) ?i Established, ep_fresh a)"
    let ?a = "a\<lparr>ep_in := fs, ep_actor := (ep_actor a)
           \<lparr>sa_pending_streams := (ep_pending a)(?i := None), sa_streams := (ep_streams a)(?i \<mapsto> ep_fresh a)\<rparr>,
        ep_fresh := Suc (ep_fresh a), ep_results := (ep_results a)(n \<mapsto> Ok ?st)\<rparr>"
    have q: "q = (?a, b)" using assms(2) f True n s by (simp add: turn_response)
    have link: "link_inv fs (ep_in b) (waiting a - {?i})"
      using assms(1) f True by (auto simp: client_inv_defs)
    have table: "table_inv ?a b" using assms(1) n by (auto simp: client_inv_defs)
    have "answered ?a b n"
      using assms(1) f True by (auto simp: client_inv_defs answered_def LogicalStream_new_def)
    moreover have "\<And>m. answered a b m \<Longrightarrow> answered ?a b m \<or> m = n" by (simp add: answered_def)
    moreover have "\<And>m. m \<in> ran (ep_pending a) \<Longrightarrow> m \<in> ran (ep_pending ?a) \<or> m = n"
      using n by (auto simp: ran_def) (metis option.inject)
    ultimately have "call_inv ?a b"
      using assms(1) f True unfolding client_inv_def call_inv_def by fastforce
    with link table show ?thesis by (simp add: q client_inv_def waiting_def)
  qed
qed

lemma inv_deliver_server:
  assumes "client_inv (a, b)" and "act Deliver (b, a) = Some (b', a')"
  shows "client_inv (a', b')"
proof -
  obtain f fs where f: "ep_in b = f # fs" using assms(2) by (cases "ep_in b") auto
  show ?thesis
  proof (cases "frame_flags f = FrameFlags_open_request")
    case False
    with f assms(1) have "is_data f" by (auto simp: client_inv_defs is_data_def)
    with assms f have "b' = b\<lparr>ep_in := fs, ep_fresh := Suc (ep_fresh b)\<rparr>" "a' = a" by (simp_all add: turn_data)
    with assms(1) f False show ?thesis
      by (auto simp: client_inv_defs answered_def accepted_ids_def split: prod.splits)
  next
    case True
    let ?i = "frame_stream f"
    have s: "ep_streams b ?i = None" using assms(1) f True by (auto simp: client_inv_defs)
    let ?b = "b\<lparr>ep_in := fs, ep_actor := (ep_actor b)\<lparr>sa_streams := (ep_streams b)(?i \<mapsto> ep_fresh b)\<rparr>,
        ep_fresh := Suc (ep_fresh b),
        ep_accepted := ep_accepted b @
          [(LogicalStream_new (sa_session_id (ep_actor b)) ?i Established, ep_fresh b)]\<rparr>"
    let ?a = "a\<lparr>ep_in := ep_in a @ [open_response_frame ?i]\<rparr>"
    have q: "b' = ?b" "a' = ?a" using assms(2) f True s by (simp_all add: turn_request)
    have link: "link_inv (ep_in ?a) fs (waiting a)"
      using assms(1) f True by (auto simp: client_inv_def link_inv_def)
    have "?i \<in> waiting a" using assms(1) f True by (auto simp: client_inv_def link_inv_def)
    then have "id_of ?i < id_of (ep_next a)" using assms(1) by (auto simp: client_inv_def table_inv_def)
    then have table: "table_inv ?a ?b" using assms(1) f True by (auto simp: client_inv_defs)
    have acc: "accepted_ids ?b = insert ?i (accepted_ids b)"
      by (simp add: accepted_ids_def LogicalStream_new_def)
    have "\<And>m. answered a b m \<Longrightarrow> answered ?a ?b m" by (auto simp: answered_def acc)
    then have "call_inv ?a ?b"
      using assms(1) unfolding client_inv_def call_inv_def acc by fastforce
    with link table show ?thesis by (simp add: q client_inv_def waiting_def)
  qed
qed

text \<open>An emitted event leaves everything but the streams that are closed and the data in flight.\<close>

lemma act_emit:
  assumes "\<And>f. ev = EvFrame f \<Longrightarrow> is_data f" and "act (Emit ev) (a, b) = Some (a', b')"
  shows "\<exists>m out. a' = a\<lparr>ep_actor := (ep_actor a)\<lparr>sa_streams := m\<rparr>, ep_fresh := Suc (ep_fresh a)\<rparr> \<and>
    b' = b\<lparr>ep_in := ep_in b @ out\<rparr> \<and> dom m \<subseteq> dom (ep_streams a) \<and> list_all is_data out"
proof (cases ev)
  case (EvFrame f)
  with assms show ?thesis
    by (intro exI [of _ "ep_streams a"] exI [of _ "[f]"]) (simp add: turn_emit)
next
  case (EvClosed i)
  with assms show ?thesis
    by (intro exI [of _ "(ep_streams a)(i := None)"] exI [of _ "[]"]) (auto simp: turn_emit)
next
  case EvError
  with assms show ?thesis
    by (intro exI [of _ "ep_streams a"] exI [of _ "[]"]) (simp add: turn_emit)
qed

lemma data_ids [simp]: "list_all is_data fs \<Longrightarrow> req_ids fs = [] \<and> resp_ids fs = []"
  by (induction fs) (auto simp: is_data_def)

lemma data_flags:
  "list_all is_data fs \<Longrightarrow> f \<in> set fs \<Longrightarrow> frame_flags f \<noteq> FrameFlags_open_request \<and>
     frame_flags f \<noteq> FrameFlags_open_response \<and> frame_flags f \<noteq> FrameFlags_open_reset"
  by (auto simp: list_all_iff is_data_def)

lemma inv_emit_client:
  assumes "client_inv (a, b)" and "\<And>f. ev = EvFrame f \<Longrightarrow> is_data f" and "act (Emit ev) (a, b) = Some (a', b')"
  shows "client_inv (a', b')"
proof -
  obtain m out where e: "a' = a\<lparr>ep_actor := (ep_actor a)\<lparr>sa_streams := m\<rparr>, ep_fresh := Suc (ep_fresh a)\<rparr>"
    "b' = b\<lparr>ep_in := ep_in b @ out\<rparr>" "dom m \<subseteq> dom (ep_streams a)" "list_all is_data out"
    using act_emit [OF assms(2,3)] by blast
  have "link_inv (ep_in a') (ep_in b') (waiting a')"
    using assms(1) e data_flags [OF e(4)] by (auto simp: client_inv_def link_inv_def waiting_def)
  moreover have "table_inv a' b'"
    using assms(1) e unfolding client_inv_def table_inv_def waiting_def
    by (auto dest!: subsetD [OF e(3) domI])
  moreover have "call_inv a' b'"
    using assms(1) e by (simp add: client_inv_def call_inv_def answered_def accepted_ids_def)
  ultimately show ?thesis by (simp add: client_inv_def)
qed

lemma inv_emit_server:
  assumes "client_inv (a, b)" and "\<And>f. ev = EvFrame f \<Longrightarrow> is_data f" and "act (Emit ev) (b, a) = Some (b', a')"
  shows "client_inv (a', b')"
proof -
  obtain m out where e: "b' = b\<lparr>ep_actor := (ep_actor b)\<lparr>sa_streams := m\<rparr>, ep_fresh := Suc (ep_fresh b)\<rparr>"
    "a' = a\<lparr>ep_in := ep_in a @ out\<rparr>" "dom m \<subseteq> dom (ep_streams b)" "list_all is_data out"
    using act_emit [OF assms(2,3)] by blast
  have "link_inv (ep_in a') (ep_in b') (waiting a')"
    using assms(1) e data_flags [OF e(4)] by (auto simp: client_inv_def link_inv_def waiting_def)
  moreover have "table_inv a' b'"
    using assms(1) e unfolding client_inv_def table_inv_def waiting_def
    by (auto dest!: subsetD [OF e(3) domI])
  moreover have "call_inv a' b'"
    using assms(1) e by (simp add: client_inv_def call_inv_def answered_def accepted_ids_def)
  ultimately show ?thesis by (simp add: client_inv_def)
qed

lemma act_on_simps:
  "act_on Client x p = act x p"
  "act_on Server x p = Some q \<longleftrightarrow> act x (prod.swap p) = Some (prod.swap q)"
  by (simp add: act_on_def) (cases q, force simp: act_on_def)

lemma client_step_inv: "client_inv p \<Longrightarrow> client_step p q \<Longrightarrow> client_inv q"
proof (erule client_stepE, goal_cases)
  case (1 reply)
  then show ?case by (cases p) (auto simp: act_on_simps intro: inv_open)
next
  case (2 side)
  then show ?case
    by (cases p; cases q; cases side)
      (auto simp: act_on_simps simp del: act.simps intro: inv_deliver_client inv_deliver_server)
next
  case (3 ev side)
  then show ?case
    by (cases p; cases q; cases side)
      (auto simp: act_on_simps simp del: act.simps intro: inv_emit_client inv_emit_server)
qed

lemma pair_new_inv: "client_inv pair_new"
  by (simp add: pair_new_def endpoint_new_def Session_spawn_def client_inv_defs)

interpretation client: invariant_system "\<lambda>p. p = pair_new" client_step client_inv
  by unfold_locales (simp add: pair_new_inv, rule client_step_inv)

text \<open>Delivering what is in flight comes to an end, and then nobody waits.\<close>

inductive deliver_step :: "pair \<Rightarrow> pair \<Rightarrow> bool" where
  "act_on side Deliver p = Some q \<Longrightarrow> deliver_step p q"

lemma deliver_client:
  assumes "client_inv (a, b)" and "ep_in a = f # fs"
  shows "\<exists>a'. act Deliver (a, b) = Some (a', b) \<and> ep_in a' = fs \<and> ep_calls a' = ep_calls a"
proof (cases "frame_flags f = FrameFlags_open_response")
  case False
  with assms have "is_data f" by (auto simp: client_inv_defs is_data_def)
  with assms show ?thesis by (simp add: turn_data)
next
  case True
  have "frame_stream f \<in> waiting a" using assms True by (auto simp: client_inv_def link_inv_def)
  then obtain n where n: "ep_pending a (frame_stream f) = Some n" by (auto simp: waiting_def)
  then have "ep_streams a (frame_stream f) = None" using assms(1) by (auto simp: client_inv_defs)
  with True n assms(2) show ?thesis by (simp add: turn_response)
qed

lemma deliver_server:
  assumes "client_inv (a, b)" and "ep_in b = f # fs"
  shows "\<exists>a' b'. act Deliver (b, a) = Some (b', a') \<and> ep_in b' = fs \<and> ep_calls a' = ep_calls a \<and>
    length (ep_in a') \<le> Suc (length (ep_in a))"
proof (cases "frame_flags f = FrameFlags_open_request")
  case False
  with assms have "is_data f" by (auto simp: client_inv_defs is_data_def)
  with assms show ?thesis by (simp add: turn_data)
next
  case True
  then have "ep_streams b (frame_stream f) = None" using assms by (auto simp: client_inv_defs)
  with True assms(2) show ?thesis by (simp add: turn_request)
qed

lemma deliver_all:
  "client_inv (a, b) \<Longrightarrow> \<exists>a' b'. deliver_step\<^sup>*\<^sup>* (a, b) (a', b') \<and> client_inv (a', b') \<and>
     ep_in a' = [] \<and> ep_in b' = [] \<and> ep_calls a' = ep_calls a"
proof (induction "2 * length (ep_in b) + length (ep_in a)" arbitrary: a b rule: less_induct)
  case less
  consider f fs where "ep_in b = f # fs" | f fs where "ep_in b = []" "ep_in a = f # fs"
    | "ep_in b = []" "ep_in a = []" by (cases "ep_in b"; cases "ep_in a") auto
  then show ?case
  proof cases
    case 1
    obtain a' b' where d: "act Deliver (b, a) = Some (b', a')" "ep_in b' = fs" "ep_calls a' = ep_calls a"
      "length (ep_in a') \<le> Suc (length (ep_in a))" using deliver_server [OF less.prems 1] by blast
    then have "act_on Server Deliver (a, b) = Some (a', b')" by (simp add: act_on_simps del: act.simps)
    then have s: "deliver_step (a, b) (a', b')" by (rule deliver_step.intros)
    have "client_inv (a', b')" using less.prems d(1) by (rule inv_deliver_server)
    with less.hyps [of b' a'] d 1 s show ?thesis by (auto intro: converse_rtranclp_into_rtranclp)
  next
    case 2
    obtain a' where d: "act Deliver (a, b) = Some (a', b)" "ep_in a' = fs" "ep_calls a' = ep_calls a"
      using deliver_client [OF less.prems 2(2)] by blast
    then have "act_on Client Deliver (a, b) = Some (a', b)" by (simp add: act_on_simps del: act.simps)
    then have s: "deliver_step (a, b) (a', b)" by (rule deliver_step.intros)
    have "client_inv (a', b)" using less.prems d(1) by (rule inv_deliver_client)
    with less.hyps [of b a'] d 2 s show ?thesis by (auto intro: converse_rtranclp_into_rtranclp)
  next
    case 3
    with less.prems show ?thesis by blast
  qed
qed

lemma quiescent_answered:
  assumes "client_inv (a, b)" and "ep_in a = []" and "ep_in b = []"
  shows "waiting a = {} \<and> (\<forall>(n, m) \<in> set (ep_calls a). answered a b n)"
proof -
  have "waiting a = {}" using assms by (simp add: client_inv_def link_inv_def)
  moreover from this have "ran (ep_pending a) = {}" by (simp add: waiting_def ran_def)
  ultimately show ?thesis using assms(1) by (fastforce simp: client_inv_def call_inv_def)
qed


section \<open>Properties\<close>

text \<open>C4. Opening works when one side opens: in every behaviour of two connected sessions in which only
  the client opens streams (any number, before its counter overflows) while both sides send
  data, close streams and read in any interleaving, delivering the frames in flight always
  reaches a state with nothing in flight, and there every \<^verbatim>\<open>open_stream\<close> call made so far has been
  answered with an established stream that the server accepted under the same identifier.\<close>

theorem client_opens_complete:
  assumes "client_step\<^sup>*\<^sup>* pair_new p"
  shows "\<exists>a b. deliver_step\<^sup>*\<^sup>* p (a, b) \<and> ep_in a = [] \<and> ep_in b = [] \<and> waiting a = {} \<and>
    ep_calls a = ep_calls (fst p) \<and> (\<forall>(n, m) \<in> set (ep_calls a). answered a b n)"
proof -
  have "client_inv p" using assms by (rule client.inv_reachable [OF refl])
  then obtain a b where "deliver_step\<^sup>*\<^sup>* p (a, b)" "client_inv (a, b)" "ep_in a = []" "ep_in b = []"
    "ep_calls a = ep_calls (fst p)" using deliver_all [of "fst p" "snd p"] by auto
  with quiescent_answered show ?thesis by blast
qed

definition demo_pair :: pair where
  "demo_pair = the (act_on Client (Open 7) pair_new)"

lemma demo_pair_step: "client_step pair_new demo_pair" "ep_calls (fst demo_pair) = [(0, 7)]"
  by (rule client_step.opens [of _ 7])
    (simp_all add: demo_pair_def act_on_simps turn_open pair_new_def endpoint_new_def Session_spawn_def)

theorem client_opens_complete_witness:
  "\<exists>a b. deliver_step\<^sup>*\<^sup>* demo_pair (a, b) \<and> ep_in a = [] \<and> ep_in b = [] \<and> ep_calls a = [(0, 7)] \<and>
     answered a b 0"
proof -
  obtain a b where "deliver_step\<^sup>*\<^sup>* demo_pair (a, b)" "ep_in a = []" "ep_in b = []"
    "ep_calls a = [(0, 7)]" "\<forall>(n, m) \<in> set (ep_calls a). answered a b n"
    using client_opens_complete [OF r_into_rtranclp [where r = client_step, OF demo_pair_step(1)]]
    by (metis demo_pair_step(2))
  then show ?thesis by (metis case_prodD list.set_intros(1))
qed


end
