(* ===== verification/SessionTypes.thy ===== *)
theory SessionTypes
  imports Session
begin

text \<open>
  Two disciplines that the session actor of \<^verbatim>\<open>foctet-mux/src/session.rs\<close> follows without the Rust types
  saying so. Every channel it creates is for one stream: a typing of the channels, which only grows, is kept by
  every turn of the loop. And every stream goes through one life cycle, in which a turn moves one stream
  by at most one step.
\<close>

section \<open>Typing of channels\<close>

text \<open>A channel carries the frames of one stream, or the answer to the opening of one.\<close>

datatype chan_type = FramesOf StreamId | AnswerOf StreamId

type_synonym chan_env = "nat \<rightharpoonup> chan_type"

definition opened_typed :: "SessionId \<Rightarrow> chan_env \<Rightarrow> StreamId \<Rightarrow> opened \<Rightarrow> bool" where
  "opened_typed sid \<Gamma> i x \<longleftrightarrow> ls_session_id (fst x) = sid \<and> ls_stream_id (fst x) = i \<and>
     ls_state (fst x) = Established \<and> \<Gamma> (snd x) = Some (FramesOf i)"

fun effect_typed :: "SessionId \<Rightarrow> chan_env \<Rightarrow> sa_effect \<Rightarrow> bool" where
  "effect_typed sid \<Gamma> (ToStream c f) \<longleftrightarrow> \<Gamma> c = Some (FramesOf (frame_stream f))"
| "effect_typed sid \<Gamma> (Accepted x) \<longleftrightarrow> opened_typed sid \<Gamma> (ls_stream_id (fst x)) x"
| "effect_typed sid \<Gamma> (Resolved p (Inr x)) \<longleftrightarrow>
     \<Gamma> p = Some (AnswerOf (ls_stream_id (fst x))) \<and> opened_typed sid \<Gamma> (ls_stream_id (fst x)) x"
| "effect_typed sid \<Gamma> (Resolved p (Inl e)) \<longleftrightarrow> (\<exists>i. \<Gamma> p = Some (AnswerOf i))"
| "effect_typed sid \<Gamma> (Spawned p reply) \<longleftrightarrow> (\<exists>i. \<Gamma> p = Some (AnswerOf i))"
| "effect_typed sid \<Gamma> _ \<longleftrightarrow> True"

definition actor_typed :: "chan_env \<Rightarrow> SessionActor \<Rightarrow> bool" where
  "actor_typed \<Gamma> self \<longleftrightarrow> (\<forall>i c. sa_streams self i = Some c \<longrightarrow> \<Gamma> c = Some (FramesOf i)) \<and>
     (\<forall>i p. sa_pending_streams self i = Some p \<longrightarrow> \<Gamma> p = Some (AnswerOf i))"

text \<open>The names that a run creates, and its events.\<close>

definition turn_names :: "turn list \<Rightarrow> nat list" where
  "turn_names evs = map (fst \<circ> snd) evs"

definition turn_events :: "turn list \<Rightarrow> run_event list" where
  "turn_events evs = map (snd \<circ> snd) evs"

lemma turn_simps [simp]:
  "turn_names [] = []" "turn_names ((env, ch, ev) # evs) = ch # turn_names evs"
  "turn_events [] = []" "turn_events ((env, ch, ev) # evs) = ev # turn_events evs"
  by (simp_all add: turn_names_def turn_events_def)


section \<open>The life of a stream\<close>

text \<open>Whether an opening of the stream is pending here, and whether it is registered.\<close>

type_synonym status = "bool \<times> bool"

definition status_of :: "SessionActor \<Rightarrow> StreamId \<Rightarrow> status" where
  "status_of self i = (sa_pending_streams self i \<noteq> None, sa_streams self i \<noteq> None)"

text \<open>What an event may do to stream \<open>i\<close>: an opening here, an opening by the peer, the peer's answer or
  rejection, a close, and the loss of a stream whose receiver is gone.\<close>

inductive life :: "run_event \<Rightarrow> StreamId \<Rightarrow> status \<Rightarrow> status \<Rightarrow> bool" where
  request: "life (ControlCmd (OpenStream reply)) i (p, s) (True, s)"
| accept: "frame_stream f = i \<Longrightarrow> FrameFlags_is_open_request (hdr_flags (fr_header f)) \<Longrightarrow>
    life (FrameRead (Inr f)) i (p, False) (p, True)"
| answered: "frame_stream f = i \<Longrightarrow> FrameFlags_is_open_response (hdr_flags (fr_header f)) \<Longrightarrow>
    life (FrameRead (Inr f)) i (True, False) (False, True)"
| rejected: "frame_stream f = i \<Longrightarrow> FrameFlags_is_open_reset (hdr_flags (fr_header f)) \<Longrightarrow>
    life (FrameRead (Inr f)) i (True, False) (False, False)"
| dropped: "frame_stream f = i \<Longrightarrow> life (FrameRead (Inr f)) i (p, True) (p, False)"
| closed: "life (StreamEv (EvClosed i)) i (p, s) (p, False)"

text \<open>The specification: a table of streams, each event moving at most one of them.\<close>

inductive lifecycle :: "run_event list \<Rightarrow> (StreamId \<Rightarrow> status) \<Rightarrow> (StreamId \<Rightarrow> status) \<Rightarrow> bool" where
  start: "lifecycle [] T T"
| stay: "lifecycle evs T T' \<Longrightarrow> lifecycle (ev # evs) T T'"
| move: "life ev i (T i) s \<Longrightarrow> lifecycle evs (T(i := s)) T' \<Longrightarrow> lifecycle (ev # evs) T T'"


section \<open>Lemmas\<close>

lemma map_le_Some: "\<Gamma> \<subseteq>\<^sub>m \<Gamma>' \<Longrightarrow> \<Gamma> c = Some t \<Longrightarrow> \<Gamma>' c = Some t"
  by (metis domI map_le_def)

lemma effect_typed_mono:
  assumes "\<Gamma> \<subseteq>\<^sub>m \<Gamma>'" and "effect_typed sid \<Gamma> e"
  shows "effect_typed sid \<Gamma>' e"
  using assms
  by (induction sid \<Gamma> e rule: effect_typed.induct) (auto simp: opened_typed_def dest: map_le_Some)

lemma actor_typed_upd: "actor_typed \<Gamma> self \<Longrightarrow> \<Gamma> ch = None \<Longrightarrow> actor_typed (\<Gamma>(ch \<mapsto> t)) self"
  by (auto simp: actor_typed_def)

text \<open>Each handler keeps the typing, extended by the channel it creates.\<close>

lemma incoming_typed:
  assumes "actor_typed \<Gamma> self" and "\<Gamma> ch = None"
    and "SessionActor_handle_incoming_frame env ch self f = ((r, es), self')"
  shows "actor_typed (\<Gamma>(ch \<mapsto> FramesOf (frame_stream f))) self' \<and>
    list_all (effect_typed (sa_session_id self) (\<Gamma>(ch \<mapsto> FramesOf (frame_stream f)))) es"
  using assms
  by (auto simp: SessionActor_handle_incoming_frame_def Let_def actor_typed_def opened_typed_def LogicalStream_new_def
      split: option.splits if_splits sum.splits)

lemma command_typed:
  assumes "actor_typed \<Gamma> self" and "\<Gamma> ch = None"
    and "SessionActor_handle_control_command env ch self cmd = ((r, es), self')"
  shows "actor_typed (\<Gamma>(ch \<mapsto> AnswerOf (sa_next_stream_id self))) self' \<and>
    list_all (effect_typed (sa_session_id self) (\<Gamma>(ch \<mapsto> AnswerOf (sa_next_stream_id self)))) es"
  using assms
  by (cases cmd) (auto simp: handle_open_stream handle_shutdown Let_def actor_typed_def split: if_splits sum.splits)

lemma event_typed:
  assumes "actor_typed \<Gamma> self" and "SessionActor_handle_stream_event env self ev = ((r, es), self')"
  shows "actor_typed \<Gamma> self' \<and> list_all (effect_typed (sa_session_id self) \<Gamma>) es"
  using assms
  by (auto simp: SessionActor_handle_stream_event_def actor_typed_def split: StreamEvent.splits sum.splits if_splits)

lemma step_session_id:
  "SessionActor_run_step env ch self ev = (x, self') \<Longrightarrow> sa_session_id self' = sa_session_id self"
  by (cases "(env, ch, self, ev)" rule: SessionActor_run_step.cases)
    (auto simp: SessionActor_handle_incoming_frame_def SessionActor_handle_control_command_def
      SessionActor_handle_stream_event_def Let_def
      split: prod.splits option.splits if_splits sum.splits Command.splits StreamEvent.splits)

lemma step_typed:
  assumes "actor_typed \<Gamma> self" and "\<Gamma> ch = None" and "SessionActor_run_step env ch self ev = ((b, es), self')"
  shows "\<exists>\<Gamma>'. \<Gamma> \<subseteq>\<^sub>m \<Gamma>' \<and> dom \<Gamma>' \<subseteq> insert ch (dom \<Gamma>) \<and> actor_typed \<Gamma>' self' \<and>
    list_all (effect_typed (sa_session_id self) \<Gamma>') es"
proof -
  have le: "\<Gamma> \<subseteq>\<^sub>m \<Gamma>(ch \<mapsto> t)" for t using assms(2) by (auto simp: map_le_def)
  show ?thesis
  proof (cases "(env, ch, self, ev)" rule: SessionActor_run_step.cases)
    case (2 env ch self f)
    with assms incoming_typed [of \<Gamma> self ch env f] le show ?thesis
      by (intro exI [of _ "\<Gamma>(ch \<mapsto> FramesOf (frame_stream f))"]) (auto split: prod.splits)
  next
    case (4 env ch self cmd)
    with assms command_typed [of \<Gamma> self ch env cmd] le show ?thesis
      by (intro exI [of _ "\<Gamma>(ch \<mapsto> AnswerOf (sa_next_stream_id self))"]) (auto split: prod.splits)
  next
    case (5 env ch self event)
    with assms event_typed [of \<Gamma> self env event] show ?thesis
      by (intro exI [of _ \<Gamma>]) (auto split: prod.splits)
  qed (use assms in \<open>auto simp: actor_typed_def intro!: exI [of _ \<Gamma>]\<close>)
qed

lemma shutdown_typed:
  "actor_typed \<Gamma> self \<Longrightarrow> SessionActor_shutdown env self = (es, self') \<Longrightarrow>
   actor_typed \<Gamma> self' \<and> list_all (effect_typed sid \<Gamma>) es"
  by (auto simp: SessionActor_shutdown_def actor_typed_def Let_def split: sum.splits)

lemma run_typed:
  assumes "actor_typed \<Gamma> self" and "distinct (turn_names evs)" and "set (turn_names evs) \<inter> dom \<Gamma> = {}"
    and "SessionActor_run evs self = ((ended, es), self')"
  shows "\<exists>\<Gamma>'. \<Gamma> \<subseteq>\<^sub>m \<Gamma>' \<and> actor_typed \<Gamma>' self' \<and> list_all (effect_typed (sa_session_id self) \<Gamma>') es"
  using assms
proof (induction evs arbitrary: self \<Gamma> es)
  case Nil
  then show ?case by (auto intro!: exI [of _ \<Gamma>])
next
  case (Cons t evs)
  obtain env ch ev where t: "t = (env, ch, ev)" by (cases t)
  obtain b es1 self1 where s: "SessionActor_run_step env ch self ev = ((b, es1), self1)" by (metis prod.exhaust)
  have "\<Gamma> ch = None" using Cons.prems(3) by (auto simp: t)
  from step_typed [OF Cons.prems(1) this s] obtain \<Gamma>1 where 1: "\<Gamma> \<subseteq>\<^sub>m \<Gamma>1" "dom \<Gamma>1 \<subseteq> insert ch (dom \<Gamma>)"
    "actor_typed \<Gamma>1 self1" "list_all (effect_typed (sa_session_id self) \<Gamma>1) es1" by blast
  show ?case
  proof (cases b)
    case False
    obtain es2 self2 where sh: "SessionActor_shutdown env self1 = (es2, self2)" by (cases "SessionActor_shutdown env self1")
    with shutdown_typed [OF 1(3) sh] 1 Cons.prems(4) False show ?thesis by (auto simp: t s)
  next
    case True
    then obtain es2 where r: "SessionActor_run evs self1 = ((ended, es2), self')" and es: "es = es1 @ es2"
      using Cons.prems(4) by (auto simp: t s split: prod.splits)
    have "set (turn_names evs) \<inter> dom \<Gamma>1 = {}" using 1(2) Cons.prems(2,3) by (auto simp: t)
    from Cons.IH [OF 1(3) _ this r] Cons.prems(2) obtain \<Gamma>2 where 2: "\<Gamma>1 \<subseteq>\<^sub>m \<Gamma>2" "actor_typed \<Gamma>2 self'"
      "list_all (effect_typed (sa_session_id self) \<Gamma>2) es2" by (auto simp: t step_session_id [OF s])
    have "list_all (effect_typed (sa_session_id self) \<Gamma>2) es1"
      using 1(4) effect_typed_mono [OF 2(1)] by (auto simp: list_all_iff)
    with 2 map_le_trans [OF 1(1) 2(1)] show ?thesis by (auto simp: es)
  qed
qed

text \<open>A turn changes the status of at most one stream, along the life cycle.\<close>

lemma status_of_upd:
  "status_of (self\<lparr>sa_streams := (sa_streams self)(i := x)\<rparr>) = (status_of self)(i := (sa_pending_streams self i \<noteq> None, x \<noteq> None))"
  "status_of (self\<lparr>sa_pending_streams := (sa_pending_streams self)(i := y)\<rparr>) = (status_of self)(i := (y \<noteq> None, sa_streams self i \<noteq> None))"
  "status_of (self\<lparr>sa_pending_streams := (sa_pending_streams self)(i := y), sa_streams := (sa_streams self)(i := x)\<rparr>) =
     (status_of self)(i := (y \<noteq> None, x \<noteq> None))"
  by (auto simp: status_of_def fun_eq_iff)

lemma incoming_life:
  assumes "SessionActor_handle_incoming_frame env ch self f = ((r, es), self')"
  shows "status_of self' = status_of self \<or>
    (\<exists>s. life (FrameRead (Inr f)) (frame_stream f) (status_of self (frame_stream f)) s \<and>
       status_of self' = (status_of self)(frame_stream f := s))"
proof (cases "sa_streams self (frame_stream f)")
  case (Some c)
  have "life (FrameRead (Inr f)) (frame_stream f) (status_of self (frame_stream f))
      (sa_pending_streams self (frame_stream f) \<noteq> None, False)"
    unfolding status_of_def using Some by (simp add: life.dropped)
  moreover have "self' = self \<or> status_of self' = (status_of self)(frame_stream f := (sa_pending_streams self (frame_stream f) \<noteq> None, False))"
    using assms Some by (auto simp: incoming_known status_of_upd split: if_splits)
  ultimately show ?thesis by blast
next
  case None
  let ?p = "sa_pending_streams self (frame_stream f) \<noteq> None"
  have st: "status_of self (frame_stream f) = (?p, False)" using None by (simp add: status_of_def)
  have acc: "FrameFlags_is_open_request (hdr_flags (fr_header f)) \<Longrightarrow> life (FrameRead (Inr f)) (frame_stream f) (?p, False) (?p, True)"
    and ans: "FrameFlags_is_open_response (hdr_flags (fr_header f)) \<Longrightarrow> ?p \<Longrightarrow>
      life (FrameRead (Inr f)) (frame_stream f) (?p, False) (False, True)"
    and rej: "FrameFlags_is_open_reset (hdr_flags (fr_header f)) \<Longrightarrow> ?p \<Longrightarrow>
      life (FrameRead (Inr f)) (frame_stream f) (?p, False) (False, False)"
    using life.accept [of f] life.answered [of f] life.rejected [of f] by simp_all
  have "status_of self' = status_of self \<or>
      FrameFlags_is_open_request (hdr_flags (fr_header f)) \<and> status_of self' = (status_of self)(frame_stream f := (?p, True)) \<or>
      FrameFlags_is_open_response (hdr_flags (fr_header f)) \<and> ?p \<and> status_of self' = (status_of self)(frame_stream f := (False, True)) \<or>
      FrameFlags_is_open_reset (hdr_flags (fr_header f)) \<and> ?p \<and> status_of self' = (status_of self)(frame_stream f := (False, False))"
    using assms None
    by (auto simp: SessionActor_handle_incoming_frame_def Let_def status_of_upd fun_upd_idem split: option.splits if_splits)
  with acc ans rej show ?thesis unfolding st by blast
qed

lemma command_life:
  assumes "SessionActor_handle_control_command env ch self cmd = ((r, es), self')"
  shows "status_of self' = status_of self \<or>
    (\<exists>i s. life (ControlCmd cmd) i (status_of self i) s \<and> status_of self' = (status_of self)(i := s))"
proof (cases cmd)
  case (OpenStream reply)
  have "life (ControlCmd cmd) i (status_of self i) (True, snd (status_of self i))" for i
    using life.request [of reply i "fst (status_of self i)" "snd (status_of self i)"] OpenStream by simp
  moreover have "status_of self' = (status_of self)(sa_next_stream_id self := (True, snd (status_of self (sa_next_stream_id self))))"
    using assms OpenStream by (auto simp: handle_open_stream Let_def status_of_def fun_eq_iff split: sum.splits)
  ultimately show ?thesis by blast
qed (use assms in \<open>auto simp: handle_shutdown status_of_def fun_eq_iff\<close>)

lemma step_life:
  assumes "SessionActor_run_step env ch self ev = ((b, es), self')"
  shows "status_of self' = status_of self \<or>
    (\<exists>i s. life ev i (status_of self i) s \<and> status_of self' = (status_of self)(i := s))"
proof (cases "(env, ch, self, ev)" rule: SessionActor_run_step.cases)
  case (2 env ch self f)
  with assms incoming_life [of env ch self f] show ?thesis by (auto split: prod.splits)
next
  case (4 env ch self cmd)
  with assms command_life [of env ch self cmd] show ?thesis by (auto split: prod.splits)
next
  case (5 env ch self event)
  show ?thesis
  proof (cases event)
    case (EvClosed i)
    have "life ev i (status_of self i) (fst (status_of self i), False)"
      using life.closed [of i "fst (status_of self i)" "snd (status_of self i)"] 5 EvClosed by simp
    with assms 5 EvClosed show ?thesis
      by (auto simp: SessionActor_handle_stream_event_def status_of_upd) (auto simp: status_of_def)
  qed (use assms 5 in \<open>auto simp: SessionActor_handle_stream_event_def split: sum.splits\<close>)
qed (use assms in \<open>auto simp: status_of_def fun_eq_iff\<close>)

lemma lifecycle_stays: "lifecycle evs T T"
  by (induction evs) (auto intro: lifecycle.intros)

lemma run_lifecycle:
  assumes "SessionActor_run evs self = ((ended, es), self')"
  shows "\<exists>T. lifecycle (turn_events evs) (status_of self) T \<and>
    status_of self' = (if ended then (\<lambda>i. (fst (T i), False)) else T)"
  using assms
proof (induction evs arbitrary: self es)
  case Nil
  then show ?case by (auto intro: lifecycle.start)
next
  case (Cons t evs)
  obtain env ch ev where t: "t = (env, ch, ev)" by (cases t)
  obtain b es1 self1 where s: "SessionActor_run_step env ch self ev = ((b, es1), self1)" by (metis prod.exhaust)
  have step: "lifecycle (ev # evs') (status_of self) T" if "lifecycle evs' (status_of self1) T" for evs' T
    using step_life [OF s] that by (auto intro: lifecycle.stay lifecycle.move)
  show ?case
  proof (cases b)
    case False
    then have "status_of self' = (\<lambda>i. (fst (status_of self1 i), False))" "ended"
      using Cons.prems by (auto simp: t s SessionActor_shutdown_def Let_def status_of_def fun_eq_iff)
    then show ?thesis using step [OF lifecycle_stays] by (auto simp: t)
  next
    case True
    then obtain es2 where "SessionActor_run evs self1 = ((ended, es2), self')"
      using Cons.prems by (auto simp: t s split: prod.splits)
    from Cons.IH [OF this] obtain T where "lifecycle (turn_events evs) (status_of self1) T"
      "status_of self' = (if ended then (\<lambda>i. (fst (T i), False)) else T)" by blast
    with step [of "turn_events evs" T] show ?thesis by (intro exI [of _ T]) (simp add: t)
  qed
qed


section \<open>Properties\<close>

text \<open>C15. Channels are typed. Whatever the loop is given, with a fresh name for each channel it creates, there is a
  typing of its channels that extends the one it started with, such that every registered channel is for the
  stream it is registered under, a frame is put only into the channel of the stream it names, a stream handed to
  \<^verbatim>\<open>accept_stream\<close> or to the caller of \<^verbatim>\<open>open_stream\<close> is an established stream of this session and comes with
  the channel of its own frames, and an answer to an opening goes to whoever asked for that stream.\<close>

theorem actor_well_typed:
  assumes "actor_typed \<Gamma> self" and "distinct (turn_names evs)" and "set (turn_names evs) \<inter> dom \<Gamma> = {}"
    and "SessionActor_run evs self = ((ended, es), self')"
  shows "\<exists>\<Gamma>'. \<Gamma> \<subseteq>\<^sub>m \<Gamma>' \<and> actor_typed \<Gamma>' self' \<and> list_all (effect_typed (sa_session_id self) \<Gamma>') es"
  by (rule run_typed [OF assms])

definition open_turns :: "turn list" where
  "open_turns = [(env_all, 0, ControlCmd (OpenStream 7)), (env_all, 1, FrameRead (Ok (open_response_frame (StreamId 1)))),
     (env_all, 2, FrameRead (Ok (open_request_frame (StreamId 2)))), (env_all, 3, FrameRead (Ok (demo_frame_on 2 9)))]"

definition client_actor :: SessionActor where
  "client_actor = snd (Session_new_client (SessionId 5) :: nat Session \<times> SessionActor)"

lemma open_frame_fields [simp]:
  "hdr_stream_id (fr_header (open_request_frame i)) = i" "hdr_stream_id (fr_header (open_response_frame i)) = i"
  "hdr_flags (fr_header (open_request_frame i)) = FrameFlags_open_request"
  "hdr_flags (fr_header (open_response_frame i)) = FrameFlags_open_response"
  by (simp_all add: open_request_frame_def open_response_frame_def builder_defs)

lemma open_turns_run:
  "snd (fst (SessionActor_run open_turns client_actor)) =
     [Wire (open_request_frame (StreamId 1)), Spawned 0 7,
      Resolved 0 (Ok (LogicalStream_new (SessionId 5) (StreamId 1) Established, 1)),
      Accepted (LogicalStream_new (SessionId 5) (StreamId 2) Established, 2), Wire (open_response_frame (StreamId 2)),
      ToStream 2 (demo_frame_on 2 9)]"
  by (simp add: open_turns_def client_actor_def Session_new_client_def Session_spawn_def Let_def handle_open_stream
      incoming_response incoming_request incoming_known)

theorem actor_well_typed_witness:
  "\<exists>\<Gamma>'. \<Gamma>' 0 = Some (AnswerOf (StreamId 1)) \<and> \<Gamma>' 1 = Some (FramesOf (StreamId 1)) \<and> \<Gamma>' 2 = Some (FramesOf (StreamId 2)) \<and>
     list_all (effect_typed (SessionId 5) \<Gamma>') (snd (fst (SessionActor_run open_turns client_actor)))"
proof -
  obtain ended es self' where r: "SessionActor_run open_turns client_actor = ((ended, es), self')" by (metis prod.exhaust)
  have "actor_typed Map.empty client_actor"
    by (simp add: actor_typed_def client_actor_def Session_new_client_def Session_spawn_def)
  moreover have "distinct (turn_names open_turns)" by (simp add: open_turns_def)
  ultimately obtain \<Gamma>' where "list_all (effect_typed (sa_session_id client_actor) \<Gamma>') es"
    using actor_well_typed [OF _ _ _ r, of Map.empty] by auto
  moreover have "sa_session_id client_actor = SessionId 5"
    by (simp add: client_actor_def Session_new_client_def Session_spawn_def)
  ultimately show ?thesis using open_turns_run
    by (auto simp: r opened_typed_def LogicalStream_new_def)
qed

text \<open>C16. The actor implements the life cycle of streams: along any run, each event moves the status of at most
  one stream and only as the life cycle allows, and only the end of the loop takes the registered
  streams away, leaving the pending openings unanswered.\<close>

theorem actor_refines_lifecycle:
  assumes "SessionActor_run evs self = ((ended, es), self')"
  shows "\<exists>T. lifecycle (turn_events evs) (status_of self) T \<and>
    status_of self' = (if ended then (\<lambda>i. (fst (T i), False)) else T)"
  by (rule run_lifecycle [OF assms])

theorem actor_refines_lifecycle_witness:
  "\<exists>T. lifecycle (turn_events open_turns) (\<lambda>_. (False, False)) T \<and>
     T (StreamId 1) = (False, True) \<and> T (StreamId 2) = (False, True) \<and> T (StreamId 3) = (False, False)"
proof -
  obtain ended es self' where r: "SessionActor_run open_turns client_actor = ((ended, es), self')" by (metis prod.exhaust)
  have "status_of client_actor = (\<lambda>_. (False, False))"
    by (simp add: status_of_def client_actor_def Session_new_client_def Session_spawn_def fun_eq_iff)
  moreover have "\<not> ended \<and> sa_pending_streams self' = Map.empty \<and> sa_streams self' = [StreamId 1 \<mapsto> 1, StreamId 2 \<mapsto> 2]"
    using r by (auto simp: open_turns_def client_actor_def Session_new_client_def Session_spawn_def Let_def handle_open_stream
        incoming_response incoming_request incoming_known)
  ultimately show ?thesis using actor_refines_lifecycle [OF r] by (auto simp: status_of_def)
qed

end
