(* ===== verification/StreamIo.thy ===== *)
theory StreamIo
  imports MuxStream
begin

text \<open>
  What the two kinds of network stream (\<^verbatim>\<open>foctet-net/src/transport/quic/stream.rs\<close> and
  \<^verbatim>\<open>tcp/stream.rs\<close>) share: the outcomes of writing to a peer and to a file, what a file read can
  return, and the contract of sending a file.

  A sink answers each item it is offered, given the items it has taken before. A file that is
  read is the list of the results of its reads; tokio documents that a read returns between one
  byte and the size of the buffer, and nothing at the end of the file or into an empty buffer.
\<close>

section \<open>Outcomes\<close>

type_synonym 'm sink = "'m list \<Rightarrow> 'm \<Rightarrow> unit result"

definition sink_ok :: "'m sink" where
  "sink_ok ms m = Ok ()"

definition file_reads :: "nat \<Rightarrow> bytes \<Rightarrow> bytes list \<Rightarrow> bytes result list \<Rightarrow> bool" where
  "file_reads buffer_size content cs reads \<longleftrightarrow> reads = map Ok cs @ [Ok []] \<and>
     list_all (\<lambda>c. c \<noteq> [] \<and> length c \<le> buffer_size) cs \<and>
     (0 < buffer_size \<longrightarrow> concat cs = content)"

fun map_poll :: "('a \<Rightarrow> 'b) \<Rightarrow> 'a poll \<Rightarrow> 'b poll" where
  "map_poll f Pending = Pending"
| "map_poll f (Ready x) = Ready (f x)"

text \<open>Pieces of at most \<open>n\<close> bytes, in order.\<close>

function chunks :: "nat \<Rightarrow> 'a list \<Rightarrow> 'a list list" where
  "chunks n xs = (if n = 0 \<or> xs = [] then [] else take n xs # chunks n (drop n xs))"
  by pat_completeness auto
termination
  by (relation "measure (\<lambda>(n, xs). length xs)") auto

declare chunks.simps [simp del]

lemma concat_chunks: "0 < n \<Longrightarrow> concat (chunks n xs) = xs"
proof (induction n xs rule: chunks.induct)
  case (1 n xs)
  then show ?case by (subst chunks.simps) auto
qed

lemma chunks_bounds: "c \<in> set (chunks n xs) \<Longrightarrow> c \<noteq> [] \<and> length c \<le> n"
proof (induction n xs rule: chunks.induct)
  case (1 n xs)
  show ?case
  proof (cases "n = 0 \<or> xs = []")
    case True
    with 1(2) show ?thesis by (subst (asm) chunks.simps) simp
  next
    case False
    with 1(2) have "c = take n xs \<or> c \<in> set (chunks n (drop n xs))"
      by (subst (asm) chunks.simps) simp
    with False 1(1) show ?thesis by auto
  qed
qed


section \<open>Sending a file\<close>

text \<open>The contract: what is sent for the pieces of a file carries them in order, and receiving as
  many bytes as were sent gives them back.\<close>

locale file_channel =
  fixes send :: "bytes list \<Rightarrow> 'm list"
    and payload :: "'m \<Rightarrow> bytes"
    and recv :: "nat \<Rightarrow> 'm list \<Rightarrow> (nat \<times> bytes) option"
  assumes send_pieces: "\<forall>c \<in> set cs. c \<noteq> [] \<Longrightarrow> map payload (send cs) = cs"
    and recv_all: "ms \<noteq> [] \<Longrightarrow> \<forall>m \<in> set ms. payload m \<noteq> [] \<Longrightarrow>
      recv (length (concat (map payload ms))) ms =
        Some (length (concat (map payload ms)), concat (map payload ms))"
begin

lemma file_roundtrip:
  assumes "file_reads n content cs reads" and "0 < n" and "content \<noteq> []"
  shows "recv (length content) (send cs) = Some (length content, content)"
proof -
  have cs: "\<forall>c \<in> set cs. c \<noteq> []" "concat cs = content"
    using assms(1,2) by (auto simp: file_reads_def list_all_iff)
  note pieces = send_pieces [OF cs(1)]
  with assms(3) cs have "send cs \<noteq> []" by auto
  moreover have "\<forall>c \<in> set (map payload (send cs)). c \<noteq> []" using cs(1) by (simp only: pieces)
  then have "\<forall>m \<in> set (send cs). payload m \<noteq> []" by simp
  ultimately show ?thesis using recv_all [of "send cs"] by (simp add: pieces cs(2))
qed

end

end
