(* ===== verification/QuicStream.thy ===== *)
theory QuicStream
  imports StreamIo Codec
begin

text \<open>
  \<^verbatim>\<open>foctet-net/src/transport/quic/stream.rs\<close>: streams over QUIC. The connection's streams are the
  \<^verbatim>\<open>quinn\<close> crate's and the length-delimited framing is \<^verbatim>\<open>tokio_util\<close>'s: both appear as handles
  (\<open>'w\<close>, \<open>'r\<close>), as the sink that takes the items, and as the list of items a receiver gets; \<open>ended\<close>
  says that the stream is closed after them, otherwise a receiver waits (\<open>None\<close>).
\<close>

section \<open>Data\<close>

record 'w QuicSendStream =
  qss_framed_writer :: 'w
  qss_stream_id :: StreamId
  qss_write_buffer_size :: nat

record 'r QuicRecvStream =
  qrs_framed_reader :: 'r
  qrs_stream_id :: StreamId
  qrs_read_buffer_size :: nat

record ('w, 'r) QuicStream =
  qst_framed_writer :: 'w
  qst_framed_reader :: 'r
  qst_stream_id :: StreamId
  qst_write_buffer_size :: nat
  qst_read_buffer_size :: nat

type_synonym item = bytes
type_synonym 'm outcome = "unit result \<times> 'm list"


section \<open>Sending\<close>

definition QuicSendStream_new :: "StreamId \<Rightarrow> 'w \<Rightarrow> nat \<Rightarrow> 'w QuicSendStream" where
  "QuicSendStream_new stream_id send_stream write_buffer_size =
     \<lparr> qss_framed_writer = send_stream, qss_stream_id = stream_id,
       qss_write_buffer_size = write_buffer_size \<rparr>"

definition QuicSendStream_stream_id :: "'w QuicSendStream \<Rightarrow> StreamId" where
  "QuicSendStream_stream_id self = qss_stream_id self"

text \<open>The byte-level interface goes to the QUIC stream below the framing; \<open>disp\<close> is the display of
  its error.\<close>

definition QuicSendStream_poll_write ::
  "('w \<Rightarrow> bytes \<Rightarrow> nat result poll) \<Rightarrow> (error \<Rightarrow> string) \<Rightarrow> 'w QuicSendStream \<Rightarrow> bytes \<Rightarrow> nat result poll" where
  "QuicSendStream_poll_write raw disp self buf =
     map_poll (map_err (\<lambda>e. IoError OtherIo (disp e))) (raw (qss_framed_writer self) buf)"

definition QuicSendStream_poll_flush :: "('w \<Rightarrow> unit result poll) \<Rightarrow> 'w QuicSendStream \<Rightarrow> unit result poll" where
  "QuicSendStream_poll_flush raw self = raw (qss_framed_writer self)"

definition QuicSendStream_poll_shutdown :: "('w \<Rightarrow> unit result poll) \<Rightarrow> 'w QuicSendStream \<Rightarrow> unit result poll" where
  "QuicSendStream_poll_shutdown raw self = raw (qss_framed_writer self)"

text \<open>The loop of \<^verbatim>\<open>send\<close>; it does not return when it makes no progress.\<close>

partial_function (option) quic_send_loop ::
  "item sink \<Rightarrow> nat \<Rightarrow> bytes \<Rightarrow> nat \<Rightarrow> item list \<Rightarrow> item outcome option" where
  "quic_send_loop snk write_buffer_size data total_sent sent =
     (if total_sent < length data
      then let chunk_size = min write_buffer_size (length data - total_sent);
               chunk = take chunk_size (drop total_sent data)
           in (case snk sent chunk of
                 Inl e \<Rightarrow> Some (Err e, sent)
               | Inr _ \<Rightarrow> quic_send_loop snk write_buffer_size data (total_sent + chunk_size) (sent @ [chunk]))
      else Some (Ok (), sent))"

definition QuicSendStream_send :: "item sink \<Rightarrow> 'w QuicSendStream \<Rightarrow> bytes \<Rightarrow> item outcome option" where
  "QuicSendStream_send snk self data = quic_send_loop snk (qss_write_buffer_size self) data 0 []"

definition QuicSendStream_send_frame ::
  "buf_ops \<Rightarrow> item sink \<Rightarrow> 'w QuicSendStream \<Rightarrow> Frame \<Rightarrow> item outcome" where
  "QuicSendStream_send_frame B snk self frame =
     (case Frame_to_bytes B frame of
        Inl e \<Rightarrow> (Err e, [])
      | Inr bytes \<Rightarrow> (case snk [] bytes of Inl e \<Rightarrow> (Err e, []) | Inr _ \<Rightarrow> (Ok (), [bytes])))"

text \<open>The loop of \<^verbatim>\<open>send_file\<close> over the results of reading the file; \<open>None\<close> while it waits for one.\<close>

fun quic_send_file_loop :: "item sink \<Rightarrow> bytes result list \<Rightarrow> item list \<Rightarrow> item outcome option" where
  "quic_send_file_loop snk [] sent = None"
| "quic_send_file_loop snk (Inl e # reads) sent = Some (Err e, sent)"
| "quic_send_file_loop snk (Inr chunk # reads) sent =
     (if length chunk = 0 then Some (Ok (), sent)
      else (case snk sent chunk of
              Inl e \<Rightarrow> Some (Err e, sent)
            | Inr _ \<Rightarrow> quic_send_file_loop snk reads (sent @ [chunk])))"

definition QuicSendStream_send_file ::
  "unit result \<Rightarrow> bytes result list \<Rightarrow> item sink \<Rightarrow> 'w QuicSendStream \<Rightarrow> item outcome option" where
  "QuicSendStream_send_file opened reads snk self =
     (case opened of Inl e \<Rightarrow> Some (Err e, []) | Inr _ \<Rightarrow> quic_send_file_loop snk reads [])"

definition QuicSendStream_close :: "('w \<Rightarrow> unit result) \<Rightarrow> 'w QuicSendStream \<Rightarrow> unit result" where
  "QuicSendStream_close cl self = try_bind (cl (qss_framed_writer self)) (\<lambda>_. Ok ())"


section \<open>Receiving\<close>

definition QuicRecvStream_new :: "StreamId \<Rightarrow> 'r \<Rightarrow> nat \<Rightarrow> 'r QuicRecvStream" where
  "QuicRecvStream_new stream_id recv_stream read_buffer_size =
     \<lparr> qrs_framed_reader = recv_stream, qrs_stream_id = stream_id,
       qrs_read_buffer_size = read_buffer_size \<rparr>"

definition QuicRecvStream_stream_id :: "'r QuicRecvStream \<Rightarrow> StreamId" where
  "QuicRecvStream_stream_id self = qrs_stream_id self"

definition QuicRecvStream_poll_read ::
  "('r \<Rightarrow> 'b \<Rightarrow> unit result poll \<times> 'b) \<Rightarrow> 'r QuicRecvStream \<Rightarrow> 'b \<Rightarrow> unit result poll \<times> 'b" where
  "QuicRecvStream_poll_read raw self buf = raw (qrs_framed_reader self) buf"

text \<open>\<open>item\<close> is what \<^verbatim>\<open>framed_reader.next()\<close> returned.\<close>

definition quic_receive :: "item result option \<Rightarrow> bytes result" where
  "quic_receive item =
     (case item of
        Some (Inr bytes) \<Rightarrow> Ok bytes
      | Some (Inl e) \<Rightarrow> Err e
      | None \<Rightarrow> Err (Anyhow ''Stream closed''))"

definition QuicRecvStream_receive :: "item result option \<Rightarrow> 'r QuicRecvStream \<Rightarrow> bytes result" where
  "QuicRecvStream_receive item self = quic_receive item"

definition quic_receive_frame :: "buf_ops \<Rightarrow> item result option \<Rightarrow> Frame result" where
  "quic_receive_frame B item =
     (case item of
        Some frame_result \<Rightarrow>
          try_bind frame_result (\<lambda>bytes. try_bind (Frame_from_bytes B bytes) (\<lambda>frame. Ok frame))
      | None \<Rightarrow> Err (Anyhow ''Stream closed''))"

definition QuicRecvStream_receive_frame ::
  "buf_ops \<Rightarrow> item result option \<Rightarrow> 'r QuicRecvStream \<Rightarrow> Frame result" where
  "QuicRecvStream_receive_frame B item self = quic_receive_frame B item"

text \<open>The loop of \<^verbatim>\<open>receive_file\<close>: \<open>wr\<close> is the outcome of writing to the file after what it holds.\<close>

fun quic_receive_file_loop ::
  "(bytes \<Rightarrow> bytes \<Rightarrow> unit result) \<Rightarrow> nat \<Rightarrow> bool \<Rightarrow> item result list \<Rightarrow> nat \<Rightarrow> bytes
     \<Rightarrow> (nat result \<times> bytes) option" where
  "quic_receive_file_loop wr len ended [] total_bytes file =
     (if ended then Some (Ok total_bytes, file) else None)"
| "quic_receive_file_loop wr len ended (Inl e # items) total_bytes file = Some (Err e, file)"
| "quic_receive_file_loop wr len ended (Inr data # items) total_bytes file =
     (if data = [] then Some (Ok total_bytes, file)
      else (case wr file data of
              Inl e \<Rightarrow> Some (Err e, file)
            | Inr _ \<Rightarrow>
                (let total_bytes = total_bytes + length data; file = file @ data
                 in if total_bytes = len then Some (Ok total_bytes, file)
                    else quic_receive_file_loop wr len ended items total_bytes file)))"

definition quic_receive_file ::
  "unit result \<Rightarrow> (bytes \<Rightarrow> bytes \<Rightarrow> unit result) \<Rightarrow> unit result \<Rightarrow> item result list \<Rightarrow> bool \<Rightarrow> nat
     \<Rightarrow> (nat result \<times> bytes) option" where
  "quic_receive_file created wr flushed items ended len =
     (case created of
        Inl e \<Rightarrow> Some (Err e, [])
      | Inr _ \<Rightarrow>
          (case quic_receive_file_loop wr len ended items 0 [] of
             None \<Rightarrow> None
           | Some (Inl e, file) \<Rightarrow> Some (Err e, file)
           | Some (Inr total_bytes, file) \<Rightarrow>
               Some (try_bind flushed (\<lambda>_. Ok total_bytes), file)))"

definition QuicRecvStream_receive_file ::
  "unit result \<Rightarrow> (bytes \<Rightarrow> bytes \<Rightarrow> unit result) \<Rightarrow> unit result \<Rightarrow> item result list \<Rightarrow> bool
     \<Rightarrow> 'r QuicRecvStream \<Rightarrow> nat \<Rightarrow> (nat result \<times> bytes) option" where
  "QuicRecvStream_receive_file created wr flushed items ended self len =
     quic_receive_file created wr flushed items ended len"

definition QuicRecvStream_close :: "'r QuicRecvStream \<Rightarrow> unit result" where
  "QuicRecvStream_close self = Ok ()"


section \<open>Both directions\<close>

text \<open>\<open>fw\<close> and \<open>fr\<close> wrap a QUIC stream into the length-delimited framing.\<close>

definition QuicStream_new ::
  "('s \<Rightarrow> 'w) \<Rightarrow> ('t \<Rightarrow> 'r) \<Rightarrow> StreamId \<Rightarrow> 's \<Rightarrow> 't \<Rightarrow> nat \<Rightarrow> nat \<Rightarrow> ('w, 'r) QuicStream" where
  "QuicStream_new fw fr stream_id send_stream recv_stream write_buffer_size read_buffer_size =
     \<lparr> qst_framed_writer = fw send_stream, qst_framed_reader = fr recv_stream,
       qst_stream_id = stream_id, qst_write_buffer_size = write_buffer_size,
       qst_read_buffer_size = read_buffer_size \<rparr>"

definition QuicStream_set_write_buffer_size :: "nat \<Rightarrow> ('w, 'r) QuicStream \<Rightarrow> ('w, 'r) QuicStream" where
  "QuicStream_set_write_buffer_size sz self = self\<lparr>qst_write_buffer_size := sz\<rparr>"

definition QuicStream_set_read_buffer_size :: "nat \<Rightarrow> ('w, 'r) QuicStream \<Rightarrow> ('w, 'r) QuicStream" where
  "QuicStream_set_read_buffer_size sz self = self\<lparr>qst_read_buffer_size := sz\<rparr>"

definition QuicStream_split :: "('w, 'r) QuicStream \<Rightarrow> 'w QuicSendStream \<times> 'r QuicRecvStream" where
  "QuicStream_split self =
     (QuicSendStream_new (qst_stream_id self) (qst_framed_writer self) (qst_write_buffer_size self),
      QuicRecvStream_new (qst_stream_id self) (qst_framed_reader self) (qst_read_buffer_size self))"

definition QuicStream_merge :: "'w QuicSendStream \<Rightarrow> 'r QuicRecvStream \<Rightarrow> ('w, 'r) QuicStream" where
  "QuicStream_merge send_stream recv_stream =
     \<lparr> qst_framed_writer = qss_framed_writer send_stream, qst_framed_reader = qrs_framed_reader recv_stream,
       qst_stream_id = qss_stream_id send_stream,
       qst_write_buffer_size = qss_write_buffer_size send_stream,
       qst_read_buffer_size = qrs_read_buffer_size recv_stream \<rparr>"

definition QuicStream_poll_read ::
  "('r \<Rightarrow> 'b \<Rightarrow> unit result poll \<times> 'b) \<Rightarrow> ('w, 'r) QuicStream \<Rightarrow> 'b \<Rightarrow> unit result poll \<times> 'b" where
  "QuicStream_poll_read raw self buf = raw (qst_framed_reader self) buf"

definition QuicStream_poll_write ::
  "('w \<Rightarrow> bytes \<Rightarrow> nat result poll) \<Rightarrow> (error \<Rightarrow> string) \<Rightarrow> ('w, 'r) QuicStream \<Rightarrow> bytes \<Rightarrow> nat result poll" where
  "QuicStream_poll_write raw disp self buf =
     map_poll (map_err (\<lambda>e. IoError OtherIo (disp e))) (raw (qst_framed_writer self) buf)"

definition QuicStream_poll_flush :: "('w \<Rightarrow> unit result poll) \<Rightarrow> ('w, 'r) QuicStream \<Rightarrow> unit result poll" where
  "QuicStream_poll_flush raw self = raw (qst_framed_writer self)"

definition QuicStream_poll_shutdown :: "('w \<Rightarrow> unit result poll) \<Rightarrow> ('w, 'r) QuicStream \<Rightarrow> unit result poll" where
  "QuicStream_poll_shutdown raw self = raw (qst_framed_writer self)"

definition QuicStream_stream_id :: "('w, 'r) QuicStream \<Rightarrow> StreamId" where
  "QuicStream_stream_id self = qst_stream_id self"

definition QuicStream_send :: "item sink \<Rightarrow> ('w, 'r) QuicStream \<Rightarrow> bytes \<Rightarrow> item outcome option" where
  "QuicStream_send snk self data = quic_send_loop snk (qst_write_buffer_size self) data 0 []"

definition QuicStream_receive :: "item result option \<Rightarrow> ('w, 'r) QuicStream \<Rightarrow> bytes result" where
  "QuicStream_receive item self = quic_receive item"

definition QuicStream_send_frame ::
  "buf_ops \<Rightarrow> item sink \<Rightarrow> ('w, 'r) QuicStream \<Rightarrow> Frame \<Rightarrow> item outcome" where
  "QuicStream_send_frame B snk self frame =
     (case Frame_to_bytes B frame of
        Inl e \<Rightarrow> (Err e, [])
      | Inr bytes \<Rightarrow> (case snk [] bytes of Inl e \<Rightarrow> (Err e, []) | Inr _ \<Rightarrow> (Ok (), [bytes])))"

definition QuicStream_receive_frame :: "buf_ops \<Rightarrow> item result option \<Rightarrow> ('w, 'r) QuicStream \<Rightarrow> Frame result" where
  "QuicStream_receive_frame B item self = quic_receive_frame B item"

definition QuicStream_send_file ::
  "unit result \<Rightarrow> bytes result list \<Rightarrow> item sink \<Rightarrow> ('w, 'r) QuicStream \<Rightarrow> item outcome option" where
  "QuicStream_send_file opened reads snk self =
     (case opened of Inl e \<Rightarrow> Some (Err e, []) | Inr _ \<Rightarrow> quic_send_file_loop snk reads [])"

definition QuicStream_receive_file ::
  "unit result \<Rightarrow> (bytes \<Rightarrow> bytes \<Rightarrow> unit result) \<Rightarrow> unit result \<Rightarrow> item result list \<Rightarrow> bool
     \<Rightarrow> ('w, 'r) QuicStream \<Rightarrow> nat \<Rightarrow> (nat result \<times> bytes) option" where
  "QuicStream_receive_file created wr flushed items ended self len =
     quic_receive_file created wr flushed items ended len"

definition QuicStream_close :: "('w \<Rightarrow> unit result) \<Rightarrow> ('w, 'r) QuicStream \<Rightarrow> unit result" where
  "QuicStream_close cl self = try_bind (cl (qst_framed_writer self)) (\<lambda>_. Ok ())"


section \<open>Lemmas\<close>

text \<open>With room in the buffer the loop returns, having sent the data piece by piece.\<close>

lemma quic_send_loop_ok:
  assumes "0 < n" and "\<And>ms m. snk ms m = Ok ()"
  shows "quic_send_loop snk n data off sent = Some (Ok (), sent @ chunks n (drop off data))"
proof (induction "length data - off" arbitrary: off sent rule: less_induct)
  case less
  show ?case
  proof (cases "off < length data")
    case False
    then show ?thesis by (subst quic_send_loop.simps, subst chunks.simps) simp
  next
    case True
    let ?m = "min n (length data - off)"
    have "take ?m (drop off data) = take n (drop off data)" by (simp add: min_def)
    moreover have "chunks n (drop (off + ?m) data) = chunks n (drop n (drop off data))"
      by (cases "n \<le> length data - off") (simp_all add: min_def add.commute)
    moreover have "quic_send_loop snk n data (off + ?m) (sent @ [take ?m (drop off data)]) =
        Some (Ok (), (sent @ [take ?m (drop off data)]) @ chunks n (drop (off + ?m) data))"
      using True assms(1) by (intro less) simp
    ultimately show ?thesis
      using True assms(1)
      by (subst quic_send_loop.simps) (simp add: assms(2) Let_def chunks.simps [of n "drop off data"])
  qed
qed

text \<open>With an empty buffer it never returns.\<close>

lemma quic_send_loop_stuck:
  assumes "\<And>ms m. snk ms m = Ok ()" and "quic_send_loop snk 0 data off sent = Some r"
  shows "\<not> off < length data"
proof -
  let ?P = "\<lambda>(snk :: item sink) (n :: nat) (data :: bytes) (off :: nat) (sent :: item list) (r :: item outcome).
      (\<forall>ms m. snk ms m = Ok ()) \<longrightarrow> n = 0 \<longrightarrow> \<not> off < length data"
  have "?P snk 0 data off sent r"
  proof (rule quic_send_loop.raw_induct [where P = ?P, OF _ assms(2)])
    fix loop :: "item sink \<Rightarrow> nat \<Rightarrow> bytes \<Rightarrow> nat \<Rightarrow> item list \<Rightarrow> item outcome option"
      and snk n data off sent r
    assume IH: "\<And>snk n data off sent r. loop snk n data off sent = Some r \<Longrightarrow> ?P snk n data off sent r"
      and step: "(if off < length data
        then let chunk_size = min n (length data - off); chunk = take chunk_size (drop off data)
             in case snk sent chunk of Inl e \<Rightarrow> Some (Err e, sent)
                | Inr _ \<Rightarrow> loop snk n data (off + chunk_size) (sent @ [chunk])
        else Some (Ok (), sent)) = Some r"
    show "?P snk n data off sent r"
    proof (intro impI notI)
      assume ok: "\<forall>ms m. snk ms m = Ok ()" and "n = 0" and off: "off < length data"
      then have "loop snk n data off (sent @ [[]]) = Some r" using step by simp
      from IH [OF this] ok \<open>n = 0\<close> off show False by simp
    qed
  qed
  with assms(1) show ?thesis by simp
qed

lemma quic_send_file_loop_ok:
  assumes "\<And>ms m. snk ms m = Ok ()" and "\<forall>c \<in> set cs. c \<noteq> []"
  shows "quic_send_file_loop snk (map Ok cs @ [Ok []]) sent = Some (Ok (), sent @ cs)"
  using assms(2) by (induction cs arbitrary: sent) (simp_all add: assms(1))

lemma quic_receive_file_loop_ok:
  assumes "\<And>f d. wr f d = Ok ()" and "\<forall>d \<in> set ds. d \<noteq> []" and "ds \<noteq> []"
    and "len = off + length (concat ds)"
  shows "quic_receive_file_loop wr len ended (map Ok ds) off acc = Some (Ok len, acc @ concat ds)"
  using assms(2-)
proof (induction ds arbitrary: off acc)
  case (Cons d ds)
  show ?case
  proof (cases "ds = []")
    case True
    with Cons.prems show ?thesis by (simp add: assms(1))
  next
    case False
    then have "0 < length (concat ds)" using Cons.prems(1) by (cases ds) auto
    with Cons.prems have "off + length d \<noteq> len" by simp
    with Cons False show ?thesis by (simp add: assms(1))
  qed
qed simp

text \<open>What a stream sends for a file, and what it gets from the items of one.\<close>

definition quic_file_items :: "bytes list \<Rightarrow> item list" where
  "quic_file_items cs =
     (case quic_send_file_loop sink_ok (map Ok cs @ [Ok []]) [] of Some (Inr _, items) \<Rightarrow> items | _ \<Rightarrow> [])"

definition quic_file_recv :: "nat \<Rightarrow> item list \<Rightarrow> (nat \<times> bytes) option" where
  "quic_file_recv len items =
     (case quic_receive_file (Ok ()) (\<lambda>_ _. Ok ()) (Ok ()) (map Ok items) False len of
        Some (Inr n, file) \<Rightarrow> Some (n, file) | _ \<Rightarrow> None)"

interpretation quic_files: file_channel quic_file_items "\<lambda>item. item" quic_file_recv
proof (unfold_locales, goal_cases)
  case (1 cs)
  then show ?case
    using quic_send_file_loop_ok [of sink_ok cs "[]"] by (simp add: quic_file_items_def sink_ok_def)
next
  case (2 ms)
  then show ?case
    using quic_receive_file_loop_ok [of "\<lambda>_ _. Ok ()" ms "length (concat ms)" 0 False "[]"]
    by (simp add: quic_file_recv_def quic_receive_file_def)
qed

lemma quic_split_merge: "case_prod QuicStream_merge (QuicStream_split s) = s"
  by (simp add: QuicStream_split_def QuicStream_merge_def QuicSendStream_new_def QuicRecvStream_new_def)

text \<open>A file sent over a QUIC stream arrives: whatever non-empty pieces the file is read in, the
  receiver that waits for as many bytes as the file has gets exactly the file and stops
  there.\<close>

lemma quic_file_roundtrip:
  assumes "file_reads n content cs reads" and "0 < n" and "content \<noteq> []"
  shows "QuicStream_send_file (Ok ()) reads sink_ok s = Some (Ok (), quic_file_items cs) \<and>
    QuicStream_receive_file (Ok ()) (\<lambda>_ _. Ok ()) (Ok ()) (map Ok (quic_file_items cs)) False t (length content) =
      Some (Ok (length content), content)"
proof -
  have cs: "\<forall>c \<in> set cs. c \<noteq> []" "reads = map Ok cs @ [Ok []]"
    using assms(1) by (auto simp: file_reads_def list_all_iff)
  then have "quic_send_file_loop sink_ok reads [] = Some (Ok (), cs)" "quic_file_items cs = cs"
    using quic_send_file_loop_ok [of sink_ok cs "[]"] by (simp_all add: sink_ok_def quic_file_items_def)
  moreover have "quic_file_recv (length content) (quic_file_items cs) = Some (length content, content)"
    using assms by (rule quic_files.file_roundtrip)
  then have "quic_receive_file (Ok ()) (\<lambda>_ _. Ok ()) (Ok ()) (map Ok (quic_file_items cs)) False (length content) =
      Some (Ok (length content), content)"
    by (auto simp: quic_file_recv_def split: option.splits sum.splits)
  ultimately show ?thesis by (simp add: QuicStream_send_file_def QuicStream_receive_file_def)
qed


section \<open>Properties\<close>

text \<open>C32. Over a connection that takes every item, sending data over a QUIC stream returns exactly
  when the buffer size is positive or there is nothing to send; it then has sent the data in
  order in pieces of at most the buffer size, none of them empty. With a buffer size of zero and
  data to send it never returns.\<close>

theorem quic_send_pieces:
  assumes "\<And>ms m. snk ms m = Ok ()"
  shows "QuicStream_send snk s data =
      (if qst_write_buffer_size s = 0 \<and> data \<noteq> [] then None
       else Some (Ok (), chunks (qst_write_buffer_size s) data)) \<and>
    (0 < qst_write_buffer_size s \<longrightarrow> concat (chunks (qst_write_buffer_size s) data) = data) \<and>
    list_all (\<lambda>c. c \<noteq> [] \<and> length c \<le> qst_write_buffer_size s) (chunks (qst_write_buffer_size s) data)"
proof (intro conjI impI)
  let ?n = "qst_write_buffer_size s"
  show "QuicStream_send snk s data =
      (if ?n = 0 \<and> data \<noteq> [] then None else Some (Ok (), chunks ?n data))"
  proof (cases "?n = 0")
    case True
    show ?thesis
    proof (cases "data = []")
      case True
      then show ?thesis
        unfolding QuicStream_send_def by (subst quic_send_loop.simps, subst chunks.simps) simp
    next
      case False
      have "QuicStream_send snk s data = None"
        using quic_send_loop_stuck [of snk data 0 "[]"] assms True False
        by (cases "QuicStream_send snk s data") (simp_all add: QuicStream_send_def)
      with True False show ?thesis by simp
    qed
  next
    case False
    then show ?thesis
      using quic_send_loop_ok [of ?n snk data 0 "[]"] assms by (simp add: QuicStream_send_def)
  qed
next
  assume "0 < qst_write_buffer_size s"
  then show "concat (chunks (qst_write_buffer_size s) data) = data" by (rule concat_chunks)
next
  show "list_all (\<lambda>c. c \<noteq> [] \<and> length c \<le> qst_write_buffer_size s) (chunks (qst_write_buffer_size s) data)"
    using chunks_bounds by (fastforce simp: list_all_iff)
qed

definition demo_quic :: "nat \<Rightarrow> (unit, unit) QuicStream" where
  "demo_quic n = QuicStream_new id id (StreamId 1) () () n 16"

theorem quic_send_pieces_witness:
  "QuicStream_send sink_ok (demo_quic 2) [1, 2, 3] = Some (Ok (), [[1, 2], [3]]) \<and>
   QuicStream_send sink_ok (demo_quic 0) [1, 2, 3] = None"
proof -
  have "\<And>ms m. (sink_ok :: item sink) ms m = Ok ()" by (simp add: sink_ok_def)
  note * = quic_send_pieces [of sink_ok, OF this]
  have "chunks 2 [1, 2, 3 :: u8] = [[1, 2], [3]]" by (simp add: chunks.simps)
  with * [of "demo_quic 2" "[1, 2, 3]"] * [of "demo_quic 0" "[1, 2, 3]"] show ?thesis
    by (simp add: demo_quic_def QuicStream_new_def)
qed

end
