(* ===== verification/TcpStream.thy ===== *)
theory TcpStream
  imports StreamIo
begin

text \<open>
  \<^verbatim>\<open>foctet-net/src/transport/tcp/stream.rs\<close>: streams over TCP with TLS, built on the halves of a
  logical stream. The outcome of offering an event to the session may depend on the events
  taken before (\<open>ok\<close>); what the reader's channel delivers is a list of received frames, each with
  the channel's closed flag, and a receiver that has used it up waits (\<open>None\<close>).
\<close>

section \<open>Data\<close>

record LogicalTcpSendStream =
  tss_framed_writer :: LogicalStreamWriter
  tss_stream_id :: StreamId
  tss_write_buffer_size :: nat

record LogicalTcpRecvStream =
  trs_framed_reader :: LogicalStreamReader
  trs_stream_id :: StreamId
  trs_read_buffer_size :: nat

record LogicalTcpStream =
  tst_framed_writer :: LogicalStreamWriter
  tst_framed_reader :: LogicalStreamReader
  tst_stream_id :: StreamId
  tst_write_buffer_size :: nat
  tst_read_buffer_size :: nat

type_synonym event_sink = "StreamEvent list \<Rightarrow> StreamEvent \<Rightarrow> bool"
type_synonym received = "Frame option \<times> bool"


section \<open>Sending\<close>

definition LogicalTcpSendStream_new :: "StreamId \<Rightarrow> LogicalStreamWriter \<Rightarrow> nat \<Rightarrow> LogicalTcpSendStream" where
  "LogicalTcpSendStream_new stream_id send_stream write_buffer_size =
     \<lparr> tss_framed_writer = send_stream, tss_stream_id = stream_id,
       tss_write_buffer_size = write_buffer_size \<rparr>"

definition LogicalTcpSendStream_poll_write ::
  "(StreamEvent \<Rightarrow> bool) \<Rightarrow> LogicalTcpSendStream \<Rightarrow> bytes \<Rightarrow> nat result poll \<times> StreamEvent list" where
  "LogicalTcpSendStream_poll_write ok self buf =
     LogicalStreamWriter_poll_write ok (tss_framed_writer self) buf"

definition LogicalTcpSendStream_poll_flush :: "LogicalTcpSendStream \<Rightarrow> unit result poll" where
  "LogicalTcpSendStream_poll_flush self = LogicalStreamWriter_poll_flush (tss_framed_writer self)"

definition LogicalTcpSendStream_poll_shutdown :: "LogicalTcpSendStream \<Rightarrow> unit result poll" where
  "LogicalTcpSendStream_poll_shutdown self = LogicalStreamWriter_poll_shutdown (tss_framed_writer self)"

definition LogicalTcpSendStream_stream_id :: "LogicalTcpSendStream \<Rightarrow> StreamId" where
  "LogicalTcpSendStream_stream_id self = tss_stream_id self"

definition LogicalTcpSendStream_send :: "(StreamEvent \<Rightarrow> bool) \<Rightarrow> LogicalTcpSendStream \<Rightarrow> bytes \<Rightarrow> sent" where
  "LogicalTcpSendStream_send ok self data =
     eff_bind (LogicalStreamWriter_send_bytes ok (tss_framed_writer self) data) (\<lambda>_. (Ok (), []))"

definition LogicalTcpSendStream_send_frame ::
  "(StreamEvent \<Rightarrow> bool) \<Rightarrow> LogicalTcpSendStream \<Rightarrow> Frame \<Rightarrow> sent" where
  "LogicalTcpSendStream_send_frame ok self frame =
     eff_bind (LogicalStreamWriter_send_frame ok (tss_framed_writer self) frame) (\<lambda>_. (Ok (), []))"

definition file_frame :: "StreamId \<Rightarrow> bytes \<Rightarrow> Frame" where
  "file_frame stream_id chunk =
     FrameBuilder_build (FrameBuilder_with_payload chunk (FrameBuilder_with_frame_type Data
       (FrameBuilder_with_fin False (FrameBuilder_with_stream_id stream_id Frame_builder))))"

fun tcp_send_file_loop ::
  "event_sink \<Rightarrow> LogicalStreamWriter \<Rightarrow> StreamId \<Rightarrow> bytes result list \<Rightarrow> StreamEvent list \<Rightarrow> sent option" where
  "tcp_send_file_loop ok w stream_id [] out = None"
| "tcp_send_file_loop ok w stream_id (Inl e # reads) out = Some (Err e, out)"
| "tcp_send_file_loop ok w stream_id (Inr chunk # reads) out =
     (if length chunk = 0 then Some (Ok (), out)
      else (case LogicalStreamWriter_send_frame (ok out) w (file_frame stream_id chunk) of
              (Inl e, es) \<Rightarrow> Some (Err e, out @ es)
            | (Inr _, es) \<Rightarrow> tcp_send_file_loop ok w stream_id reads (out @ es)))"

definition LogicalTcpSendStream_send_file ::
  "unit result \<Rightarrow> bytes result list \<Rightarrow> event_sink \<Rightarrow> LogicalTcpSendStream \<Rightarrow> sent option" where
  "LogicalTcpSendStream_send_file opened reads ok self =
     (case opened of
        Inl e \<Rightarrow> Some (Err e, [])
      | Inr _ \<Rightarrow> tcp_send_file_loop ok (tss_framed_writer self) (tss_stream_id self) reads [])"

definition LogicalTcpSendStream_close ::
  "(StreamEvent \<Rightarrow> bool) \<Rightarrow> LogicalTcpSendStream \<Rightarrow> states \<Rightarrow> sent \<times> states" where
  "LogicalTcpSendStream_close ok self h =
     (let (r, h) = LogicalStreamWriter_close ok (tss_framed_writer self) h
      in (eff_bind r (\<lambda>_. (Ok (), [])), h))"


section \<open>Receiving\<close>

definition LogicalTcpRecvStream_new :: "StreamId \<Rightarrow> LogicalStreamReader \<Rightarrow> nat \<Rightarrow> LogicalTcpRecvStream" where
  "LogicalTcpRecvStream_new stream_id recv_stream read_buffer_size =
     \<lparr> trs_framed_reader = recv_stream, trs_stream_id = stream_id,
       trs_read_buffer_size = read_buffer_size \<rparr>"

definition LogicalTcpRecvStream_poll_read ::
  "('b \<Rightarrow> bytes \<Rightarrow> 'b option) \<Rightarrow> try_recv \<Rightarrow> LogicalTcpRecvStream \<Rightarrow> 'b \<Rightarrow> states
     \<Rightarrow> (unit result poll \<times> 'b) option \<times> states" where
  "LogicalTcpRecvStream_poll_read put_slice tried self buf h =
     LogicalStreamReader_poll_read put_slice tried (trs_framed_reader self) buf h"

definition LogicalTcpRecvStream_stream_id :: "LogicalTcpRecvStream \<Rightarrow> StreamId" where
  "LogicalTcpRecvStream_stream_id self = trs_stream_id self"

definition tcp_receive :: "received \<Rightarrow> LogicalStreamReader \<Rightarrow> states \<Rightarrow> bytes result \<times> states" where
  "tcp_receive rcv reader h =
     (case LogicalStreamReader_recv_bytes (fst rcv) (snd rcv) reader h of
        (Inr bytes, h) \<Rightarrow> (Ok bytes, h)
      | (Inl e, h) \<Rightarrow> (Err e, h))"

definition LogicalTcpRecvStream_receive ::
  "received \<Rightarrow> LogicalTcpRecvStream \<Rightarrow> states \<Rightarrow> bytes result \<times> states" where
  "LogicalTcpRecvStream_receive rcv self h = tcp_receive rcv (trs_framed_reader self) h"

definition tcp_receive_frame :: "received \<Rightarrow> LogicalStreamReader \<Rightarrow> states \<Rightarrow> Frame result \<times> states" where
  "tcp_receive_frame rcv reader h =
     (case LogicalStreamReader_recv_frame (fst rcv) (snd rcv) reader h of
        (Inr frame, h) \<Rightarrow> (Ok frame, h)
      | (Inl e, h) \<Rightarrow> (Err e, h))"

definition LogicalTcpRecvStream_receive_frame ::
  "received \<Rightarrow> LogicalTcpRecvStream \<Rightarrow> states \<Rightarrow> Frame result \<times> states" where
  "LogicalTcpRecvStream_receive_frame rcv self h = tcp_receive_frame rcv (trs_framed_reader self) h"

fun tcp_receive_file_loop ::
  "(bytes \<Rightarrow> bytes \<Rightarrow> unit result) \<Rightarrow> nat \<Rightarrow> LogicalStreamReader \<Rightarrow> received list \<Rightarrow> nat \<Rightarrow> bytes \<Rightarrow> states
     \<Rightarrow> ((nat result \<times> bytes) \<times> states) option" where
  "tcp_receive_file_loop wr len reader [] total_bytes file h = None"
| "tcp_receive_file_loop wr len reader (rcv # rest) total_bytes file h =
     (case LogicalStreamReader_recv_frame (fst rcv) (snd rcv) reader h of
        (Inl e, h) \<Rightarrow> Some ((Err e, file), h)
      | (Inr frame, h) \<Rightarrow>
          (case wr file (fr_payload frame) of
             Inl e \<Rightarrow> Some ((Err e, file), h)
           | Inr _ \<Rightarrow>
               (let file = file @ fr_payload frame; total_bytes = total_bytes + length (fr_payload frame)
                in if total_bytes = len then Some ((Ok total_bytes, file), h)
                   else tcp_receive_file_loop wr len reader rest total_bytes file h)))"

definition tcp_receive_file ::
  "unit result \<Rightarrow> (bytes \<Rightarrow> bytes \<Rightarrow> unit result) \<Rightarrow> unit result \<Rightarrow> received list \<Rightarrow> LogicalStreamReader
     \<Rightarrow> nat \<Rightarrow> states \<Rightarrow> ((nat result \<times> bytes) \<times> states) option" where
  "tcp_receive_file created wr flushed rcvs reader len h =
     (case created of
        Inl e \<Rightarrow> Some ((Err e, []), h)
      | Inr _ \<Rightarrow>
          (case tcp_receive_file_loop wr len reader rcvs 0 [] h of
             None \<Rightarrow> None
           | Some ((Inl e, file), h) \<Rightarrow> Some ((Err e, file), h)
           | Some ((Inr total_bytes, file), h) \<Rightarrow>
               Some ((try_bind flushed (\<lambda>_. Ok total_bytes), file), h)))"

definition LogicalTcpRecvStream_receive_file ::
  "unit result \<Rightarrow> (bytes \<Rightarrow> bytes \<Rightarrow> unit result) \<Rightarrow> unit result \<Rightarrow> received list \<Rightarrow> LogicalTcpRecvStream
     \<Rightarrow> nat \<Rightarrow> states \<Rightarrow> ((nat result \<times> bytes) \<times> states) option" where
  "LogicalTcpRecvStream_receive_file created wr flushed rcvs self len h =
     tcp_receive_file created wr flushed rcvs (trs_framed_reader self) len h"

definition LogicalTcpRecvStream_close :: "LogicalTcpRecvStream \<Rightarrow> unit result" where
  "LogicalTcpRecvStream_close self = Ok ()"


section \<open>Both directions\<close>

definition LogicalTcpStream_new ::
  "StreamId \<Rightarrow> LogicalStreamWriter \<Rightarrow> LogicalStreamReader \<Rightarrow> nat \<Rightarrow> nat \<Rightarrow> LogicalTcpStream" where
  "LogicalTcpStream_new stream_id send_stream recv_stream write_buffer_size read_buffer_size =
     \<lparr> tst_framed_writer = send_stream, tst_framed_reader = recv_stream, tst_stream_id = stream_id,
       tst_write_buffer_size = write_buffer_size, tst_read_buffer_size = read_buffer_size \<rparr>"

definition LogicalTcpStream_set_write_buffer_size :: "nat \<Rightarrow> LogicalTcpStream \<Rightarrow> LogicalTcpStream" where
  "LogicalTcpStream_set_write_buffer_size sz self = self\<lparr>tst_write_buffer_size := sz\<rparr>"

definition LogicalTcpStream_set_read_buffer_size :: "nat \<Rightarrow> LogicalTcpStream \<Rightarrow> LogicalTcpStream" where
  "LogicalTcpStream_set_read_buffer_size sz self = self\<lparr>tst_read_buffer_size := sz\<rparr>"

definition LogicalTcpStream_split :: "LogicalTcpStream \<Rightarrow> LogicalTcpSendStream \<times> LogicalTcpRecvStream" where
  "LogicalTcpStream_split self =
     (LogicalTcpSendStream_new (tst_stream_id self) (tst_framed_writer self) (tst_write_buffer_size self),
      LogicalTcpRecvStream_new (tst_stream_id self) (tst_framed_reader self) (tst_read_buffer_size self))"

definition LogicalTcpStream_merge :: "LogicalTcpSendStream \<Rightarrow> LogicalTcpRecvStream \<Rightarrow> LogicalTcpStream" where
  "LogicalTcpStream_merge send_stream recv_stream =
     \<lparr> tst_framed_writer = tss_framed_writer send_stream, tst_framed_reader = trs_framed_reader recv_stream,
       tst_stream_id = tss_stream_id send_stream,
       tst_write_buffer_size = tss_write_buffer_size send_stream,
       tst_read_buffer_size = trs_read_buffer_size recv_stream \<rparr>"

definition LogicalTcpStream_poll_read ::
  "('b \<Rightarrow> bytes \<Rightarrow> 'b option) \<Rightarrow> try_recv \<Rightarrow> LogicalTcpStream \<Rightarrow> 'b \<Rightarrow> states
     \<Rightarrow> (unit result poll \<times> 'b) option \<times> states" where
  "LogicalTcpStream_poll_read put_slice tried self buf h =
     LogicalStreamReader_poll_read put_slice tried (tst_framed_reader self) buf h"

definition LogicalTcpStream_poll_write ::
  "(StreamEvent \<Rightarrow> bool) \<Rightarrow> LogicalTcpStream \<Rightarrow> bytes \<Rightarrow> nat result poll \<times> StreamEvent list" where
  "LogicalTcpStream_poll_write ok self buf = LogicalStreamWriter_poll_write ok (tst_framed_writer self) buf"

definition LogicalTcpStream_poll_flush :: "LogicalTcpStream \<Rightarrow> unit result poll" where
  "LogicalTcpStream_poll_flush self = LogicalStreamWriter_poll_flush (tst_framed_writer self)"

definition LogicalTcpStream_poll_shutdown :: "LogicalTcpStream \<Rightarrow> unit result poll" where
  "LogicalTcpStream_poll_shutdown self = LogicalStreamWriter_poll_shutdown (tst_framed_writer self)"

definition LogicalTcpStream_stream_id :: "LogicalTcpStream \<Rightarrow> StreamId" where
  "LogicalTcpStream_stream_id self = tst_stream_id self"

definition LogicalTcpStream_send :: "(StreamEvent \<Rightarrow> bool) \<Rightarrow> LogicalTcpStream \<Rightarrow> bytes \<Rightarrow> sent" where
  "LogicalTcpStream_send ok self data =
     eff_bind (LogicalStreamWriter_send_bytes ok (tst_framed_writer self) data) (\<lambda>_. (Ok (), []))"

definition LogicalTcpStream_receive :: "received \<Rightarrow> LogicalTcpStream \<Rightarrow> states \<Rightarrow> bytes result \<times> states" where
  "LogicalTcpStream_receive rcv self h = tcp_receive rcv (tst_framed_reader self) h"

definition LogicalTcpStream_send_frame :: "(StreamEvent \<Rightarrow> bool) \<Rightarrow> LogicalTcpStream \<Rightarrow> Frame \<Rightarrow> sent" where
  "LogicalTcpStream_send_frame ok self frame =
     eff_bind (LogicalStreamWriter_send_frame ok (tst_framed_writer self) frame) (\<lambda>_. (Ok (), []))"

definition LogicalTcpStream_receive_frame :: "received \<Rightarrow> LogicalTcpStream \<Rightarrow> states \<Rightarrow> Frame result \<times> states" where
  "LogicalTcpStream_receive_frame rcv self h = tcp_receive_frame rcv (tst_framed_reader self) h"

definition LogicalTcpStream_send_file ::
  "unit result \<Rightarrow> bytes result list \<Rightarrow> event_sink \<Rightarrow> LogicalTcpStream \<Rightarrow> sent option" where
  "LogicalTcpStream_send_file opened reads ok self =
     (case opened of
        Inl e \<Rightarrow> Some (Err e, [])
      | Inr _ \<Rightarrow> tcp_send_file_loop ok (tst_framed_writer self) (tst_stream_id self) reads [])"

definition LogicalTcpStream_receive_file ::
  "unit result \<Rightarrow> (bytes \<Rightarrow> bytes \<Rightarrow> unit result) \<Rightarrow> unit result \<Rightarrow> received list \<Rightarrow> LogicalTcpStream
     \<Rightarrow> nat \<Rightarrow> states \<Rightarrow> ((nat result \<times> bytes) \<times> states) option" where
  "LogicalTcpStream_receive_file created wr flushed rcvs self len h =
     tcp_receive_file created wr flushed rcvs (tst_framed_reader self) len h"

definition LogicalTcpStream_close ::
  "(StreamEvent \<Rightarrow> bool) \<Rightarrow> LogicalTcpStream \<Rightarrow> states \<Rightarrow> sent \<times> states" where
  "LogicalTcpStream_close ok self h =
     (let (r, h) = LogicalStreamWriter_close ok (tst_framed_writer self) h
      in (eff_bind r (\<lambda>_. (Ok (), [])), h))"


section \<open>Lemmas\<close>

lemma file_frame_payload [simp]: "fr_payload (file_frame i c) = c"
  by (simp add: file_frame_def builder_defs)

lemma tcp_send_file_loop_ok:
  assumes "\<And>es e. ok es e" and "\<forall>c \<in> set cs. c \<noteq> []"
  shows "tcp_send_file_loop ok w i (map Ok cs @ [Ok []]) out =
    Some (Ok (), out @ map (\<lambda>c. EvFrame (file_frame i c)) cs)"
  using assms(2)
  by (induction cs arbitrary: out) (simp_all add: assms(1) LogicalStreamWriter_send_frame_def)

lemma recv_frame_Some:
  "LogicalStreamReader_recv_frame (Some f) closed r h =
     (Ok f, LogicalStreamReader_set_state_from_flags r (hdr_flags (fr_header f)) h)"
  by (simp add: LogicalStreamReader_recv_frame_def)

text \<open>Over frames that keep coming and a file that can be written, receiving a file returns exactly
  when some non-empty prefix of the frames has the announced length, with the shortest such prefix.\<close>

definition payloads :: "Frame list \<Rightarrow> bytes" where
  "payloads fs = concat (map fr_payload fs)"

lemma payloads_simps [simp]: "payloads [] = []" "payloads (f # fs) = fr_payload f @ payloads fs"
  by (simp_all add: payloads_def)

abbreviation arriving :: "Frame list \<Rightarrow> received list" where
  "arriving fs \<equiv> map (\<lambda>f. (Some f, False)) fs"

text \<open>The first \<open>k\<close> frames complete a file of length \<open>len\<close> of which \<open>off\<close> bytes are there.\<close>

definition completes :: "nat \<Rightarrow> nat \<Rightarrow> Frame list \<Rightarrow> nat \<Rightarrow> bool" where
  "completes off len fs k \<longleftrightarrow> 0 < k \<and> k \<le> length fs \<and> off + length (payloads (take k fs)) = len"

lemma completes_Nil [simp]: "\<not> completes off len [] k"
  by (auto simp: completes_def)

lemma completes_Suc:
  "completes off len (f # fs) (Suc k) \<longleftrightarrow>
     (if k = 0 then off + length (fr_payload f) = len else completes (off + length (fr_payload f)) len fs k)"
  by (cases k) (auto simp: completes_def)

lemma completes_0 [simp]: "\<not> completes off len fs 0"
  by (simp add: completes_def)

lemma tcp_receive_file_loop_step:
  assumes "\<And>f d. wr f d = Ok ()"
  shows "tcp_receive_file_loop wr len r (arriving (f # fs)) off acc h =
    (let h' = LogicalStreamReader_set_state_from_flags r (hdr_flags (fr_header f)) h;
         off' = off + length (fr_payload f); acc' = acc @ fr_payload f
     in if off' = len then Some ((Ok len, acc'), h')
        else tcp_receive_file_loop wr len r (arriving fs) off' acc' h')"
  by (simp add: recv_frame_Some assms Let_def)

lemma tcp_receive_file_loop_None:
  assumes "\<And>f d. wr f d = Ok ()"
  shows "tcp_receive_file_loop wr len r (arriving fs) off acc h = None \<longleftrightarrow> (\<forall>k. \<not> completes off len fs k)"
proof (induction fs arbitrary: off acc h)
  case (Cons f fs)
  have "(\<forall>k. \<not> completes off len (f # fs) k) \<longleftrightarrow> (\<forall>k. \<not> completes off len (f # fs) (Suc k))"
    by (metis completes_0 not0_implies_Suc)
  also have "\<dots> \<longleftrightarrow> off + length (fr_payload f) \<noteq> len \<and> (\<forall>k. \<not> completes (off + length (fr_payload f)) len fs k)"
    unfolding completes_Suc by (metis completes_0)
  finally show ?case unfolding tcp_receive_file_loop_step [OF assms] Let_def using Cons by simp
qed simp

lemma tcp_receive_file_loop_Some:
  assumes "\<And>f d. wr f d = Ok ()"
    and "tcp_receive_file_loop wr len r (arriving fs) off acc h = Some ((res, out), h')"
  shows "\<exists>k. completes off len fs k \<and> (\<forall>j < k. \<not> completes off len fs j) \<and>
    res = Ok len \<and> out = acc @ payloads (take k fs)"
  using assms(2)
proof (induction fs arbitrary: off acc h)
  case (Cons f fs)
  show ?case
  proof (cases "off + length (fr_payload f) = len")
    case True
    with Cons.prems show ?thesis unfolding tcp_receive_file_loop_step [OF assms(1)]
      by (intro exI [of _ "Suc 0"]) (simp add: completes_Suc)
  next
    case False
    with Cons.prems have "tcp_receive_file_loop wr len r (arriving fs) (off + length (fr_payload f))
        (acc @ fr_payload f) (LogicalStreamReader_set_state_from_flags r (hdr_flags (fr_header f)) h) =
        Some ((res, out), h')" unfolding tcp_receive_file_loop_step [OF assms(1)] by (simp add: Let_def)
    from Cons.IH [OF this] obtain k where k: "completes (off + length (fr_payload f)) len fs k"
      "\<forall>j < k. \<not> completes (off + length (fr_payload f)) len fs j" "res = Ok len"
      "out = (acc @ fr_payload f) @ payloads (take k fs)"
      by blast
    have "k \<noteq> 0" using k(1) by (cases k) simp_all
    have "\<not> completes off len (f # fs) j" if "j < Suc k" for j
      using that k(2) False by (cases j) (simp_all add: completes_Suc)
    with k False \<open>k \<noteq> 0\<close> show ?thesis
      by (intro exI [of _ "Suc k"]) (simp add: completes_Suc)
  qed
qed simp

text \<open>What a stream emits for a file, and what it gets from the frames of one.\<close>

fun event_frames :: "StreamEvent list \<Rightarrow> Frame list" where
  "event_frames [] = []"
| "event_frames (EvFrame f # es) = f # event_frames es"
| "event_frames (_ # es) = event_frames es"

lemma event_frames_map [simp]: "event_frames (map (\<lambda>c. EvFrame (g c)) cs) = map g cs"
  by (induction cs) simp_all

definition tcp_file_frames :: "LogicalStreamWriter \<Rightarrow> StreamId \<Rightarrow> bytes list \<Rightarrow> Frame list" where
  "tcp_file_frames w i cs =
     (case tcp_send_file_loop (\<lambda>_ _. True) w i (map Ok cs @ [Ok []]) [] of
        Some (Inr _, es) \<Rightarrow> event_frames es | _ \<Rightarrow> [])"

definition tcp_file_recv :: "LogicalStreamReader \<Rightarrow> states \<Rightarrow> nat \<Rightarrow> Frame list \<Rightarrow> (nat \<times> bytes) option" where
  "tcp_file_recv r h len fs =
     (case tcp_receive_file (Ok ()) (\<lambda>_ _. Ok ()) (Ok ()) (arriving fs) r len h of
        Some ((Inr n, f), _) \<Rightarrow> Some (n, f) | _ \<Rightarrow> None)"

lemma completes_only_all:
  assumes "\<forall>f \<in> set fs. fr_payload f \<noteq> []" and "completes 0 (length (payloads fs)) fs k"
  shows "k = length fs"
proof (rule ccontr)
  assume "k \<noteq> length fs"
  with assms(2) have "k < length fs" by (simp add: completes_def)
  then have "drop k fs \<noteq> []" "set (drop k fs) \<subseteq> set fs" by (simp_all add: set_drop_subset)
  then have "payloads (drop k fs) \<noteq> []" using assms(1) by (cases "drop k fs") auto
  moreover have "payloads fs = payloads (take k fs) @ payloads (drop k fs)"
    by (metis append_take_drop_id concat_append map_append payloads_def)
  ultimately show False using assms(2) by (simp add: completes_def)
qed

interpretation tcp_files: file_channel "tcp_file_frames w i" fr_payload "tcp_file_recv r h" for w i r h
proof (unfold_locales, goal_cases)
  case (1 cs)
  then show ?case
    using tcp_send_file_loop_ok [of "\<lambda>_ _. True" cs w i "[]"] by (simp add: tcp_file_frames_def comp_def)
next
  case (2 fs)
  let ?len = "length (concat (map fr_payload fs))"
  have all: "completes 0 ?len fs (length fs)" using 2 by (simp add: completes_def payloads_def)
  then obtain res out h' where s: "tcp_receive_file_loop (\<lambda>_ _. Ok ()) ?len r (arriving fs) 0 [] h = Some ((res, out), h')"
    using tcp_receive_file_loop_None [of "\<lambda>_ _. Ok ()" ?len r fs 0 "[]" h] by fastforce
  from tcp_receive_file_loop_Some [OF _ s] obtain k where k: "completes 0 ?len fs k" "res = Ok ?len"
    "out = payloads (take k fs)" by auto
  from completes_only_all [OF 2(2)] k(1) have "k = length fs" by (simp add: payloads_def)
  with k s show ?case by (simp add: tcp_file_recv_def tcp_receive_file_def payloads_def)
qed

lemma tcp_split_merge: "case_prod LogicalTcpStream_merge (LogicalTcpStream_split s) = s"
  by (simp add: LogicalTcpStream_split_def LogicalTcpStream_merge_def LogicalTcpSendStream_new_def
      LogicalTcpRecvStream_new_def)

text \<open>A file sent over a TCP stream arrives: whatever non-empty pieces the file is read in, the
  frames emitted for it give the receiver that waits for as many bytes as the file has
  exactly the file.\<close>

lemma tcp_file_roundtrip:
  assumes "file_reads n content cs reads" and "0 < n" and "content \<noteq> []"
  shows "\<exists>es h'. LogicalTcpStream_send_file (Ok ()) reads (\<lambda>_ _. True) s = Some (Ok (), es) \<and>
    LogicalTcpStream_receive_file (Ok ()) (\<lambda>_ _. Ok ()) (Ok ()) (arriving (event_frames es)) t (length content) h =
      Some ((Ok (length content), content), h')"
proof -
  let ?w = "tst_framed_writer s" and ?i = "tst_stream_id s" and ?r = "tst_framed_reader t"
  have cs: "\<forall>c \<in> set cs. c \<noteq> []" "reads = map Ok cs @ [Ok []]"
    using assms(1) by (auto simp: file_reads_def list_all_iff)
  then have send: "tcp_send_file_loop (\<lambda>_ _. True) ?w ?i reads [] = Some (Ok (), map (\<lambda>c. EvFrame (file_frame ?i c)) cs)"
    using tcp_send_file_loop_ok [of "\<lambda>_ _. True" cs ?w ?i "[]"] by simp
  moreover from this cs(2) have "tcp_file_frames ?w ?i cs = map (file_frame ?i) cs"
    by (simp add: tcp_file_frames_def)
  moreover have "tcp_file_recv ?r h (length content) (tcp_file_frames ?w ?i cs) = Some (length content, content)"
    using assms by (rule tcp_files.file_roundtrip)
  ultimately have "\<exists>h'. tcp_receive_file (Ok ()) (\<lambda>_ _. Ok ()) (Ok ()) (arriving (map (file_frame ?i) cs)) ?r (length content) h =
      Some ((Ok (length content), content), h')"
    by (auto simp: tcp_file_recv_def split: option.splits sum.splits)
  with send show ?thesis by (auto simp: LogicalTcpStream_send_file_def LogicalTcpStream_receive_file_def)
qed


section \<open>Properties\<close>

text \<open>C33. Receiving a file over TCP while frames arrive and the file can be written: it returns
  exactly when some number of frames has together exactly the announced length, and then with
  the first such frames; in particular it waits for ever on an announced length of zero until
  an empty frame comes, and when a frame passes the announced length.\<close>

theorem tcp_receive_file_exact:
  assumes "\<And>f d. wr f d = Ok ()"
  shows "(LogicalTcpStream_receive_file (Ok ()) wr (Ok ()) (arriving fs) s len h = None \<longleftrightarrow>
      (\<forall>k. \<not> completes 0 len fs k)) \<and>
    (\<forall>res out h'. LogicalTcpStream_receive_file (Ok ()) wr (Ok ()) (arriving fs) s len h = Some ((res, out), h') \<longrightarrow>
      res = Ok len \<and> (\<exists>k. completes 0 len fs k \<and> (\<forall>j < k. \<not> completes 0 len fs j) \<and> out = payloads (take k fs)))"
proof (intro conjI allI impI)
  let ?loop = "tcp_receive_file_loop wr len (tst_framed_reader s) (arriving fs) 0 [] h"
  have eq: "LogicalTcpStream_receive_file (Ok ()) wr (Ok ()) (arriving fs) s len h = ?loop"
    using tcp_receive_file_loop_Some [OF assms]
    by (auto simp: LogicalTcpStream_receive_file_def tcp_receive_file_def split: option.splits sum.splits)
  show "LogicalTcpStream_receive_file (Ok ()) wr (Ok ()) (arriving fs) s len h = None \<longleftrightarrow> (\<forall>k. \<not> completes 0 len fs k)"
    unfolding eq by (rule tcp_receive_file_loop_None [OF assms])
  fix res out h'
  assume "LogicalTcpStream_receive_file (Ok ()) wr (Ok ()) (arriving fs) s len h = Some ((res, out), h')"
  then have "?loop = Some ((res, out), h')" unfolding eq .
  from tcp_receive_file_loop_Some [OF assms this]
  show "res = Ok len" and "\<exists>k. completes 0 len fs k \<and> (\<forall>j < k. \<not> completes 0 len fs j) \<and> out = payloads (take k fs)"
    by auto
qed

definition demo_tcp :: LogicalTcpStream where
  "demo_tcp = LogicalTcpStream_new (StreamId 3)
     \<lparr> lw_session_id = SessionId 1, lw_stream_id = StreamId 3, lw_state = 0 \<rparr>
     \<lparr> lr_session_id = SessionId 1, lr_stream_id = StreamId 3, lr_state = 0 \<rparr> 2 2"

theorem tcp_receive_file_exact_witness:
  "LogicalTcpStream_receive_file (Ok ()) (\<lambda>_ _. Ok ()) (Ok ())
     (arriving [file_frame (StreamId 3) [1, 2], file_frame (StreamId 3) [3]]) demo_tcp 1 (\<lambda>_. Mutex_new Established) = None"
proof -
  have "\<not> completes 0 1 [file_frame (StreamId 3) [1, 2], file_frame (StreamId 3) [3]] k" for k
    by (cases k; cases "k - 1"; cases "k - 2") (simp_all add: completes_Suc)
  then show ?thesis
    using tcp_receive_file_exact [of "\<lambda>_ _. Ok ()" "[file_frame (StreamId 3) [1, 2], file_frame (StreamId 3) [3]]" demo_tcp 1]
    by blast
qed

end
