(* ===== verification/Keys.thy ===== *)
theory Keys
  imports Foctet_Prelude
begin

text \<open>
  \<^verbatim>\<open>foctet-core/src/key.rs\<close> (Ed25519 keys), \<^verbatim>\<open>foctet-core/src/id.rs\<close> (node and content identifiers).

  The signature scheme, the text encodings and the serialiser are code of other crates
  (\<^verbatim>\<open>ed25519_dalek\<close>, \<^verbatim>\<open>hex\<close>, \<^verbatim>\<open>base32\<close>, \<^verbatim>\<open>bincode\<close>): they are the parameters \<open>ed_ops\<close> and \<open>text_ops\<close>. The
  properties name what they rely on (\<open>ed_keypairs\<close>, \<open>ed_signatures\<close>, \<open>text_roundtrip\<close>).
  Fixed-size arrays are byte lists; a conversion from a slice checks the length, as
  \<^verbatim>\<open>TryFrom\<close> of the standard library does. A method that overwrites its argument returns it.
\<close>

section \<open>Parameters\<close>

text \<open>\<open>'k\<close>: a signing key, \<open>'v\<close>: a verifying key, \<open>'s\<close>: a signature.\<close>

record ('k, 'v, 's) ed_ops =
  ed_from_bytes :: "bytes \<Rightarrow> 'k"
  ed_to_bytes :: "'k \<Rightarrow> bytes"
  ed_from_keypair_bytes :: "bytes \<Rightarrow> 'k result"
  ed_to_keypair_bytes :: "'k \<Rightarrow> bytes"
  ed_verifying_key :: "'k \<Rightarrow> 'v"
  ed_vk_to_bytes :: "'v \<Rightarrow> bytes"
  ed_vk_from_bytes :: "bytes \<Rightarrow> 'v result"
  ed_sign :: "'k \<Rightarrow> bytes \<Rightarrow> bytes"
  ed_signature_try_from :: "bytes \<Rightarrow> 's result"
  ed_verify :: "'v \<Rightarrow> bytes \<Rightarrow> 's \<Rightarrow> bool"

record text_ops =
  hex_encode :: "bytes \<Rightarrow> string"
  hex_decode :: "string \<Rightarrow> bytes result"
  base32_encode :: "bytes \<Rightarrow> string"
  base32_decode :: "string \<Rightarrow> bytes option"

text \<open>What the crates document.\<close>

definition ed_keypairs :: "('k, 'v, 's) ed_ops \<Rightarrow> bool" where
  "ed_keypairs E \<longleftrightarrow> (\<forall>k. length (ed_to_keypair_bytes E k) = 64 \<and>
     ed_from_keypair_bytes E (ed_to_keypair_bytes E k) = Ok k \<and>
     length (ed_to_bytes E k) = 32 \<and> ed_from_bytes E (ed_to_bytes E k) = k)"

definition ed_signatures :: "('k, 'v, 's) ed_ops \<Rightarrow> bool" where
  "ed_signatures E \<longleftrightarrow>
     (\<forall>k. length (ed_vk_to_bytes E (ed_verifying_key E k)) = 32 \<and>
        ed_vk_from_bytes E (ed_vk_to_bytes E (ed_verifying_key E k)) = Ok (ed_verifying_key E k)) \<and>
     (\<forall>k msg. \<exists>s. ed_signature_try_from E (ed_sign E k msg) = Ok s \<and> ed_verify E (ed_verifying_key E k) msg s)"

definition text_roundtrip :: "text_ops \<Rightarrow> bool" where
  "text_roundtrip T \<longleftrightarrow> (\<forall>bs. hex_decode T (hex_encode T bs) = Ok bs \<and> base32_decode T (base32_encode T bs) = Some bs)"

text \<open>\<^verbatim>\<open><[u8; n]>::try_from(slice)\<close> of the standard library.\<close>

definition array_try_from :: "nat \<Rightarrow> bytes \<Rightarrow> bytes result" where
  "array_try_from n bs = (if length bs = n then Ok bs else Err (Anyhow ''could not convert slice to array''))"

text \<open>\<^verbatim>\<open>[u8]::copy_from_slice\<close> of the standard library panics (\<open>None\<close>) when the lengths differ.\<close>

definition copy_from_slice :: "bytes \<Rightarrow> bytes \<Rightarrow> bytes option" where
  "copy_from_slice dst src = (if length dst = length src then Some src else None)"

text \<open>\<^verbatim>\<open>Zeroize\<close> overwrites a slice with zeroes.\<close>

definition zeroize :: "bytes \<Rightarrow> bytes" where
  "zeroize bs = replicate (length bs) 0"


section \<open>Keys\<close>

datatype 'k Keypair = Keypair (Keypair_key: 'k)

datatype PublicKey = PublicKey (public_key: bytes)

datatype SecretKey = SecretKey (secret_key: bytes)

type_synonym NodeId = PublicKey

definition Keypair_to_bytes :: "('k, 'v, 's) ed_ops \<Rightarrow> 'k Keypair \<Rightarrow> bytes" where
  "Keypair_to_bytes E self = ed_to_keypair_bytes E (Keypair_key self)"

definition Keypair_try_from_bytes :: "('k, 'v, 's) ed_ops \<Rightarrow> bytes \<Rightarrow> 'k Keypair result \<times> bytes" where
  "Keypair_try_from_bytes E kp =
     (case array_try_from 64 kp of
        Inl e \<Rightarrow> (Err e, kp)
      | Inr bytes \<Rightarrow>
          (case ed_from_keypair_bytes E bytes of
             Inr k \<Rightarrow> (Ok (Keypair k), zeroize kp)
           | Inl e \<Rightarrow> (Err e, zeroize kp)))"

definition Keypair_sign :: "('k, 'v, 's) ed_ops \<Rightarrow> 'k Keypair \<Rightarrow> bytes \<Rightarrow> bytes" where
  "Keypair_sign E self msg = ed_sign E (Keypair_key self) msg"

definition Keypair_public :: "('k, 'v, 's) ed_ops \<Rightarrow> 'k Keypair \<Rightarrow> PublicKey" where
  "Keypair_public E self = PublicKey (ed_vk_to_bytes E (ed_verifying_key E (Keypair_key self)))"

definition Keypair_secret :: "('k, 'v, 's) ed_ops \<Rightarrow> 'k Keypair \<Rightarrow> SecretKey" where
  "Keypair_secret E self = SecretKey (ed_to_bytes E (Keypair_key self))"

definition SecretKey_from_Keypair :: "('k, 'v, 's) ed_ops \<Rightarrow> 'k Keypair \<Rightarrow> SecretKey" where
  "SecretKey_from_Keypair E kp = SecretKey (ed_to_bytes E (Keypair_key kp))"

definition Keypair_from_SecretKey :: "('k, 'v, 's) ed_ops \<Rightarrow> SecretKey \<Rightarrow> 'k Keypair" where
  "Keypair_from_SecretKey E sk = Keypair (ed_from_bytes E (secret_key sk))"

text \<open>\<open>k\<close> is what the operating system's generator produced.\<close>

definition SecretKey_generate :: "('k, 'v, 's) ed_ops \<Rightarrow> 'k \<Rightarrow> SecretKey" where
  "SecretKey_generate E k = SecretKey (ed_to_bytes E k)"

definition Keypair_generate :: "('k, 'v, 's) ed_ops \<Rightarrow> 'k \<Rightarrow> 'k Keypair" where
  "Keypair_generate E k = Keypair_from_SecretKey E (SecretKey_generate E k)"

definition SecretKey_try_from_bytes :: "bytes \<Rightarrow> SecretKey result \<times> bytes" where
  "SecretKey_try_from_bytes sk_bytes =
     (case array_try_from 32 sk_bytes of
        Inl e \<Rightarrow> (Err e, sk_bytes)
      | Inr secret \<Rightarrow> (Ok (SecretKey secret), zeroize sk_bytes))"

definition SecretKey_to_bytes :: "SecretKey \<Rightarrow> bytes" where
  "SecretKey_to_bytes self = secret_key self"

definition SecretKey_as_ref :: "SecretKey \<Rightarrow> bytes" where
  "SecretKey_as_ref self = secret_key self"

definition PublicKey_generate :: "('k, 'v, 's) ed_ops \<Rightarrow> 'k \<Rightarrow> PublicKey" where
  "PublicKey_generate E k = Keypair_public E (Keypair_generate E k)"

definition PublicKey_zero :: PublicKey where
  "PublicKey_zero = PublicKey (replicate 32 0)"

definition PublicKey_is_zero :: "PublicKey \<Rightarrow> bool" where
  "PublicKey_is_zero self = list_all (\<lambda>b. b = 0) (public_key self)"

definition PublicKey_verify :: "('k, 'v, 's) ed_ops \<Rightarrow> PublicKey \<Rightarrow> bytes \<Rightarrow> bytes \<Rightarrow> bool" where
  "PublicKey_verify E self msg sig =
     (case ed_signature_try_from E sig of
        Inr sig \<Rightarrow>
          (case ed_vk_from_bytes E (public_key self) of
             Inr vkey \<Rightarrow> ed_verify E vkey msg sig
           | Inl e \<Rightarrow> False)
      | Inl e \<Rightarrow> False)"

definition PublicKey_to_bytes :: "PublicKey \<Rightarrow> bytes" where
  "PublicKey_to_bytes self = public_key self"

definition PublicKey_try_from_bytes :: "('k, 'v, 's) ed_ops \<Rightarrow> bytes \<Rightarrow> PublicKey result" where
  "PublicKey_try_from_bytes E k =
     try_bind (array_try_from 32 k) (\<lambda>k.
       try_bind (ed_vk_from_bytes E k) (\<lambda>vkey. Ok (PublicKey k)))"

definition PublicKey_from_base32 :: "('k, 'v, 's) ed_ops \<Rightarrow> text_ops \<Rightarrow> string \<Rightarrow> PublicKey result" where
  "PublicKey_from_base32 E T encoded =
     try_bind (ok_or (base32_decode T encoded) (Anyhow ''Invalid base32''))
       (PublicKey_try_from_bytes E)"

definition PublicKey_to_base32 :: "text_ops \<Rightarrow> PublicKey \<Rightarrow> string" where
  "PublicKey_to_base32 T self = base32_encode T (PublicKey_to_bytes self)"

definition PublicKey_fmt :: "text_ops \<Rightarrow> PublicKey \<Rightarrow> string" where
  "PublicKey_fmt T self = PublicKey_to_base32 T self"

definition PublicKey_from_str :: "('k, 'v, 's) ed_ops \<Rightarrow> text_ops \<Rightarrow> string \<Rightarrow> PublicKey result" where
  "PublicKey_from_str E T s = PublicKey_from_base32 E T s"


section \<open>Content identifiers\<close>

definition UUID_V4_BYTES_LEN :: nat where "UUID_V4_BYTES_LEN = 16"

datatype UuidV4 = UuidV4 (uuid_bytes: bytes)

text \<open>\<open>unique_id\<close> is what \<^verbatim>\<open>Uuid::new_v4()\<close> produced.\<close>

definition UuidV4_new :: "bytes \<Rightarrow> UuidV4 option" where
  "UuidV4_new unique_id = map_option UuidV4 (copy_from_slice (replicate UUID_V4_BYTES_LEN 0) unique_id)"

definition UuidV4_zero :: UuidV4 where
  "UuidV4_zero = UuidV4 (replicate UUID_V4_BYTES_LEN 0)"

definition UuidV4_from_bytes :: "bytes \<Rightarrow> UuidV4 result" where
  "UuidV4_from_bytes bytes =
     (if length bytes \<noteq> UUID_V4_BYTES_LEN
      then Err (Anyhow (''Invalid length for UuidV4: expected '' @ show_nat UUID_V4_BYTES_LEN @
                        '', got '' @ show_nat (length bytes)))
      else Ok (UuidV4 bytes))"

text \<open>\<^verbatim>\<open>std::str::from_utf8\<close>: well-formed UTF-8, by the first byte of each character and the range of the second. A
  string is the list of its bytes, as characters.\<close>

definition utf8_cont :: "u8 \<Rightarrow> bool" where
  "utf8_cont b \<longleftrightarrow> 0x80 \<le> b \<and> b \<le> 0xBF"

fun utf8_valid :: "bytes \<Rightarrow> bool" where
  "utf8_valid [] \<longleftrightarrow> True"
| "utf8_valid (b # bs) \<longleftrightarrow>
     (if b < 0x80 then utf8_valid bs
      else case bs of
             [] \<Rightarrow> False
           | c # cs \<Rightarrow>
               if 0xC2 \<le> b \<and> b \<le> 0xDF then utf8_cont c \<and> utf8_valid cs
               else (case cs of
                       [] \<Rightarrow> False
                     | d # ds \<Rightarrow>
                         if 0xE0 \<le> b \<and> b \<le> 0xEF
                         then utf8_cont c \<and> (b = 0xE0 \<longrightarrow> 0xA0 \<le> c) \<and> (b = 0xED \<longrightarrow> c \<le> 0x9F) \<and> utf8_cont d \<and> utf8_valid ds
                         else (case ds of
                                 [] \<Rightarrow> False
                               | e # es \<Rightarrow>
                                   0xF0 \<le> b \<and> b \<le> 0xF4 \<and> utf8_cont c \<and> (b = 0xF0 \<longrightarrow> 0x90 \<le> c) \<and> (b = 0xF4 \<longrightarrow> c \<le> 0x8F) \<and>
                                   utf8_cont d \<and> utf8_cont e \<and> utf8_valid es)))"

definition UuidV4_as_str :: "UuidV4 \<Rightarrow> string" where
  "UuidV4_as_str self = (if utf8_valid (uuid_bytes self) then map (\<lambda>b. char_of (unat b)) (uuid_bytes self) else [])"

definition UuidV4_to_bytes :: "UuidV4 \<Rightarrow> bytes" where
  "UuidV4_to_bytes self = uuid_bytes self"

text \<open>\<open>None\<close> is the panic of \<^verbatim>\<open>copy_from_slice\<close>.\<close>

definition UuidV4_from_hex :: "text_ops \<Rightarrow> string \<Rightarrow> UuidV4 result option" where
  "UuidV4_from_hex T encoded =
     (case hex_decode T encoded of
        Inl e \<Rightarrow> Some (Err e)
      | Inr bytes \<Rightarrow> map_option (\<lambda>id. Ok (UuidV4 id)) (copy_from_slice (replicate UUID_V4_BYTES_LEN 0) bytes))"

definition UuidV4_to_hex :: "text_ops \<Rightarrow> UuidV4 \<Rightarrow> string" where
  "UuidV4_to_hex T self = hex_encode T (uuid_bytes self)"

definition UuidV4_is_zero :: "UuidV4 \<Rightarrow> bool" where
  "UuidV4_is_zero self = list_all (\<lambda>x. x = 0) (uuid_bytes self)"

text \<open>\<open>enc\<close> and \<open>dec\<close> are \<^verbatim>\<open>bincode\<close> for the type; the second component of \<open>dec\<close> is the number of bytes read.\<close>

definition serde_from_base32 ::
  "text_ops \<Rightarrow> (bytes \<Rightarrow> ('a \<times> nat) result) \<Rightarrow> (error \<Rightarrow> string) \<Rightarrow> string \<Rightarrow> 'a result" where
  "serde_from_base32 T dec disp encoded =
     try_bind (ok_or (base32_decode T encoded) (Anyhow ''Failed to decode base32 string'')) (\<lambda>decoded.
       (case dec decoded of
          Inr (x, _) \<Rightarrow> Ok x
        | Inl e \<Rightarrow> Err (Anyhow (''Failed to decode base32 string: '' @ disp e))))"

definition serde_to_base32 :: "text_ops \<Rightarrow> ('a \<Rightarrow> bytes result) \<Rightarrow> 'a \<Rightarrow> string result" where
  "serde_to_base32 T enc self =
     try_bind (enc self) (\<lambda>serialized. Ok (base32_encode T serialized))"

definition UuidV4_from_base32 ::
  "text_ops \<Rightarrow> (bytes \<Rightarrow> (UuidV4 \<times> nat) result) \<Rightarrow> (error \<Rightarrow> string) \<Rightarrow> string \<Rightarrow> UuidV4 result" where
  "UuidV4_from_base32 T dec disp encoded = serde_from_base32 T dec disp encoded"

definition UuidV4_to_base32 :: "text_ops \<Rightarrow> (UuidV4 \<Rightarrow> bytes result) \<Rightarrow> UuidV4 \<Rightarrow> string result" where
  "UuidV4_to_base32 T enc self = serde_to_base32 T enc self"


section \<open>Lemmas\<close>

lemma array_try_from_Inr_iff [simp]: "array_try_from n bs = Inr k \<longleftrightarrow> length bs = n \<and> k = bs"
  by (auto simp: array_try_from_def)

lemma array_try_from_length [simp]: "length bs = n \<Longrightarrow> array_try_from n bs = Ok bs"
  by (simp add: array_try_from_def)

lemma zeroize_length: "length bs = n \<Longrightarrow> zeroize bs = replicate n 0"
  by (simp add: zeroize_def)

lemma copy_from_slice_None_iff: "copy_from_slice dst src = None \<longleftrightarrow> length dst \<noteq> length src"
  by (simp add: copy_from_slice_def)

lemma serde_base32_roundtrip:
  assumes "text_roundtrip T" and "enc x = Ok bs" and "dec bs = Ok (x, n)"
  shows "try_bind (serde_to_base32 T enc x) (serde_from_base32 T dec disp) = Ok x"
  using assms by (simp add: serde_to_base32_def serde_from_base32_def text_roundtrip_def)

lemma public_key_bytes:
  assumes "ed_signatures E"
  shows "PublicKey_try_from_bytes E (PublicKey_to_bytes (Keypair_public E kp)) = Ok (Keypair_public E kp)"
  using assms by (simp add: PublicKey_to_bytes_def PublicKey_try_from_bytes_def Keypair_public_def ed_signatures_def)

lemma public_key_text:
  assumes "ed_signatures E" and "text_roundtrip T"
  shows "PublicKey_from_base32 E T (PublicKey_to_base32 T (Keypair_public E kp)) = Ok (Keypair_public E kp)"
  using assms by (simp add: PublicKey_from_base32_def PublicKey_to_base32_def public_key_bytes text_roundtrip_def)

lemma signature_verifies:
  assumes "ed_signatures E"
  shows "PublicKey_verify E (Keypair_public E kp) msg (Keypair_sign E kp msg)"
proof -
  from assms obtain s where "ed_signature_try_from E (ed_sign E (Keypair_key kp) msg) = Ok s"
    "ed_verify E (ed_verifying_key E (Keypair_key kp)) msg s" unfolding ed_signatures_def by blast
  with assms show ?thesis
    by (simp add: PublicKey_verify_def Keypair_sign_def Keypair_public_def ed_signatures_def)
qed

text \<open>Concrete parameters for which the laws hold: a one-byte key and characters for bytes.\<close>

definition demo_ed :: "(u8, u8, bytes) ed_ops" where
  "demo_ed = \<lparr> ed_from_bytes = hd, ed_to_bytes = replicate 32, ed_from_keypair_bytes = (\<lambda>bs. Ok (hd bs)),
     ed_to_keypair_bytes = replicate 64, ed_verifying_key = (\<lambda>k. k + 1), ed_vk_to_bytes = replicate 32,
     ed_vk_from_bytes = (\<lambda>bs. Ok (hd bs)), ed_sign = (\<lambda>k msg. (k + 1) # msg),
     ed_signature_try_from = Ok, ed_verify = (\<lambda>v msg s. s = v # msg) \<rparr>"

definition demo_text :: text_ops where
  "demo_text = \<lparr> hex_encode = map (\<lambda>b. char_of (unat b)), hex_decode = (\<lambda>s. Ok (map (\<lambda>c. of_nat (of_char c)) s)),
     base32_encode = map (\<lambda>b. char_of (unat b)), base32_decode = (\<lambda>s. Some (map (\<lambda>c. of_nat (of_char c)) s)) \<rparr>"

lemma demo_ed_laws: "ed_keypairs demo_ed" "ed_signatures demo_ed"
  by (simp_all add: ed_keypairs_def ed_signatures_def demo_ed_def numeral_nat)

lemma demo_text_laws: "text_roundtrip demo_text"
proof -
  have "unat (b :: u8) mod 256 = unat b" for b
    using u8_less [of b] by simp
  then show ?thesis by (simp add: text_roundtrip_def demo_text_def comp_def)
qed


section \<open>Properties\<close>

text \<open>C31. Parsing a keypair overwrites its input with zeroes exactly when the input has 64 bytes,
  whether or not the bytes are a valid keypair (its documentation says on success); an input
  of another length is left alone. What a keypair is printed to parses back to it, and a
  keypair is recovered from its secret key.\<close>

theorem keypair_parse:
  "snd (Keypair_try_from_bytes E bs) = (if length bs = 64 then replicate 64 0 else bs) \<and>
   (ed_keypairs E \<longrightarrow>
      Keypair_try_from_bytes E (Keypair_to_bytes E kp) = (Ok kp, replicate 64 0) \<and>
      Keypair_from_SecretKey E (Keypair_secret E kp) = kp)"
proof (intro conjI impI)
  show "snd (Keypair_try_from_bytes E bs) = (if length bs = 64 then replicate 64 0 else bs)"
    by (simp add: Keypair_try_from_bytes_def array_try_from_def zeroize_length split: sum.split)
next
  assume "ed_keypairs E"
  then show "Keypair_try_from_bytes E (Keypair_to_bytes E kp) = (Ok kp, replicate 64 0)"
    by (simp add: ed_keypairs_def Keypair_try_from_bytes_def Keypair_to_bytes_def zeroize_length)
next
  assume "ed_keypairs E"
  then show "Keypair_from_SecretKey E (Keypair_secret E kp) = kp"
    by (simp add: ed_keypairs_def Keypair_from_SecretKey_def Keypair_secret_def)
qed

theorem keypair_parse_witness:
  "Keypair_try_from_bytes demo_ed (Keypair_to_bytes demo_ed (Keypair 5)) = (Ok (Keypair 5), replicate 64 0)"
  using keypair_parse [of demo_ed "[]" "Keypair 5"] demo_ed_laws(1) by blast

text \<open>The node identifier of a keypair survives its text form, and a signature made with the
  keypair verifies under its public key.\<close>

theorem public_key_text_and_signature:
  assumes "ed_signatures E" and "text_roundtrip T"
  shows "PublicKey_from_str E T (PublicKey_fmt T (Keypair_public E kp)) = Ok (Keypair_public E kp) \<and>
    PublicKey_verify E (Keypair_public E kp) msg (Keypair_sign E kp msg)"
  using public_key_text [OF assms] signature_verifies [OF assms(1)]
  by (simp add: PublicKey_from_str_def PublicKey_fmt_def)

theorem public_key_text_and_signature_witness:
  "PublicKey_from_str demo_ed demo_text (PublicKey_fmt demo_text (Keypair_public demo_ed (Keypair 5))) =
     Ok (Keypair_public demo_ed (Keypair 5)) \<and>
   PublicKey_verify demo_ed (Keypair_public demo_ed (Keypair 5)) [1, 2] (Keypair_sign demo_ed (Keypair 5) [1, 2])"
  by (rule public_key_text_and_signature [OF demo_ed_laws(2) demo_text_laws])

text \<open>Reading a content identifier from hexadecimal text fails on text that does not decode,
  panics exactly on text that decodes to another length than 16 bytes, and otherwise gives the
  decoded bytes; reading it from bytes reports the wrong length as an error instead.\<close>

theorem uuid_from_hex_cases:
  "UuidV4_from_hex T s =
     (case hex_decode T s of
        Inl e \<Rightarrow> Some (Err e)
      | Inr bs \<Rightarrow> if length bs = 16 then Some (UuidV4_from_bytes bs) else None) \<and>
   (is_ok (UuidV4_from_bytes bs) \<longleftrightarrow> length bs = 16)"
  by (simp add: UuidV4_from_hex_def UuidV4_from_bytes_def copy_from_slice_def UUID_V4_BYTES_LEN_def
      split: sum.split)

end
