(* ===== verification/Ip.thy ===== *)
theory Ip
  imports Foctet_Prelude
begin

text \<open>
  \<^verbatim>\<open>foctet-core/src/ip.rs\<close>, the reachability classification of IP addresses, and the addresses of
  \<^verbatim>\<open>foctet-core/src/default.rs\<close>. The address types and their predicates are those of the
  standard library (\<^verbatim>\<open>std::net\<close>). The reference specification is the table of special-purpose
  address blocks in prefix notation; the classification is proved equal to it.
\<close>

section \<open>Addresses of the standard library\<close>

datatype Ipv4Addr = Ipv4Addr (octets4: "u8 \<times> u8 \<times> u8 \<times> u8")

datatype Ipv6Addr = Ipv6Addr (segments6: "u16 \<times> u16 \<times> u16 \<times> u16 \<times> u16 \<times> u16 \<times> u16 \<times> u16")

datatype IpAddr = V4 Ipv4Addr | V6 Ipv6Addr

datatype SocketAddr = SocketAddr (sock_ip: IpAddr) (sock_port: u16)

definition Ipv4Addr_LOCALHOST :: Ipv4Addr where
  "Ipv4Addr_LOCALHOST = Ipv4Addr (127, 0, 0, 1)"

definition Ipv4Addr_UNSPECIFIED :: Ipv4Addr where
  "Ipv4Addr_UNSPECIFIED = Ipv4Addr (0, 0, 0, 0)"

definition Ipv6Addr_LOCALHOST :: Ipv6Addr where
  "Ipv6Addr_LOCALHOST = Ipv6Addr (0, 0, 0, 0, 0, 0, 0, 1)"

definition Ipv6Addr_UNSPECIFIED :: Ipv6Addr where
  "Ipv6Addr_UNSPECIFIED = Ipv6Addr (0, 0, 0, 0, 0, 0, 0, 0)"

fun Ipv4Addr_is_private :: "Ipv4Addr \<Rightarrow> bool" where
  "Ipv4Addr_is_private (Ipv4Addr (a, b, c, d)) \<longleftrightarrow>
     a = 10 \<or> (a = 172 \<and> 16 \<le> b \<and> b \<le> 31) \<or> (a = 192 \<and> b = 168)"

fun Ipv4Addr_is_loopback :: "Ipv4Addr \<Rightarrow> bool" where
  "Ipv4Addr_is_loopback (Ipv4Addr (a, b, c, d)) \<longleftrightarrow> a = 127"

fun Ipv4Addr_is_link_local :: "Ipv4Addr \<Rightarrow> bool" where
  "Ipv4Addr_is_link_local (Ipv4Addr (a, b, c, d)) \<longleftrightarrow> a = 169 \<and> b = 254"

fun Ipv4Addr_is_documentation :: "Ipv4Addr \<Rightarrow> bool" where
  "Ipv4Addr_is_documentation (Ipv4Addr (a, b, c, d)) \<longleftrightarrow>
     (a = 192 \<and> b = 0 \<and> c = 2) \<or> (a = 198 \<and> b = 51 \<and> c = 100) \<or> (a = 203 \<and> b = 0 \<and> c = 113)"

fun Ipv4Addr_is_broadcast :: "Ipv4Addr \<Rightarrow> bool" where
  "Ipv4Addr_is_broadcast (Ipv4Addr (a, b, c, d)) \<longleftrightarrow> a = 255 \<and> b = 255 \<and> c = 255 \<and> d = 255"

definition Ipv4Addr_is_unspecified :: "Ipv4Addr \<Rightarrow> bool" where
  "Ipv4Addr_is_unspecified ip \<longleftrightarrow> ip = Ipv4Addr_UNSPECIFIED"

definition Ipv6Addr_is_unspecified :: "Ipv6Addr \<Rightarrow> bool" where
  "Ipv6Addr_is_unspecified ip \<longleftrightarrow> ip = Ipv6Addr_UNSPECIFIED"

definition Ipv6Addr_is_loopback :: "Ipv6Addr \<Rightarrow> bool" where
  "Ipv6Addr_is_loopback ip \<longleftrightarrow> ip = Ipv6Addr_LOCALHOST"

fun Ipv6Addr_is_unique_local :: "Ipv6Addr \<Rightarrow> bool" where
  "Ipv6Addr_is_unique_local (Ipv6Addr (a, b, c, d, e, f, g, h)) \<longleftrightarrow> a AND 0xfe00 = 0xfc00"

fun Ipv6Addr_is_unicast_link_local :: "Ipv6Addr \<Rightarrow> bool" where
  "Ipv6Addr_is_unicast_link_local (Ipv6Addr (a, b, c, d, e, f, g, h)) \<longleftrightarrow> a AND 0xffc0 = 0xfe80"

fun IpAddr_is_loopback :: "IpAddr \<Rightarrow> bool" where
  "IpAddr_is_loopback (V4 ip) = Ipv4Addr_is_loopback ip"
| "IpAddr_is_loopback (V6 ip) = Ipv6Addr_is_loopback ip"

fun IpAddr_is_unspecified :: "IpAddr \<Rightarrow> bool" where
  "IpAddr_is_unspecified (V4 ip) = Ipv4Addr_is_unspecified ip"
| "IpAddr_is_unspecified (V6 ip) = Ipv6Addr_is_unspecified ip"


section \<open>The classification\<close>

fun is_shared_ipv4 :: "Ipv4Addr \<Rightarrow> bool" where
  "is_shared_ipv4 (Ipv4Addr (a, b, c, d)) \<longleftrightarrow> a = 100 \<and> b AND 0b11000000 = 0b01000000"

fun is_benchmarking_ipv4 :: "Ipv4Addr \<Rightarrow> bool" where
  "is_benchmarking_ipv4 (Ipv4Addr (a, b, c, d)) \<longleftrightarrow> a = 198 \<and> b AND 0xfe = 18"

fun is_reserved_ipv4 :: "Ipv4Addr \<Rightarrow> bool" where
  "is_reserved_ipv4 (Ipv4Addr (a, b, c, d)) \<longleftrightarrow>
     a AND 240 = 240 \<and> \<not> Ipv4Addr_is_broadcast (Ipv4Addr (a, b, c, d))"

fun is_documentation_ipv6 :: "Ipv6Addr \<Rightarrow> bool" where
  "is_documentation_ipv6 (Ipv6Addr (a, b, c, d, e, f, g, h)) \<longleftrightarrow>
     (a = 0x2001 \<and> b = 0xdb8) \<or> (a = 0x3fff \<and> b \<le> 0x0fff)"

fun is_global_ipv4 :: "Ipv4Addr \<Rightarrow> bool" where
  "is_global_ipv4 (Ipv4Addr (a, b, c, d)) \<longleftrightarrow>
     (let ip = Ipv4Addr (a, b, c, d)
      in \<not> (a = 0
           \<or> Ipv4Addr_is_private ip
           \<or> is_shared_ipv4 ip
           \<or> Ipv4Addr_is_loopback ip
           \<or> Ipv4Addr_is_link_local ip
           \<or> (a = 192 \<and> b = 0 \<and> c = 0 \<and> d \<noteq> 9 \<and> d \<noteq> 10)
           \<or> Ipv4Addr_is_documentation ip
           \<or> is_benchmarking_ipv4 ip
           \<or> is_reserved_ipv4 ip
           \<or> Ipv4Addr_is_broadcast ip))"

text \<open>The source compares \<^verbatim>\<open>u128::from_be_bytes(octets)\<close> with two literals; segment by segment
  these are \<^verbatim>\<open>2001:1::1\<close> and \<^verbatim>\<open>2001:1::2\<close>.\<close>

fun is_global_ipv6 :: "Ipv6Addr \<Rightarrow> bool" where
  "is_global_ipv6 (Ipv6Addr (a, b, c, d, e, f, g, h)) \<longleftrightarrow>
     (let ip = Ipv6Addr (a, b, c, d, e, f, g, h)
      in \<not> (Ipv6Addr_is_unspecified ip
           \<or> Ipv6Addr_is_loopback ip
           \<or> (a = 0 \<and> b = 0 \<and> c = 0 \<and> d = 0 \<and> e = 0 \<and> f = 0xffff)
           \<or> (a = 0x64 \<and> b = 0xff9b \<and> c = 1)
           \<or> (a = 0x100 \<and> b = 0 \<and> c = 0 \<and> d = 0)
           \<or> ((a = 0x2001 \<and> b < 0x200)
               \<and> \<not> ((a, b, c, d, e, f, g, h) = (0x2001, 1, 0, 0, 0, 0, 0, 1)
                  \<or> (a, b, c, d, e, f, g, h) = (0x2001, 1, 0, 0, 0, 0, 0, 2)
                  \<or> (a = 0x2001 \<and> b = 3)
                  \<or> (a = 0x2001 \<and> b = 4 \<and> c = 0x112)
                  \<or> (a = 0x2001 \<and> 0x20 \<le> b \<and> b \<le> 0x3F)))
           \<or> a = 0x2002
           \<or> is_documentation_ipv6 ip
           \<or> Ipv6Addr_is_unique_local ip
           \<or> Ipv6Addr_is_unicast_link_local ip))"

fun is_global_ip :: "IpAddr \<Rightarrow> bool" where
  "is_global_ip (V4 ip) = is_global_ipv4 ip"
| "is_global_ip (V6 ip) = is_global_ipv6 ip"


section \<open>Default addresses\<close>

definition DEFAULT_BIND_PORT :: u16 where "DEFAULT_BIND_PORT = 0"
definition DEFAULT_SERVER_PORT :: u16 where "DEFAULT_SERVER_PORT = 4432"

definition LOCALHOST_BIND_V4_ADDR :: SocketAddr where
  "LOCALHOST_BIND_V4_ADDR = SocketAddr (V4 Ipv4Addr_LOCALHOST) 0"

definition LOCALHOST_BIND_V6_ADDR :: SocketAddr where
  "LOCALHOST_BIND_V6_ADDR = SocketAddr (V6 Ipv6Addr_LOCALHOST) 0"

definition LOCALHOST_SERVER_V4_ADDR :: SocketAddr where
  "LOCALHOST_SERVER_V4_ADDR = SocketAddr (V4 Ipv4Addr_LOCALHOST) DEFAULT_SERVER_PORT"

definition LOCALHOST_SERVER_V6_ADDR :: SocketAddr where
  "LOCALHOST_SERVER_V6_ADDR = SocketAddr (V6 Ipv6Addr_LOCALHOST) DEFAULT_SERVER_PORT"

definition DEFAULT_BIND_V4_ADDR :: SocketAddr where
  "DEFAULT_BIND_V4_ADDR = SocketAddr (V4 Ipv4Addr_UNSPECIFIED) DEFAULT_BIND_PORT"

definition DEFAULT_BIND_V6_ADDR :: SocketAddr where
  "DEFAULT_BIND_V6_ADDR = SocketAddr (V6 Ipv6Addr_UNSPECIFIED) DEFAULT_BIND_PORT"

definition DEFAULT_SERVER_V4_ADDR :: SocketAddr where
  "DEFAULT_SERVER_V4_ADDR = SocketAddr (V4 Ipv4Addr_UNSPECIFIED) DEFAULT_SERVER_PORT"

definition DEFAULT_SERVER_V6_ADDR :: SocketAddr where
  "DEFAULT_SERVER_V6_ADDR = SocketAddr (V6 Ipv6Addr_UNSPECIFIED) DEFAULT_SERVER_PORT"


section \<open>Address blocks\<close>

text \<open>An address as a list of digits of \<open>w\<close> bits, most significant first, and its value.\<close>

fun digits_val :: "nat \<Rightarrow> nat list \<Rightarrow> nat" where
  "digits_val w [] = 0"
| "digits_val w (d # ds) = d * 2 ^ (w * length ds) + digits_val w ds"

text \<open>\<open>ds\<close> is in the block of prefix length \<open>n\<close> around \<open>es\<close>: the first \<open>n\<close> bits agree.\<close>

definition in_block :: "nat \<Rightarrow> nat list \<times> nat \<Rightarrow> nat list \<Rightarrow> bool" where
  "in_block w blk ds = (case blk of (es, n) \<Rightarrow>
     (let k = w * length ds - n in digits_val w ds div 2 ^ k = digits_val w es div 2 ^ k))"

fun digits4 :: "Ipv4Addr \<Rightarrow> nat list" where
  "digits4 (Ipv4Addr (a, b, c, d)) = [unat a, unat b, unat c, unat d]"

fun digits6 :: "Ipv6Addr \<Rightarrow> nat list" where
  "digits6 (Ipv6Addr (a, b, c, d, e, f, g, h)) =
     [unat a, unat b, unat c, unat d, unat e, unat f, unat g, unat h]"

text \<open>The IPv4 blocks that are not globally reachable, and the addresses within them that are.\<close>

definition special4 :: "(nat list \<times> nat) list" where
  "special4 = [([0, 0, 0, 0], 8), ([10, 0, 0, 0], 8), ([172, 16, 0, 0], 12), ([192, 168, 0, 0], 16),
     ([100, 64, 0, 0], 10), ([127, 0, 0, 0], 8), ([169, 254, 0, 0], 16), ([192, 0, 0, 0], 24),
     ([192, 0, 2, 0], 24), ([198, 51, 100, 0], 24), ([203, 0, 113, 0], 24), ([198, 18, 0, 0], 15),
     ([240, 0, 0, 0], 4)]"

definition reachable4 :: "(nat list \<times> nat) list" where
  "reachable4 = [([192, 0, 0, 9], 32), ([192, 0, 0, 10], 32)]"

definition special6 :: "(nat list \<times> nat) list" where
  "special6 = [([0, 0, 0, 0, 0, 0, 0, 0], 128), ([0, 0, 0, 0, 0, 0, 0, 1], 128),
     ([0, 0, 0, 0, 0, 0xffff, 0, 0], 96), ([0x64, 0xff9b, 1, 0, 0, 0, 0, 0], 48),
     ([0x100, 0, 0, 0, 0, 0, 0, 0], 64), ([0x2001, 0, 0, 0, 0, 0, 0, 0], 23),
     ([0x2002, 0, 0, 0, 0, 0, 0, 0], 16), ([0x2001, 0xdb8, 0, 0, 0, 0, 0, 0], 32),
     ([0x3fff, 0, 0, 0, 0, 0, 0, 0], 20), ([0xfc00, 0, 0, 0, 0, 0, 0, 0], 7),
     ([0xfe80, 0, 0, 0, 0, 0, 0, 0], 10)]"

definition reachable6 :: "(nat list \<times> nat) list" where
  "reachable6 = [([0x2001, 1, 0, 0, 0, 0, 0, 1], 128), ([0x2001, 1, 0, 0, 0, 0, 0, 2], 128),
     ([0x2001, 3, 0, 0, 0, 0, 0, 0], 32), ([0x2001, 4, 0x112, 0, 0, 0, 0, 0], 48),
     ([0x2001, 0x20, 0, 0, 0, 0, 0, 0], 28), ([0x2001, 0x30, 0, 0, 0, 0, 0, 0], 28)]"

lemma digits_val_less: "\<forall>d \<in> set ds. d < 2 ^ w \<Longrightarrow> digits_val w ds < 2 ^ (w * length ds)"
proof (induction ds)
  case (Cons d ds)
  have "digits_val w (d # ds) < d * 2 ^ (w * length ds) + 2 ^ (w * length ds)"
    using Cons by simp
  also have "\<dots> = Suc d * 2 ^ (w * length ds)" by simp
  also have "\<dots> \<le> 2 ^ w * 2 ^ (w * length ds)" using Cons.prems by (intro mult_right_mono) (auto simp: Suc_le_eq)
  finally show ?case by (simp add: power_add mult.commute)
qed simp

lemma div_high_eq:
  fixes P M :: nat
  assumes "0 < P" "v < P * M" "u < P * M"
  shows "(P * (d * M) + v) div P = (P * (d' * M) + u) div P \<longleftrightarrow> d = d' \<and> v div P = u div P"
proof -
  have lt: "v div P < M" "u div P < M" using assms by (simp_all add: less_mult_imp_div_less mult.commute)
  have "d * M + v div P = d' * M + u div P \<longleftrightarrow> d = d' \<and> v div P = u div P"
  proof
    assume eq: "d * M + v div P = d' * M + u div P"
    then have "(d * M + v div P) div M = (d' * M + u div P) div M" by simp
    with lt have "d = d'" by simp
    with eq show "d = d' \<and> v div P = u div P" by simp
  qed simp
  with assms(1) show ?thesis by simp
qed

text \<open>Membership in a block, digit by digit: the whole digits of the prefix agree and the next
  digit agrees in its leading bits.\<close>

lemma in_block_iff:
  assumes "length es = length ds" and "\<forall>d \<in> set ds. d < 2 ^ w" and "\<forall>d \<in> set es. d < 2 ^ w"
    and "q < length ds" and "r < w"
  shows "in_block w (es, w * q + r) ds \<longleftrightarrow>
    take q ds = take q es \<and> (ds ! q) div 2 ^ (w - r) = (es ! q) div 2 ^ (w - r)"
  using assms
proof (induction ds arbitrary: es q)
  case (Cons d ds)
  obtain e es' where es: "es = e # es'" and len: "length es' = length ds"
    using Cons.prems(1) by (cases es) auto
  have lt: "digits_val w ds < 2 ^ (w * length ds)" "digits_val w es' < 2 ^ (w * length ds)"
    using digits_val_less [of ds w] digits_val_less [of es' w] Cons.prems es len by auto
  show ?case
  proof (cases q)
    case 0
    have k: "w * length (d # ds) - (w * 0 + r) = w * length ds + (w - r)" using Cons.prems(5) by simp
    have "\<And>x v. v < 2 ^ (w * length ds) \<Longrightarrow>
        (x * 2 ^ (w * length ds) + v) div 2 ^ (w * length ds + (w - r)) = x div (2 :: nat) ^ (w - r)"
      by (simp add: power_add div_mult2_eq)
    then show ?thesis unfolding in_block_def prod.case k Let_def 0 es using lt len by simp
  next
    case (Suc q')
    let ?k = "w * length ds - (w * q' + r)"
    have q': "q' < length ds" using Cons.prems(4) Suc by simp
    have "w * Suc q' \<le> w * length ds" using q' by (intro mult_le_mono2) simp
    then have le: "w * q' + r \<le> w * length ds" using Cons.prems(5) by simp
    have k: "w * length (d # ds) - (w * q + r) = ?k" using Suc by simp
    have exp: "2 ^ (w * length ds) = (2 :: nat) ^ ?k * 2 ^ (w * q' + r)"
      using le by (simp add: power_add [symmetric])
    have "in_block w (es, w * q + r) (d # ds) \<longleftrightarrow> d = e \<and> in_block w (es', w * q' + r) ds"
      unfolding in_block_def prod.case k Let_def es
      using lt len div_high_eq [of "2 ^ ?k" "digits_val w ds" "2 ^ (w * q' + r)" "digits_val w es'" d e]
      by (simp add: exp mult.left_commute)
    moreover have "in_block w (es', w * q' + r) ds \<longleftrightarrow>
        take q' ds = take q' es' \<and> (ds ! q') div 2 ^ (w - r) = (es' ! q') div 2 ^ (w - r)"
      using Cons.IH [of es' q'] Cons.prems es len q' by simp
    ultimately show ?thesis using Suc es by simp
  qed
qed simp

lemma in_block_full:
  assumes "length es = length ds" and "\<forall>d \<in> set ds. d < 2 ^ w" and "\<forall>d \<in> set es. d < 2 ^ w"
  shows "in_block w (es, w * length ds) ds \<longleftrightarrow> ds = es"
  using assms
proof (induction ds arbitrary: es)
  case (Cons d ds)
  obtain e es' where es: "es = e # es'" and len: "length es' = length ds"
    using Cons.prems(1) by (cases es) auto
  have lt: "digits_val w ds < 2 ^ (w * length ds)" "digits_val w es' < 2 ^ (w * length ds)"
    using digits_val_less [of ds w] digits_val_less [of es' w] Cons.prems es len by auto
  have "in_block w (es', w * length ds) ds \<longleftrightarrow> ds = es'" using Cons.IH [of es'] Cons.prems es len by simp
  moreover have "in_block w (es, w * length (d # ds)) (d # ds) \<longleftrightarrow> d = e \<and> in_block w (es', w * length ds) ds"
    using lt len div_high_eq [of 1 "digits_val w ds" "2 ^ (w * length ds)" "digits_val w es'" d e]
    by (simp add: in_block_def es)
  ultimately show ?case using es by simp
qed (simp add: in_block_def)

text \<open>A mask of leading bits compares what is left after dropping the others.\<close>

lemma and_mask_eq_iff:
  fixes x v :: "'a :: len word"
  assumes "m = NOT (mask k)" and "v AND mask k = 0"
  shows "x AND m = v \<longleftrightarrow> unat x div 2 ^ k = unat v div 2 ^ k"
proof -
  have "x AND m = v \<longleftrightarrow> drop_bit k x = drop_bit k v"
  proof
    assume "x AND m = v"
    then have "drop_bit k v = drop_bit k (x AND NOT (mask k))" by (simp add: assms(1))
    also have "\<dots> = drop_bit k x" by (rule bit_word_eqI) (auto simp: bit_simps dest: bit_imp_le_length)
    finally show "drop_bit k x = drop_bit k v" by simp
  next
    assume eq: "drop_bit k x = drop_bit k v"
    have "bit x n \<longleftrightarrow> bit v n" if "k \<le> n" for n
      using eq that by (metis bit_drop_bit_eq le_add_diff_inverse o_apply)
    moreover have "\<not> bit v n" if "n < k" for n
      using assms(2) that by (metis bit_0_eq bit_and_iff bit_mask_iff bit_imp_le_length bot_apply bot_bool_def min_less_iff_conj possible_bit_word)
    ultimately show "x AND m = v"
      by (intro bit_word_eqI) (auto simp: assms(1) bit_simps, (metis not_less)+)
  qed
  also have "\<dots> \<longleftrightarrow> drop_bit k (unat x) = drop_bit k (unat v)"
    by (metis unat_drop_bit_eq word_unat_eq_iff)
  finally show ?thesis by (simp add: drop_bit_eq_div [where 'a = nat])
qed

lemma in_block_prefix:
  assumes "length es = length ds" and "\<forall>d \<in> set ds. d < 2 ^ w" and "\<forall>d \<in> set es. d < 2 ^ w" and "0 < w"
  shows "n < w * length ds \<Longrightarrow> in_block w (es, n) ds \<longleftrightarrow> take (n div w) ds = take (n div w) es \<and>
      (ds ! (n div w)) div 2 ^ (w - n mod w) = (es ! (n div w)) div 2 ^ (w - n mod w)"
    and "n = w * length ds \<Longrightarrow> in_block w (es, n) ds \<longleftrightarrow> ds = es"
proof -
  assume "n < w * length ds"
  then have "n div w < length ds" by (simp add: less_mult_imp_div_less mult.commute)
  with in_block_iff [OF assms(1,2,3), of "n div w" "n mod w"] assms(4)
  show "in_block w (es, n) ds \<longleftrightarrow> take (n div w) ds = take (n div w) es \<and>
      (ds ! (n div w)) div 2 ^ (w - n mod w) = (es ! (n div w)) div 2 ^ (w - n mod w)" by simp
qed (use in_block_full [OF assms(1,2,3)] in simp)

lemma in_block4:
  assumes "a < 256" "b < 256" "c < 256" "d < 256" "e1 < 256" "e2 < 256" "e3 < 256" "e4 < 256"
  shows "n < 32 \<Longrightarrow> in_block 8 ([e1, e2, e3, e4], n) [a, b, c, d] \<longleftrightarrow>
      take (n div 8) [a, b, c, d] = take (n div 8) [e1, e2, e3, e4] \<and>
      ([a, b, c, d] ! (n div 8)) div 2 ^ (8 - n mod 8) = ([e1, e2, e3, e4] ! (n div 8)) div 2 ^ (8 - n mod 8)"
    and "in_block 8 ([e1, e2, e3, e4], 32) [a, b, c, d] \<longleftrightarrow> [a, b, c, d] = [e1, e2, e3, e4]"
  using assms by (simp_all add: in_block_prefix)

lemma in_block6:
  assumes "a < 65536" "b < 65536" "c < 65536" "d < 65536" "e < 65536" "f < 65536" "g < 65536" "h < 65536"
    and "e1 < 65536" "e2 < 65536" "e3 < 65536" "e4 < 65536" "e5 < 65536" "e6 < 65536" "e7 < 65536" "e8 < 65536"
  shows "n < 128 \<Longrightarrow> in_block 16 ([e1, e2, e3, e4, e5, e6, e7, e8], n) [a, b, c, d, e, f, g, h] \<longleftrightarrow>
      take (n div 16) [a, b, c, d, e, f, g, h] = take (n div 16) [e1, e2, e3, e4, e5, e6, e7, e8] \<and>
      ([a, b, c, d, e, f, g, h] ! (n div 16)) div 2 ^ (16 - n mod 16) =
        ([e1, e2, e3, e4, e5, e6, e7, e8] ! (n div 16)) div 2 ^ (16 - n mod 16)"
    and "in_block 16 ([e1, e2, e3, e4, e5, e6, e7, e8], 128) [a, b, c, d, e, f, g, h] \<longleftrightarrow>
      [a, b, c, d, e, f, g, h] = [e1, e2, e3, e4, e5, e6, e7, e8]"
  using assms by (simp_all add: in_block_prefix)

text \<open>The tables, digit by digit.\<close>

lemma special4_digits:
  "list_ex (\<lambda>blk. in_block 8 blk (digits4 (Ipv4Addr (a, b, c, d)))) special4 \<longleftrightarrow>
     unat a = 0 \<or> unat a = 10 \<or> (unat a = 172 \<and> unat b div 16 = 1) \<or> (unat a = 192 \<and> unat b = 168) \<or>
     (unat a = 100 \<and> unat b div 64 = 1) \<or> unat a = 127 \<or> (unat a = 169 \<and> unat b = 254) \<or>
     (unat a = 192 \<and> unat b = 0 \<and> unat c = 0) \<or> (unat a = 192 \<and> unat b = 0 \<and> unat c = 2) \<or>
     (unat a = 198 \<and> unat b = 51 \<and> unat c = 100) \<or> (unat a = 203 \<and> unat b = 0 \<and> unat c = 113) \<or>
     (unat a = 198 \<and> unat b div 2 = 9) \<or> unat a div 16 = 15"
  by (simp add: special4_def in_block4 u8_less)

lemma reachable4_digits:
  "list_ex (\<lambda>blk. in_block 8 blk (digits4 (Ipv4Addr (a, b, c, d)))) reachable4 \<longleftrightarrow>
     unat a = 192 \<and> unat b = 0 \<and> unat c = 0 \<and> (unat d = 9 \<or> unat d = 10)"
  by (auto simp: reachable4_def in_block4 u8_less)

lemma special6_digits:
  "list_ex (\<lambda>blk. in_block 16 blk (digits6 (Ipv6Addr (a, b, c, d, e, f, g, h)))) special6 \<longleftrightarrow>
     (unat a = 0 \<and> unat b = 0 \<and> unat c = 0 \<and> unat d = 0 \<and> unat e = 0 \<and> unat f = 0 \<and> unat g = 0 \<and>
       (unat h = 0 \<or> unat h = 1)) \<or>
     (unat a = 0 \<and> unat b = 0 \<and> unat c = 0 \<and> unat d = 0 \<and> unat e = 0 \<and> unat f = 0xffff) \<or>
     (unat a = 0x64 \<and> unat b = 0xff9b \<and> unat c = 1) \<or>
     (unat a = 0x100 \<and> unat b = 0 \<and> unat c = 0 \<and> unat d = 0) \<or>
     (unat a = 0x2001 \<and> unat b div 512 = 0) \<or> unat a = 0x2002 \<or> (unat a = 0x2001 \<and> unat b = 0xdb8) \<or>
     (unat a = 0x3fff \<and> unat b div 4096 = 0) \<or> unat a div 512 = 126 \<or> unat a div 64 = 1018"
  by (simp add: special6_def in_block6 u16_less) satx

lemma reachable6_digits:
  "list_ex (\<lambda>blk. in_block 16 blk (digits6 (Ipv6Addr (a, b, c, d, e, f, g, h)))) reachable6 \<longleftrightarrow>
     unat a = 0x2001 \<and>
     ((unat b = 1 \<and> unat c = 0 \<and> unat d = 0 \<and> unat e = 0 \<and> unat f = 0 \<and> unat g = 0 \<and>
        (unat h = 1 \<or> unat h = 2)) \<or> unat b = 3 \<or> (unat b = 4 \<and> unat c = 0x112) \<or>
      unat b div 16 = 2 \<or> unat b div 16 = 3)"
  by (simp add: reachable6_def in_block6 u16_less) satx

lemmas word_digits = word_unat_eq_iff word_le_nat_alt word_less_nat_alt

lemma global4_digits:
  "is_global_ipv4 (Ipv4Addr (a, b, c, d)) \<longleftrightarrow>
     \<not> (unat a = 0 \<or> unat a = 10 \<or> (unat a = 172 \<and> unat b div 16 = 1) \<or> (unat a = 192 \<and> unat b = 168) \<or>
       (unat a = 100 \<and> unat b div 64 = 1) \<or> unat a = 127 \<or> (unat a = 169 \<and> unat b = 254) \<or>
       (unat a = 192 \<and> unat b = 0 \<and> unat c = 0 \<and> unat d \<noteq> 9 \<and> unat d \<noteq> 10) \<or>
       (unat a = 192 \<and> unat b = 0 \<and> unat c = 2) \<or>
       (unat a = 198 \<and> unat b = 51 \<and> unat c = 100) \<or> (unat a = 203 \<and> unat b = 0 \<and> unat c = 113) \<or>
       (unat a = 198 \<and> unat b div 2 = 9) \<or> unat a div 16 = 15)"
proof -
  have m: "b AND 0b11000000 = 0b01000000 \<longleftrightarrow> unat b div 64 = 1" "b AND 0xfe = 18 \<longleftrightarrow> unat b div 2 = 9"
    "a AND 240 = 240 \<longleftrightarrow> unat a div 16 = 15"
    using and_mask_eq_iff [of "0b11000000" 6 "0b01000000" b] and_mask_eq_iff [of "0xfe" 1 "18" b]
      and_mask_eq_iff [of "240" 4 "240" a] by (simp_all add: mask_eq_exp_minus_1)
  have r: "16 \<le> b \<and> b \<le> 31 \<longleftrightarrow> unat b div 16 = 1" by (auto simp: word_le_nat_alt)
  show ?thesis
    unfolding is_global_ipv4.simps Let_def Ipv4Addr_is_private.simps is_shared_ipv4.simps
      Ipv4Addr_is_loopback.simps Ipv4Addr_is_link_local.simps Ipv4Addr_is_documentation.simps
      is_benchmarking_ipv4.simps is_reserved_ipv4.simps Ipv4Addr_is_broadcast.simps m r
    by (cases "unat a = 255"; simp add: word_unat_eq_iff; satx)
qed

lemma global6_digits:
  "is_global_ipv6 (Ipv6Addr (a, b, c, d, e, f, g, h)) \<longleftrightarrow>
     \<not> ((unat a = 0 \<and> unat b = 0 \<and> unat c = 0 \<and> unat d = 0 \<and> unat e = 0 \<and> unat f = 0 \<and> unat g = 0 \<and>
         (unat h = 0 \<or> unat h = 1)) \<or>
       (unat a = 0 \<and> unat b = 0 \<and> unat c = 0 \<and> unat d = 0 \<and> unat e = 0 \<and> unat f = 0xffff) \<or>
       (unat a = 0x64 \<and> unat b = 0xff9b \<and> unat c = 1) \<or>
       (unat a = 0x100 \<and> unat b = 0 \<and> unat c = 0 \<and> unat d = 0) \<or>
       (unat a = 0x2001 \<and> unat b div 512 = 0 \<and>
         \<not> ((unat b = 1 \<and> unat c = 0 \<and> unat d = 0 \<and> unat e = 0 \<and> unat f = 0 \<and> unat g = 0 \<and>
              (unat h = 1 \<or> unat h = 2)) \<or> unat b = 3 \<or> (unat b = 4 \<and> unat c = 0x112) \<or>
            unat b div 16 = 2 \<or> unat b div 16 = 3)) \<or>
       unat a = 0x2002 \<or> (unat a = 0x2001 \<and> unat b = 0xdb8) \<or>
       (unat a = 0x3fff \<and> unat b div 4096 = 0) \<or> unat a div 512 = 126 \<or> unat a div 64 = 1018)"
proof -
  have m: "a AND 0xfe00 = 0xfc00 \<longleftrightarrow> unat a div 512 = 126" "a AND 0xffc0 = 0xfe80 \<longleftrightarrow> unat a div 64 = 1018"
    using and_mask_eq_iff [of "0xfe00" 9 "0xfc00" a] and_mask_eq_iff [of "0xffc0" 6 "0xfe80" a]
    by (simp_all add: mask_eq_exp_minus_1)
  have r: "b < 0x200 \<longleftrightarrow> unat b div 512 = 0" "b \<le> 0xfff \<longleftrightarrow> unat b div 4096 = 0"
    "0x20 \<le> b \<and> b \<le> 0x3F \<longleftrightarrow> unat b div 16 = 2 \<or> unat b div 16 = 3"
    by (auto simp: word_digits)
  show ?thesis
    unfolding is_global_ipv6.simps Let_def is_documentation_ipv6.simps Ipv6Addr_is_unique_local.simps
      Ipv6Addr_is_unicast_link_local.simps Ipv6Addr_is_unspecified_def Ipv6Addr_is_loopback_def
      Ipv6Addr_UNSPECIFIED_def Ipv6Addr_LOCALHOST_def Ipv6Addr.inject prod.inject m r
    by (simp add: word_unat_eq_iff) satx
qed


section \<open>Properties\<close>

text \<open>C28. The IPv4 classification is the table: an address is global exactly when it lies in no
  special-purpose block (compared by prefix on the 32-bit value), or is one of the two
  reachable addresses of 192.0.0.0/24.\<close>

theorem is_global_ipv4_blocks:
  "is_global_ipv4 ip \<longleftrightarrow> list_ex (\<lambda>blk. in_block 8 blk (digits4 ip)) reachable4 \<or>
     list_all (\<lambda>blk. \<not> in_block 8 blk (digits4 ip)) special4"
proof (cases ip rule: digits4.cases)
  case (1 a b c d)
  have "list_all (\<lambda>blk. \<not> in_block 8 blk (digits4 ip)) special4 \<longleftrightarrow>
      \<not> list_ex (\<lambda>blk. in_block 8 blk (digits4 ip)) special4" by (simp add: list_ex_iff list_all_iff)
  then show ?thesis
    unfolding 1 special4_digits reachable4_digits global4_digits 
    by (cases "unat a = 192"; cases "unat b = 0"; cases "unat c = 0"; simp)
qed

text \<open>C29. The IPv6 classification is the table as well: global means in no special-purpose block,
  compared by prefix on the 128-bit value, or in one of the reachable blocks within
  2001::/23.\<close>

theorem is_global_ipv6_blocks:
  "is_global_ipv6 ip \<longleftrightarrow> list_ex (\<lambda>blk. in_block 16 blk (digits6 ip)) reachable6 \<or>
     list_all (\<lambda>blk. \<not> in_block 16 blk (digits6 ip)) special6"
proof (cases ip rule: digits6.cases)
  case (1 a b c d e f g h)
  have "list_all (\<lambda>blk. \<not> in_block 16 blk (digits6 ip)) special6 \<longleftrightarrow>
      \<not> list_ex (\<lambda>blk. in_block 16 blk (digits6 ip)) special6" by (simp add: list_ex_iff list_all_iff)
  then show ?thesis
    unfolding 1 special6_digits reachable6_digits global6_digits
    by (cases "unat a = 0x2001"; cases "unat b = 0xdb8"; auto)
qed

end
