(* ===== verification/Defaults.thy ===== *)
theory Defaults
  imports Foctet_Prelude
begin

text \<open>
  The sizes, times and limits of \<^verbatim>\<open>foctet-core/src/default.rs\<close>; its addresses are in the theory of IP
  addresses, its hash constants in the theory of hashing.
\<close>

text \<open>A duration, in nanoseconds.\<close>

type_synonym Duration = nat

definition Duration_from_secs :: "nat \<Rightarrow> Duration" where
  "Duration_from_secs s = s * 1000000000"

definition MIN_WRITE_BUFFER_SIZE :: nat where "MIN_WRITE_BUFFER_SIZE = 1024"
definition DEFAULT_WRITE_BUFFER_SIZE :: nat where "DEFAULT_WRITE_BUFFER_SIZE = 16384"
definition MAX_WRITE_BUFFER_SIZE :: nat where "MAX_WRITE_BUFFER_SIZE = 65536"
definition MIN_READ_BUFFER_SIZE :: nat where "MIN_READ_BUFFER_SIZE = 1024"
definition DEFAULT_READ_BUFFER_SIZE :: nat where "DEFAULT_READ_BUFFER_SIZE = 16384"
definition MAX_READ_BUFFER_SIZE :: nat where "MAX_READ_BUFFER_SIZE = 65536"
definition DEFAULT_CONNECTION_TIMEOUT :: Duration where "DEFAULT_CONNECTION_TIMEOUT = Duration_from_secs 30"
definition DEFAULT_WRITE_TIMEOUT :: Duration where "DEFAULT_WRITE_TIMEOUT = Duration_from_secs 10"
definition DEFAULT_READ_TIMEOUT :: Duration where "DEFAULT_READ_TIMEOUT = Duration_from_secs 10"
definition DEFAULT_KEEP_ALIVE_INTERVAL :: Duration where "DEFAULT_KEEP_ALIVE_INTERVAL = Duration_from_secs 20"
definition DEFAULT_MAX_CONCURRENT_STREAM :: u32 where "DEFAULT_MAX_CONCURRENT_STREAM = 256"
definition DEFAULT_MAX_RETRIES :: nat where "DEFAULT_MAX_RETRIES = 3"
definition DEFAULT_RELAY_SERVER_HOST_ADDR :: string where "DEFAULT_RELAY_SERVER_HOST_ADDR = ''relay.foctet.net''"
definition DEFAULT_RELAY_SERVER_PORT :: u16 where "DEFAULT_RELAY_SERVER_PORT = 4433"
definition DEFAULT_RELAY_PACKET_QUEUE_CAPACITY :: nat where "DEFAULT_RELAY_PACKET_QUEUE_CAPACITY = 1024"
definition DEFAULT_RELAY_SERVER_CHANNEL_CAPACITY :: nat where "DEFAULT_RELAY_SERVER_CHANNEL_CAPACITY = 1024"
text \<open>\<^verbatim>\<open>default::RESERVED_STREAM_ID\<close>, a second constant of that name.\<close>

definition default_RESERVED_STREAM_ID :: u32 where "default_RESERVED_STREAM_ID = 0"
definition INITIAL_STREAM_ID :: u32 where "INITIAL_STREAM_ID = 1"

end
