(* ===== verification/Connection.thy ===== *)
theory Connection
  imports QuicStream TcpStream Session Keys Ip Defaults
begin

text \<open>
  Streams and connections over either transport: \<^verbatim>\<open>foctet-net/src/transport/stream.rs\<close>,
  \<^verbatim>\<open>transport/connection.rs\<close>, \<^verbatim>\<open>transport/tcp/connection.rs\<close>, \<^verbatim>\<open>transport/quic/connection.rs\<close>, and the listener
  of \<^verbatim>\<open>transport/mod.rs\<close>. What is outside of a stream is \<open>io_env\<close>: the sink of a QUIC stream, the session's
  event channel of a TCP stream, the file system. A stream hands out items (QUIC) or events (TCP).
  A QUIC connection is the \<^verbatim>\<open>quinn\<close> crate's, a type \<open>'q\<close>; what its calls return is an argument.
\<close>

section \<open>Streams\<close>

datatype ('w, 'r) Stream = Stream_Quic "('w, 'r) QuicStream" | Stream_Tcp LogicalTcpStream

record 'w io_env =
  io_buf :: buf_ops
  io_sink :: "item sink"
  io_events :: event_sink
  io_finish :: "'w \<Rightarrow> unit result"

type_synonym handed = "(item + StreamEvent) list"

definition Stream_stream_id :: "('w, 'r) Stream \<Rightarrow> StreamId" where
  "Stream_stream_id self =
     (case self of
        Stream_Quic stream \<Rightarrow> QuicStream_stream_id stream
      | Stream_Tcp stream \<Rightarrow> LogicalTcpStream_stream_id stream)"

definition Stream_send :: "'w io_env \<Rightarrow> ('w, 'r) Stream \<Rightarrow> bytes \<Rightarrow> (unit result \<times> handed) option" where
  "Stream_send io self data =
     (case self of
        Stream_Quic stream \<Rightarrow> map_option (apsnd (map Inl)) (QuicStream_send (io_sink io) stream data)
      | Stream_Tcp stream \<Rightarrow> Some (apsnd (map Inr) (LogicalTcpStream_send (io_events io []) stream data)))"

text \<open>What arrives: the next item of a QUIC stream, or what the channel of a TCP stream delivers.\<close>

definition Stream_receive ::
  "item result option \<Rightarrow> received \<Rightarrow> ('w, 'r) Stream \<Rightarrow> states \<Rightarrow> bytes result \<times> states" where
  "Stream_receive item rcv self h =
     (case self of
        Stream_Quic stream \<Rightarrow> (QuicStream_receive item stream, h)
      | Stream_Tcp stream \<Rightarrow> LogicalTcpStream_receive rcv stream h)"

definition Stream_send_frame :: "'w io_env \<Rightarrow> ('w, 'r) Stream \<Rightarrow> Frame \<Rightarrow> unit result \<times> handed" where
  "Stream_send_frame io self frame =
     (case self of
        Stream_Quic stream \<Rightarrow> apsnd (map Inl) (QuicStream_send_frame (io_buf io) (io_sink io) stream frame)
      | Stream_Tcp stream \<Rightarrow> apsnd (map Inr) (LogicalTcpStream_send_frame (io_events io []) stream frame))"

definition Stream_receive_frame ::
  "'w io_env \<Rightarrow> item result option \<Rightarrow> received \<Rightarrow> ('w, 'r) Stream \<Rightarrow> states \<Rightarrow> Frame result \<times> states" where
  "Stream_receive_frame io item rcv self h =
     (case self of
        Stream_Quic stream \<Rightarrow> (QuicStream_receive_frame (io_buf io) item stream, h)
      | Stream_Tcp stream \<Rightarrow> LogicalTcpStream_receive_frame rcv stream h)"

definition Stream_send_file ::
  "'w io_env \<Rightarrow> unit result \<Rightarrow> bytes result list \<Rightarrow> ('w, 'r) Stream \<Rightarrow> (unit result \<times> handed) option" where
  "Stream_send_file io opened reads self =
     (case self of
        Stream_Quic stream \<Rightarrow> map_option (apsnd (map Inl)) (QuicStream_send_file opened reads (io_sink io) stream)
      | Stream_Tcp stream \<Rightarrow> map_option (apsnd (map Inr)) (LogicalTcpStream_send_file opened reads (io_events io) stream))"

text \<open>\<open>ended\<close>: whether the QUIC stream ends after the items.\<close>

definition Stream_receive_file ::
  "unit result \<Rightarrow> (bytes \<Rightarrow> bytes \<Rightarrow> unit result) \<Rightarrow> unit result \<Rightarrow> item result list \<Rightarrow> bool \<Rightarrow> received list
     \<Rightarrow> ('w, 'r) Stream \<Rightarrow> nat \<Rightarrow> states \<Rightarrow> ((nat result \<times> bytes) \<times> states) option" where
  "Stream_receive_file created wr flushed items ended rcvs self len h =
     (case self of
        Stream_Quic stream \<Rightarrow>
          map_option (\<lambda>res. (res, h)) (QuicStream_receive_file created wr flushed items ended stream len)
      | Stream_Tcp stream \<Rightarrow> LogicalTcpStream_receive_file created wr flushed rcvs stream len h)"

definition Stream_close ::
  "'w io_env \<Rightarrow> ('w, 'r) Stream \<Rightarrow> states \<Rightarrow> (unit result \<times> handed) \<times> states" where
  "Stream_close io self h =
     (case self of
        Stream_Quic stream \<Rightarrow> ((QuicStream_close (io_finish io) stream, []), h)
      | Stream_Tcp stream \<Rightarrow>
          (let (r, h) = LogicalTcpStream_close (io_events io []) stream h in (apsnd (map Inr) r, h)))"


section \<open>TCP connections\<close>

record 'a TcpConnection =
  tcn_direction :: Direction
  tcn_local_addr :: 'a
  tcn_remote_addr :: 'a
  tcn_local_node_id :: NodeId
  tcn_remote_node_id :: NodeId
  tcn_connection :: "SocketAddr Session"
  tcn_write_buffer_size :: nat
  tcn_read_buffer_size :: nat
  tcn_next_stream_id :: u32

definition TcpConnection_new :: "Direction \<Rightarrow> 'a \<Rightarrow> 'a \<Rightarrow> SocketAddr Session \<Rightarrow> 'a TcpConnection" where
  "TcpConnection_new direction local_addr remote_addr connection =
     \<lparr> tcn_direction = direction, tcn_local_addr = local_addr, tcn_remote_addr = remote_addr,
       tcn_local_node_id = PublicKey_zero, tcn_remote_node_id = PublicKey_zero, tcn_connection = connection,
       tcn_write_buffer_size = DEFAULT_WRITE_BUFFER_SIZE, tcn_read_buffer_size = DEFAULT_READ_BUFFER_SIZE,
       tcn_next_stream_id = 1 \<rparr>"

definition TcpConnection_with_direction :: "Direction \<Rightarrow> 'a TcpConnection \<Rightarrow> 'a TcpConnection" where
  "TcpConnection_with_direction direction self = self\<lparr> tcn_direction := direction \<rparr>"

definition TcpConnection_with_local_addr :: "'a \<Rightarrow> 'a TcpConnection \<Rightarrow> 'a TcpConnection" where
  "TcpConnection_with_local_addr local_addr self = self\<lparr> tcn_local_addr := local_addr \<rparr>"

definition TcpConnection_with_remote_addr :: "'a \<Rightarrow> 'a TcpConnection \<Rightarrow> 'a TcpConnection" where
  "TcpConnection_with_remote_addr remote_addr self = self\<lparr> tcn_remote_addr := remote_addr \<rparr>"

definition TcpConnection_with_local_node_id :: "NodeId \<Rightarrow> 'a TcpConnection \<Rightarrow> 'a TcpConnection" where
  "TcpConnection_with_local_node_id local_node_id self = self\<lparr> tcn_local_node_id := local_node_id \<rparr>"

definition TcpConnection_with_remote_node_id :: "NodeId \<Rightarrow> 'a TcpConnection \<Rightarrow> 'a TcpConnection" where
  "TcpConnection_with_remote_node_id remote_node_id self = self\<lparr> tcn_remote_node_id := remote_node_id \<rparr>"

definition TcpConnection_with_connection :: "SocketAddr Session \<Rightarrow> 'a TcpConnection \<Rightarrow> 'a TcpConnection" where
  "TcpConnection_with_connection connection self = self\<lparr> tcn_connection := connection \<rparr>"

definition TcpConnection_with_write_buffer_size :: "nat \<Rightarrow> 'a TcpConnection \<Rightarrow> 'a TcpConnection" where
  "TcpConnection_with_write_buffer_size write_buffer_size self = self\<lparr> tcn_write_buffer_size := write_buffer_size \<rparr>"

definition TcpConnection_with_read_buffer_size :: "nat \<Rightarrow> 'a TcpConnection \<Rightarrow> 'a TcpConnection" where
  "TcpConnection_with_read_buffer_size read_buffer_size self = self\<lparr> tcn_read_buffer_size := read_buffer_size \<rparr>"

definition TcpConnection_with_initial_stream_id :: "u32 \<Rightarrow> 'a TcpConnection \<Rightarrow> 'a TcpConnection" where
  "TcpConnection_with_initial_stream_id ini_stream_id self = self\<lparr> tcn_next_stream_id := ini_stream_id \<rparr>"

text \<open>What \<^verbatim>\<open>open_stream\<close> and \<^verbatim>\<open>accept_stream\<close> do with the logical stream of the session: \<open>p\<close> is the address of
  the state its halves share.\<close>

definition tcp_stream_of ::
  "nat \<Rightarrow> LogicalStream \<Rightarrow> 'a TcpConnection \<Rightarrow> states \<Rightarrow> ('w, 'r) Stream result \<times> 'a TcpConnection \<times> states" where
  "tcp_stream_of p logical_stream self h =
     (let self = self\<lparr> tcn_next_stream_id := snd (atomic_fetch_add (tcn_next_stream_id self) 1) \<rparr>;
          stream_id = LogicalStream_stream_id logical_stream;
          ((writer, reader), h) = LogicalStream_split p logical_stream h;
          logical_tcp_stream = LogicalTcpStream_new stream_id writer reader
            (tcn_write_buffer_size self) (tcn_read_buffer_size self)
      in (Ok (Stream_Tcp logical_tcp_stream), self, h))"

definition TcpConnection_open_stream ::
  "opened result \<Rightarrow> nat \<Rightarrow> 'a TcpConnection \<Rightarrow> states \<Rightarrow> ('w, 'r) Stream result \<times> 'a TcpConnection \<times> states" where
  "TcpConnection_open_stream res p self h =
     (case res of
        Inl e \<Rightarrow> (Err e, self, h)
      | Inr (logical_stream, _) \<Rightarrow> tcp_stream_of p logical_stream self h)"

definition TcpConnection_accept_stream ::
  "(error \<Rightarrow> string) \<Rightarrow> opened result \<Rightarrow> nat \<Rightarrow> 'a TcpConnection \<Rightarrow> states
     \<Rightarrow> ('w, 'r) Stream result \<times> 'a TcpConnection \<times> states" where
  "TcpConnection_accept_stream dbg res p self h =
     (case res of
        Inr (logical_stream, _) \<Rightarrow> tcp_stream_of p logical_stream self h
      | Inl e \<Rightarrow> (Err (Anyhow (''Error accepting stream: '' @ dbg e)), self, h))"

text \<open>\<open>shut\<close> is the outcome of \<^verbatim>\<open>Session::shutdown\<close>, which is ignored.\<close>

definition TcpConnection_close :: "unit result \<Rightarrow> 'a TcpConnection \<Rightarrow> unit result" where
  "TcpConnection_close shut self = Ok ()"


section \<open>QUIC connections\<close>

record ('a, 'q) QuicConnection =
  qcn_direction :: Direction
  qcn_local_addr :: 'a
  qcn_remote_addr :: 'a
  qcn_local_node_id :: NodeId
  qcn_remote_node_id :: NodeId
  qcn_connection :: 'q
  qcn_write_buffer_size :: nat
  qcn_read_buffer_size :: nat
  qcn_next_stream_id :: u32

definition QuicConnection_new :: "Direction \<Rightarrow> 'a \<Rightarrow> 'a \<Rightarrow> 'q \<Rightarrow> ('a, 'q) QuicConnection" where
  "QuicConnection_new direction local_addr remote_addr connection =
     \<lparr> qcn_direction = direction, qcn_local_addr = local_addr, qcn_remote_addr = remote_addr,
       qcn_local_node_id = PublicKey_zero, qcn_remote_node_id = PublicKey_zero, qcn_connection = connection,
       qcn_write_buffer_size = DEFAULT_WRITE_BUFFER_SIZE, qcn_read_buffer_size = DEFAULT_READ_BUFFER_SIZE,
       qcn_next_stream_id = 1 \<rparr>"

definition QuicConnection_with_direction :: "Direction \<Rightarrow> ('a, 'q) QuicConnection \<Rightarrow> ('a, 'q) QuicConnection" where
  "QuicConnection_with_direction direction self = self\<lparr> qcn_direction := direction \<rparr>"

definition QuicConnection_with_local_addr :: "'a \<Rightarrow> ('a, 'q) QuicConnection \<Rightarrow> ('a, 'q) QuicConnection" where
  "QuicConnection_with_local_addr local_addr self = self\<lparr> qcn_local_addr := local_addr \<rparr>"

definition QuicConnection_with_remote_addr :: "'a \<Rightarrow> ('a, 'q) QuicConnection \<Rightarrow> ('a, 'q) QuicConnection" where
  "QuicConnection_with_remote_addr remote_addr self = self\<lparr> qcn_remote_addr := remote_addr \<rparr>"

definition QuicConnection_with_local_node_id :: "NodeId \<Rightarrow> ('a, 'q) QuicConnection \<Rightarrow> ('a, 'q) QuicConnection" where
  "QuicConnection_with_local_node_id local_node_id self = self\<lparr> qcn_local_node_id := local_node_id \<rparr>"

definition QuicConnection_with_remote_node_id :: "NodeId \<Rightarrow> ('a, 'q) QuicConnection \<Rightarrow> ('a, 'q) QuicConnection" where
  "QuicConnection_with_remote_node_id remote_node_id self = self\<lparr> qcn_remote_node_id := remote_node_id \<rparr>"

definition QuicConnection_with_connection :: "'q \<Rightarrow> ('a, 'q) QuicConnection \<Rightarrow> ('a, 'q) QuicConnection" where
  "QuicConnection_with_connection connection self = self\<lparr> qcn_connection := connection \<rparr>"

definition QuicConnection_with_write_buffer_size :: "nat \<Rightarrow> ('a, 'q) QuicConnection \<Rightarrow> ('a, 'q) QuicConnection" where
  "QuicConnection_with_write_buffer_size write_buffer_size self = self\<lparr> qcn_write_buffer_size := write_buffer_size \<rparr>"

definition QuicConnection_with_read_buffer_size :: "nat \<Rightarrow> ('a, 'q) QuicConnection \<Rightarrow> ('a, 'q) QuicConnection" where
  "QuicConnection_with_read_buffer_size read_buffer_size self = self\<lparr> qcn_read_buffer_size := read_buffer_size \<rparr>"

definition QuicConnection_with_initial_stream_id :: "u32 \<Rightarrow> ('a, 'q) QuicConnection \<Rightarrow> ('a, 'q) QuicConnection" where
  "QuicConnection_with_initial_stream_id ini_stream_id self = self\<lparr> qcn_next_stream_id := ini_stream_id \<rparr>"

text \<open>\<open>fw\<close> and \<open>fr\<close> wrap a QUIC stream into the length-delimited framing; \<open>res\<close> is what \<^verbatim>\<open>open_bi\<close> or \<^verbatim>\<open>accept_bi\<close> returned.\<close>

definition QuicConnection_open_stream ::
  "('s \<Rightarrow> 'w) \<Rightarrow> ('t \<Rightarrow> 'r) \<Rightarrow> ('s \<times> 't) result \<Rightarrow> ('a, 'q) QuicConnection
     \<Rightarrow> ('w, 'r) Stream result \<times> ('a, 'q) QuicConnection" where
  "QuicConnection_open_stream fw fr res self =
     (case res of
        Inl e \<Rightarrow> (Err e, self)
      | Inr (send_stream, recv_stream) \<Rightarrow>
          (let (old, next_stream_id) = atomic_fetch_add (qcn_next_stream_id self) 1;
               stream_id = StreamId_new old
           in (Ok (Stream_Quic (QuicStream_new fw fr stream_id send_stream recv_stream
                 (qcn_write_buffer_size self) (qcn_read_buffer_size self))),
               self\<lparr> qcn_next_stream_id := next_stream_id \<rparr>)))"

definition QuicConnection_accept_stream ::
  "('s \<Rightarrow> 'w) \<Rightarrow> ('t \<Rightarrow> 'r) \<Rightarrow> ('s \<times> 't) result \<Rightarrow> ('a, 'q) QuicConnection
     \<Rightarrow> ('w, 'r) Stream result \<times> ('a, 'q) QuicConnection" where
  "QuicConnection_accept_stream fw fr res self =
     (case res of
        Inl e \<Rightarrow> (Err e, self)
      | Inr (send_stream, recv_stream) \<Rightarrow>
          (let (old, next_stream_id) = atomic_fetch_add (qcn_next_stream_id self) 1;
               stream_id = StreamId_new old
           in (Ok (Stream_Quic (QuicStream_new fw fr stream_id send_stream recv_stream
                 (qcn_write_buffer_size self) (qcn_read_buffer_size self))),
               self\<lparr> qcn_next_stream_id := next_stream_id \<rparr>)))"

text \<open>\<open>cl\<close> is the effect of closing the connection with code 0.\<close>

definition QuicConnection_close :: "('q \<Rightarrow> 'q) \<Rightarrow> ('a, 'q) QuicConnection \<Rightarrow> unit result \<times> ('a, 'q) QuicConnection" where
  "QuicConnection_close cl self = (Ok (), self\<lparr> qcn_connection := cl (qcn_connection self) \<rparr>)"


section \<open>Connections\<close>

datatype ('a, 'q) Connection = Connection_Quic "('a, 'q) QuicConnection" | Connection_Tcp "'a TcpConnection"

datatype ('a, 'q) ConnectionEvent = Connected "('a, 'q) Connection" | Accepted "('a, 'q) Connection"

definition Connection_direction :: "('a, 'q) Connection \<Rightarrow> Direction" where
  "Connection_direction self =
     (case self of Connection_Quic conn \<Rightarrow> qcn_direction conn | Connection_Tcp conn \<Rightarrow> tcn_direction conn)"

definition Connection_local_addr :: "('a, 'q) Connection \<Rightarrow> 'a" where
  "Connection_local_addr self =
     (case self of Connection_Quic conn \<Rightarrow> qcn_local_addr conn | Connection_Tcp conn \<Rightarrow> tcn_local_addr conn)"

definition Connection_remote_addr :: "('a, 'q) Connection \<Rightarrow> 'a" where
  "Connection_remote_addr self =
     (case self of Connection_Quic conn \<Rightarrow> qcn_remote_addr conn | Connection_Tcp conn \<Rightarrow> tcn_remote_addr conn)"

definition Connection_local_node_id :: "('a, 'q) Connection \<Rightarrow> NodeId" where
  "Connection_local_node_id self =
     (case self of Connection_Quic conn \<Rightarrow> qcn_local_node_id conn | Connection_Tcp conn \<Rightarrow> tcn_local_node_id conn)"

definition Connection_remote_node_id :: "('a, 'q) Connection \<Rightarrow> NodeId" where
  "Connection_remote_node_id self =
     (case self of Connection_Quic conn \<Rightarrow> qcn_remote_node_id conn | Connection_Tcp conn \<Rightarrow> tcn_remote_node_id conn)"

text \<open>What the two kinds of connection are given when a stream is opened or accepted.\<close>

record ('s, 't, 'w, 'r) stream_source =
  ss_fw :: "'s \<Rightarrow> 'w"
  ss_fr :: "'t \<Rightarrow> 'r"
  ss_bi :: "('s \<times> 't) result"
  ss_logical :: "opened result"
  ss_state_addr :: nat
  ss_dbg :: "error \<Rightarrow> string"

definition Connection_open_stream ::
  "('s, 't, 'w, 'r) stream_source \<Rightarrow> ('a, 'q) Connection \<Rightarrow> states \<Rightarrow> ('w, 'r) Stream result \<times> ('a, 'q) Connection \<times> states" where
  "Connection_open_stream src self h =
     (case self of
        Connection_Quic conn \<Rightarrow>
          (let (r, conn) = QuicConnection_open_stream (ss_fw src) (ss_fr src) (ss_bi src) conn in (r, Connection_Quic conn, h))
      | Connection_Tcp conn \<Rightarrow>
          (let (r, conn, h) = TcpConnection_open_stream (ss_logical src) (ss_state_addr src) conn h
           in (r, Connection_Tcp conn, h)))"

definition Connection_accept_stream ::
  "('s, 't, 'w, 'r) stream_source \<Rightarrow> ('a, 'q) Connection \<Rightarrow> states \<Rightarrow> ('w, 'r) Stream result \<times> ('a, 'q) Connection \<times> states" where
  "Connection_accept_stream src self h =
     (case self of
        Connection_Quic conn \<Rightarrow>
          (let (r, conn) = QuicConnection_accept_stream (ss_fw src) (ss_fr src) (ss_bi src) conn in (r, Connection_Quic conn, h))
      | Connection_Tcp conn \<Rightarrow>
          (let (r, conn, h) = TcpConnection_accept_stream (ss_dbg src) (ss_logical src) (ss_state_addr src) conn h
           in (r, Connection_Tcp conn, h)))"

definition Connection_close :: "('q \<Rightarrow> 'q) \<Rightarrow> unit result \<Rightarrow> ('a, 'q) Connection \<Rightarrow> unit result \<times> ('a, 'q) Connection" where
  "Connection_close cl shut self =
     (case self of
        Connection_Quic conn \<Rightarrow> (let (r, conn) = QuicConnection_close cl conn in (r, Connection_Quic conn))
      | Connection_Tcp conn \<Rightarrow> (TcpConnection_close shut conn, Connection_Tcp conn))"


section \<open>Listeners\<close>

text \<open>\<open>receiver\<close>: the events waiting in the channel.\<close>

record ('a, 'q) ConnectionListener =
  cl_listener_id :: ListenerId
  cl_receiver :: "('a, 'q) ConnectionEvent list"
  cl_cancelled :: bool

definition ConnectionListener_new :: "ListenerId \<Rightarrow> ('a, 'q) ConnectionEvent list \<Rightarrow> bool \<Rightarrow> ('a, 'q) ConnectionListener" where
  "ConnectionListener_new listener_id receiver cancel_token =
     \<lparr> cl_listener_id = listener_id, cl_receiver = receiver, cl_cancelled = cancel_token \<rparr>"

text \<open>With the channel empty it waits, until the sender is dropped (\<open>closed\<close>).\<close>

definition ConnectionListener_accept ::
  "bool \<Rightarrow> ('a, 'q) ConnectionListener \<Rightarrow> (('a, 'q) ConnectionEvent option \<times> ('a, 'q) ConnectionListener) option" where
  "ConnectionListener_accept closed self =
     (case cl_receiver self of
        ev # evs \<Rightarrow> Some (Some ev, self\<lparr> cl_receiver := evs \<rparr>)
      | [] \<Rightarrow> if closed then Some (None, self) else None)"

definition ConnectionListener_listener_id :: "('a, 'q) ConnectionListener \<Rightarrow> ListenerId" where
  "ConnectionListener_listener_id self = cl_listener_id self"

definition ConnectionListener_cancel :: "('a, 'q) ConnectionListener \<Rightarrow> ('a, 'q) ConnectionListener" where
  "ConnectionListener_cancel self = self\<lparr> cl_cancelled := True \<rparr>"

text \<open>A sender is the queue it fills; \<open>closed\<close>: why the channel refuses an event, if it does.\<close>

datatype ('a, 'q) ConnectionSender = ConnectionSender (sender: "('a, 'q) ConnectionEvent list")

definition ConnectionSender_new :: "('a, 'q) ConnectionEvent list \<Rightarrow> ('a, 'q) ConnectionSender" where
  "ConnectionSender_new queue = ConnectionSender queue"

definition ConnectionSender_send ::
  "error option \<Rightarrow> ('a, 'q) ConnectionEvent \<Rightarrow> ('a, 'q) ConnectionSender \<Rightarrow> unit result \<times> ('a, 'q) ConnectionSender" where
  "ConnectionSender_send closed event self =
     (case closed of
        Some e \<Rightarrow> (Err e, self)
      | None \<Rightarrow> (Ok (), ConnectionSender (sender self @ [event])))"


section \<open>Lemmas\<close>

text \<open>What of the things handed out is for a QUIC stream and what for a session.\<close>

definition handed_items :: "handed \<Rightarrow> item list" where
  "handed_items out = List.map_filter (\<lambda>x. case x of Inl i \<Rightarrow> Some i | Inr _ \<Rightarrow> None) out"

definition handed_events :: "handed \<Rightarrow> StreamEvent list" where
  "handed_events out = List.map_filter (\<lambda>x. case x of Inl _ \<Rightarrow> None | Inr e \<Rightarrow> Some e) out"

lemma handed_simps [simp]:
  "handed_items (map Inl is) = is" "handed_events (map Inr es) = es"
  by (induction "is") (simp_all add: handed_items_def map_filter_simps, induction es, simp_all add: handed_events_def map_filter_simps)

fun same_transport :: "('w, 'r) Stream \<Rightarrow> ('w, 'r) Stream \<Rightarrow> bool" where
  "same_transport (Stream_Quic s) (Stream_Quic t) = True"
| "same_transport (Stream_Tcp s) (Stream_Tcp t) = True"
| "same_transport _ _ = False"

text \<open>A sequence of streams opened (\<open>True\<close>) and accepted over one QUIC connection.\<close>

fun quic_streams ::
  "('s \<Rightarrow> 'w) \<Rightarrow> ('t \<Rightarrow> 'r) \<Rightarrow> (bool \<times> ('s \<times> 't) result) list \<Rightarrow> ('a, 'q) QuicConnection \<Rightarrow> ('w, 'r) Stream list" where
  "quic_streams fw fr [] conn = []"
| "quic_streams fw fr ((opens, res) # ops) conn =
     (case (if opens then QuicConnection_open_stream fw fr res conn else QuicConnection_accept_stream fw fr res conn) of
        (Inr stream, conn) \<Rightarrow> stream # quic_streams fw fr ops conn
      | (Inl _, conn) \<Rightarrow> quic_streams fw fr ops conn)"

lemma quic_stream_step:
  "QuicConnection_open_stream fw fr res conn = QuicConnection_accept_stream fw fr res conn"
  by (simp add: QuicConnection_open_stream_def QuicConnection_accept_stream_def)

lemma quic_streams_ids:
  "map Stream_stream_id (quic_streams fw fr ops conn) =
     map (\<lambda>i. StreamId (qcn_next_stream_id conn + of_nat i)) [0..<length (filter (is_ok \<circ> snd) ops)]"
proof (induction ops arbitrary: conn)
  case (Cons op ops)
  obtain opens res where op: "op = (opens, res)" by fastforce
  show ?case
  proof (cases res)
    case (Inl e)
    with op Cons show ?thesis by (simp add: QuicConnection_open_stream_def quic_stream_step [symmetric])
  next
    case (Inr wr)
    let ?c = "snd (QuicConnection_open_stream fw fr res conn)" and ?k = "length (filter (is_ok \<circ> snd) ops)"
    have c: "qcn_next_stream_id ?c = qcn_next_stream_id conn + 1"
      and "map Stream_stream_id (quic_streams fw fr (op # ops) conn) =
        StreamId (qcn_next_stream_id conn) # map Stream_stream_id (quic_streams fw fr ops ?c)"
      using Inr op
      by (cases wr; simp add: QuicConnection_open_stream_def quic_stream_step [symmetric] atomic_fetch_add_def
          Stream_stream_id_def QuicStream_stream_id_def QuicStream_new_def StreamId_new_def)+
    note this(2)
    also have "\<dots> = map (\<lambda>i. StreamId (qcn_next_stream_id conn + of_nat i)) (0 # map Suc [0..<?k])"
      unfolding Cons.IH c by (simp add: add.assoc)
    also have "0 # map Suc [0..<?k] = [0..<Suc ?k]" by (simp only: map_Suc_upt upt_conv_Cons zero_less_Suc)
    also have "Suc ?k = length (filter (is_ok \<circ> snd) (op # ops))" using Inr op by simp
    finally show ?thesis .
  qed
qed simp


text \<open>A file sent over a stream arrives.\<close>

lemma stream_file_arrives:
  assumes "file_reads n content cs reads" and "0 < n" and "content \<noteq> []" and "same_transport s t"
    and "io_sink io = sink_ok" and "io_events io = (\<lambda>_ _. True)"
  shows "\<exists>out h'. Stream_send_file io (Ok ()) reads s = Some (Ok (), out) \<and>
    Stream_receive_file (Ok ()) (\<lambda>_ _. Ok ()) (Ok ()) (map Ok (handed_items out)) False
      (arriving (event_frames (handed_events out))) t (length content) h = Some ((Ok (length content), content), h')"
proof (cases "(s, t)" rule: same_transport.cases)
  case (1 qs qt)
  with quic_file_roundtrip [OF assms(1-3), of qs qt] assms(5) show ?thesis
    by (simp add: Stream_send_file_def Stream_receive_file_def)
next
  case (2 ts tt)
  from tcp_file_roundtrip [OF assms(1-3)] obtain es h'
    where "LogicalTcpStream_send_file (Ok ()) reads (\<lambda>_ _. True) ts = Some (Ok (), es)"
      "LogicalTcpStream_receive_file (Ok ()) (\<lambda>_ _. Ok ()) (Ok ()) (arriving (event_frames es)) tt (length content) h =
        Some ((Ok (length content), content), h')" by blast
  with 2 assms(6) show ?thesis by (simp add: Stream_send_file_def Stream_receive_file_def)
qed (use assms(4) in auto)


section \<open>Properties\<close>

text \<open>A file sent over a stream, whichever its transport, arrives: whatever non-empty pieces the file
  is read in, what the sender hands out gives the receiver that waits for as many bytes as the
  file has exactly the file.\<close>

theorem stream_file_roundtrip:
  assumes "file_reads n content cs reads" and "0 < n" and "content \<noteq> []" and "same_transport s t"
    and "io_sink io = sink_ok" and "io_events io = (\<lambda>_ _. True)"
  shows "\<exists>out h'. Stream_send_file io (Ok ()) reads s = Some (Ok (), out) \<and>
    Stream_receive_file (Ok ()) (\<lambda>_ _. Ok ()) (Ok ()) (map Ok (handed_items out)) False
      (arriving (event_frames (handed_events out))) t (length content) h = Some ((Ok (length content), content), h')"
  using assms by (rule stream_file_arrives)

theorem stream_file_roundtrip_witness:
  "\<exists>out h'. Stream_send_file \<lparr> io_buf = be_ops, io_sink = sink_ok, io_events = (\<lambda>_ _. True), io_finish = (\<lambda>_. Ok ()) \<rparr>
      (Ok ()) [Ok [1, 2], Ok [3], Ok []] (Stream_Tcp demo_tcp :: (unit, unit) Stream) = Some (Ok (), out) \<and>
    Stream_receive_file (Ok ()) (\<lambda>_ _. Ok ()) (Ok ()) (map Ok (handed_items out)) False
      (arriving (event_frames (handed_events out))) (Stream_Tcp demo_tcp :: (unit, unit) Stream) 3 (\<lambda>_. Mutex_new Established) =
        Some ((Ok 3, [1, 2, 3]), h')"
  using stream_file_roundtrip [of 2 "[1, 2, 3]" "[[1, 2], [3]]" "[Ok [1, 2], Ok [3], Ok []]"
      "Stream_Tcp demo_tcp :: (unit, unit) Stream" "Stream_Tcp demo_tcp"
      "\<lparr> io_buf = be_ops, io_sink = sink_ok, io_events = (\<lambda>_ _. True), io_finish = (\<lambda>_. Ok ()) \<rparr>" "\<lambda>_. Mutex_new Established"]
  by (simp add: file_reads_def numeral_3_eq_3)


definition demo_conn :: "unit TcpConnection" where
  "demo_conn = TcpConnection_new Outgoing () () (fst (Session_new_client (SessionId 1)))"

definition demo_logical :: LogicalStream where
  "demo_logical = \<lparr> ls_session_id = SessionId 1, ls_stream_id = StreamId 5, ls_state = Established \<rparr>"


end
