(* ===== verification/Cert.thy ===== *)
theory Cert
  imports Keys
begin

text \<open>
  \<^verbatim>\<open>foctet-net/src/tls/cert.rs\<close>: certificates that carry a node identity. A node's certificate is
  self-signed with a fresh key and has an extension with the node's identity and its signature of
  that key; it is accepted when both signatures verify, it is valid now, and the identity also is
  the URI of its subject alternative name.

  Parameters (\<open>tls_ops\<close>): the X.509 parser and certificate generator, the DER coding of a pair of
  byte strings and the signature algorithms, all of other crates. A parsed certificate is the record of
  what the source reads of it; object identifiers have a constructor for each one the source names
  and one for the others. A panic is \<open>None\<close>.
\<close>

section \<open>Parameters\<close>

datatype Oid = OID_PKCS1_RSAENCRYPTION | OID_PKCS1_SHA256WITHRSA | OID_PKCS1_SHA384WITHRSA
  | OID_PKCS1_SHA512WITHRSA | OID_PKCS1_RSASSAPSS | OID_NIST_HASH_SHA256 | OID_NIST_HASH_SHA384
  | OID_NIST_HASH_SHA512 | OID_KEY_TYPE_EC_PUBLIC_KEY | OID_EC_P256 | OID_NIST_EC_P384 | OID_NIST_EC_P521
  | OID_SIG_ECDSA_WITH_SHA256 | OID_SIG_ECDSA_WITH_SHA384 | OID_SIG_ECDSA_WITH_SHA512
  | OID_SIG_ED25519 | OID_SIG_ED448 | Oid_arcs "nat list"

datatype SignatureScheme = RSA_PKCS1_SHA1 | ECDSA_SHA1_Legacy | RSA_PKCS1_SHA256 | RSA_PKCS1_SHA384
  | RSA_PKCS1_SHA512 | ECDSA_NISTP256_SHA256 | ECDSA_NISTP384_SHA384 | ECDSA_NISTP521_SHA512
  | RSA_PSS_SHA256 | RSA_PSS_SHA384 | RSA_PSS_SHA512 | ED25519 | ED448 | UnknownScheme u16

datatype VerificationAlgorithm = RSA_PKCS1_2048_8192_SHA256 | RSA_PKCS1_2048_8192_SHA384
  | RSA_PKCS1_2048_8192_SHA512 | ECDSA_P256_SHA256_ASN1 | ECDSA_P384_SHA384_ASN1
  | RSA_PSS_2048_8192_SHA256 | RSA_PSS_2048_8192_SHA384 | RSA_PSS_2048_8192_SHA512 | ED25519_ALG

datatype GeneralName = URI string | OtherName string

text \<open>\<open>x_san\<close>: \<open>None\<close> is an error of \<^verbatim>\<open>subject_alternative_name()\<close>. \<open>x_valid_now\<close>: \<^verbatim>\<open>validity().is_valid()\<close>.
  \<open>x_pki_parameters\<close>: \<open>Some None\<close> is an error of \<^verbatim>\<open>as_oid()\<close>. \<open>x_pss_hash\<close>: the hash algorithm when the
  signature algorithm reads as \<^verbatim>\<open>RSASSA_PSS\<close>.\<close>

record X509Certificate =
  x_san :: "GeneralName list option option"
  x_extensions :: "(Oid \<times> bytes) list"
  x_valid_now :: bool
  x_tbs :: bytes
  x_signature_value :: bytes
  x_spki_raw :: bytes
  x_subject_public_key :: bytes
  x_pki_algorithm :: Oid
  x_pki_parameters :: "Oid option option"
  x_signature_algorithm :: Oid
  x_pss_hash :: "Oid option"

record CertificateParams =
  cp_subject_alt_names :: "GeneralName list"
  cp_distinguished_name :: "string list"
  cp_custom_extensions :: "(Oid \<times> bytes) list"

text \<open>\<open>'c\<close>: a key pair for certificates.\<close>

record ('k, 'v, 's, 'c) tls_ops =
  tls_ed :: "('k, 'v, 's) ed_ops"
  tls_text :: text_ops
  x509_parse :: "bytes \<Rightarrow> X509Certificate option"
  der_encode :: "bytes \<times> bytes \<Rightarrow> bytes"
  der_decode :: "bytes \<Rightarrow> (bytes \<times> bytes) option"
  ring_verify :: "VerificationAlgorithm \<Rightarrow> bytes \<Rightarrow> bytes \<Rightarrow> bytes \<Rightarrow> bool"
  rc_public_key_der :: "'c \<Rightarrow> bytes"
  rc_serialize_der :: "'c \<Rightarrow> bytes"
  rc_params_new :: "string + CertificateParams"
  rc_ia5 :: "string \<Rightarrow> string + string"
  rc_self_signed :: "CertificateParams \<Rightarrow> 'c \<Rightarrow> string + bytes"


section \<open>Certificates\<close>

datatype webpki_error = BadDer | UnknownIssuer | ExtensionValueInvalid | InvalidCertValidity
  | UnsupportedSignatureAlgorithm | UnsupportedSignatureAlgorithmForPublicKey
  | InvalidSignatureForPublicKey | SignatureAlgorithmMismatch

datatype GenError = GenError string

datatype ParseError = ParseError webpki_error

datatype VerificationError = VerificationError webpki_error

definition FOCTET_EXT_OID :: "nat list" where
  "FOCTET_EXT_OID = [1, 3, 6, 1, 4, 1, 32473, 1, 1]"

definition ascii :: "string \<Rightarrow> bytes" where
  "ascii s = map (\<lambda>c. of_nat (of_char c)) s"

definition FOCTET_SIGNING_PREFIX :: bytes where
  "FOCTET_SIGNING_PREFIX = ascii ''foctet-tls-handshake:''"

record FoctetExtension =
  fx_public_key :: PublicKey
  fx_signature :: bytes

record FoctetCertificate =
  fc_certificate :: X509Certificate
  fc_extension :: FoctetExtension

text \<open>\<open>certified_key\<close>: \<open>sk\<close> is what \<^verbatim>\<open>any_ecdsa_type\<close> made of the key.\<close>

datatype 'sk AlwaysResolvesCert = AlwaysResolvesCert "bytes list" 'sk

definition AlwaysResolvesCert_new :: "(bytes \<Rightarrow> string + 'sk) \<Rightarrow> bytes \<Rightarrow> bytes \<Rightarrow> string + 'sk AlwaysResolvesCert" where
  "AlwaysResolvesCert_new any_ecdsa_type cert key =
     try_bind (any_ecdsa_type key) (\<lambda>sk. Ok (AlwaysResolvesCert [cert] sk))"

definition AlwaysResolvesCert_resolve :: "'sk AlwaysResolvesCert \<Rightarrow> (bytes list \<times> 'sk) option" where
  "AlwaysResolvesCert_resolve self = (case self of AlwaysResolvesCert certs sk \<Rightarrow> Some (certs, sk))"

definition AlwaysResolvesCert_has_certs :: "'sk AlwaysResolvesCert \<Rightarrow> bool" where
  "AlwaysResolvesCert_has_certs self = True"

text \<open>\<open>gen\<close> is what \<^verbatim>\<open>KeyPair::generate_for\<close> returned.\<close>

definition generate ::
  "('k, 'v, 's, 'c) tls_ops \<Rightarrow> string + 'c \<Rightarrow> 'k Keypair \<Rightarrow> GenError + (bytes \<times> bytes)" where
  "generate D gen identity_keypair =
     (let node_id = Keypair_public (tls_ed D) identity_keypair;
          node_id_base32 = PublicKey_to_base32 (tls_text D) node_id;
          node_id_uri = ''foctet://'' @ node_id_base32
      in map_err GenError (
           try_bind gen (\<lambda>certificate_keypair.
           let rustls_key = rc_serialize_der D certificate_keypair in
           try_bind (rc_params_new D) (\<lambda>params.
           try_bind (rc_ia5 D node_id_uri) (\<lambda>uri.
           let params = params\<lparr> cp_subject_alt_names := cp_subject_alt_names params @ [URI uri],
                               cp_distinguished_name := [] \<rparr>;
               signing_msg = FOCTET_SIGNING_PREFIX @ rc_public_key_der D certificate_keypair;
               signature = Keypair_sign (tls_ed D) identity_keypair signing_msg;
               signed_extension = der_encode D (PublicKey_to_bytes node_id, signature);
               params = params\<lparr> cp_custom_extensions :=
                 cp_custom_extensions params @ [(Oid_arcs FOCTET_EXT_OID, signed_extension)] \<rparr>
           in try_bind (rc_self_signed D params certificate_keypair) (\<lambda>certificate.
                Ok (certificate, rustls_key)))))))"

text \<open>The node identity of the subject alternative name. Indexing the URI past the scheme panics when
  it is shorter; a URI is IA5 text, one byte a character.\<close>

definition san_uri :: "GeneralName list \<Rightarrow> string option" where
  "san_uri general_names = find_map (\<lambda>gn. case gn of URI uri \<Rightarrow> Some uri | _ \<Rightarrow> None) general_names"

definition san_node_id ::
  "('k, 'v, 's, 'c) tls_ops \<Rightarrow> X509Certificate \<Rightarrow> (webpki_error + NodeId) option" where
  "san_node_id D x509_cert =
     (case x_san x509_cert of
        Some san_opt \<Rightarrow>
          (case san_opt of
             None \<Rightarrow> Some (Err BadDer)
           | Some general_names \<Rightarrow>
               (case san_uri general_names of
                  None \<Rightarrow> Some (Err UnknownIssuer)
                | Some uri \<Rightarrow>
                    if length uri < length ''foctet://'' then None
                    else Some (map_err (\<lambda>_. UnknownIssuer)
                           (PublicKey_from_base32 (tls_ed D) (tls_text D) (drop (length ''foctet://'') uri)))))
      | None \<Rightarrow> Some (Err UnknownIssuer))"

text \<open>The loop over the extensions: the last foctet extension counts.\<close>

fun extract_extension ::
  "('k, 'v, 's, 'c) tls_ops \<Rightarrow> (Oid \<times> bytes) list \<Rightarrow> (bytes \<times> bytes) option \<Rightarrow> webpki_error + (bytes \<times> bytes) option" where
  "extract_extension D [] extracted = Ok extracted"
| "extract_extension D ((oid, value) # exts) extracted =
     (if oid = Oid_arcs FOCTET_EXT_OID
      then (case der_decode D value of
              None \<Rightarrow> Err ExtensionValueInvalid
            | Some (node_id_bytes, signature_bytes) \<Rightarrow>
                extract_extension D exts (Some (node_id_bytes, signature_bytes)))
      else extract_extension D exts extracted)"

definition parse_unverified ::
  "('k, 'v, 's, 'c) tls_ops \<Rightarrow> bytes \<Rightarrow> (webpki_error + FoctetCertificate) option" where
  "parse_unverified D der_input =
     panic_bind (Some (ok_or (x509_parse D der_input) BadDer)) (\<lambda>x509_cert.
     panic_bind (san_node_id D x509_cert) (\<lambda>san_id.
       Some (
         try_bind (extract_extension D (x_extensions x509_cert) None) (\<lambda>extracted.
         try_bind (ok_or extracted UnknownIssuer) (\<lambda>(node_id_bytes, signature).
         try_bind (map_err (\<lambda>_. UnknownIssuer) (PublicKey_try_from_bytes (tls_ed D) node_id_bytes)) (\<lambda>ext_node_id.
           if san_id \<noteq> ext_node_id then Err UnknownIssuer
           else Ok \<lparr> fc_certificate = x509_cert,
                     fc_extension = \<lparr> fx_public_key = ext_node_id, fx_signature = signature \<rparr> \<rparr>))))))"

definition FoctetCertificate_node_id :: "FoctetCertificate \<Rightarrow> NodeId" where
  "FoctetCertificate_node_id self = fx_public_key (fc_extension self)"

definition FoctetCertificate_signature_scheme :: "FoctetCertificate \<Rightarrow> webpki_error + SignatureScheme" where
  "FoctetCertificate_signature_scheme self =
     (let signature_algorithm = x_signature_algorithm (fc_certificate self);
          pki_algorithm = x_pki_algorithm (fc_certificate self);
          signature_ed =
            (if signature_algorithm = OID_SIG_ED25519 then Ok ED25519
             else if signature_algorithm = OID_SIG_ED448 then Ok ED448
             else Err UnsupportedSignatureAlgorithm)
      in if pki_algorithm = OID_PKCS1_RSAENCRYPTION
         then if signature_algorithm = OID_PKCS1_SHA256WITHRSA then Ok RSA_PKCS1_SHA256
              else if signature_algorithm = OID_PKCS1_SHA384WITHRSA then Ok RSA_PKCS1_SHA384
              else if signature_algorithm = OID_PKCS1_SHA512WITHRSA then Ok RSA_PKCS1_SHA512
              else if signature_algorithm = OID_PKCS1_RSASSAPSS
              then (case x_pss_hash (fc_certificate self) of
                      Some hash_oid \<Rightarrow>
                        if hash_oid = OID_NIST_HASH_SHA256 then Ok RSA_PSS_SHA256
                        else if hash_oid = OID_NIST_HASH_SHA384 then Ok RSA_PSS_SHA384
                        else if hash_oid = OID_NIST_HASH_SHA512 then Ok RSA_PSS_SHA512
                        else Err UnsupportedSignatureAlgorithm
                    | None \<Rightarrow> Err UnsupportedSignatureAlgorithm)
              else signature_ed
         else if pki_algorithm = OID_KEY_TYPE_EC_PUBLIC_KEY
         then try_bind (ok_or (x_pki_parameters (fc_certificate self)) BadDer) (\<lambda>parameters.
              try_bind (ok_or parameters BadDer) (\<lambda>signature_param.
                if signature_param = OID_EC_P256 \<and> signature_algorithm = OID_SIG_ECDSA_WITH_SHA256
                then Ok ECDSA_NISTP256_SHA256
                else if signature_param = OID_NIST_EC_P384 \<and> signature_algorithm = OID_SIG_ECDSA_WITH_SHA384
                then Ok ECDSA_NISTP384_SHA384
                else if signature_param = OID_NIST_EC_P521 \<and> signature_algorithm = OID_SIG_ECDSA_WITH_SHA512
                then Ok ECDSA_NISTP521_SHA512
                else Err UnsupportedSignatureAlgorithm))
         else signature_ed)"

definition verification_algorithm :: "SignatureScheme \<Rightarrow> webpki_error + VerificationAlgorithm" where
  "verification_algorithm signature_scheme =
     (case signature_scheme of
        RSA_PKCS1_SHA256 \<Rightarrow> Ok RSA_PKCS1_2048_8192_SHA256
      | RSA_PKCS1_SHA384 \<Rightarrow> Ok RSA_PKCS1_2048_8192_SHA384
      | RSA_PKCS1_SHA512 \<Rightarrow> Ok RSA_PKCS1_2048_8192_SHA512
      | ECDSA_NISTP256_SHA256 \<Rightarrow> Ok ECDSA_P256_SHA256_ASN1
      | ECDSA_NISTP384_SHA384 \<Rightarrow> Ok ECDSA_P384_SHA384_ASN1
      | ECDSA_NISTP521_SHA512 \<Rightarrow> Err UnsupportedSignatureAlgorithm
      | RSA_PSS_SHA256 \<Rightarrow> Ok RSA_PSS_2048_8192_SHA256
      | RSA_PSS_SHA384 \<Rightarrow> Ok RSA_PSS_2048_8192_SHA384
      | RSA_PSS_SHA512 \<Rightarrow> Ok RSA_PSS_2048_8192_SHA512
      | ED25519 \<Rightarrow> Ok ED25519_ALG
      | ED448 \<Rightarrow> Err UnsupportedSignatureAlgorithm
      | RSA_PKCS1_SHA1 \<Rightarrow> Err UnsupportedSignatureAlgorithm
      | ECDSA_SHA1_Legacy \<Rightarrow> Err UnsupportedSignatureAlgorithm
      | _ \<Rightarrow> Err UnsupportedSignatureAlgorithm)"

definition FoctetCertificate_public_key ::
  "FoctetCertificate \<Rightarrow> SignatureScheme \<Rightarrow> webpki_error + (VerificationAlgorithm \<times> bytes)" where
  "FoctetCertificate_public_key self signature_scheme =
     try_bind (FoctetCertificate_signature_scheme self) (\<lambda>current_signature_scheme.
       if signature_scheme \<noteq> current_signature_scheme then Err UnsupportedSignatureAlgorithmForPublicKey
       else try_bind (verification_algorithm signature_scheme) (\<lambda>algorithm.
              Ok (algorithm, x_subject_public_key (fc_certificate self))))"

definition FoctetCertificate_verify_signature ::
  "('k, 'v, 's, 'c) tls_ops \<Rightarrow> FoctetCertificate \<Rightarrow> SignatureScheme \<Rightarrow> bytes \<Rightarrow> bytes \<Rightarrow> VerificationError + unit" where
  "FoctetCertificate_verify_signature D self signature_scheme message signature =
     map_err VerificationError (
       try_bind (FoctetCertificate_public_key self signature_scheme) (\<lambda>(algorithm, key).
         if ring_verify D algorithm key message signature then Ok ()
         else Err InvalidSignatureForPublicKey))"

definition FoctetCertificate_verify ::
  "('k, 'v, 's, 'c) tls_ops \<Rightarrow> FoctetCertificate \<Rightarrow> webpki_error + unit" where
  "FoctetCertificate_verify D self =
     (let certificate = fc_certificate self in
      if \<not> x_valid_now certificate then Err InvalidCertValidity
      else try_bind (FoctetCertificate_signature_scheme self) (\<lambda>signature_scheme.
           try_bind (map_err (\<lambda>_. SignatureAlgorithmMismatch)
               (FoctetCertificate_verify_signature D self signature_scheme (x_tbs certificate)
                  (x_signature_value certificate))) (\<lambda>_.
             let signing_msg = FOCTET_SIGNING_PREFIX @ x_spki_raw certificate in
             if \<not> PublicKey_verify (tls_ed D) (fx_public_key (fc_extension self)) signing_msg
                   (fx_signature (fc_extension self))
             then Err InvalidSignatureForPublicKey
             else Ok ())))"

definition parse :: "('k, 'v, 's, 'c) tls_ops \<Rightarrow> bytes \<Rightarrow> (ParseError + FoctetCertificate) option" where
  "parse D cert =
     map_option (map_err ParseError)
       (panic_bind (parse_unverified D cert) (\<lambda>c.
         Some (try_bind (FoctetCertificate_verify D c) (\<lambda>_. Ok c))))"


section \<open>Lemmas\<close>

text \<open>What the other crates document: decoding reads what encoding wrote; IA5 text is the text; a new
  set of parameters is empty; a self-signed certificate parses to one that has what it was
  generated with, is valid, and verifies under its own P-256 key.\<close>

definition der_roundtrip :: "('k, 'v, 's, 'c) tls_ops \<Rightarrow> bool" where
  "der_roundtrip D \<longleftrightarrow> (\<forall>p. der_decode D (der_encode D p) = Some p)"

definition foctet_values :: "(Oid \<times> bytes) list \<Rightarrow> bytes list" where
  "foctet_values exts = map snd (filter (\<lambda>(oid, _). oid = Oid_arcs FOCTET_EXT_OID) exts)"

definition generator_parser :: "('k, 'v, 's, 'c) tls_ops \<Rightarrow> bool" where
  "generator_parser D \<longleftrightarrow>
     (\<forall>params. rc_params_new D = Ok params \<longrightarrow> cp_subject_alt_names params = [] \<and> cp_custom_extensions params = []) \<and>
     (\<forall>s t. rc_ia5 D s = Ok t \<longrightarrow> t = s) \<and>
     (\<forall>params ck der. rc_self_signed D params ck = Ok der \<longrightarrow>
        (\<exists>x. x509_parse D der = Some x \<and> x_valid_now x \<and> x_san x = Some (Some (cp_subject_alt_names params)) \<and>
          foctet_values (x_extensions x) = foctet_values (cp_custom_extensions params) \<and>
          x_spki_raw x = rc_public_key_der D ck \<and> x_pki_algorithm x = OID_KEY_TYPE_EC_PUBLIC_KEY \<and>
          x_pki_parameters x = Some (Some OID_EC_P256) \<and> x_signature_algorithm x = OID_SIG_ECDSA_WITH_SHA256 \<and>
          ring_verify D ECDSA_P256_SHA256_ASN1 (x_subject_public_key x) (x_tbs x) (x_signature_value x)))"

lemma foctet_values_simps [simp]:
  "foctet_values [] = []"
  "foctet_values ((oid, v) # exts) = (if oid = Oid_arcs FOCTET_EXT_OID then v # foctet_values exts else foctet_values exts)"
  by (simp_all add: foctet_values_def)

lemma extract_extension_Inr_iff:
  "extract_extension D exts acc = Ok r \<longleftrightarrow>
     list_all (\<lambda>v. der_decode D v \<noteq> None) (foctet_values exts) \<and>
     (if foctet_values exts = [] then acc else der_decode D (last (foctet_values exts))) = r"
  by (induction D exts acc rule: extract_extension.induct) (auto split: option.splits)

lemma scheme_length: "length ''foctet://'' = 9"
  by simp

lemma san_node_id_Inr_iff:
  "san_node_id D x = Some (Ok i) \<longleftrightarrow>
     (\<exists>names uri. x_san x = Some (Some names) \<and> san_uri names = Some uri \<and> 9 \<le> length uri \<and>
        PublicKey_from_base32 (tls_ed D) (tls_text D) (drop 9 uri) = Ok i)"
  unfolding san_node_id_def scheme_length by (auto split: option.split)

lemma san_node_id_None_iff:
  "san_node_id D x = None \<longleftrightarrow>
     (\<exists>names uri. x_san x = Some (Some names) \<and> san_uri names = Some uri \<and> length uri < 9)"
  unfolding san_node_id_def scheme_length by (auto split: option.split)

text \<open>The identity a certificate states, and by what.\<close>

definition states_identity :: "('k, 'v, 's, 'c) tls_ops \<Rightarrow> X509Certificate \<Rightarrow> NodeId \<Rightarrow> bytes \<Rightarrow> bool" where
  "states_identity D x i sig \<longleftrightarrow>
     (\<exists>names uri. x_san x = Some (Some names) \<and> san_uri names = Some uri \<and> 9 \<le> length uri \<and>
        PublicKey_from_base32 (tls_ed D) (tls_text D) (drop 9 uri) = Ok i) \<and>
     list_all (\<lambda>v. der_decode D v \<noteq> None) (foctet_values (x_extensions x)) \<and>
     foctet_values (x_extensions x) \<noteq> [] \<and>
     (\<exists>b. der_decode D (last (foctet_values (x_extensions x))) = Some (b, sig) \<and>
        PublicKey_try_from_bytes (tls_ed D) b = Ok i)"

definition self_signed :: "('k, 'v, 's, 'c) tls_ops \<Rightarrow> FoctetCertificate \<Rightarrow> bool" where
  "self_signed D c \<longleftrightarrow>
     (\<exists>scheme alg. FoctetCertificate_signature_scheme c = Ok scheme \<and> verification_algorithm scheme = Ok alg \<and>
        ring_verify D alg (x_subject_public_key (fc_certificate c)) (x_tbs (fc_certificate c))
          (x_signature_value (fc_certificate c)))"

lemma parse_unverified_Inr_iff:
  "parse_unverified D der = Some (Ok c) \<longleftrightarrow>
     x509_parse D der = Some (fc_certificate c) \<and>
     states_identity D (fc_certificate c) (FoctetCertificate_node_id c) (fx_signature (fc_extension c))"
proof -
  have "parse_unverified D der = Some (Ok c) \<longleftrightarrow>
      (\<exists>x i b sig. x509_parse D der = Some x \<and> san_node_id D x = Some (Ok i) \<and>
        extract_extension D (x_extensions x) None = Ok (Some (b, sig)) \<and>
        PublicKey_try_from_bytes (tls_ed D) b = Ok i \<and>
        c = \<lparr> fc_certificate = x, fc_extension = \<lparr> fx_public_key = i, fx_signature = sig \<rparr> \<rparr>)"
    by (auto simp: parse_unverified_def split: if_splits)
  then show ?thesis
    unfolding san_node_id_Inr_iff extract_extension_Inr_iff states_identity_def FoctetCertificate_node_id_def
    by (cases c; cases "fc_extension c") (auto split: if_splits)
qed

lemma verify_Inr_iff:
  "FoctetCertificate_verify D c = Ok u \<longleftrightarrow>
     x_valid_now (fc_certificate c) \<and> self_signed D c \<and>
     PublicKey_verify (tls_ed D) (FoctetCertificate_node_id c)
       (FOCTET_SIGNING_PREFIX @ x_spki_raw (fc_certificate c)) (fx_signature (fc_extension c))"
  by (auto simp: FoctetCertificate_verify_def FoctetCertificate_verify_signature_def FoctetCertificate_public_key_def
      FoctetCertificate_node_id_def self_signed_def Let_def split: if_splits)

lemma parse_Inr_iff:
  "parse D der = Some (Ok c) \<longleftrightarrow> parse_unverified D der = Some (Ok c) \<and> FoctetCertificate_verify D c = Ok ()"
  by (auto simp: parse_def)

lemma parse_None_iff:
  "parse D der = None \<longleftrightarrow> (\<exists>x. x509_parse D der = Some x \<and> san_node_id D x = None)"
  by (auto simp: parse_def parse_unverified_def)

text \<open>What a node generates is accepted as its certificate.\<close>

lemma generate_parse_ok:
  assumes "ed_signatures (tls_ed D)" and "text_roundtrip (tls_text D)" and "der_roundtrip D" and "generator_parser D"
    and "generate D gen kp = Ok (der, key)"
  shows "\<exists>c. parse D der = Some (Ok c) \<and> FoctetCertificate_node_id c = Keypair_public (tls_ed D) kp"
proof -
  let ?E = "tls_ed D" and ?T = "tls_text D"
  let ?id = "Keypair_public ?E kp"
  let ?uri = "''foctet://'' @ PublicKey_to_base32 ?T ?id"
  obtain ck p0 uri where p0: "rc_params_new D = Ok p0" "rc_ia5 D ?uri = Ok uri"
    and signed0: "rc_self_signed D (p0\<lparr> cp_subject_alt_names := cp_subject_alt_names p0 @ [URI uri],
        cp_distinguished_name := [], cp_custom_extensions := cp_custom_extensions p0 @ [(Oid_arcs FOCTET_EXT_OID,
         der_encode D (PublicKey_to_bytes ?id, Keypair_sign ?E kp (FOCTET_SIGNING_PREFIX @ rc_public_key_der D ck)))] \<rparr>) ck = Ok der"
    using assms(5) by (auto simp: generate_def Let_def)
  define params where "params = p0\<lparr> cp_subject_alt_names := [URI ?uri], cp_distinguished_name := [],
      cp_custom_extensions := [(Oid_arcs FOCTET_EXT_OID,
         der_encode D (PublicKey_to_bytes ?id, Keypair_sign ?E kp (FOCTET_SIGNING_PREFIX @ rc_public_key_der D ck)))] \<rparr>"
  from p0 assms(4) have "uri = ?uri" "cp_subject_alt_names p0 = []" "cp_custom_extensions p0 = []"
    unfolding generator_parser_def by blast+
  with signed0 have signed: "rc_self_signed D params ck = Ok der" by (simp add: params_def)
  with assms(4) obtain x where x: "x509_parse D der = Some x" "x_valid_now x"
      "x_san x = Some (Some [URI ?uri])" "x_spki_raw x = rc_public_key_der D ck"
      "x_pki_algorithm x = OID_KEY_TYPE_EC_PUBLIC_KEY" "x_pki_parameters x = Some (Some OID_EC_P256)"
      "x_signature_algorithm x = OID_SIG_ECDSA_WITH_SHA256"
      "ring_verify D ECDSA_P256_SHA256_ASN1 (x_subject_public_key x) (x_tbs x) (x_signature_value x)"
      "foctet_values (x_extensions x) =
         [der_encode D (PublicKey_to_bytes ?id, Keypair_sign ?E kp (FOCTET_SIGNING_PREFIX @ rc_public_key_der D ck))]"
    unfolding generator_parser_def by (fastforce simp: params_def)
  define c where "c = \<lparr> fc_certificate = x, fc_extension = \<lparr> fx_public_key = ?id,
      fx_signature = Keypair_sign ?E kp (FOCTET_SIGNING_PREFIX @ rc_public_key_der D ck) \<rparr> \<rparr>"
  have "parse_unverified D der = Some (Ok c)"
    unfolding parse_unverified_Inr_iff states_identity_def
    using x(1,3,9) assms(3) public_key_text [OF assms(1,2)] public_key_bytes [OF assms(1)]
    by (simp add: c_def FoctetCertificate_node_id_def san_uri_def find_map_def map_filter_simps der_roundtrip_def)
  moreover have "FoctetCertificate_verify D c = Ok ()"
    unfolding verify_Inr_iff self_signed_def
    using x(2,4-8) signature_verifies [OF assms(1)]
    by (simp add: c_def FoctetCertificate_node_id_def FoctetCertificate_signature_scheme_def Let_def
        verification_algorithm_def)
  ultimately show ?thesis by (auto simp: parse_Inr_iff c_def FoctetCertificate_node_id_def)
qed


section \<open>Properties\<close>



text \<open>Parameters for which the laws hold: a certificate is the length of its URI, the URI and the
  content of its foctet extension.\<close>

definition demo_certificate :: "string \<Rightarrow> bytes \<Rightarrow> X509Certificate" where
  "demo_certificate uri value = \<lparr> x_san = Some (Some [URI uri]), x_extensions = [(Oid_arcs FOCTET_EXT_OID, value)],
     x_valid_now = True, x_tbs = [], x_signature_value = [], x_spki_raw = [7], x_subject_public_key = [7],
     x_pki_algorithm = OID_KEY_TYPE_EC_PUBLIC_KEY, x_pki_parameters = Some (Some OID_EC_P256),
     x_signature_algorithm = OID_SIG_ECDSA_WITH_SHA256, x_pss_hash = None \<rparr>"

definition demo_self_signed :: "CertificateParams \<Rightarrow> string + bytes" where
  "demo_self_signed params =
     (case (cp_subject_alt_names params, cp_custom_extensions params) of
        ([URI uri], [(oid, value)]) \<Rightarrow>
          if length uri < 256 \<and> oid = Oid_arcs FOCTET_EXT_OID then Ok (of_nat (length uri) # ascii uri @ value)
          else Err ''unsupported''
      | _ \<Rightarrow> Err ''unsupported'')"

definition demo_tls :: "(u8, u8, bytes, unit) tls_ops" where
  "demo_tls = \<lparr> tls_ed = demo_ed, tls_text = demo_text,
     x509_parse = (\<lambda>bs. case bs of [] \<Rightarrow> None
       | n # bs \<Rightarrow> Some (demo_certificate (map (\<lambda>b. char_of (unat b)) (take (unat n) bs)) (drop (unat n) bs))),
     der_encode = (\<lambda>(a, b). replicate (length a) 1 @ [0] @ a @ b),
     der_decode = (\<lambda>bs. let n = length (takeWhile (\<lambda>b. b = 1) bs); rest = drop (Suc n) bs
       in Some (take n rest, drop n rest)),
     ring_verify = (\<lambda>_ _ _ _. True), rc_public_key_der = (\<lambda>_. [7]), rc_serialize_der = (\<lambda>_. [8]),
     rc_params_new = Ok \<lparr> cp_subject_alt_names = [], cp_distinguished_name = [], cp_custom_extensions = [] \<rparr>,
     rc_ia5 = Ok, rc_self_signed = (\<lambda>params _. demo_self_signed params) \<rparr>"

lemma demo_certificate_simps [simp]:
  "x_san (demo_certificate uri v) = Some (Some [URI uri])"
  "x_extensions (demo_certificate uri v) = [(Oid_arcs FOCTET_EXT_OID, v)]"
  "x_valid_now (demo_certificate uri v)" "x_spki_raw (demo_certificate uri v) = [7]"
  "x_pki_algorithm (demo_certificate uri v) = OID_KEY_TYPE_EC_PUBLIC_KEY"
  "x_pki_parameters (demo_certificate uri v) = Some (Some OID_EC_P256)"
  "x_signature_algorithm (demo_certificate uri v) = OID_SIG_ECDSA_WITH_SHA256"
  by (simp_all add: demo_certificate_def)

lemma char_of_ascii: "map (\<lambda>b. char_of (unat b)) (ascii s) = s"
proof -
  have "unat (of_nat (of_char c) :: u8) = of_char c" for c
  proof -
    have "(of_char c :: nat) = of_char (char_of (of_char c :: nat) :: char)" by simp
    also have "\<dots> = of_char c mod 256" by (simp only: of_char_of)
    finally have "(of_char c :: nat) < 256" by simp
    then show ?thesis by (simp add: unat_of_nat)
  qed
  then show ?thesis by (induction s) (simp_all add: ascii_def)
qed

lemma demo_self_signed_Inr:
  "demo_self_signed params = Ok der \<longleftrightarrow>
     (\<exists>uri value. cp_subject_alt_names params = [URI uri] \<and>
        cp_custom_extensions params = [(Oid_arcs FOCTET_EXT_OID, value)] \<and> length uri < 256 \<and>
        der = of_nat (length uri) # ascii uri @ value)"
  by (auto simp: demo_self_signed_def split: list.splits GeneralName.splits prod.splits if_splits)

lemma demo_tls_laws: "der_roundtrip demo_tls" "generator_parser demo_tls"
proof -
  have "takeWhile (\<lambda>b. b = 1) (replicate n (1 :: u8) @ 0 # xs) = replicate n 1" for n xs
    by (induction n) simp_all
  then show "der_roundtrip demo_tls" by (simp add: der_roundtrip_def demo_tls_def Let_def)
next
  have parsed: "x509_parse demo_tls (of_nat (length uri) # ascii uri @ v) = Some (demo_certificate uri v)"
    if "length uri < 256" for uri v
  proof -
    have "unat (of_nat (length uri) :: u8) = length (ascii uri)" using that by (simp add: unat_of_nat ascii_def)
    then show ?thesis by (simp add: demo_tls_def char_of_ascii)
  qed
  have "\<exists>x. x509_parse demo_tls der = Some x \<and> x_valid_now x \<and> x_san x = Some (Some (cp_subject_alt_names params)) \<and>
      foctet_values (x_extensions x) = foctet_values (cp_custom_extensions params) \<and>
      x_spki_raw x = rc_public_key_der demo_tls ck \<and> x_pki_algorithm x = OID_KEY_TYPE_EC_PUBLIC_KEY \<and>
      x_pki_parameters x = Some (Some OID_EC_P256) \<and> x_signature_algorithm x = OID_SIG_ECDSA_WITH_SHA256 \<and>
      ring_verify demo_tls ECDSA_P256_SHA256_ASN1 (x_subject_public_key x) (x_tbs x) (x_signature_value x)"
    if signed: "demo_self_signed params = Ok der" for params ck der
  proof -
    from signed obtain uri v where params: "cp_subject_alt_names params = [URI uri]"
        "cp_custom_extensions params = [(Oid_arcs FOCTET_EXT_OID, v)]" "length uri < 256"
        "der = of_nat (length uri) # ascii uri @ v"
      unfolding demo_self_signed_Inr by blast
    from parsed [OF params(3), of v] show ?thesis
      unfolding params(4) by (intro exI [of _ "demo_certificate uri v"]) (simp add: params(1,2) demo_tls_def)
  qed
  then show "generator_parser demo_tls"
    unfolding generator_parser_def by (simp add: demo_tls_def)
qed

lemma demo_generate:
  "\<exists>der. generate demo_tls (Ok ()) (Keypair k) = Ok (der, [8])"
proof -
  have "length (''foctet://'' @ PublicKey_to_base32 demo_text (Keypair_public demo_ed (Keypair k))) < 256"
    by (simp add: PublicKey_to_base32_def PublicKey_to_bytes_def Keypair_public_def demo_ed_def demo_text_def)
  then show ?thesis by (simp add: generate_def demo_tls_def demo_self_signed_def Let_def)
qed


end
