(* ===== verification/Verifier.thy ===== *)
theory Verifier
  imports Cert
begin

text \<open>
  \<^verbatim>\<open>foctet-net/src/tls/verifier.rs\<close> (what a handshake accepts), \<^verbatim>\<open>foctet-net/src/tls/config.rs\<close> (the TLS
  configurations) and \<^verbatim>\<open>foctet-net/src/tls/upgrade.rs\<close>. The TLS stack itself is \<^verbatim>\<open>rustls\<close>: a
  configuration is the record of what the source sets in it, and \<open>rustls_ops\<close> has what the source
  calls of it. A panic is \<open>None\<close>.
\<close>

section \<open>Verification\<close>

datatype CertificateError = BadEncoding | BadSignature | ApplicationVerificationFailure | OtherCert webpki_error

datatype rustls_error = General string | InvalidCertificate CertificateError

datatype SupportedProtocolVersion = TLS13

datatype SupportedCipherSuite = TLS13_CHACHA20_POLY1305_SHA256 | TLS13_AES_256_GCM_SHA384 | TLS13_AES_128_GCM_SHA256

definition PROTOCOL_VERSIONS :: "SupportedProtocolVersion list" where
  "PROTOCOL_VERSIONS = [TLS13]"

definition CIPHERSUITES :: "SupportedCipherSuite list" where
  "CIPHERSUITES = [TLS13_CHACHA20_POLY1305_SHA256, TLS13_AES_256_GCM_SHA384, TLS13_AES_128_GCM_SHA256]"

record FoctetCertificateVerifier =
  fv_remote_node_id :: "NodeId option"

definition FoctetCertificateVerifier_new :: FoctetCertificateVerifier where
  "FoctetCertificateVerifier_new = \<lparr> fv_remote_node_id = None \<rparr>"

definition FoctetCertificateVerifier_with_remote_node_id :: "NodeId option \<Rightarrow> FoctetCertificateVerifier" where
  "FoctetCertificateVerifier_with_remote_node_id remote_node_id = \<lparr> fv_remote_node_id = remote_node_id \<rparr>"

definition verification_schemes :: "SignatureScheme list" where
  "verification_schemes = [ECDSA_NISTP384_SHA384, ECDSA_NISTP256_SHA256, ED25519, RSA_PSS_SHA512, RSA_PSS_SHA384,
     RSA_PSS_SHA256, RSA_PKCS1_SHA512, RSA_PKCS1_SHA384, RSA_PKCS1_SHA256]"

fun rustls_error_from_ParseError :: "ParseError \<Rightarrow> rustls_error" where
  "rustls_error_from_ParseError (ParseError e) =
     (case e of
        BadDer \<Rightarrow> InvalidCertificate BadEncoding
      | e \<Rightarrow> InvalidCertificate (OtherCert e))"

fun rustls_error_from_VerificationError :: "VerificationError \<Rightarrow> rustls_error" where
  "rustls_error_from_VerificationError (VerificationError e) =
     (case e of
        InvalidSignatureForPublicKey \<Rightarrow> InvalidCertificate BadSignature
      | other \<Rightarrow> InvalidCertificate (OtherCert other))"

definition verify_presented_certs ::
  "('k, 'v, 's, 'c) tls_ops \<Rightarrow> bytes \<Rightarrow> bytes list \<Rightarrow> (rustls_error + NodeId) option" where
  "verify_presented_certs D end_entity intermediates =
     (if intermediates \<noteq> [] then Some (Err (General ''foctet-tls requires exactly one certificate''))
      else (case parse D end_entity of
              None \<Rightarrow> None
            | Some (Inr cert) \<Rightarrow> Some (Ok (FoctetCertificate_node_id cert))
            | Some (Inl _) \<Rightarrow> Some (Err (InvalidCertificate BadEncoding))))"

definition verify_tls13_signature ::
  "('k, 'v, 's, 'c) tls_ops \<Rightarrow> bytes \<Rightarrow> SignatureScheme \<Rightarrow> bytes \<Rightarrow> bytes \<Rightarrow> (rustls_error + unit) option" where
  "verify_tls13_signature D cert signature_scheme message signature =
     panic_bind (map_option (map_err rustls_error_from_ParseError) (parse D cert)) (\<lambda>c.
       Some (case FoctetCertificate_verify_signature D c signature_scheme message signature of
               Inr _ \<Rightarrow> Ok ()
             | Inl _ \<Rightarrow> Err (InvalidCertificate BadSignature)))"

text \<open>\<^verbatim>\<open>ServerCertVerifier\<close>. The signature of TLS 1.2 is unreachable: it panics.\<close>

definition verify_server_cert ::
  "('k, 'v, 's, 'c) tls_ops \<Rightarrow> FoctetCertificateVerifier \<Rightarrow> bytes \<Rightarrow> bytes list \<Rightarrow> (rustls_error + unit) option" where
  "verify_server_cert D self end_entity intermediates =
     panic_bind (verify_presented_certs D end_entity intermediates) (\<lambda>node_id.
       Some (case fv_remote_node_id self of
               Some remote_node_id \<Rightarrow>
                 if remote_node_id \<noteq> node_id then Err (InvalidCertificate ApplicationVerificationFailure)
                 else Ok ()
             | None \<Rightarrow> Ok ()))"

definition server_verify_tls12_signature :: "FoctetCertificateVerifier \<Rightarrow> (rustls_error + unit) option" where
  "server_verify_tls12_signature self = None"

definition server_verify_tls13_signature ::
  "('k, 'v, 's, 'c) tls_ops \<Rightarrow> FoctetCertificateVerifier \<Rightarrow> bytes \<Rightarrow> bytes \<Rightarrow> SignatureScheme \<times> bytes \<Rightarrow> (rustls_error + unit) option" where
  "server_verify_tls13_signature D self message cert dss =
     verify_tls13_signature D cert (fst dss) message (snd dss)"

definition server_supported_verify_schemes :: "FoctetCertificateVerifier \<Rightarrow> SignatureScheme list" where
  "server_supported_verify_schemes self = verification_schemes"

text \<open>\<^verbatim>\<open>ClientCertVerifier\<close>.\<close>

definition offer_client_auth :: "FoctetCertificateVerifier \<Rightarrow> bool" where
  "offer_client_auth self = True"

definition root_hint_subjects :: "FoctetCertificateVerifier \<Rightarrow> bytes list" where
  "root_hint_subjects self = []"

definition verify_client_cert ::
  "('k, 'v, 's, 'c) tls_ops \<Rightarrow> FoctetCertificateVerifier \<Rightarrow> bytes \<Rightarrow> bytes list \<Rightarrow> (rustls_error + unit) option" where
  "verify_client_cert D self end_entity intermediates =
     panic_bind (verify_presented_certs D end_entity intermediates) (\<lambda>_. Some (Ok ()))"

definition client_verify_tls12_signature :: "FoctetCertificateVerifier \<Rightarrow> (rustls_error + unit) option" where
  "client_verify_tls12_signature self = None"

definition client_verify_tls13_signature ::
  "('k, 'v, 's, 'c) tls_ops \<Rightarrow> FoctetCertificateVerifier \<Rightarrow> bytes \<Rightarrow> bytes \<Rightarrow> SignatureScheme \<times> bytes \<Rightarrow> (rustls_error + unit) option" where
  "client_verify_tls13_signature D self message cert dss =
     verify_tls13_signature D cert (fst dss) message (snd dss)"

definition client_supported_verify_schemes :: "FoctetCertificateVerifier \<Rightarrow> SignatureScheme list" where
  "client_supported_verify_schemes self = verification_schemes"

text \<open>The verifier for tests accepts every certificate, and leaves the signatures of the handshake to rustls with the
  algorithms \<open>'alg\<close> of its provider.\<close>

datatype 'alg SkipServerVerification = SkipServerVerification (skip_provider: 'alg)

record 'alg crypto_ops =
  cr_default_provider :: 'alg
  cr_verify_tls12_signature :: "bytes \<Rightarrow> bytes \<Rightarrow> SignatureScheme \<times> bytes \<Rightarrow> 'alg \<Rightarrow> rustls_error + unit"
  cr_verify_tls13_signature :: "bytes \<Rightarrow> bytes \<Rightarrow> SignatureScheme \<times> bytes \<Rightarrow> 'alg \<Rightarrow> rustls_error + unit"
  cr_supported_schemes :: "'alg \<Rightarrow> SignatureScheme list"

definition SkipServerVerification_new :: "'alg crypto_ops \<Rightarrow> 'alg SkipServerVerification" where
  "SkipServerVerification_new P = SkipServerVerification (cr_default_provider P)"

definition SkipServerVerification_verify_server_cert ::
  "'alg SkipServerVerification \<Rightarrow> bytes \<Rightarrow> bytes list \<Rightarrow> rustls_error + unit" where
  "SkipServerVerification_verify_server_cert self end_entity intermediates = Ok ()"

definition SkipServerVerification_verify_tls12_signature ::
  "'alg crypto_ops \<Rightarrow> 'alg SkipServerVerification \<Rightarrow> bytes \<Rightarrow> bytes \<Rightarrow> SignatureScheme \<times> bytes \<Rightarrow> rustls_error + unit" where
  "SkipServerVerification_verify_tls12_signature P self message cert dss =
     cr_verify_tls12_signature P message cert dss (skip_provider self)"

definition SkipServerVerification_verify_tls13_signature ::
  "'alg crypto_ops \<Rightarrow> 'alg SkipServerVerification \<Rightarrow> bytes \<Rightarrow> bytes \<Rightarrow> SignatureScheme \<times> bytes \<Rightarrow> rustls_error + unit" where
  "SkipServerVerification_verify_tls13_signature P self message cert dss =
     cr_verify_tls13_signature P message cert dss (skip_provider self)"

definition SkipServerVerification_supported_verify_schemes ::
  "'alg crypto_ops \<Rightarrow> 'alg SkipServerVerification \<Rightarrow> SignatureScheme list" where
  "SkipServerVerification_supported_verify_schemes P self = cr_supported_schemes P (skip_provider self)"


section \<open>Configurations\<close>

record 'sk rustls_ops =
  rl_any_ecdsa_type :: "bytes \<Rightarrow> string + 'sk"
  rl_versions_ok :: "SupportedCipherSuite list \<Rightarrow> SupportedProtocolVersion list \<Rightarrow> bool"

definition FOCTET_ALPN :: bytes where
  "FOCTET_ALPN = ascii ''foctet''"

record 'sk ClientConfig =
  clc_cipher_suites :: "SupportedCipherSuite list"
  clc_versions :: "SupportedProtocolVersion list"
  clc_verifier :: FoctetCertificateVerifier
  clc_cert_resolver :: "'sk AlwaysResolvesCert"
  clc_alpn_protocols :: "bytes list"

record 'sk ServerConfig =
  svc_cipher_suites :: "SupportedCipherSuite list"
  svc_versions :: "SupportedProtocolVersion list"
  svc_verifier :: FoctetCertificateVerifier
  svc_cert_resolver :: "'sk AlwaysResolvesCert"
  svc_alpn_protocols :: "bytes list"

text \<open>\<open>gen\<close> is what generating the certificate's key returned.\<close>

definition make_client_config ::
  "('k, 'v, 's, 'c) tls_ops \<Rightarrow> 'sk rustls_ops \<Rightarrow> string + 'c \<Rightarrow> 'k Keypair \<Rightarrow> NodeId option
     \<Rightarrow> (GenError + 'sk ClientConfig) option" where
  "make_client_config D R gen keypair remote_node_id =
     panic_bind (Some (generate D gen keypair)) (\<lambda>(certificate, private_key).
       (case AlwaysResolvesCert_new (rl_any_ecdsa_type R) certificate private_key of
          Inl _ \<Rightarrow> None
        | Inr cert_resolver \<Rightarrow>
            if \<not> rl_versions_ok R CIPHERSUITES PROTOCOL_VERSIONS then None
            else Some (Ok \<lparr> clc_cipher_suites = CIPHERSUITES, clc_versions = PROTOCOL_VERSIONS,
                   clc_verifier = FoctetCertificateVerifier_with_remote_node_id remote_node_id,
                   clc_cert_resolver = cert_resolver, clc_alpn_protocols = [FOCTET_ALPN] \<rparr>)))"

definition make_server_config ::
  "('k, 'v, 's, 'c) tls_ops \<Rightarrow> 'sk rustls_ops \<Rightarrow> string + 'c \<Rightarrow> 'k Keypair \<Rightarrow> (GenError + 'sk ServerConfig) option" where
  "make_server_config D R gen keypair =
     panic_bind (Some (generate D gen keypair)) (\<lambda>(certificate, private_key).
       (case AlwaysResolvesCert_new (rl_any_ecdsa_type R) certificate private_key of
          Inl _ \<Rightarrow> None
        | Inr cert_resolver \<Rightarrow>
            if \<not> rl_versions_ok R CIPHERSUITES PROTOCOL_VERSIONS then None
            else Some (Ok \<lparr> svc_cipher_suites = CIPHERSUITES, svc_versions = PROTOCOL_VERSIONS,
                   svc_verifier = FoctetCertificateVerifier_new,
                   svc_cert_resolver = cert_resolver, svc_alpn_protocols = [FOCTET_ALPN] \<rparr>)))"


section \<open>Upgrading a connection\<close>

record 'sk ConnectionUpgrader =
  cu_tls_acceptor :: "'sk ServerConfig"
  cu_tls_connector :: "'sk ClientConfig"

definition ConnectionUpgrader_new ::
  "('k, 'v, 's, 'c) tls_ops \<Rightarrow> 'sk rustls_ops \<Rightarrow> string + 'c \<Rightarrow> string + 'c \<Rightarrow> 'k Keypair
     \<Rightarrow> (GenError + 'sk ConnectionUpgrader) option" where
  "ConnectionUpgrader_new D R gen gen' identity =
     panic_bind (make_server_config D R gen identity) (\<lambda>server_config.
     panic_bind (make_client_config D R gen' identity None) (\<lambda>client_config.
       Some (Ok \<lparr> cu_tls_acceptor = server_config, cu_tls_connector = client_config \<rparr>)))"

definition ConnectionUpgrader_with_config :: "'sk ServerConfig \<Rightarrow> 'sk ClientConfig \<Rightarrow> 'sk ConnectionUpgrader" where
  "ConnectionUpgrader_with_config server_config client_config =
     \<lparr> cu_tls_acceptor = server_config, cu_tls_connector = client_config \<rparr>"

text \<open>\<open>peer_certificates\<close> is what the TLS state has of the peer; without exactly one certificate it panics.\<close>

definition extract_single_certificate ::
  "('k, 'v, 's, 'c) tls_ops \<Rightarrow> bytes list option \<Rightarrow> (ParseError + FoctetCertificate) option" where
  "extract_single_certificate D peer_certificates =
     (case peer_certificates of Some [cert] \<Rightarrow> parse D cert | _ \<Rightarrow> None)"

text \<open>\<open>accept\<close> and \<open>connect\<close>: the handshake with the given configuration; \<open>peers\<close>: the peer's certificates.\<close>

definition upgrade_inbound ::
  "('k, 'v, 's, 'c) tls_ops \<Rightarrow> ('sk ServerConfig \<Rightarrow> 'raw \<Rightarrow> 't result) \<Rightarrow> ('t \<Rightarrow> bytes list option) \<Rightarrow> (ParseError \<Rightarrow> error)
     \<Rightarrow> 'sk ConnectionUpgrader \<Rightarrow> 'raw \<Rightarrow> (NodeId \<times> 't) result option" where
  "upgrade_inbound D accept peers conv self raw_stream =
     panic_bind (Some (accept (cu_tls_acceptor self) raw_stream)) (\<lambda>tls_stream.
     panic_bind (map_option (map_err conv) (extract_single_certificate D (peers tls_stream))) (\<lambda>cert.
       Some (Ok (FoctetCertificate_node_id cert, tls_stream))))"

definition upgrade_outbound ::
  "('k, 'v, 's, 'c) tls_ops \<Rightarrow> ('sk ClientConfig \<Rightarrow> 'raw \<Rightarrow> 't result) \<Rightarrow> ('t \<Rightarrow> bytes list option) \<Rightarrow> (ParseError \<Rightarrow> error)
     \<Rightarrow> 'sk ConnectionUpgrader \<Rightarrow> 'raw \<Rightarrow> (NodeId \<times> 't) result option" where
  "upgrade_outbound D connect peers conv self raw_stream =
     panic_bind (Some (connect (cu_tls_connector self) raw_stream)) (\<lambda>tls_stream.
     panic_bind (map_option (map_err conv) (extract_single_certificate D (peers tls_stream))) (\<lambda>cert.
       Some (Ok (FoctetCertificate_node_id cert, tls_stream))))"


section \<open>Lemmas\<close>

lemma verify_presented_certs_Inr_iff:
  "verify_presented_certs D ee ints = Some (Ok i) \<longleftrightarrow>
     ints = [] \<and> (\<exists>c. parse D ee = Some (Ok c) \<and> FoctetCertificate_node_id c = i)"
  by (auto simp: verify_presented_certs_def split: option.splits sum.splits)

lemma verify_server_cert_Inr_iff:
  "verify_server_cert D v ee ints = Some (Ok ()) \<longleftrightarrow>
     ints = [] \<and> (\<exists>c. parse D ee = Some (Ok c) \<and>
       (fv_remote_node_id v = None \<or> fv_remote_node_id v = Some (FoctetCertificate_node_id c)))"
  by (cases "fv_remote_node_id v") (auto simp: verify_server_cert_def verify_presented_certs_Inr_iff split: if_splits)

lemma verify_signature_Inr_iff:
  "FoctetCertificate_verify_signature D c scheme msg sig = Ok u \<longleftrightarrow>
     FoctetCertificate_signature_scheme c = Ok scheme \<and>
     (\<exists>alg. verification_algorithm scheme = Ok alg \<and> ring_verify D alg (x_subject_public_key (fc_certificate c)) msg sig)"
  by (auto simp: FoctetCertificate_verify_signature_def FoctetCertificate_public_key_def split: if_splits)

lemma verify_tls13_signature_Inr_iff:
  "verify_tls13_signature D cert scheme msg sig = Some (Ok ()) \<longleftrightarrow>
     (\<exists>c. parse D cert = Some (Ok c) \<and> FoctetCertificate_verify_signature D c scheme msg sig = Ok ())"
proof -
  have "(case r of Inr _ \<Rightarrow> Ok () | Inl _ \<Rightarrow> Err e) = Ok () \<longleftrightarrow> r = Ok ()" for r :: "VerificationError + unit" and e :: rustls_error
    by (cases r) auto
  then show ?thesis by (auto simp: verify_tls13_signature_def)
qed

lemma verification_algorithm_iff: "(\<exists>alg. verification_algorithm scheme = Ok alg) \<longleftrightarrow> scheme \<in> set verification_schemes"
  by (cases scheme) (simp_all add: verification_algorithm_def verification_schemes_def)

lemma make_client_config_verifier:
  assumes "make_client_config D R gen kp i = Some (Ok cfg)"
  shows "clc_verifier cfg = \<lparr> fv_remote_node_id = i \<rparr>"
proof -
  obtain a b where "generate D gen kp = Ok (a, b)" using assms by (auto simp: make_client_config_def)
  with assms show ?thesis
    by (cases "AlwaysResolvesCert_new (rl_any_ecdsa_type R) a b")
      (auto simp: make_client_config_def FoctetCertificateVerifier_with_remote_node_id_def split: if_splits)
qed


section \<open>Properties\<close>


end
