(* ===== verification/Device.thy ===== *)
theory Device
  imports Ip "HOL-Library.Multiset"
begin

text \<open>
  \<^verbatim>\<open>foctet-net/src/device.rs\<close>: which of several addresses to use. The network interface comes from the
  \<^verbatim>\<open>netdev\<close> crate: here an \<open>Interface\<close> lists the address and prefix length of its networks.
  Network membership is the \<^verbatim>\<open>ipnet\<close> crate's and a stack address is the \<^verbatim>\<open>stackaddr\<close> crate's: both
  are parameters (\<open>net_ops\<close>, and the function that gives an address its IP).
\<close>

section \<open>Parameters\<close>

record Interface =
  if_ipv4 :: "(Ipv4Addr \<times> u8) list"
  if_ipv6 :: "(Ipv6Addr \<times> u8) list"

text \<open>\<^verbatim>\<open>Ipv4Net::new(addr, prefix_len)\<close> followed by \<^verbatim>\<open>contains\<close>: \<open>None\<close> when \<^verbatim>\<open>new\<close> refuses.\<close>

record net_ops =
  net4_contains :: "Ipv4Addr \<times> u8 \<Rightarrow> (Ipv4Addr \<Rightarrow> bool) option"
  net6_contains :: "Ipv6Addr \<times> u8 \<Rightarrow> (Ipv6Addr \<Rightarrow> bool) option"

text \<open>What the crate documents: prefixes up to the width of the address are accepted, and a
  network contains the addresses that agree with it on the prefix.\<close>

locale ip_nets =
  fixes N :: net_ops
  assumes net4: "net4_contains N (a, p) =
      (if unat p \<le> 32 then Some (\<lambda>t. in_block 8 (digits4 a, unat p) (digits4 t)) else None)"
    and net6: "net6_contains N (b, p) =
      (if unat p \<le> 128 then Some (\<lambda>t. in_block 16 (digits6 b, unat p) (digits6 t)) else None)"

definition prefix_nets :: net_ops where
  "prefix_nets = \<lparr>
     net4_contains = (\<lambda>(a, p). if unat p \<le> 32 then Some (\<lambda>t. in_block 8 (digits4 a, unat p) (digits4 t)) else None),
     net6_contains = (\<lambda>(b, p). if unat p \<le> 128 then Some (\<lambda>t. in_block 16 (digits6 b, unat p) (digits6 t)) else None) \<rparr>"

interpretation nets: ip_nets prefix_nets
  by unfold_locales (simp_all add: prefix_nets_def)


section \<open>Unspecified and default addresses\<close>

text \<open>\<open>iface\<close> is what \<^verbatim>\<open>netdev::get_default_interface()\<close> returned.\<close>

definition get_unspecified_bind_addr :: "Interface option \<Rightarrow> SocketAddr" where
  "get_unspecified_bind_addr iface =
     (case iface of
        None \<Rightarrow> DEFAULT_BIND_V4_ADDR
      | Some i \<Rightarrow> if 0 < length (if_ipv6 i) then DEFAULT_BIND_V6_ADDR else DEFAULT_BIND_V4_ADDR)"

definition get_unspecified_server_addr :: "Interface option \<Rightarrow> SocketAddr" where
  "get_unspecified_server_addr iface =
     (case iface of
        None \<Rightarrow> DEFAULT_SERVER_V4_ADDR
      | Some i \<Rightarrow> if 0 < length (if_ipv6 i) then DEFAULT_SERVER_V6_ADDR else DEFAULT_SERVER_V4_ADDR)"

definition get_default_ipv4_server_addrs :: "Interface option \<Rightarrow> u16 \<Rightarrow> bool \<Rightarrow> SocketAddr list" where
  "get_default_ipv4_server_addrs iface port include_loopback =
     (case iface of
        None \<Rightarrow> []
      | Some i \<Rightarrow>
          (if include_loopback then [SocketAddr (V4 Ipv4Addr_LOCALHOST) port] else []) @
          map (\<lambda>net. SocketAddr (V4 (fst net)) port) (if_ipv4 i))"

definition get_default_ipv6_server_addrs :: "Interface option \<Rightarrow> u16 \<Rightarrow> bool \<Rightarrow> SocketAddr list" where
  "get_default_ipv6_server_addrs iface port include_loopback =
     (case iface of
        None \<Rightarrow> []
      | Some i \<Rightarrow>
          (if include_loopback then [SocketAddr (V6 Ipv6Addr_LOCALHOST) port] else []) @
          map (\<lambda>net. SocketAddr (V6 (fst net)) port) (if_ipv6 i))"

definition get_default_server_addrs :: "Interface option \<Rightarrow> u16 \<Rightarrow> bool \<Rightarrow> SocketAddr list" where
  "get_default_server_addrs iface port include_loopback =
     (case iface of
        None \<Rightarrow> []
      | Some i \<Rightarrow>
          (if include_loopback then [SocketAddr (V4 Ipv4Addr_LOCALHOST) port] else []) @
          map (\<lambda>net. SocketAddr (V4 (fst net)) port) (if_ipv4 i) @
          (if include_loopback then [SocketAddr (V6 Ipv6Addr_LOCALHOST) port] else []) @
          map (\<lambda>net. SocketAddr (V6 (fst net)) port) (if_ipv6 i))"


section \<open>Ranking\<close>

text \<open>The loop over the networks of one family: a network that is refused is skipped, the first
  that contains the target ends it.\<close>

fun any_contains :: "('n \<Rightarrow> ('a \<Rightarrow> bool) option) \<Rightarrow> 'a \<Rightarrow> 'n list \<Rightarrow> bool" where
  "any_contains new target [] = False"
| "any_contains new target (n # ns) =
     (case new n of
        None \<Rightarrow> any_contains new target ns
      | Some contains \<Rightarrow> if contains target then True else any_contains new target ns)"

fun in_same_net :: "net_ops \<Rightarrow> IpAddr \<Rightarrow> Interface \<Rightarrow> bool" where
  "in_same_net N (V4 target) iface = any_contains (net4_contains N) target (if_ipv4 iface)"
| "in_same_net N (V6 target) iface = any_contains (net6_contains N) target (if_ipv6 iface)"

definition rank_ip :: "net_ops \<Rightarrow> IpAddr \<Rightarrow> Interface \<Rightarrow> u8" where
  "rank_ip N ip iface =
     (if IpAddr_is_loopback ip then 3
      else if in_same_net N ip iface then 2
      else if is_global_ip ip then 1
      else 0)"

text \<open>\<^verbatim>\<open>Iterator::max_by_key\<close> of the standard library: of several greatest elements the last.\<close>

fun max_by_key :: "('a \<Rightarrow> 'k :: linorder) \<Rightarrow> 'a list \<Rightarrow> 'a option" where
  "max_by_key key [] = None"
| "max_by_key key (x # xs) = Some (fold (\<lambda>y best. if key best \<le> key y then y else best) xs x)"

definition ranked :: "net_ops \<Rightarrow> ('a \<Rightarrow> IpAddr option) \<Rightarrow> 'a list \<Rightarrow> Interface \<Rightarrow> ('a \<times> u8) list" where
  "ranked N ip addrs iface = List.map_filter (\<lambda>addr. map_option (\<lambda>i. (addr, rank_ip N i iface)) (ip addr)) addrs"

definition pick_best_addr :: "net_ops \<Rightarrow> ('a \<Rightarrow> IpAddr option) \<Rightarrow> 'a list \<Rightarrow> Interface \<Rightarrow> 'a option" where
  "pick_best_addr N ip addrs iface = map_option fst (max_by_key snd (ranked N ip addrs iface))"

text \<open>\<^verbatim>\<open>slice::sort_by_key\<close> is a stable sort, as is HOL's \<^const>\<open>sort_key\<close>; the key \<^verbatim>\<open>Reverse(rank)\<close> is the
  negated rank.\<close>

definition sort_addrs_by_reachability ::
  "net_ops \<Rightarrow> ('a \<Rightarrow> IpAddr option) \<Rightarrow> 'a list \<Rightarrow> Interface \<Rightarrow> 'a list" where
  "sort_addrs_by_reachability N ip addrs iface =
     map fst (sort_key (\<lambda>(_, rank). - uint rank) (ranked N ip addrs iface))"


section \<open>Lemmas\<close>

text \<open>The rank of an address that has an IP.\<close>

definition addr_rank :: "net_ops \<Rightarrow> ('a \<Rightarrow> IpAddr option) \<Rightarrow> Interface \<Rightarrow> 'a \<Rightarrow> u8" where
  "addr_rank N ip iface addr = rank_ip N (the (ip addr)) iface"

abbreviation has_ip :: "('a \<Rightarrow> IpAddr option) \<Rightarrow> 'a \<Rightarrow> bool" where
  "has_ip ip a \<equiv> ip a \<noteq> None"

lemma ranked_eq: "ranked N ip addrs iface = map (\<lambda>a. (a, addr_rank N ip iface a)) (filter (has_ip ip) addrs)"
  by (induction addrs) (auto simp: ranked_def addr_rank_def List.map_filter_def)

lemma sort_key_map: "map g (sort_key (f \<circ> g) xs) = sort_key f (map g xs)"
proof -
  have "map g (insort_key (f \<circ> g) x ys) = insort_key f (g x) (map g ys)" for x ys
    by (induction ys) auto
  then show ?thesis by (induction xs) (simp_all add: sort_key_def)
qed

lemma sort_addrs_eq:
  "sort_addrs_by_reachability N ip addrs iface =
     sort_key (\<lambda>a. - uint (addr_rank N ip iface a)) (filter (has_ip ip) addrs)"
proof -
  let ?g = "\<lambda>a. (a, addr_rank N ip iface a)"
  have "sort_key (\<lambda>(_, rank). - uint rank) (map ?g (filter (has_ip ip) addrs)) =
      map ?g (sort_key (\<lambda>a. - uint (addr_rank N ip iface a)) (filter (has_ip ip) addrs))"
    using sort_key_map [of ?g "\<lambda>(_, rank). - uint rank"] by (simp add: comp_def)
  then show ?thesis by (simp add: sort_addrs_by_reachability_def ranked_eq comp_def)
qed

lemma any_contains_iff:
  "any_contains new target ns \<longleftrightarrow> (\<exists>n \<in> set ns. \<exists>c. new n = Some c \<and> c target)"
  by (induction ns) (auto split: option.split)

text \<open>\<^const>\<open>max_by_key\<close> picks the last of the greatest elements.\<close>

lemma fold_max_by_key:
  fixes key :: "'a \<Rightarrow> 'k :: linorder"
  defines "m \<equiv> fold (\<lambda>y best. if key best \<le> key y then y else best)"
  shows "key x \<le> key (m xs x) \<and> (\<forall>y \<in> set xs. key y \<le> key (m xs x)) \<and>
    (\<exists>ys zs. x # xs = ys @ m xs x # zs \<and> (\<forall>z \<in> set zs. key z < key (m xs x)))"
proof (induction xs rule: rev_induct)
  case Nil
  show ?case by (simp add: m_def) (metis append_Nil empty_iff empty_set)
next
  case (snoc y xs)
  from snoc obtain ys zs where *: "x # xs = ys @ m xs x # zs" "\<forall>z \<in> set zs. key z < key (m xs x)" by blast
  show ?case
  proof (cases "key (m xs x) \<le> key y")
    case True
    then have same: "m (xs @ [y]) x = y" by (simp add: m_def)
    have "key x \<le> key y" using snoc True by (meson order_trans)
    moreover have "\<forall>z \<in> set (xs @ [y]). key z \<le> key y" using snoc True by (auto intro: order_trans)
    moreover have "x # xs @ [y] = (x # xs) @ y # [] \<and> (\<forall>z \<in> set []. key z < key y)" by simp
    ultimately show ?thesis unfolding same by blast
  next
    case False
    then have same: "m (xs @ [y]) x = m xs x" by (simp add: m_def)
    have "x # xs @ [y] = ys @ m xs x # (zs @ [y])" using arg_cong [OF *(1), of "\<lambda>l. l @ [y]"] by simp
    moreover have "\<forall>z \<in> set (zs @ [y]). key z < key (m xs x)" using *(2) False by auto
    moreover have "\<forall>z \<in> set (xs @ [y]). key z \<le> key (m xs x)" using snoc False by auto
    ultimately show ?thesis unfolding same using snoc by blast
  qed
qed

context ip_nets
begin

lemma same_net4:
  "in_same_net N (V4 t) iface \<longleftrightarrow>
     (\<exists>(a, p) \<in> set (if_ipv4 iface). unat p \<le> 32 \<and> in_block 8 (digits4 a, unat p) (digits4 t))"
proof -
  have "(\<exists>c. net4_contains N n = Some c \<and> c t) \<longleftrightarrow>
      unat (snd n) \<le> 32 \<and> in_block 8 (digits4 (fst n), unat (snd n)) (digits4 t)" for n
    by (cases n) (simp add: net4)
  then show ?thesis by (simp add: any_contains_iff case_prod_beta)
qed

lemma same_net6:
  "in_same_net N (V6 t) iface \<longleftrightarrow>
     (\<exists>(a, p) \<in> set (if_ipv6 iface). unat p \<le> 128 \<and> in_block 16 (digits6 a, unat p) (digits6 t))"
proof -
  have "(\<exists>c. net6_contains N n = Some c \<and> c t) \<longleftrightarrow>
      unat (snd n) \<le> 128 \<and> in_block 16 (digits6 (fst n), unat (snd n)) (digits6 t)" for n
    by (cases n) (simp add: net6)
  then show ?thesis by (simp add: any_contains_iff case_prod_beta)
qed

end

lemma sorted_sort_addrs:
  "sorted_wrt (\<lambda>a b. addr_rank N ip iface b \<le> addr_rank N ip iface a)
     (sort_addrs_by_reachability N ip addrs iface)"
proof -
  let ?k = "\<lambda>a. - uint (addr_rank N ip iface a)"
  have "sorted (map ?k (sort_key ?k (filter (has_ip ip) addrs)))" by simp
  then show ?thesis by (simp add: sort_addrs_eq sorted_map word_le_def)
qed

lemma stable_sort_addrs:
  "filter (\<lambda>a. addr_rank N ip iface a = k) (sort_addrs_by_reachability N ip addrs iface) =
     filter (\<lambda>a. addr_rank N ip iface a = k) (filter (has_ip ip) addrs)"
  using sort_key_stable [of "\<lambda>a. - uint (addr_rank N ip iface a)" "- uint k" "filter (has_ip ip) addrs"]
  by (simp add: sort_addrs_eq word_uint_eq_iff)


section \<open>Properties\<close>

text \<open>C30. \<^verbatim>\<open>sort_addrs_by_reachability\<close> returns exactly the addresses that have an IP, by
  descending rank; addresses of the same rank keep the order of the input (they are not sorted by
  their IP, as its documentation says).\<close>

theorem sort_addrs_spec:
  "mset (sort_addrs_by_reachability N ip addrs iface) = mset (filter (has_ip ip) addrs) \<and>
   sorted_wrt (\<lambda>a b. addr_rank N ip iface b \<le> addr_rank N ip iface a)
     (sort_addrs_by_reachability N ip addrs iface) \<and>
   filter (\<lambda>a. addr_rank N ip iface a = k) (sort_addrs_by_reachability N ip addrs iface) =
     filter (\<lambda>a. addr_rank N ip iface a = k) (filter (has_ip ip) addrs)"
  by (intro conjI sorted_sort_addrs stable_sort_addrs) (simp add: sort_addrs_eq)

text \<open>\<^verbatim>\<open>pick_best_addr\<close> finds nothing exactly when no address has an IP; otherwise it returns an
  address of the highest rank, and of several it returns the last one in the list, not the first
  one as its documentation says.\<close>

theorem pick_best_addr_last:
  "(pick_best_addr N ip addrs iface = None \<longleftrightarrow> filter (has_ip ip) addrs = []) \<and>
   (\<forall>a. pick_best_addr N ip addrs iface = Some a \<longrightarrow>
      (\<exists>ys zs. filter (has_ip ip) addrs = ys @ a # zs \<and>
         (\<forall>y \<in> set ys. addr_rank N ip iface y \<le> addr_rank N ip iface a) \<and>
         (\<forall>z \<in> set zs. addr_rank N ip iface z < addr_rank N ip iface a)))"
proof (cases "filter (has_ip ip) addrs")
  case Nil
  then show ?thesis by (simp add: pick_best_addr_def ranked_eq)
next
  case (Cons x xs)
  let ?g = "\<lambda>a. (a, addr_rank N ip iface a)"
  obtain m where m: "fold (\<lambda>y best. if snd best \<le> snd y then y else best) (map ?g xs) (?g x) = m" by simp
  note best = fold_max_by_key [of snd "?g x" "map ?g xs", unfolded m]
  obtain ys zs where yz: "map ?g (x # xs) = ys @ m # zs" "\<forall>z \<in> set zs. snd z < snd m"
    using best unfolding list.map by blast
  have le: "\<forall>y \<in> set (map ?g (x # xs)). snd y \<le> snd m" using best by simp
  have all: "x # xs = map fst ys @ fst m # map fst zs"
    using arg_cong [OF yz(1), of "map fst"] by (simp add: comp_def)
  have rank: "snd y = addr_rank N ip iface (fst y)" if "y \<in> set (ys @ m # zs)" for y
    using that unfolding yz(1) [symmetric] by auto
  have pick: "pick_best_addr N ip addrs iface = Some (fst m)"
    unfolding pick_best_addr_def ranked_eq Cons list.map max_by_key.simps m by simp
  have "\<forall>y \<in> set (map fst ys). addr_rank N ip iface y \<le> addr_rank N ip iface (fst m)"
    using le rank unfolding yz(1) by simp
  moreover have "\<forall>z \<in> set (map fst zs). addr_rank N ip iface z < addr_rank N ip iface (fst m)"
    using yz(2) rank by simp
  ultimately show ?thesis unfolding pick Cons using all by blast
qed

definition demo_ip :: "nat \<Rightarrow> IpAddr option" where
  "demo_ip n = (if n < 3 then Some (V4 (Ipv4Addr (8, 8, 8, of_nat n))) else None)"

definition demo_iface :: Interface where
  "demo_iface = \<lparr> if_ipv4 = [(Ipv4Addr (192, 168, 1, 5), 24)], if_ipv6 = [] \<rparr>"

theorem pick_best_addr_last_witness:
  "\<exists>a ys zs. pick_best_addr prefix_nets demo_ip [0, 1, 2, 7] demo_iface = Some a \<and>
     [0, 1, 2] = ys @ a # zs \<and>
     (\<forall>z \<in> set zs. addr_rank prefix_nets demo_ip demo_iface z < addr_rank prefix_nets demo_ip demo_iface a)"
proof -
  have f: "filter (has_ip demo_ip) [0, 1, 2, 7] = [0, 1, 2]" by (simp add: demo_ip_def)
  then obtain a where "pick_best_addr prefix_nets demo_ip [0, 1, 2, 7] demo_iface = Some a"
    using pick_best_addr_last [of prefix_nets demo_ip "[0, 1, 2, 7]" demo_iface] by fastforce
  with f pick_best_addr_last [of prefix_nets demo_ip "[0, 1, 2, 7]" demo_iface] show ?thesis by metis
qed

text \<open>An address is in the same network as the interface exactly when one of the interface's
  networks with a valid prefix length agrees with it on the prefix.\<close>

theorem in_same_net_prefix:
  assumes "ip_nets N"
  shows "in_same_net N ip iface \<longleftrightarrow>
    (case ip of
       V4 t \<Rightarrow> list_ex (\<lambda>(a, p). unat p \<le> 32 \<and> in_block 8 (digits4 a, unat p) (digits4 t)) (if_ipv4 iface)
     | V6 t \<Rightarrow> list_ex (\<lambda>(a, p). unat p \<le> 128 \<and> in_block 16 (digits6 a, unat p) (digits6 t)) (if_ipv6 iface))"
  using ip_nets.same_net4 [OF assms] ip_nets.same_net6 [OF assms]
  by (cases ip) (simp_all add: list_ex_iff case_prod_beta)

theorem in_same_net_prefix_witness:
  "in_same_net prefix_nets (V4 (Ipv4Addr (192, 168, 1, 77))) demo_iface \<and>
   \<not> in_same_net prefix_nets (V4 (Ipv4Addr (192, 168, 2, 77))) demo_iface"
  by (simp only: in_same_net_prefix [OF nets.ip_nets_axioms])
    (simp add: demo_iface_def in_block4)

end
