(* ===== verification/Addr.thy ===== *)
theory Addr
  imports Device Keys Ids "HOL-Library.List_Lexorder"
begin

text \<open>
  \<^verbatim>\<open>foctet-core/src/addr/node.rs\<close> (node and relay addresses), the transport kinds of
  \<^verbatim>\<open>foctet-core/src/transport.rs\<close> and the transfer tickets of \<^verbatim>\<open>foctet-core/src/content.rs\<close>.

  A stack address is the \<^verbatim>\<open>stackaddr\<close> crate's: a type \<open>'a\<close> with the operations \<open>addr_ops\<close>; its order is
  that of \<^verbatim>\<open>BTreeSet\<close>. \<open>Protocol\<close> and \<open>TransportProtocol\<close> have the constructors the sources name and one
  for all others. What is relied on is \<open>stack_addrs\<close>: an address built from an IP address, a port and
  a protocol has that IP address, that socket address and that transport. \<open>segments\<close> is an instance:
  an address as the list of its protocols.
\<close>

section \<open>Stack addresses\<close>

datatype Protocol = P_Ip4 Ipv4Addr | P_Ip6 Ipv6Addr | P_Udp u16 | P_Tcp u16 | P_Tls | P_Quic
  | P_Dns string | P_Dns4 string | P_Dns6 string | P_NodeId bytes | P_Other string

datatype TransportProtocol = TP_Udp u16 | TP_Quic u16 | TP_Tcp u16 | TP_TlsOverTcp u16 | TP_Other string

record 'a addr_ops =
  sa_empty :: 'a
  sa_with_protocol :: "'a \<Rightarrow> Protocol \<Rightarrow> 'a"
  sa_with_ip :: "'a \<Rightarrow> IpAddr \<Rightarrow> 'a"
  sa_with_identity :: "'a \<Rightarrow> bytes \<Rightarrow> 'a"
  sa_ip :: "'a \<Rightarrow> IpAddr option"
  sa_socket_addr :: "'a \<Rightarrow> SocketAddr option"
  sa_transport :: "'a \<Rightarrow> TransportProtocol option"
  sa_resolved :: "'a \<Rightarrow> bool"
  sa_get_dns :: "'a \<Rightarrow> Protocol option"
  sa_resolve :: "'a \<Rightarrow> IpAddr \<Rightarrow> 'a"
  sa_name :: "'a \<Rightarrow> string option"
  tp_debug :: "TransportProtocol \<Rightarrow> string"

text \<open>The addresses the sources build: \<^verbatim>\<open>Ip4/Udp/Quic\<close> or \<^verbatim>\<open>Ip6/Udp/Quic\<close>, and the same with TCP and TLS.\<close>

fun ip_protocol :: "IpAddr \<Rightarrow> Protocol" where
  "ip_protocol (V4 ipv4) = P_Ip4 ipv4"
| "ip_protocol (V6 ipv6) = P_Ip6 ipv6"

definition quic_addr :: "'a addr_ops \<Rightarrow> IpAddr \<Rightarrow> u16 \<Rightarrow> 'a" where
  "quic_addr A ip port =
     sa_with_protocol A (sa_with_protocol A (sa_with_protocol A (sa_empty A) (ip_protocol ip)) (P_Udp port)) P_Quic"

definition tls_addr :: "'a addr_ops \<Rightarrow> IpAddr \<Rightarrow> u16 \<Rightarrow> 'a" where
  "tls_addr A ip port =
     sa_with_protocol A (sa_with_protocol A (sa_with_protocol A (sa_empty A) (ip_protocol ip)) (P_Tcp port)) P_Tls"

definition stack_addrs :: "'a addr_ops \<Rightarrow> bool" where
  "stack_addrs A \<longleftrightarrow> (\<forall>ip port.
     sa_ip A (quic_addr A ip port) = Some ip \<and> sa_ip A (tls_addr A ip port) = Some ip \<and>
     sa_socket_addr A (quic_addr A ip port) = Some (SocketAddr ip port) \<and>
     sa_socket_addr A (tls_addr A ip port) = Some (SocketAddr ip port) \<and>
     sa_transport A (quic_addr A ip port) = Some (TP_Quic port) \<and>
     sa_transport A (tls_addr A ip port) = Some (TP_TlsOverTcp port))"


section \<open>Transport kinds\<close>

datatype TransportKind = Quic | TlsOverTcp

definition TransportKind_from_protocol :: "'a addr_ops \<Rightarrow> TransportProtocol \<Rightarrow> TransportKind result" where
  "TransportKind_from_protocol A proto =
     (case proto of
        TP_Udp _ \<Rightarrow> Ok Quic
      | TP_Quic _ \<Rightarrow> Ok Quic
      | TP_Tcp _ \<Rightarrow> Ok TlsOverTcp
      | TP_TlsOverTcp _ \<Rightarrow> Ok TlsOverTcp
      | _ \<Rightarrow> Err (Anyhow (''Unsupported transport protocol: '' @ tp_debug A proto)))"

text \<open>The derived order: the variants in the order of their declaration.\<close>

instantiation TransportKind :: linorder
begin

definition less_eq_TransportKind :: "TransportKind \<Rightarrow> TransportKind \<Rightarrow> bool" where
  "less_eq_TransportKind x y \<longleftrightarrow> x = Quic \<or> y = TlsOverTcp"

definition less_TransportKind :: "TransportKind \<Rightarrow> TransportKind \<Rightarrow> bool" where
  "less_TransportKind x y \<longleftrightarrow> x = Quic \<and> y = TlsOverTcp"

instance
proof
  fix x y z :: TransportKind
  show "x < y \<longleftrightarrow> x \<le> y \<and> \<not> y \<le> x" and "x \<le> x" and "x \<le> y \<or> y \<le> x"
    by (cases x; cases y; simp add: less_eq_TransportKind_def less_TransportKind_def)+
  assume "x \<le> y"
  then show "y \<le> z \<Longrightarrow> x \<le> z" and "y \<le> x \<Longrightarrow> x = y"
    by (cases x; cases y; simp add: less_eq_TransportKind_def)+
qed

end


section \<open>Node addresses\<close>

record 'a RelayAddr =
  ra_node_id :: NodeId
  ra_addresses :: "'a set"

record 'a NodeAddr =
  na_node_id :: NodeId
  na_addresses :: "'a set"
  na_relay_addr :: "'a RelayAddr option"

definition NodeAddr_from_base32 ::
  "text_ops \<Rightarrow> (bytes \<Rightarrow> ('a NodeAddr \<times> nat) result) \<Rightarrow> (error \<Rightarrow> string) \<Rightarrow> string \<Rightarrow> 'a NodeAddr result" where
  "NodeAddr_from_base32 T dec disp encoded = serde_from_base32 T dec disp encoded"

definition NodeAddr_to_base32 ::
  "text_ops \<Rightarrow> ('a NodeAddr \<Rightarrow> bytes result) \<Rightarrow> 'a NodeAddr \<Rightarrow> string result" where
  "NodeAddr_to_base32 T enc self = serde_to_base32 T enc self"

text \<open>Whether the loop of \<^verbatim>\<open>get_direct_addrs\<close> keeps an address.\<close>

definition direct_addr :: "'a addr_ops \<Rightarrow> TransportKind \<Rightarrow> bool \<Rightarrow> 'a \<Rightarrow> bool" where
  "direct_addr A transport_id allow_loopback addr =
     (case sa_ip A addr of
        None \<Rightarrow> False
      | Some ip \<Rightarrow>
          if \<not> allow_loopback \<and> IpAddr_is_loopback ip then False
          else (case transport_id of
                  Quic \<Rightarrow> (case sa_transport A addr of
                            Some (TP_Quic _) \<Rightarrow> True | Some (TP_Udp _) \<Rightarrow> True | _ \<Rightarrow> False)
                | TlsOverTcp \<Rightarrow> (case sa_transport A addr of
                            Some (TP_Tcp _) \<Rightarrow> True | Some (TP_TlsOverTcp _) \<Rightarrow> True | _ \<Rightarrow> False)))"

definition NodeAddr_get_direct_addrs ::
  "('a :: linorder) addr_ops \<Rightarrow> 'a NodeAddr \<Rightarrow> TransportKind \<Rightarrow> bool \<Rightarrow> 'a list" where
  "NodeAddr_get_direct_addrs A self transport_id allow_loopback =
     filter (direct_addr A transport_id allow_loopback) (sorted_list_of_set (na_addresses self))"

definition RelayAddr_from_base32 ::
  "text_ops \<Rightarrow> (bytes \<Rightarrow> ('a RelayAddr \<times> nat) result) \<Rightarrow> (error \<Rightarrow> string) \<Rightarrow> string \<Rightarrow> 'a RelayAddr result" where
  "RelayAddr_from_base32 T dec disp encoded = serde_from_base32 T dec disp encoded"

definition RelayAddr_to_base32 ::
  "text_ops \<Rightarrow> ('a RelayAddr \<Rightarrow> bytes result) \<Rightarrow> 'a RelayAddr \<Rightarrow> string result" where
  "RelayAddr_to_base32 T enc self = serde_to_base32 T enc self"

record NodePair =
  np_src :: NodeId
  np_dst :: NodeId

definition NodePair_new :: "NodeId \<Rightarrow> NodeId \<Rightarrow> NodePair" where
  "NodePair_new src dst = \<lparr> np_src = src, np_dst = dst \<rparr>"


section \<open>Transfer tickets\<close>

type_synonym ContentId = UuidV4

record 'a TransferTicket =
  tt_node_addr :: "'a NodeAddr"
  tt_content_id :: ContentId

definition TransferTicket_new :: "'a NodeAddr \<Rightarrow> UuidV4 \<Rightarrow> 'a TransferTicket" where
  "TransferTicket_new node_addr content_id = \<lparr> tt_node_addr = node_addr, tt_content_id = content_id \<rparr>"

definition TransferTicket_from_base32 ::
  "text_ops \<Rightarrow> (bytes \<Rightarrow> ('a TransferTicket \<times> nat) result) \<Rightarrow> (error \<Rightarrow> string) \<Rightarrow> string \<Rightarrow> 'a TransferTicket result" where
  "TransferTicket_from_base32 T dec disp encoded = serde_from_base32 T dec disp encoded"

definition TransferTicket_to_base32 ::
  "text_ops \<Rightarrow> ('a TransferTicket \<Rightarrow> bytes result) \<Rightarrow> 'a TransferTicket \<Rightarrow> string result" where
  "TransferTicket_to_base32 T enc self = serde_to_base32 T enc self"


section \<open>Addresses as lists of protocols\<close>

text \<open>An order on protocols, through an injective code.\<close>

fun protocol_code :: "Protocol \<Rightarrow> nat list" where
  "protocol_code (P_Ip4 a) = 0 # digits4 a"
| "protocol_code (P_Ip6 a) = 1 # digits6 a"
| "protocol_code (P_Udp p) = [2, unat p]"
| "protocol_code (P_Tcp p) = [3, unat p]"
| "protocol_code P_Tls = [4]"
| "protocol_code P_Quic = [5]"
| "protocol_code (P_Dns s) = 6 # map of_char s"
| "protocol_code (P_Dns4 s) = 7 # map of_char s"
| "protocol_code (P_Dns6 s) = 8 # map of_char s"
| "protocol_code (P_NodeId b) = 9 # map unat b"
| "protocol_code (P_Other s) = 10 # map of_char s"

lemma unat_inj: "unat a = unat b \<longleftrightarrow> a = b"
  by (auto intro: unsigned_word_eqI)

lemma digits4_inj: "digits4 a = digits4 b \<Longrightarrow> a = b"
  by (cases a; cases b) (auto simp: unat_inj)

lemma digits6_inj: "digits6 a = digits6 b \<Longrightarrow> a = b"
  by (cases a; cases b) (auto simp: unat_inj)

lemma map_char_inj: "map (of_char :: char \<Rightarrow> nat) s = map of_char t \<Longrightarrow> s = t"
  by (erule map_injective) (simp add: inj_def)

lemma map_unat_inj: "map (unat :: u8 \<Rightarrow> nat) s = map unat t \<Longrightarrow> s = t"
  by (erule map_injective) (simp add: inj_def unat_inj)

lemma protocol_code_inj: "protocol_code p = protocol_code q \<Longrightarrow> p = q"
  by (cases p; cases q) (auto simp: unat_inj dest: digits4_inj digits6_inj map_char_inj map_unat_inj)

instantiation Protocol :: linorder
begin

definition less_eq_Protocol :: "Protocol \<Rightarrow> Protocol \<Rightarrow> bool" where
  "less_eq_Protocol p q \<longleftrightarrow> protocol_code p \<le> protocol_code q"

definition less_Protocol :: "Protocol \<Rightarrow> Protocol \<Rightarrow> bool" where
  "less_Protocol p q \<longleftrightarrow> protocol_code p < protocol_code q"

instance
  by standard (auto simp: less_eq_Protocol_def less_Protocol_def dest: protocol_code_inj)

end

type_synonym segs = "Protocol list"

definition segs_ip :: "segs \<Rightarrow> IpAddr option" where
  "segs_ip = find_map (\<lambda>p. case p of P_Ip4 a \<Rightarrow> Some (V4 a) | P_Ip6 a \<Rightarrow> Some (V6 a) | _ \<Rightarrow> None)"

definition segs_udp :: "segs \<Rightarrow> u16 option" where
  "segs_udp = find_map (\<lambda>p. case p of P_Udp n \<Rightarrow> Some n | _ \<Rightarrow> None)"

definition segs_tcp :: "segs \<Rightarrow> u16 option" where
  "segs_tcp = find_map (\<lambda>p. case p of P_Tcp n \<Rightarrow> Some n | _ \<Rightarrow> None)"

definition segs_transport :: "segs \<Rightarrow> TransportProtocol option" where
  "segs_transport ps =
     (case segs_udp ps of
        Some n \<Rightarrow> Some (if P_Quic \<in> set ps then TP_Quic n else TP_Udp n)
      | None \<Rightarrow> map_option (if P_Tls \<in> set ps then TP_TlsOverTcp else TP_Tcp) (segs_tcp ps))"

definition segs_socket_addr :: "segs \<Rightarrow> SocketAddr option" where
  "segs_socket_addr ps =
     (case (segs_ip ps, segs_udp ps, segs_tcp ps) of
        (Some ip, Some n, _) \<Rightarrow> Some (SocketAddr ip n)
      | (Some ip, None, Some n) \<Rightarrow> Some (SocketAddr ip n)
      | _ \<Rightarrow> None)"

definition segs_dns :: "segs \<Rightarrow> Protocol option" where
  "segs_dns = find_map (\<lambda>p. case p of P_Dns s \<Rightarrow> Some p | P_Dns4 s \<Rightarrow> Some p | P_Dns6 s \<Rightarrow> Some p | _ \<Rightarrow> None)"

lemmas segs_defs = segs_ip_def segs_udp_def segs_tcp_def segs_transport_def segs_socket_addr_def segs_dns_def
  find_map_def map_filter_simps

definition segments :: "segs addr_ops" where
  "segments = \<lparr> sa_empty = [], sa_with_protocol = (\<lambda>ps p. ps @ [p]), sa_with_ip = (\<lambda>ps ip. ps @ [ip_protocol ip]),
     sa_with_identity = (\<lambda>ps b. ps @ [P_NodeId b]), sa_ip = segs_ip,
     sa_socket_addr = segs_socket_addr,
     sa_transport = segs_transport, sa_resolved = (\<lambda>ps. segs_ip ps \<noteq> None), sa_get_dns = segs_dns,
     sa_resolve = (\<lambda>ps ip. ip_protocol ip # ps), sa_name = (\<lambda>ps. None), tp_debug = (\<lambda>p. ''transport'') \<rparr>"

lemma segments_laws: "stack_addrs segments"
  unfolding stack_addrs_def
proof (intro allI)
  fix ip port
  show "sa_ip segments (quic_addr segments ip port) = Some ip \<and> sa_ip segments (tls_addr segments ip port) = Some ip \<and>
     sa_socket_addr segments (quic_addr segments ip port) = Some (SocketAddr ip port) \<and>
     sa_socket_addr segments (tls_addr segments ip port) = Some (SocketAddr ip port) \<and>
     sa_transport segments (quic_addr segments ip port) = Some (TP_Quic port) \<and>
     sa_transport segments (tls_addr segments ip port) = Some (TP_TlsOverTcp port)"
    by (cases ip) (simp_all add: quic_addr_def tls_addr_def segments_def segs_defs)
qed


section \<open>Lemmas\<close>

text \<open>The transport kind that serves an address.\<close>

definition addr_kind :: "'a addr_ops \<Rightarrow> 'a \<Rightarrow> TransportKind option" where
  "addr_kind A addr =
     (case sa_transport A addr of
        None \<Rightarrow> None
      | Some proto \<Rightarrow> (case TransportKind_from_protocol A proto of Inr k \<Rightarrow> Some k | Inl _ \<Rightarrow> None))"

lemma direct_addr_iff:
  "direct_addr A kind allow addr \<longleftrightarrow>
     (\<exists>ip. sa_ip A addr = Some ip \<and> (allow \<or> \<not> IpAddr_is_loopback ip)) \<and> addr_kind A addr = Some kind"
  by (cases kind) (auto simp: direct_addr_def addr_kind_def TransportKind_from_protocol_def
      split: option.split TransportProtocol.split)

lemma get_direct_addrs_set:
  assumes "finite (na_addresses n)"
  shows "set (NodeAddr_get_direct_addrs A n kind allow) = {a \<in> na_addresses n. direct_addr A kind allow a}"
  using assms by (auto simp: NodeAddr_get_direct_addrs_def)

lemma get_direct_addrs_distinct: "distinct (NodeAddr_get_direct_addrs A n kind allow)"
  by (simp add: NodeAddr_get_direct_addrs_def)

lemma get_direct_addrs_kinds_disjoint:
  "a \<in> set (NodeAddr_get_direct_addrs A n k allow) \<Longrightarrow> a \<in> set (NodeAddr_get_direct_addrs A n k' allow') \<Longrightarrow> k = k'"
  by (auto simp: NodeAddr_get_direct_addrs_def direct_addr_iff)

end
