(* ===== verification/Dns.thy ===== *)
theory Dns
  imports Addr
begin

text \<open>
  \<^verbatim>\<open>foctet-net/src/dns/mod.rs\<close>: resolution of names. The resolver is the \<^verbatim>\<open>hickory_resolver\<close> crate's:
  its configurations and what its lookups return are the parameter \<open>dns_ops\<close>, and a resolver is the
  configuration and the options it was made with. A method that changes its address returns it.
\<close>

section \<open>Parameters\<close>

record ('cfg, 'opts) dns_ops =
  dn_cloudflare :: 'cfg
  dn_google :: 'cfg
  dn_quad9 :: 'cfg
  dn_default_opts :: 'opts
  dn_system_conf :: "('cfg \<times> 'opts) result"
  dn_lookup_ip :: "'cfg \<times> 'opts \<Rightarrow> string \<Rightarrow> IpAddr list result"
  dn_ipv4_lookup :: "'cfg \<times> 'opts \<Rightarrow> string \<Rightarrow> Ipv4Addr list result"
  dn_ipv6_lookup :: "'cfg \<times> 'opts \<Rightarrow> string \<Rightarrow> Ipv6Addr list result"
  dn_txt_lookup :: "'cfg \<times> 'opts \<Rightarrow> string \<Rightarrow> bytes list list result"

text \<open>\<^verbatim>\<open>std::str::from_utf8\<close>: the byte sequences of RFC 3629, without overlong forms and surrogates. A
  string is the list of its bytes.\<close>

definition cont :: "u8 \<Rightarrow> bool" where
  "cont b \<longleftrightarrow> 128 \<le> b \<and> b \<le> 191"

fun valid_utf8 :: "bytes \<Rightarrow> bool" where
  "valid_utf8 [] = True"
| "valid_utf8 (a # bs) =
     (if a \<le> 127 then valid_utf8 bs
      else (case bs of
              b # bs \<Rightarrow>
                if 194 \<le> a \<and> a \<le> 223 then cont b \<and> valid_utf8 bs
                else (case bs of
                        c # bs \<Rightarrow>
                          if 224 \<le> a \<and> a \<le> 239
                          then cont b \<and> cont c \<and> (a = 224 \<longrightarrow> 160 \<le> b) \<and> (a = 237 \<longrightarrow> b \<le> 159) \<and> valid_utf8 bs
                          else (case bs of
                                  d # bs \<Rightarrow>
                                    240 \<le> a \<and> a \<le> 244 \<and> cont b \<and> cont c \<and> cont d \<and>
                                    (a = 240 \<longrightarrow> 144 \<le> b) \<and> (a = 244 \<longrightarrow> b \<le> 143) \<and> valid_utf8 bs
                                | [] \<Rightarrow> False)
                      | [] \<Rightarrow> False)
            | [] \<Rightarrow> False))"

definition str_from_utf8 :: "bytes \<Rightarrow> string option" where
  "str_from_utf8 bs = (if valid_utf8 bs then Some (map (\<lambda>b. char_of (unat b)) bs) else None)"


section \<open>The resolver\<close>

definition DNS_NODEID_PREFIX :: string where
  "DNS_NODEID_PREFIX = ''_nodeid.''"

datatype Resolved = One IpAddr | Many "IpAddr list" | NodeIds "NodeId list"

datatype ('cfg, 'opts) ResolverOption = Default | System | Cloudflare | Google | Quad9 | Custom 'cfg 'opts

datatype ('cfg, 'opts) Resolver = Resolver (resolver: "'cfg \<times> 'opts")

definition Resolver_new :: "('cfg, 'opts) dns_ops \<Rightarrow> ('cfg, 'opts) Resolver result" where
  "Resolver_new N = Ok (Resolver (dn_cloudflare N, dn_default_opts N))"

definition Resolver_custom :: "'cfg \<Rightarrow> 'opts \<Rightarrow> ('cfg, 'opts) Resolver" where
  "Resolver_custom cfg opts = Resolver (cfg, opts)"

definition Resolver_system :: "('cfg, 'opts) dns_ops \<Rightarrow> ('cfg, 'opts) Resolver result" where
  "Resolver_system N = try_bind (dn_system_conf N) (\<lambda>(cfg, opts). Ok (Resolver_custom cfg opts))"

definition Resolver_from_option ::
  "('cfg, 'opts) dns_ops \<Rightarrow> ('cfg, 'opts) ResolverOption \<Rightarrow> ('cfg, 'opts) Resolver result" where
  "Resolver_from_option N option =
     (case option of
        Default \<Rightarrow> Resolver_new N
      | System \<Rightarrow> Resolver_system N
      | Cloudflare \<Rightarrow> Ok (Resolver_custom (dn_cloudflare N) (dn_default_opts N))
      | Google \<Rightarrow> Ok (Resolver_custom (dn_google N) (dn_default_opts N))
      | Quad9 \<Rightarrow> Ok (Resolver_custom (dn_quad9 N) (dn_default_opts N))
      | Custom cfg opts \<Rightarrow> Ok (Resolver_custom cfg opts))"

definition Resolver_lookup_ip ::
  "('cfg, 'opts) dns_ops \<Rightarrow> ('cfg, 'opts) Resolver \<Rightarrow> string \<Rightarrow> IpAddr list result" where
  "Resolver_lookup_ip N self name = try_bind (dn_lookup_ip N (resolver self) name) (\<lambda>lookup. Ok lookup)"

definition Resolver_ipv4_lookup ::
  "('cfg, 'opts) dns_ops \<Rightarrow> ('cfg, 'opts) Resolver \<Rightarrow> string \<Rightarrow> Ipv4Addr list result" where
  "Resolver_ipv4_lookup N self name = try_bind (dn_ipv4_lookup N (resolver self) name) (\<lambda>lookup. Ok lookup)"

definition Resolver_ipv6_lookup ::
  "('cfg, 'opts) dns_ops \<Rightarrow> ('cfg, 'opts) Resolver \<Rightarrow> string \<Rightarrow> Ipv6Addr list result" where
  "Resolver_ipv6_lookup N self name = try_bind (dn_ipv6_lookup N (resolver self) name) (\<lambda>lookup. Ok lookup)"

definition Resolver_txt_lookup ::
  "('cfg, 'opts) dns_ops \<Rightarrow> ('cfg, 'opts) Resolver \<Rightarrow> string \<Rightarrow> bytes list list result" where
  "Resolver_txt_lookup N self name = dn_txt_lookup N (resolver self) name"

text \<open>The body of the loop over the text records: the identifier in the first string of a record, if any.\<close>

definition txt_node_id :: "('k, 'v, 's) ed_ops \<Rightarrow> text_ops \<Rightarrow> bytes list \<Rightarrow> NodeId option" where
  "txt_node_id E T txt =
     (case txt of
        [] \<Rightarrow> None
      | chars # _ \<Rightarrow>
          (case str_from_utf8 chars of
             None \<Rightarrow> None
           | Some s \<Rightarrow> (case PublicKey_from_base32 E T s of Inr node_id \<Rightarrow> Some node_id | Inl _ \<Rightarrow> None)))"

definition Resolver_resolve ::
  "('cfg, 'opts) dns_ops \<Rightarrow> ('k, 'v, 's) ed_ops \<Rightarrow> text_ops \<Rightarrow> ('cfg, 'opts) Resolver \<Rightarrow> string \<Rightarrow> Resolved result" where
  "Resolver_resolve N E T self name =
     try_bind (Resolver_lookup_ip N self name) (\<lambda>ips.
       if length ips = 1 then Ok (One (ips ! 0))
       else if length ips > 1 then Ok (Many ips)
       else try_bind (Resolver_txt_lookup N self (DNS_NODEID_PREFIX @ name)) (\<lambda>txts.
              Ok (NodeIds (List.map_filter (txt_node_id E T) txts))))"

text \<open>\<^verbatim>\<open>for ip in ips { addr.resolve(ip); break; }\<close>\<close>

definition resolve_first :: "'a addr_ops \<Rightarrow> 'a \<Rightarrow> IpAddr list \<Rightarrow> 'a" where
  "resolve_first A addr ips = (case ips of [] \<Rightarrow> addr | ip # _ \<Rightarrow> sa_resolve A addr ip)"

definition Resolver_resolve_addr ::
  "('cfg, 'opts) dns_ops \<Rightarrow> 'a addr_ops \<Rightarrow> ('cfg, 'opts) Resolver \<Rightarrow> 'a \<Rightarrow> unit result \<times> 'a" where
  "Resolver_resolve_addr N A self addr =
     (if sa_resolved A addr then (Ok (), addr)
      else (case sa_get_dns A addr of
              None \<Rightarrow> (Err (Anyhow ''Invalid address(No DNS)''), addr)
            | Some dns \<Rightarrow>
                (let ips = (case dns of
                              P_Dns name \<Rightarrow> Resolver_lookup_ip N self name
                            | P_Dns4 name \<Rightarrow> try_bind (Resolver_ipv4_lookup N self name) (\<lambda>ips. Ok (map V4 ips))
                            | P_Dns6 name \<Rightarrow> try_bind (Resolver_ipv6_lookup N self name) (\<lambda>ips. Ok (map V6 ips))
                            | _ \<Rightarrow> Err (Anyhow ''Invalid address. Not supported''))
                 in case ips of
                      Inl e \<Rightarrow> (Err e, addr)
                    | Inr ips \<Rightarrow>
                        let addr = resolve_first A addr ips
                        in if sa_resolved A addr then (Ok (), addr)
                           else (Err (Anyhow ''Invalid address. Not resolved''), addr))))"


section \<open>Lemmas\<close>

lemma resolve_first_simps [simp]: "resolve_first A addr [] = addr" "resolve_first A addr (ip # ips) = sa_resolve A addr ip"
  by (simp_all add: resolve_first_def)

text \<open>The addresses found for the name in an address, of the family it asks for.\<close>

definition found_ips :: "('cfg, 'opts) dns_ops \<Rightarrow> ('cfg, 'opts) Resolver \<Rightarrow> Protocol \<Rightarrow> IpAddr list result" where
  "found_ips N r dns =
     (case dns of
        P_Dns name \<Rightarrow> dn_lookup_ip N (resolver r) name
      | P_Dns4 name \<Rightarrow> try_bind (dn_ipv4_lookup N (resolver r) name) (\<lambda>ips. Ok (map V4 ips))
      | P_Dns6 name \<Rightarrow> try_bind (dn_ipv6_lookup N (resolver r) name) (\<lambda>ips. Ok (map V6 ips))
      | _ \<Rightarrow> Err (Anyhow ''Invalid address. Not supported''))"

lemma try_bind_Ok [simp]: "try_bind r (\<lambda>x. Ok x) = r"
  by (cases r) auto

lemma resolve_addr_eq:
  "Resolver_resolve_addr N A r addr =
     (if sa_resolved A addr then (Ok (), addr)
      else (case sa_get_dns A addr of
              None \<Rightarrow> (Err (Anyhow ''Invalid address(No DNS)''), addr)
            | Some dns \<Rightarrow>
                (case found_ips N r dns of
                   Inl e \<Rightarrow> (Err e, addr)
                 | Inr ips \<Rightarrow>
                     if sa_resolved A (resolve_first A addr ips) then (Ok (), resolve_first A addr ips)
                     else (Err (Anyhow ''Invalid address. Not resolved''), resolve_first A addr ips))))"
  by (auto simp: Resolver_resolve_addr_def found_ips_def Resolver_lookup_ip_def Resolver_ipv4_lookup_def
      Resolver_ipv6_lookup_def Let_def split: option.splits Protocol.splits)


section \<open>Properties\<close>

text \<open>Resolving an address succeeds only with a resolved address: the address itself if it was
  resolved already, and otherwise the address with the first IP address found for its name, in the
  family the name asks for. On any error before an address is found it is unchanged.\<close>

theorem resolve_addr_sound:
  "(Resolver_resolve_addr N A r addr = (Ok (), addr') \<longleftrightarrow>
     (sa_resolved A addr' \<and>
       (addr' = addr \<or>
        (\<not> sa_resolved A addr \<and> (\<exists>dns ip ips. sa_get_dns A addr = Some dns \<and> found_ips N r dns = Ok (ip # ips) \<and>
          addr' = sa_resolve A addr ip))))) \<and>
   (Resolver_resolve_addr N A r addr = (Err e, addr') \<longrightarrow>
     addr' = addr \<or> e = Anyhow ''Invalid address. Not resolved'')"
proof
  show "Resolver_resolve_addr N A r addr = (Err e, addr') \<longrightarrow>
     addr' = addr \<or> e = Anyhow ''Invalid address. Not resolved''"
    by (auto simp: resolve_addr_eq split: option.splits sum.splits if_splits)
  show "Resolver_resolve_addr N A r addr = (Ok (), addr') \<longleftrightarrow>
     (sa_resolved A addr' \<and>
       (addr' = addr \<or>
        (\<not> sa_resolved A addr \<and> (\<exists>dns ip ips. sa_get_dns A addr = Some dns \<and> found_ips N r dns = Ok (ip # ips) \<and>
          addr' = sa_resolve A addr ip))))"
  proof (cases "sa_resolved A addr")
    case True
    then show ?thesis by (auto simp: resolve_addr_eq)
  next
    case False
    show ?thesis
    proof (cases "sa_get_dns A addr")
      case None
      with False show ?thesis by (auto simp: resolve_addr_eq)
    next
      case (Some dns)
      show ?thesis
      proof (cases "found_ips N r dns")
        case (Inl e)
        with False Some show ?thesis by (auto simp: resolve_addr_eq)
      next
        case (Inr ips)
        with False Some show ?thesis by (cases ips) (auto simp: resolve_addr_eq)
      qed
    qed
  qed
qed

definition demo_dns :: "(unit, unit) dns_ops" where
  "demo_dns = \<lparr> dn_cloudflare = (), dn_google = (), dn_quad9 = (), dn_default_opts = (), dn_system_conf = Ok ((), ()),
     dn_lookup_ip = (\<lambda>_ _. Ok [V4 Ipv4Addr_LOCALHOST]), dn_ipv4_lookup = (\<lambda>_ _. Ok []),
     dn_ipv6_lookup = (\<lambda>_ _. Err (Anyhow ''no records'')), dn_txt_lookup = (\<lambda>_ _. Ok []) \<rparr>"

theorem resolve_addr_sound_witness:
  "Resolver_resolve_addr demo_dns segments (Resolver ((), ())) [P_Dns ''host'', P_Udp 4432, P_Quic] =
     (Ok (), [P_Ip4 Ipv4Addr_LOCALHOST, P_Dns ''host'', P_Udp 4432, P_Quic]) \<and>
   (\<exists>e. Resolver_resolve_addr demo_dns segments (Resolver ((), ())) [P_Udp 4432] = (Err e, [P_Udp 4432]))"
proof
  show "Resolver_resolve_addr demo_dns segments (Resolver ((), ())) [P_Dns ''host'', P_Udp 4432, P_Quic] =
     (Ok (), [P_Ip4 Ipv4Addr_LOCALHOST, P_Dns ''host'', P_Udp 4432, P_Quic])"
    using resolve_addr_sound [of demo_dns segments "Resolver ((), ())" "[P_Dns ''host'', P_Udp 4432, P_Quic]"
        "[P_Ip4 Ipv4Addr_LOCALHOST, P_Dns ''host'', P_Udp 4432, P_Quic]" "Anyhow []"]
    by (simp add: segments_def segs_defs found_ips_def demo_dns_def)
  show "\<exists>e. Resolver_resolve_addr demo_dns segments (Resolver ((), ())) [P_Udp 4432] = (Err e, [P_Udp 4432])"
    by (simp add: Resolver_resolve_addr_def segments_def segs_defs)
qed

end
