(* ===== verification/Config.thy ===== *)
theory Config
  imports Verifier Dns Defaults
begin

text \<open>
  \<^verbatim>\<open>foctet-net/src/config.rs\<close> (the transport configuration), \<^verbatim>\<open>foctet-net/src/transport/quic/config.rs\<close> (what
  is made of it for QUIC). The \<^verbatim>\<open>quinn\<close> crate's
  own configurations are the record of what the source sets in them; what it makes of TLS
  configurations, keys and MTU settings is the parameter \<open>quinn_ops\<close>. A panic is \<open>None\<close>.
\<close>

section \<open>The transport configuration\<close>

record ('k, 'sk, 'cfg, 'opts) TransportConfig =
  tc_connection_timeout :: Duration
  tc_read_timeout :: Duration
  tc_write_timeout :: Duration
  tc_read_buffer_size :: nat
  tc_write_buffer_size :: nat
  tc_mtu_upper_bound :: "u16 option"
  tc_enable_mtu_discovery :: "bool option"
  tc_nodelay :: "bool option"
  tc_max_concurrent_stream :: u32
  tc_keep_alive_interval :: "Duration option"
  tc_dns_resolver_option :: "('cfg, 'opts) ResolverOption"
  tc_client_tls_config :: "'sk ClientConfig"
  tc_server_tls_config :: "'sk ServerConfig"
  tc_keypair :: "'k Keypair"

text \<open>The question-mark operator turns a generation error into an \<^verbatim>\<open>anyhow\<close> error with its text.\<close>

fun anyhow_from_GenError :: "GenError \<Rightarrow> error" where
  "anyhow_from_GenError (GenError e) = Anyhow e"

text \<open>\<open>gens\<close>: what generating the certificate keys for the client and for the server returned.\<close>

definition tls_configs ::
  "('k, 'v, 's, 'c) tls_ops \<Rightarrow> 'sk rustls_ops \<Rightarrow> (string + 'c) \<times> (string + 'c) \<Rightarrow> 'k Keypair
     \<Rightarrow> ('sk ClientConfig \<times> 'sk ServerConfig) result option" where
  "tls_configs D R gens keypair =
     panic_bind (map_option (map_err anyhow_from_GenError) (make_client_config D R (fst gens) keypair None)) (\<lambda>client_tls_config.
     panic_bind (map_option (map_err anyhow_from_GenError) (make_server_config D R (snd gens) keypair)) (\<lambda>server_tls_config.
       Some (Ok (client_tls_config, server_tls_config))))"

definition TransportConfig_new ::
  "('k, 'v, 's, 'c) tls_ops \<Rightarrow> 'sk rustls_ops \<Rightarrow> (string + 'c) \<times> (string + 'c) \<Rightarrow> 'k Keypair
     \<Rightarrow> ('k, 'sk, 'cfg, 'opts) TransportConfig result option" where
  "TransportConfig_new D R gens keypair =
     panic_bind (tls_configs D R gens keypair) (\<lambda>(client_tls_config, server_tls_config).
       Some (Ok \<lparr> tc_connection_timeout = DEFAULT_CONNECTION_TIMEOUT, tc_read_timeout = DEFAULT_READ_TIMEOUT,
         tc_write_timeout = DEFAULT_WRITE_TIMEOUT, tc_read_buffer_size = DEFAULT_READ_BUFFER_SIZE,
         tc_write_buffer_size = DEFAULT_WRITE_BUFFER_SIZE, tc_mtu_upper_bound = None,
         tc_enable_mtu_discovery = None, tc_nodelay = None,
         tc_max_concurrent_stream = DEFAULT_MAX_CONCURRENT_STREAM,
         tc_keep_alive_interval = Some DEFAULT_KEEP_ALIVE_INTERVAL, tc_dns_resolver_option = Default,
         tc_client_tls_config = client_tls_config, tc_server_tls_config = server_tls_config,
         tc_keypair = keypair \<rparr>))"

definition TransportConfig_client_tls_config :: "('k, 'sk, 'cfg, 'opts) TransportConfig \<Rightarrow> 'sk ClientConfig" where [simp]:
  "TransportConfig_client_tls_config self = tc_client_tls_config self"

definition TransportConfig_server_tls_config :: "('k, 'sk, 'cfg, 'opts) TransportConfig \<Rightarrow> 'sk ServerConfig" where [simp]:
  "TransportConfig_server_tls_config self = tc_server_tls_config self"

definition TransportConfig_keypair :: "('k, 'sk, 'cfg, 'opts) TransportConfig \<Rightarrow> 'k Keypair" where [simp]:
  "TransportConfig_keypair self = tc_keypair self"

definition TransportConfig_set_keypair ::
  "('k, 'v, 's, 'c) tls_ops \<Rightarrow> 'sk rustls_ops \<Rightarrow> (string + 'c) \<times> (string + 'c) \<Rightarrow> 'k Keypair
     \<Rightarrow> ('k, 'sk, 'cfg, 'opts) TransportConfig \<Rightarrow> (unit result \<times> ('k, 'sk, 'cfg, 'opts) TransportConfig) option" where
  "TransportConfig_set_keypair D R gens keypair self =
     (case tls_configs D R gens keypair of
        None \<Rightarrow> None
      | Some (Inl e) \<Rightarrow> Some (Err e, self)
      | Some (Inr (client_tls_config, server_tls_config)) \<Rightarrow>
          Some (Ok (), self\<lparr> tc_client_tls_config := client_tls_config,
                             tc_server_tls_config := server_tls_config, tc_keypair := keypair \<rparr>))"


section \<open>QUIC\<close>

text \<open>\<open>'m\<close>: an MTU discovery configuration, \<open>'qc\<close> and \<open>'qs\<close>: TLS configurations for QUIC, \<open>'r\<close>: a reset key.\<close>

record ('sk, 'm, 'qc, 'qs, 'r) quinn_ops =
  qn_mtu_default :: 'm
  qn_mtu_upper_bound :: "'m \<Rightarrow> u16 \<Rightarrow> 'm"
  qn_client_try_from :: "'sk ClientConfig \<Rightarrow> string + 'qc"
  qn_server_try_from :: "'sk ServerConfig \<Rightarrow> string + 'qs"
  qn_hmac_sha256_key :: "bytes \<Rightarrow> 'r"

record ('k, 'm, 'qc, 'qs) QuicConfig =
  qcf_handshake_timeout :: Duration
  qcf_max_idle_timeout :: u32
  qcf_keep_alive_interval :: Duration
  qcf_max_concurrent_stream_limit :: u32
  qcf_max_stream_data :: u32
  qcf_max_connection_data :: u32
  qcf_client_tls_config :: 'qc
  qcf_server_tls_config :: 'qs
  qcf_keypair :: "'k Keypair"
  qcf_mtu_discovery_config :: "'m option"

text \<open>\<^verbatim>\<open>unwrap\<close>: the value, or a panic.\<close>

fun unwrap :: "'e + 'a \<Rightarrow> 'a option" where
  "unwrap (Inl e) = None"
| "unwrap (Inr x) = Some x"

definition QuicConfig_new ::
  "('k, 'v, 's, 'c) tls_ops \<Rightarrow> 'sk rustls_ops \<Rightarrow> ('sk, 'm, 'qc, 'qs, 'r) quinn_ops \<Rightarrow> (string + 'c) \<times> (string + 'c)
     \<Rightarrow> 'k Keypair \<Rightarrow> ('k, 'm, 'qc, 'qs) QuicConfig option" where
  "QuicConfig_new D R Q gens keypair =
     Option.bind (Option.bind (make_client_config D R (fst gens) keypair None) unwrap) (\<lambda>client_config.
     Option.bind (unwrap (qn_client_try_from Q client_config)) (\<lambda>client_tls_config.
     Option.bind (Option.bind (make_server_config D R (snd gens) keypair) unwrap) (\<lambda>server_config.
     Option.bind (unwrap (qn_server_try_from Q server_config)) (\<lambda>server_tls_config.
       Some \<lparr> qcf_handshake_timeout = Duration_from_secs 5, qcf_max_idle_timeout = 10 * 1000,
         qcf_keep_alive_interval = Duration_from_secs 5, qcf_max_concurrent_stream_limit = 256,
         qcf_max_stream_data = 10000000, qcf_max_connection_data = 15000000,
         qcf_client_tls_config = client_tls_config, qcf_server_tls_config = server_tls_config,
         qcf_keypair = keypair, qcf_mtu_discovery_config = Some (qn_mtu_default Q) \<rparr>))))"

definition QuicConfig_set_mtu_upper_bound ::
  "('sk, 'm, 'qc, 'qs, 'r) quinn_ops \<Rightarrow> u16 \<Rightarrow> ('k, 'm, 'qc, 'qs) QuicConfig \<Rightarrow> ('k, 'm, 'qc, 'qs) QuicConfig" where
  "QuicConfig_set_mtu_upper_bound Q val self =
     self\<lparr> qcf_mtu_discovery_config := Some (qn_mtu_upper_bound Q
       (case qcf_mtu_discovery_config self of Some m \<Rightarrow> m | None \<Rightarrow> qn_mtu_default Q) val) \<rparr>"

definition QuicConfig_disable_path_mtu_discovery ::
  "('k, 'm, 'qc, 'qs) QuicConfig \<Rightarrow> ('k, 'm, 'qc, 'qs) QuicConfig" where
  "QuicConfig_disable_path_mtu_discovery self = self\<lparr> qcf_mtu_discovery_config := None \<rparr>"

definition QuicConfig_from_TransportConfig ::
  "('sk, 'm, 'qc, 'qs, 'r) quinn_ops \<Rightarrow> ('k, 'sk, 'cfg, 'opts) TransportConfig \<Rightarrow> ('k, 'm, 'qc, 'qs) QuicConfig option" where
  "QuicConfig_from_TransportConfig Q config =
     Option.bind (unwrap (qn_client_try_from Q (TransportConfig_client_tls_config config))) (\<lambda>client_tls_config.
     Option.bind (unwrap (qn_server_try_from Q (TransportConfig_server_tls_config config))) (\<lambda>server_tls_config.
       let quic_config = \<lparr> qcf_handshake_timeout = tc_connection_timeout config, qcf_max_idle_timeout = 10 * 1000,
             qcf_keep_alive_interval = Duration_from_secs 5,
             qcf_max_concurrent_stream_limit = tc_max_concurrent_stream config,
             qcf_max_stream_data = 10000000, qcf_max_connection_data = 15000000,
             qcf_client_tls_config = client_tls_config, qcf_server_tls_config = server_tls_config,
             qcf_keypair = TransportConfig_keypair config, qcf_mtu_discovery_config = Some (qn_mtu_default Q) \<rparr>;
           quic_config = (case tc_mtu_upper_bound config of
               Some mtu_upper_bound \<Rightarrow> QuicConfig_set_mtu_upper_bound Q mtu_upper_bound quic_config
             | None \<Rightarrow> quic_config);
           quic_config = (case tc_enable_mtu_discovery config of
               Some enable_mtu_discovery \<Rightarrow>
                 if \<not> enable_mtu_discovery then QuicConfig_disable_path_mtu_discovery quic_config else quic_config
             | None \<Rightarrow> quic_config)
       in Some quic_config))"

text \<open>The transport parameters, of which the server and the client configuration share one.\<close>

record 'm QuinnTransport =
  qt_max_concurrent_uni_streams :: u32
  qt_max_concurrent_bidi_streams :: u32
  qt_datagram_receive_buffer_size :: "nat option"
  qt_keep_alive_interval :: "Duration option"
  qt_max_idle_timeout :: "u32 option"
  qt_allow_spin :: bool
  qt_stream_receive_window :: u32
  qt_receive_window :: u32
  qt_mtu_discovery_config :: "'m option"

record ('m, 'qc, 'qs, 'r) QuinnConfig =
  qnc_client_crypto :: 'qc
  qnc_client_transport :: "'m QuinnTransport"
  qnc_server_crypto :: 'qs
  qnc_server_transport :: "'m QuinnTransport"
  qnc_server_migration :: bool
  qnc_endpoint_reset_key :: 'r

definition QuinnConfig_from_QuicConfig ::
  "('k, 'v, 's) ed_ops \<Rightarrow> ('sk, 'm, 'qc, 'qs, 'r) quinn_ops \<Rightarrow> ('k, 'm, 'qc, 'qs) QuicConfig \<Rightarrow> ('m, 'qc, 'qs, 'r) QuinnConfig" where
  "QuinnConfig_from_QuicConfig E Q config =
     (let transport = \<lparr> qt_max_concurrent_uni_streams = 0,
            qt_max_concurrent_bidi_streams = qcf_max_concurrent_stream_limit config,
            qt_datagram_receive_buffer_size = None,
            qt_keep_alive_interval = Some (qcf_keep_alive_interval config),
            qt_max_idle_timeout = Some (qcf_max_idle_timeout config), qt_allow_spin = False,
            qt_stream_receive_window = qcf_max_stream_data config,
            qt_receive_window = qcf_max_connection_data config,
            qt_mtu_discovery_config = qcf_mtu_discovery_config config \<rparr>;
          secret = SecretKey_to_bytes (Keypair_secret E (qcf_keypair config))
      in \<lparr> qnc_client_crypto = qcf_client_tls_config config, qnc_client_transport = transport,
           qnc_server_crypto = qcf_server_tls_config config, qnc_server_transport = transport,
           qnc_server_migration = False, qnc_endpoint_reset_key = qn_hmac_sha256_key Q secret \<rparr>)"


section \<open>Lemmas\<close>

lemma tls_configs_verifier:
  assumes "tls_configs D R gens kp = Some (Ok (cl, sv))"
  shows "clc_verifier cl = \<lparr> fv_remote_node_id = None \<rparr>"
proof -
  from assms have "make_client_config D R (fst gens) kp None = Some (Ok cl)"
    by (auto simp: tls_configs_def)
  then show ?thesis by (rule make_client_config_verifier)
qed

lemma TransportConfig_new_verifier:
  assumes "TransportConfig_new D R gens kp = Some (Ok cfg)"
  shows "clc_verifier (tc_client_tls_config cfg) = \<lparr> fv_remote_node_id = None \<rparr>" and "tc_keypair cfg = kp"
  using assms tls_configs_verifier [of D R gens kp] by (auto simp: TransportConfig_new_def)

lemma TransportConfig_set_keypair_verifier:
  assumes "TransportConfig_set_keypair D R gens kp cfg0 = Some (Ok (), cfg)"
  shows "clc_verifier (tc_client_tls_config cfg) = \<lparr> fv_remote_node_id = None \<rparr>" and "tc_keypair cfg = kp"
  using assms tls_configs_verifier [of D R gens kp]
  by (auto simp: TransportConfig_set_keypair_def split: option.split_asm sum.split_asm)


section \<open>Properties\<close>


definition demo_rustls :: "unit rustls_ops" where
  "demo_rustls = \<lparr> rl_any_ecdsa_type = (\<lambda>_. Ok ()), rl_versions_ok = (\<lambda>_ _. True) \<rparr>"

lemma demo_make_configs:
  "\<exists>cfg. make_client_config demo_tls demo_rustls (Ok ()) (Keypair k) i = Some (Ok cfg)"
  "\<exists>cfg. make_server_config demo_tls demo_rustls (Ok ()) (Keypair k) = Some (Ok cfg)"
  using demo_generate [of k]
  by (auto simp: make_client_config_def make_server_config_def AlwaysResolvesCert_new_def demo_rustls_def)

lemma demo_TransportConfig: "\<exists>cfg. TransportConfig_new demo_tls demo_rustls (Ok (), Ok ()) (Keypair k) = Some (Ok cfg)"
proof -
  obtain cl sv where "make_client_config demo_tls demo_rustls (Ok ()) (Keypair k) None = Some (Ok cl)"
    "make_server_config demo_tls demo_rustls (Ok ()) (Keypair k) = Some (Ok sv)" using demo_make_configs by blast
  then show ?thesis by (simp add: TransportConfig_new_def tls_configs_def)
qed


text \<open>What QUIC gets of the configuration: the keep-alive interval, the read and write timeouts and the
  no-delay setting have no effect on it; discovery of the MTU is off when it is disabled even if an
  upper bound is set, and otherwise has the given upper bound; server and client share their
  transport parameters, without datagrams, unidirectional streams or migration.\<close>

theorem quic_config_of_transport_config:
  assumes "QuicConfig_from_TransportConfig Q config = Some q"
  shows "QuicConfig_from_TransportConfig Q (config\<lparr> tc_keep_alive_interval := k, tc_read_timeout := rt,
      tc_write_timeout := wt, tc_nodelay := nd \<rparr>) = Some q \<and>
    qcf_keep_alive_interval q = Duration_from_secs 5 \<and>
    qcf_mtu_discovery_config q =
      (if tc_enable_mtu_discovery config = Some False then None
       else Some (case tc_mtu_upper_bound config of None \<Rightarrow> qn_mtu_default Q
                  | Some b \<Rightarrow> qn_mtu_upper_bound Q (qn_mtu_default Q) b)) \<and>
    qnc_server_transport (QuinnConfig_from_QuicConfig E Q q) = qnc_client_transport (QuinnConfig_from_QuicConfig E Q q) \<and>
    qt_max_concurrent_uni_streams (qnc_server_transport (QuinnConfig_from_QuicConfig E Q q)) = 0 \<and>
    qt_max_concurrent_bidi_streams (qnc_server_transport (QuinnConfig_from_QuicConfig E Q q)) = tc_max_concurrent_stream config"
  using assms
  by (cases "tc_enable_mtu_discovery config"; cases "tc_mtu_upper_bound config")
    (auto simp: QuicConfig_from_TransportConfig_def QuicConfig_set_mtu_upper_bound_def Let_def
      QuicConfig_disable_path_mtu_discovery_def QuinnConfig_from_QuicConfig_def bind_eq_Some_conv)

definition demo_quinn :: "(unit, nat, unit, unit, bytes) quinn_ops" where
  "demo_quinn = \<lparr> qn_mtu_default = 1452, qn_mtu_upper_bound = (\<lambda>_ b. unat b), qn_client_try_from = (\<lambda>_. Ok ()),
     qn_server_try_from = (\<lambda>_. Ok ()), qn_hmac_sha256_key = (\<lambda>b. b) \<rparr>"

theorem quic_config_of_transport_config_witness:
  "\<exists>(config :: (u8, unit, unit, unit) TransportConfig) q.
     QuicConfig_from_TransportConfig demo_quinn (config\<lparr> tc_keep_alive_interval := None \<rparr>) = Some q \<and>
     qcf_keep_alive_interval q = 5000000000"
proof -
  obtain config :: "(u8, unit, unit, unit) TransportConfig"
    where cfg: "TransportConfig_new demo_tls demo_rustls (Ok (), Ok ()) (Keypair 5) = Some (Ok config)"
    using demo_TransportConfig by blast
  obtain q where q: "QuicConfig_from_TransportConfig demo_quinn config = Some q"
    by (simp add: QuicConfig_from_TransportConfig_def demo_quinn_def Let_def)
  from quic_config_of_transport_config [where k = None and rt = "tc_read_timeout config"
      and wt = "tc_write_timeout config" and nd = "tc_nodelay config" and E = demo_ed, OF q]
  show ?thesis by (intro exI [of _ config] exI [of _ q]) (simp add: Duration_from_secs_def)
qed

end
