(* ===== verification/Transport.thy ===== *)
theory Transport
  imports Connection Config
begin

text \<open>
  \<^verbatim>\<open>foctet-net/src/transport/tcp/transport.rs\<close>, \<^verbatim>\<open>transport/quic/transport.rs\<close> and the \<^verbatim>\<open>Transport\<close> of
  \<^verbatim>\<open>transport/mod.rs\<close>: connecting to a peer and listening for peers. Sockets, TLS handshakes and \<^verbatim>\<open>quinn\<close>
  endpoints are the parameters \<open>tcp_net\<close> and \<open>quic_net\<close>: what the calls return. A listener's task is a
  loop over what \<^verbatim>\<open>select!\<close> takes; it either goes on or is over (\<open>listen_loop\<close>).
  A panic is \<open>None\<close>.
\<close>

section \<open>The listener's loop\<close>

text \<open>One turn says whether the loop goes on, what it hands to the channel and its next state. The result of
  the loop: what was handed out, the state, and whether it is still running.\<close>

fun listen_loop :: "('s \<Rightarrow> 'ev \<Rightarrow> bool \<times> 'out list \<times> 's) \<Rightarrow> 's \<Rightarrow> 'ev list \<Rightarrow> 'out list \<times> 's \<times> bool" where
  "listen_loop turn s [] = ([], s, True)"
| "listen_loop turn s (ev # evs) =
     (let (goes_on, out, s) = turn s ev
      in if goes_on then (let (out', s, running) = listen_loop turn s evs in (out @ out', s, running))
         else (out, s, False))"

text \<open>The contract of a listener: some events end it and hand nothing out; every other event hands out
  at most one connection.\<close>

locale listener =
  fixes turn :: "'s \<Rightarrow> 'ev \<Rightarrow> bool \<times> 'out list \<times> 's"
    and ends :: "'ev \<Rightarrow> bool"
    and made :: "'ev \<Rightarrow> ('s \<Rightarrow> 'out) option"
    and later :: "'s \<Rightarrow> 'ev \<Rightarrow> 's"
  assumes turn_ends: "ends ev \<Longrightarrow> turn s ev = (False, [], later s ev)"
    and turn_goes_on: "\<not> ends ev \<Longrightarrow>
      turn s ev = (True, (case made ev of None \<Rightarrow> [] | Some mk \<Rightarrow> [mk s]), later s ev)"
begin

lemma loop_Cons:
  "fst (listen_loop turn s (ev # evs)) =
     (if ends ev then [] else (case made ev of None \<Rightarrow> [] | Some mk \<Rightarrow> [mk s]) @ fst (listen_loop turn (later s ev) evs))"
  "snd (snd (listen_loop turn s (ev # evs))) \<longleftrightarrow> \<not> ends ev \<and> snd (snd (listen_loop turn (later s ev) evs))"
  by (cases "ends ev"; simp add: turn_ends turn_goes_on split: prod.split)+

lemma loop_running_iff: "snd (snd (listen_loop turn s evs)) \<longleftrightarrow> list_all (\<lambda>ev. \<not> ends ev) evs"
  by (induction evs arbitrary: s) (simp_all add: loop_Cons(2) del: listen_loop.simps(2))

lemma loop_takeWhile:
  "fst (listen_loop turn s evs) = fst (listen_loop turn s (takeWhile (\<lambda>ev. \<not> ends ev) evs))"
  by (induction evs arbitrary: s) (simp_all add: loop_Cons(1) del: listen_loop.simps(2))

lemma loop_map:
  assumes "\<And>ev mk s. made ev = Some mk \<Longrightarrow> Some (info (mk s)) = shown ev" and "\<And>ev. made ev = None \<Longrightarrow> shown ev = None"
    and "list_all (\<lambda>ev. \<not> ends ev) evs"
  shows "map info (fst (listen_loop turn s evs)) = List.map_filter shown evs"
  using assms(3)
proof (induction evs arbitrary: s)
  case (Cons ev evs)
  then have tail: "map info (fst (listen_loop turn (later s ev) evs)) = List.map_filter shown evs" by simp
  show ?case
  proof (cases "made ev")
    case None
    with Cons.prems tail assms(2) show ?thesis
      by (simp add: loop_Cons(1) map_filter_simps del: listen_loop.simps(2))
  next
    case (Some mk)
    from assms(1) [OF this, of s] Some Cons.prems tail show ?thesis
      by (cases "shown ev") (simp_all add: loop_Cons(1) map_filter_simps del: listen_loop.simps(2))
  qed
qed (simp add: map_filter_simps)

text \<open>So the connections handed out are those made by the events before the first that ends the loop.\<close>

lemma loop_shown:
  assumes "\<And>ev mk s. made ev = Some mk \<Longrightarrow> Some (info (mk s)) = shown ev" and "\<And>ev. made ev = None \<Longrightarrow> shown ev = None"
  shows "map info (fst (listen_loop turn s evs)) = List.map_filter shown (takeWhile (\<lambda>ev. \<not> ends ev) evs)"
  unfolding loop_takeWhile [of s evs]
  by (rule loop_map) (auto simp: assms list_all_iff dest: set_takeWhileD)

end


section \<open>TCP\<close>

text \<open>\<open>'st\<close>: a socket's stream, \<open>'t\<close>: a TLS stream, \<open>'l\<close>: a bound listener. \<open>tn_tls_accept\<close>: \<open>None\<close> when the handshake
  never completes. \<open>tn_connect\<close>, \<open>tn_tls_connect\<close>: \<open>None\<close> when the timeout elapses first.\<close>

record ('sk, 'st, 't, 'l) tcp_net =
  tn_bind :: "SocketAddr \<Rightarrow> 'l result"
  tn_listener_addr :: "'l \<Rightarrow> SocketAddr result"
  tn_tls_accept :: "'sk ServerConfig \<Rightarrow> 'st \<Rightarrow> 't result option"
  tn_server_name :: "string \<Rightarrow> string result"
  tn_connect :: "Duration \<Rightarrow> SocketAddr \<Rightarrow> 'st result option"
  tn_stream_addr :: "'st \<Rightarrow> SocketAddr result"
  tn_tls_connect :: "Duration \<Rightarrow> 'sk ClientConfig \<Rightarrow> string \<Rightarrow> 'st \<Rightarrow> 't result option"
  tn_peer_certificates :: "'t \<Rightarrow> bytes list option"
  tn_elapsed :: string
  tn_parse_error :: "ParseError \<Rightarrow> error"

record ('sk, 'cfg, 'opts) TcpTransport =
  tt_tls_connector :: "'sk ClientConfig"
  tt_tls_acceptor :: "'sk ServerConfig"
  tt_resolver :: "('cfg, 'opts) Resolver"
  tt_local_node_id :: NodeId
  tt_connection_timeout :: Duration
  tt_write_buffer_size :: nat
  tt_read_buffer_size :: nat
  tt_next_session_id :: u32

definition TcpTransport_new ::
  "('cfg, 'opts) dns_ops \<Rightarrow> ('k, 'v, 's) ed_ops \<Rightarrow> ('k, 'sk, 'cfg, 'opts) TransportConfig \<Rightarrow> ('sk, 'cfg, 'opts) TcpTransport result" where
  "TcpTransport_new N E config =
     try_bind (Resolver_from_option N (tc_dns_resolver_option config)) (\<lambda>resolver.
       Ok \<lparr> tt_tls_connector = TransportConfig_client_tls_config config,
            tt_tls_acceptor = TransportConfig_server_tls_config config,
            tt_resolver = resolver, tt_local_node_id = Keypair_public E (TransportConfig_keypair config),
            tt_connection_timeout = tc_connection_timeout config,
            tt_write_buffer_size = tc_write_buffer_size config, tt_read_buffer_size = tc_read_buffer_size config,
            tt_next_session_id = 1 \<rparr>)"

text \<open>\<^verbatim>\<open>if !addr.resolved() { self.resolver.resolve_addr(&mut addr).await?; }\<close>\<close>

definition resolved_addr ::
  "('cfg, 'opts) dns_ops \<Rightarrow> 'a addr_ops \<Rightarrow> ('cfg, 'opts) Resolver \<Rightarrow> 'a \<Rightarrow> 'a result" where
  "resolved_addr N A rs addr =
     (if \<not> sa_resolved A addr
      then (case Resolver_resolve_addr N A rs addr of (Inl e, _) \<Rightarrow> Err e | (Inr _, addr) \<Rightarrow> Ok addr)
      else Ok addr)"

definition tcp_stack_addr :: "'a addr_ops \<Rightarrow> SocketAddr \<Rightarrow> 'a" where
  "tcp_stack_addr A sock =
     sa_with_protocol A (sa_with_protocol A (sa_with_ip A (sa_empty A) (sock_ip sock)) (P_Tcp (sock_port sock))) P_Tls"

text \<open>The identity of the peer on the server's and on the client's side of a TLS stream.\<close>

definition extract_server_remote_node_id ::
  "('k, 'v, 's, 'c) tls_ops \<Rightarrow> ('sk, 'st, 't, 'l) tcp_net \<Rightarrow> 't \<Rightarrow> NodeId result option" where
  "extract_server_remote_node_id D net tls_stream =
     panic_bind (Some (ok_or (tn_peer_certificates net tls_stream) (Anyhow ''No peer identity''))) (\<lambda>certs.
     panic_bind (Some (case certs of [] \<Rightarrow> Err (Anyhow ''No certificate found'') | cert # _ \<Rightarrow> Ok cert)) (\<lambda>cert.
     panic_bind (map_option (map_err (tn_parse_error net)) (parse D cert)) (\<lambda>foctet_cert.
       Some (Ok (FoctetCertificate_node_id foctet_cert)))))"

definition extract_client_remote_node_id ::
  "('k, 'v, 's, 'c) tls_ops \<Rightarrow> ('sk, 'st, 't, 'l) tcp_net \<Rightarrow> 't \<Rightarrow> NodeId result option" where
  "extract_client_remote_node_id D net tls_stream =
     panic_bind (Some (ok_or (tn_peer_certificates net tls_stream) (Anyhow ''No peer identity''))) (\<lambda>certs.
     panic_bind (Some (case certs of [] \<Rightarrow> Err (Anyhow ''No certificate found'') | cert # _ \<Rightarrow> Ok cert)) (\<lambda>cert.
     panic_bind (map_option (map_err (tn_parse_error net)) (parse D cert)) (\<lambda>foctet_cert.
       Some (Ok (FoctetCertificate_node_id foctet_cert)))))"

text \<open>What the task of a listener keeps.\<close>

record ('sk, 'a) tcp_task =
  tk_local_addr :: 'a
  tk_local_socket_addr :: SocketAddr
  tk_write_buffer_size :: nat
  tk_read_buffer_size :: nat
  tk_local_node_id :: NodeId
  tk_tls_acceptor :: "'sk ServerConfig"

definition TcpTransport_listen_on ::
  "('cfg, 'opts) dns_ops \<Rightarrow> 'a addr_ops \<Rightarrow> ('sk, 'st, 't, 'l) tcp_net \<Rightarrow> ListenerId \<Rightarrow> 'a
     \<Rightarrow> ('sk, 'cfg, 'opts) TcpTransport \<Rightarrow> (('a, 'q) ConnectionListener \<times> ('sk, 'a) tcp_task) result" where
  "TcpTransport_listen_on N A net lid addr self =
     try_bind (resolved_addr N A (tt_resolver self) addr) (\<lambda>addr.
     try_bind (ok_or (sa_socket_addr A addr) (Anyhow ''Invalid address'')) (\<lambda>socket_addr.
     try_bind (tn_bind net socket_addr) (\<lambda>listener.
     try_bind (tn_listener_addr net listener) (\<lambda>local_socket_addr.
       Ok (ConnectionListener_new lid [] False,
           \<lparr> tk_local_addr = tcp_stack_addr A local_socket_addr, tk_local_socket_addr = local_socket_addr,
             tk_write_buffer_size = tt_write_buffer_size self, tk_read_buffer_size = tt_read_buffer_size self,
             tk_local_node_id = tt_local_node_id self, tk_tls_acceptor = tt_tls_acceptor self \<rparr>)))))"

text \<open>What the task's \<^verbatim>\<open>select!\<close> takes: the cancellation, or the result of accepting together with whether
  the channel would take a connection. A connection comes with the actor of its session. The state is
  the counter of session identifiers.\<close>

datatype 'i listen_event = Cancelled | IncomingEv 'i bool

definition tcp_accepted ::
  "'a addr_ops \<Rightarrow> ('sk, 'a) tcp_task \<Rightarrow> SocketAddr \<Rightarrow> NodeId \<Rightarrow> u32 \<Rightarrow> ('a, 'q) ConnectionEvent \<times> SessionActor" where
  "tcp_accepted A task addr remote_node_id next_session_id =
     (let (connection, actor) = Session_new_server (SessionId_new next_session_id);
          connection = Session_set_local_addr (tk_local_socket_addr task) connection;
          connection = Session_set_remote_addr addr connection;
          remote_addr = tcp_stack_addr A addr;
          tcp_conn = TcpConnection_with_remote_node_id remote_node_id
            (TcpConnection_with_local_node_id (tk_local_node_id task)
            (TcpConnection_with_read_buffer_size (tk_read_buffer_size task)
            (TcpConnection_with_write_buffer_size (tk_write_buffer_size task)
            (TcpConnection_new Incoming (tk_local_addr task) remote_addr connection))))
      in (Accepted (Connection_Tcp tcp_conn), actor))"

definition tcp_listen_turn ::
  "('k, 'v, 's, 'c) tls_ops \<Rightarrow> 'a addr_ops \<Rightarrow> ('sk, 'st, 't, 'l) tcp_net \<Rightarrow> ('sk, 'a) tcp_task \<Rightarrow> u32
     \<Rightarrow> ('st \<times> SocketAddr) result listen_event
     \<Rightarrow> bool \<times> (('a, 'q) ConnectionEvent \<times> SessionActor) list \<times> u32" where
  "tcp_listen_turn D A net task next_session_id ev =
     (case ev of
        Cancelled \<Rightarrow> (False, [], next_session_id)
      | IncomingEv (Inl e) _ \<Rightarrow> (False, [], next_session_id)
      | IncomingEv (Inr (stream, addr)) takes \<Rightarrow>
          (case tn_tls_accept net (tk_tls_acceptor task) stream of
             None \<Rightarrow> (False, [], next_session_id)
           | Some (Inl e) \<Rightarrow> (True, [], next_session_id)
           | Some (Inr tls_stream) \<Rightarrow>
               (let (session_id, next_session_id) = atomic_fetch_add next_session_id 1
                in case extract_server_remote_node_id D net tls_stream of
                     Some (Inr remote_node_id) \<Rightarrow>
                       if takes then (True, [tcp_accepted A task addr remote_node_id session_id], next_session_id)
                       else (False, [], next_session_id)
                   | _ \<Rightarrow> (False, [], next_session_id))))"

text \<open>Connecting. The result comes with the session's actor and the transport with its counter.\<close>

definition tcp_connected ::
  "'a addr_ops \<Rightarrow> 'a \<Rightarrow> SocketAddr \<Rightarrow> SocketAddr \<Rightarrow> NodeId \<Rightarrow> ('sk, 'cfg, 'opts) TcpTransport \<Rightarrow> ('a, 'q) Connection \<times> SessionActor" where
  "tcp_connected A addr server_socket_addr local_socket_addr remote_node_id self =
     (let (connection, actor) = Session_new_client (SessionId_new (tt_next_session_id self));
          connection = Session_set_local_addr local_socket_addr connection;
          connection = Session_set_remote_addr server_socket_addr connection;
          tcp_connection = TcpConnection_with_remote_node_id remote_node_id
            (TcpConnection_with_local_node_id (tt_local_node_id self)
            (TcpConnection_with_read_buffer_size (tt_read_buffer_size self)
            (TcpConnection_with_write_buffer_size (tt_write_buffer_size self)
            (TcpConnection_new Outgoing (tcp_stack_addr A local_socket_addr) addr connection))))
      in (Connection_Tcp tcp_connection, actor))"

fun or_timeout :: "string \<Rightarrow> 'x result option \<Rightarrow> 'x result" where
  "or_timeout msg None = Err (Anyhow msg)"
| "or_timeout msg (Some r) = r"

text \<open>The part of \<^verbatim>\<open>connect\<close> up to the TLS stream.\<close>

definition tcp_reach ::
  "('cfg, 'opts) dns_ops \<Rightarrow> 'a addr_ops \<Rightarrow> ('sk, 'st, 't, 'l) tcp_net \<Rightarrow> 'a
     \<Rightarrow> ('sk, 'cfg, 'opts) TcpTransport \<Rightarrow> ('a \<times> SocketAddr \<times> SocketAddr \<times> 't) result" where
  "tcp_reach N A net addr self =
        try_bind (resolved_addr N A (tt_resolver self) addr) (\<lambda>addr.
        try_bind (ok_or (sa_socket_addr A addr) (Anyhow ''Invalid address'')) (\<lambda>server_socket_addr.
        try_bind (tn_server_name net (case sa_name A addr of Some name \<Rightarrow> name | None \<Rightarrow> ''localhost'')) (\<lambda>name.
        try_bind (or_timeout (''TCP Connection timed out after '' @ tn_elapsed net)
          (tn_connect net (tt_connection_timeout self) server_socket_addr)) (\<lambda>stream.
        try_bind (tn_stream_addr net stream) (\<lambda>local_socket_addr.
        try_bind (or_timeout (''TLS Connection timed out after '' @ tn_elapsed net)
          (tn_tls_connect net (tt_connection_timeout self) (tt_tls_connector self) name stream)) (\<lambda>tls_stream.
          Ok (addr, server_socket_addr, local_socket_addr, tls_stream)))))))"

definition TcpTransport_connect ::
  "('k, 'v, 's, 'c) tls_ops \<Rightarrow> ('cfg, 'opts) dns_ops \<Rightarrow> 'a addr_ops \<Rightarrow> ('sk, 'st, 't, 'l) tcp_net \<Rightarrow> 'a
     \<Rightarrow> ('sk, 'cfg, 'opts) TcpTransport
     \<Rightarrow> (('a, 'q) Connection \<times> SessionActor) result option \<times> ('sk, 'cfg, 'opts) TcpTransport" where
  "TcpTransport_connect D N A net addr self =
     (case tcp_reach N A net addr self of
           Inl e \<Rightarrow> (Some (Err e), self)
         | Inr (addr, server_socket_addr, local_socket_addr, tls_stream) \<Rightarrow>
             (case extract_client_remote_node_id D net tls_stream of
                None \<Rightarrow> (None, self)
              | Some (Inl e) \<Rightarrow> (Some (Err e), self)
              | Some (Inr remote_node_id) \<Rightarrow>
                  (Some (Ok (tcp_connected A addr server_socket_addr local_socket_addr remote_node_id self)),
                   self\<lparr> tt_next_session_id := snd (atomic_fetch_add (tt_next_session_id self) 1) \<rparr>)))"


section \<open>QUIC\<close>

text \<open>\<open>'u\<close>: a UDP socket, \<open>'e\<close>: an endpoint, \<open>'q\<close>: a connection, \<open>'i\<close>: an incoming connection. \<open>qe_handshake\<close>: \<open>None\<close> when
  the handshake never completes. \<open>qe_peer_identity\<close>: \<open>Some None\<close> when it is not a list of certificates.\<close>

record ('u, 'e, 'q, 'i, 'qcfg) quic_net =
  qe_udp_bind :: "SocketAddr \<Rightarrow> 'u result"
  qe_endpoint_new :: "'qcfg \<Rightarrow> bool \<Rightarrow> 'u \<Rightarrow> 'e result"
  qe_endpoint_addr :: "'e \<Rightarrow> SocketAddr result"
  qe_handshake :: "'i \<Rightarrow> 'q result option"
  qe_remote_address :: "'q \<Rightarrow> SocketAddr"
  qe_connect :: "'e \<Rightarrow> SocketAddr \<Rightarrow> string \<Rightarrow> 'i result"
  qe_connecting :: "Duration \<Rightarrow> 'i \<Rightarrow> 'q result option"
  qe_peer_identity :: "'q \<Rightarrow> bytes list option option"
  qe_elapsed :: string
  qe_parse_error :: "ParseError \<Rightarrow> error"
  qe_debug :: "error \<Rightarrow> string"

record ('m, 'qc, 'qs, 'r, 'cfg, 'opts) QuicTransport =
  qtr_quinn_config :: "('m, 'qc, 'qs, 'r) QuinnConfig"
  qtr_resolver :: "('cfg, 'opts) Resolver"
  qtr_local_node_id :: NodeId
  qtr_connection_timeout :: Duration
  qtr_write_buffer_size :: nat
  qtr_read_buffer_size :: nat

definition QuicTransport_new ::
  "('cfg, 'opts) dns_ops \<Rightarrow> ('k, 'v, 's) ed_ops \<Rightarrow> ('sk, 'm, 'qc, 'qs, 'r) quinn_ops \<Rightarrow> ('k, 'sk, 'cfg, 'opts) TransportConfig
     \<Rightarrow> ('m, 'qc, 'qs, 'r, 'cfg, 'opts) QuicTransport result option" where
  "QuicTransport_new N E Q config =
     panic_bind (Some (Resolver_from_option N (tc_dns_resolver_option config))) (\<lambda>resolver.
       Option.bind (QuicConfig_from_TransportConfig Q config) (\<lambda>quic_config.
         Some (Ok \<lparr> qtr_quinn_config = QuinnConfig_from_QuicConfig E Q quic_config, qtr_resolver = resolver,
           qtr_local_node_id = Keypair_public E (TransportConfig_keypair config),
           qtr_connection_timeout = tc_connection_timeout config,
           qtr_write_buffer_size = tc_write_buffer_size config,
           qtr_read_buffer_size = tc_read_buffer_size config \<rparr>)))"

definition quic_stack_addr :: "'a addr_ops \<Rightarrow> SocketAddr \<Rightarrow> 'a" where
  "quic_stack_addr A sock =
     sa_with_protocol A (sa_with_protocol A (sa_with_ip A (sa_empty A) (sock_ip sock)) (P_Udp (sock_port sock))) P_Quic"

definition extract_remote_node_id ::
  "('k, 'v, 's, 'c) tls_ops \<Rightarrow> ('u, 'e, 'q, 'i, 'qcfg) quic_net \<Rightarrow> 'q \<Rightarrow> NodeId result option" where
  "extract_remote_node_id D net connection =
     panic_bind (Some (ok_or (qe_peer_identity net connection) (Anyhow ''No peer identity''))) (\<lambda>peer_identity.
     panic_bind (Some (ok_or peer_identity (Anyhow ''Failed to downcast peer identity''))) (\<lambda>certs.
     panic_bind (Some (case certs of [] \<Rightarrow> Err (Anyhow ''No certificate found'') | cert # _ \<Rightarrow> Ok cert)) (\<lambda>cert.
     panic_bind (map_option (map_err (qe_parse_error net)) (parse D cert)) (\<lambda>foctet_cert.
       Some (Ok (FoctetCertificate_node_id foctet_cert))))))"

record 'a quic_task =
  qk_local_addr :: 'a
  qk_write_buffer_size :: nat
  qk_read_buffer_size :: nat
  qk_local_node_id :: NodeId

definition QuicTransport_listen_on ::
  "('cfg, 'opts) dns_ops \<Rightarrow> 'a addr_ops \<Rightarrow> ('u, 'e, 'q, 'i, ('m, 'qc, 'qs, 'r) QuinnConfig) quic_net \<Rightarrow> ListenerId \<Rightarrow> 'a
     \<Rightarrow> ('m, 'qc, 'qs, 'r, 'cfg, 'opts) QuicTransport \<Rightarrow> (('a, 'q) ConnectionListener \<times> 'a quic_task) result" where
  "QuicTransport_listen_on N A net lid addr self =
     try_bind (resolved_addr N A (qtr_resolver self) addr) (\<lambda>addr.
     try_bind (case sa_socket_addr A addr of
                 Some socket_addr \<Rightarrow>
                   map_err (\<lambda>e. Anyhow (''Failed to bind UDP socket: '' @ qe_debug net e)) (qe_udp_bind net socket_addr)
               | None \<Rightarrow> Err (Anyhow ''Invalid address'')) (\<lambda>socket.
     try_bind (qe_endpoint_new net (qtr_quinn_config self) True socket) (\<lambda>endpoint.
     try_bind (qe_endpoint_addr net endpoint) (\<lambda>local_socket_addr.
       Ok (ConnectionListener_new lid [] False,
           \<lparr> qk_local_addr = quic_stack_addr A local_socket_addr, qk_write_buffer_size = qtr_write_buffer_size self,
             qk_read_buffer_size = qtr_read_buffer_size self, qk_local_node_id = qtr_local_node_id self \<rparr>)))))"

definition quic_accepted :: "'a addr_ops \<Rightarrow> 'a quic_task \<Rightarrow> SocketAddr \<Rightarrow> NodeId \<Rightarrow> 'q \<Rightarrow> ('a, 'q) ConnectionEvent" where
  "quic_accepted A task remote_socket_addr remote_node_id connection =
     (let remote_addr = quic_stack_addr A remote_socket_addr;
          quic_conn = QuicConnection_with_remote_node_id remote_node_id
            (QuicConnection_with_local_node_id (qk_local_node_id task)
            (QuicConnection_with_read_buffer_size (qk_read_buffer_size task)
            (QuicConnection_with_write_buffer_size (qk_write_buffer_size task)
            (QuicConnection_new Incoming (qk_local_addr task) remote_addr connection))))
      in Accepted (Connection_Quic quic_conn))"

definition quic_listen_turn ::
  "('k, 'v, 's, 'c) tls_ops \<Rightarrow> 'a addr_ops \<Rightarrow> ('u, 'e, 'q, 'i, 'qcfg) quic_net \<Rightarrow> 'a quic_task \<Rightarrow> unit
     \<Rightarrow> 'i option listen_event \<Rightarrow> bool \<times> ('a, 'q) ConnectionEvent list \<times> unit" where
  "quic_listen_turn D A net task _ ev =
     (case ev of
        Cancelled \<Rightarrow> (False, [], ())
      | IncomingEv None _ \<Rightarrow> (False, [], ())
      | IncomingEv (Some incoming) takes \<Rightarrow>
          (case qe_handshake net incoming of
             None \<Rightarrow> (False, [], ())
           | Some (Inl e) \<Rightarrow> (True, [], ())
           | Some (Inr connection) \<Rightarrow>
               (case extract_remote_node_id D net connection of
                  Some (Inr remote_node_id) \<Rightarrow>
                    if takes
                    then (True, [quic_accepted A task (qe_remote_address net connection) remote_node_id connection], ())
                    else (False, [], ())
                | _ \<Rightarrow> (False, [], ()))))"

definition QuicTransport_connect ::
  "('k, 'v, 's, 'c) tls_ops \<Rightarrow> ('cfg, 'opts) dns_ops \<Rightarrow> 'a addr_ops
     \<Rightarrow> ('u, 'e, 'q, 'i, ('m, 'qc, 'qs, 'r) QuinnConfig) quic_net \<Rightarrow> 'a
     \<Rightarrow> ('m, 'qc, 'qs, 'r, 'cfg, 'opts) QuicTransport \<Rightarrow> ('a, 'q) Connection result option" where
  "QuicTransport_connect D N A net addr self =
     (let reached =
        try_bind (resolved_addr N A (qtr_resolver self) addr) (\<lambda>addr.
        try_bind (ok_or (sa_ip A addr) (Anyhow ''Invalid address'')) (\<lambda>remote_ip.
        let bind_addr = (case remote_ip of V4 _ \<Rightarrow> DEFAULT_BIND_V4_ADDR | V6 _ \<Rightarrow> DEFAULT_BIND_V6_ADDR) in
        try_bind (qe_udp_bind net bind_addr) (\<lambda>socket.
        try_bind (qe_endpoint_new net (qtr_quinn_config self) False socket) (\<lambda>endpoint.
        try_bind (qe_endpoint_addr net endpoint) (\<lambda>local_socket_addr.
        try_bind (ok_or (sa_socket_addr A addr) (Anyhow ''Invalid address'')) (\<lambda>socket_addr.
        try_bind (qe_connect net endpoint socket_addr (case sa_name A addr of Some name \<Rightarrow> name | None \<Rightarrow> ''localhost'')) (\<lambda>connecting.
        try_bind (or_timeout (''QUIC Connection timed out after '' @ qe_elapsed net)
          (qe_connecting net (qtr_connection_timeout self) connecting)) (\<lambda>connection.
          Ok (addr, local_socket_addr, connection)))))))))
      in panic_bind (Some reached) (\<lambda>(addr, local_socket_addr, connection).
           panic_bind (extract_remote_node_id D net connection) (\<lambda>remote_node_id.
             Some (Ok (Connection_Quic
               (QuicConnection_with_remote_node_id remote_node_id
               (QuicConnection_with_local_node_id (qtr_local_node_id self)
               (QuicConnection_with_read_buffer_size (qtr_read_buffer_size self)
               (QuicConnection_with_write_buffer_size (qtr_write_buffer_size self)
               (QuicConnection_new Outgoing (quic_stack_addr A local_socket_addr) addr connection))))))))))"


section \<open>Either transport\<close>

datatype ('sk, 'm, 'qc, 'qs, 'r, 'cfg, 'opts) Transport =
    Transport_Quic "('m, 'qc, 'qs, 'r, 'cfg, 'opts) QuicTransport"
  | Transport_Tcp "('sk, 'cfg, 'opts) TcpTransport"

text \<open>The task of the listener is that of the transport.\<close>

definition Transport_listen_on ::
  "('cfg, 'opts) dns_ops \<Rightarrow> 'a addr_ops \<Rightarrow> ('sk, 'st, 't, 'l) tcp_net
     \<Rightarrow> ('u, 'e, 'q, 'i, ('m, 'qc, 'qs, 'r) QuinnConfig) quic_net \<Rightarrow> ListenerId \<Rightarrow> 'a
     \<Rightarrow> ('sk, 'm, 'qc, 'qs, 'r, 'cfg, 'opts) Transport
     \<Rightarrow> (('a, 'q) ConnectionListener \<times> ('a quic_task + ('sk, 'a) tcp_task)) result" where
  "Transport_listen_on N A tnet qnet lid addr self =
     (case self of
        Transport_Quic transport \<Rightarrow>
          try_bind (QuicTransport_listen_on N A qnet lid addr transport) (\<lambda>(l, task). Ok (l, Inl task))
      | Transport_Tcp transport \<Rightarrow>
          try_bind (TcpTransport_listen_on N A tnet lid addr transport) (\<lambda>(l, task). Ok (l, Inr task)))"

definition Transport_connect ::
  "('k, 'v, 's, 'c) tls_ops \<Rightarrow> ('cfg, 'opts) dns_ops \<Rightarrow> 'a addr_ops \<Rightarrow> ('sk, 'st, 't, 'l) tcp_net
     \<Rightarrow> ('u, 'e, 'q, 'i, ('m, 'qc, 'qs, 'r) QuinnConfig) quic_net \<Rightarrow> 'a
     \<Rightarrow> ('sk, 'm, 'qc, 'qs, 'r, 'cfg, 'opts) Transport
     \<Rightarrow> ('a, 'q) Connection result option \<times> ('sk, 'm, 'qc, 'qs, 'r, 'cfg, 'opts) Transport" where
  "Transport_connect D N A tnet qnet addr self =
     (case self of
        Transport_Quic transport \<Rightarrow> (QuicTransport_connect D N A qnet addr transport, self)
      | Transport_Tcp transport \<Rightarrow>
          (let (r, transport) = TcpTransport_connect D N A tnet addr transport
           in (map_option (\<lambda>r. try_bind r (\<lambda>(conn, _). Ok conn)) r, Transport_Tcp transport)))"


section \<open>Lemmas\<close>

text \<open>Which events end a listener, and the peer and address of the connection another event makes.\<close>

fun tcp_ends ::
  "('k, 'v, 's, 'c) tls_ops \<Rightarrow> ('sk, 'st, 't, 'l) tcp_net \<Rightarrow> ('sk, 'a) tcp_task \<Rightarrow> ('st \<times> SocketAddr) result listen_event \<Rightarrow> bool" where
  "tcp_ends D net task Cancelled = True"
| "tcp_ends D net task (IncomingEv (Inl e) takes) = True"
| "tcp_ends D net task (IncomingEv (Inr (stream, addr)) takes) =
     (case tn_tls_accept net (tk_tls_acceptor task) stream of
        None \<Rightarrow> True
      | Some (Inl e) \<Rightarrow> False
      | Some (Inr t) \<Rightarrow>
          (case extract_server_remote_node_id D net t of Some (Inr i) \<Rightarrow> \<not> takes | _ \<Rightarrow> True))"

fun tcp_peer ::
  "('k, 'v, 's, 'c) tls_ops \<Rightarrow> ('sk, 'st, 't, 'l) tcp_net \<Rightarrow> ('sk, 'a) tcp_task \<Rightarrow> ('st \<times> SocketAddr) result listen_event
     \<Rightarrow> (NodeId \<times> SocketAddr) option" where
  "tcp_peer D net task (IncomingEv (Inr (stream, addr)) takes) =
     (case tn_tls_accept net (tk_tls_acceptor task) stream of
        Some (Inr t) \<Rightarrow>
          (case extract_server_remote_node_id D net t of
             Some (Inr i) \<Rightarrow> if takes then Some (i, addr) else None
           | _ \<Rightarrow> None)
      | _ \<Rightarrow> None)"
| "tcp_peer D net task _ = None"

definition tcp_made ::
  "('k, 'v, 's, 'c) tls_ops \<Rightarrow> 'a addr_ops \<Rightarrow> ('sk, 'st, 't, 'l) tcp_net \<Rightarrow> ('sk, 'a) tcp_task
     \<Rightarrow> ('st \<times> SocketAddr) result listen_event \<Rightarrow> (u32 \<Rightarrow> ('a, 'q) ConnectionEvent \<times> SessionActor) option" where
  "tcp_made D A net task ev = map_option (\<lambda>(i, addr). tcp_accepted A task addr i) (tcp_peer D net task ev)"

fun tcp_later ::
  "('sk, 'st, 't, 'l) tcp_net \<Rightarrow> ('sk, 'a) tcp_task \<Rightarrow> u32 \<Rightarrow> ('st \<times> SocketAddr) result listen_event \<Rightarrow> u32" where
  "tcp_later net task n (IncomingEv (Inr (stream, addr)) takes) =
     (case tn_tls_accept net (tk_tls_acceptor task) stream of Some (Inr t) \<Rightarrow> n + 1 | _ \<Rightarrow> n)"
| "tcp_later net task n _ = n"

interpretation tcp_listener: listener "tcp_listen_turn D A net task" "tcp_ends D net task"
    "tcp_made D A net task" "tcp_later net task" for D A net task
proof (unfold_locales, goal_cases)
  case (1 ev n)
  then show ?case
    by (cases "(D, net, task, ev)" rule: tcp_ends.cases)
      (auto simp: not_Inl_iff tcp_listen_turn_def atomic_fetch_add_def split: option.splits sum.splits)
next
  case (2 ev n)
  then show ?case
    by (cases "(D, net, task, ev)" rule: tcp_ends.cases)
      (auto simp: not_Inl_iff tcp_listen_turn_def atomic_fetch_add_def tcp_made_def split: option.splits sum.splits)
qed

fun quic_ends ::
  "('k, 'v, 's, 'c) tls_ops \<Rightarrow> ('u, 'e, 'q, 'i, 'qcfg) quic_net \<Rightarrow> 'i option listen_event \<Rightarrow> bool" where
  "quic_ends D net Cancelled = True"
| "quic_ends D net (IncomingEv None takes) = True"
| "quic_ends D net (IncomingEv (Some incoming) takes) =
     (case qe_handshake net incoming of
        None \<Rightarrow> True
      | Some (Inl e) \<Rightarrow> False
      | Some (Inr q) \<Rightarrow> (case extract_remote_node_id D net q of Some (Inr i) \<Rightarrow> \<not> takes | _ \<Rightarrow> True))"

fun quic_peer ::
  "('k, 'v, 's, 'c) tls_ops \<Rightarrow> ('u, 'e, 'q, 'i, 'qcfg) quic_net \<Rightarrow> 'i option listen_event \<Rightarrow> (NodeId \<times> 'q) option" where
  "quic_peer D net (IncomingEv (Some incoming) takes) =
     (case qe_handshake net incoming of
        Some (Inr q) \<Rightarrow>
          (case extract_remote_node_id D net q of
             Some (Inr i) \<Rightarrow> if takes then Some (i, q) else None
           | _ \<Rightarrow> None)
      | _ \<Rightarrow> None)"
| "quic_peer D net _ = None"

definition quic_made ::
  "('k, 'v, 's, 'c) tls_ops \<Rightarrow> 'a addr_ops \<Rightarrow> ('u, 'e, 'q, 'i, 'qcfg) quic_net \<Rightarrow> 'a quic_task \<Rightarrow> 'i option listen_event
     \<Rightarrow> (unit \<Rightarrow> ('a, 'q) ConnectionEvent) option" where
  "quic_made D A net task ev =
     map_option (\<lambda>(i, q) _. quic_accepted A task (qe_remote_address net q) i q) (quic_peer D net ev)"

interpretation quic_listener: listener "quic_listen_turn D A net task" "quic_ends D net"
    "quic_made D A net task" "\<lambda>_ _. ()" for D A net task
proof (unfold_locales, goal_cases)
  case (1 ev n)
  then show ?case
    by (cases "(D, net, ev)" rule: quic_ends.cases)
      (auto simp: not_Inl_iff quic_listen_turn_def split: option.splits sum.splits)
next
  case (2 ev n)
  then show ?case
    by (cases "(D, net, ev)" rule: quic_ends.cases)
      (auto simp: not_Inl_iff quic_listen_turn_def quic_made_def split: option.splits sum.splits)
qed

fun event_conn :: "('a, 'q) ConnectionEvent \<Rightarrow> ('a, 'q) Connection" where
  "event_conn (Connected c) = c"
| "event_conn (Accepted c) = c"

text \<open>Who a connection is with, where, and from which side.\<close>

definition conn_peer :: "('a, 'q) Connection \<Rightarrow> NodeId \<times> 'a \<times> Direction" where
  "conn_peer c = (Connection_remote_node_id c, Connection_remote_addr c, Connection_direction c)"

lemmas tcp_builder_defs = TcpConnection_with_remote_node_id_def TcpConnection_with_local_node_id_def
  TcpConnection_with_read_buffer_size_def TcpConnection_with_write_buffer_size_def TcpConnection_new_def

lemmas quic_builder_defs = QuicConnection_with_remote_node_id_def QuicConnection_with_local_node_id_def
  QuicConnection_with_read_buffer_size_def QuicConnection_with_write_buffer_size_def QuicConnection_new_def

lemmas conn_defs = Connection_remote_node_id_def Connection_remote_addr_def Connection_direction_def
  Connection_local_node_id_def Connection_local_addr_def

lemma tcp_accepted_peer: "conn_peer (event_conn (fst (tcp_accepted A task addr i n))) = (i, tcp_stack_addr A addr, Incoming)"
  by (simp add: tcp_accepted_def conn_peer_def conn_defs tcp_builder_defs Let_def split: prod.split)

lemma quic_accepted_peer: "conn_peer (event_conn (quic_accepted A task addr i q)) = (i, quic_stack_addr A addr, Incoming)"
  by (simp add: quic_accepted_def conn_peer_def conn_defs quic_builder_defs Let_def)

text \<open>The certificates a peer presented, over either transport.\<close>

definition presents ::
  "('sk, 'st, 't, 'l) tcp_net \<Rightarrow> ('u, 'e, 'q, 'i, 'qcfg) quic_net \<Rightarrow> bytes \<Rightarrow> bool" where
  "presents tnet qnet cert \<longleftrightarrow>
     (\<exists>t rest. tn_peer_certificates tnet t = Some (cert # rest)) \<or>
     (\<exists>q rest. qe_peer_identity qnet q = Some (Some (cert # rest)))"

lemma extract_client_Inr:
  "extract_client_remote_node_id D net t = Some (Ok i) \<longleftrightarrow>
     (\<exists>cert rest c. tn_peer_certificates net t = Some (cert # rest) \<and> parse D cert = Some (Ok c) \<and>
        FoctetCertificate_node_id c = i)"
  by (cases "tn_peer_certificates net t"; cases "the (tn_peer_certificates net t)") (auto simp: extract_client_remote_node_id_def)

lemma extract_server_Inr:
  "extract_server_remote_node_id D net t = Some (Ok i) \<longleftrightarrow>
     (\<exists>cert rest c. tn_peer_certificates net t = Some (cert # rest) \<and> parse D cert = Some (Ok c) \<and>
        FoctetCertificate_node_id c = i)"
  by (cases "tn_peer_certificates net t"; cases "the (tn_peer_certificates net t)") (auto simp: extract_server_remote_node_id_def)

lemma extract_quic_Inr:
  "extract_remote_node_id D net q = Some (Ok i) \<longleftrightarrow>
     (\<exists>cert rest c. qe_peer_identity net q = Some (Some (cert # rest)) \<and> parse D cert = Some (Ok c) \<and>
        FoctetCertificate_node_id c = i)"
  by (cases "qe_peer_identity net q"; cases "the (qe_peer_identity net q)"; cases "the (the (qe_peer_identity net q))")
    (auto simp: extract_remote_node_id_def)

text \<open>The identity and the resolver of a transport.\<close>

fun transport_node_id :: "('sk, 'm, 'qc, 'qs, 'r, 'cfg, 'opts) Transport \<Rightarrow> NodeId" where
  "transport_node_id (Transport_Quic t) = qtr_local_node_id t"
| "transport_node_id (Transport_Tcp t) = tt_local_node_id t"

fun transport_resolver :: "('sk, 'm, 'qc, 'qs, 'r, 'cfg, 'opts) Transport \<Rightarrow> ('cfg, 'opts) Resolver" where
  "transport_resolver (Transport_Quic t) = qtr_resolver t"
| "transport_resolver (Transport_Tcp t) = tt_resolver t"

lemma resolved_addr_resolved:
  assumes "resolved_addr N A rs addr = Ok addr'"
  shows "sa_resolved A addr'"
  using assms by (auto simp: resolved_addr_def resolve_addr_eq split: if_splits option.splits sum.splits)

lemma tcp_connect_Inr:
  assumes "TcpTransport_connect D N A net addr self = (Some (Ok (conn, actor)), self')"
  shows "\<exists>addr' sock loc t i. resolved_addr N A (tt_resolver self) addr = Ok addr' \<and>
    extract_client_remote_node_id D net t = Some (Ok i) \<and>
    tcp_connected A addr' sock loc i self = (conn, actor) \<and> self' = self\<lparr> tt_next_session_id := tt_next_session_id self + 1 \<rparr>"
proof -
  obtain addr' sock loc t where reach: "tcp_reach N A net addr self = Ok (addr', sock, loc, t)"
    using assms by (cases "tcp_reach N A net addr self") (auto simp: TcpTransport_connect_def)
  then have res: "resolved_addr N A (tt_resolver self) addr = Ok addr'" by (auto simp: tcp_reach_def)
  obtain i where i: "extract_client_remote_node_id D net t = Some (Ok i)"
    using assms reach
    by (cases "extract_client_remote_node_id D net t"; cases "the (extract_client_remote_node_id D net t)")
      (auto simp: TcpTransport_connect_def)
  with assms reach have "tcp_connected A addr' sock loc i self = (conn, actor)"
    "self' = self\<lparr> tt_next_session_id := tt_next_session_id self + 1 \<rparr>"
    by (simp_all add: TcpTransport_connect_def atomic_fetch_add_def)
  with res i show ?thesis by blast
qed

lemma quic_connect_Inr:
  assumes "QuicTransport_connect D N A net addr self = Some (Ok conn)"
  shows "\<exists>addr' loc q i. resolved_addr N A (qtr_resolver self) addr = Ok addr' \<and>
    extract_remote_node_id D net q = Some (Ok i) \<and>
    conn = Connection_Quic
               (QuicConnection_with_remote_node_id i
               (QuicConnection_with_local_node_id (qtr_local_node_id self)
               (QuicConnection_with_read_buffer_size (qtr_read_buffer_size self)
               (QuicConnection_with_write_buffer_size (qtr_write_buffer_size self)
               (QuicConnection_new Outgoing (quic_stack_addr A loc) addr' q)))))"
  using assms by (auto simp: QuicTransport_connect_def Let_def)


section \<open>Properties\<close>


text \<open>A network where every call succeeds and the peer presents \<open>der\<close>.\<close>

definition demo_tcp_net :: "bytes \<Rightarrow> (unit, unit, unit, SocketAddr) tcp_net" where
  "demo_tcp_net der = \<lparr> tn_bind = Ok, tn_listener_addr = Ok, tn_tls_accept = (\<lambda>_ _. Some (Ok ())), tn_server_name = Ok,
     tn_connect = (\<lambda>_ _. Some (Ok ())), tn_stream_addr = (\<lambda>_. Ok (SocketAddr (V4 Ipv4Addr_LOCALHOST) 5000)),
     tn_tls_connect = (\<lambda>_ _ _ _. Some (Ok ())), tn_peer_certificates = (\<lambda>_. Some [der]), tn_elapsed = [],
     tn_parse_error = (\<lambda>_. Anyhow []) \<rparr>"

definition demo_quic_net :: "(unit, unit, unit, nat, (nat, unit, unit, bytes) QuinnConfig) quic_net" where
  "demo_quic_net = \<lparr> qe_udp_bind = (\<lambda>_. Ok ()), qe_endpoint_new = (\<lambda>_ _ _. Ok ()),
     qe_endpoint_addr = (\<lambda>_. Ok (SocketAddr (V4 Ipv4Addr_LOCALHOST) 5000)),
     qe_handshake = (\<lambda>i. if i = 0 then None else Some (Ok ())),
     qe_remote_address = (\<lambda>_. SocketAddr (V4 Ipv4Addr_LOCALHOST) 5001), qe_connect = (\<lambda>_ _ _. Ok 1),
     qe_connecting = (\<lambda>_ _. Some (Ok ())), qe_peer_identity = (\<lambda>_. None), qe_elapsed = [],
     qe_parse_error = (\<lambda>_. Anyhow []), qe_debug = (\<lambda>_. []) \<rparr>"

definition demo_tcp_transport :: "(u8, unit, unit, unit) TransportConfig \<Rightarrow> (unit, nat, unit, unit, bytes, unit, unit) Transport" where
  "demo_tcp_transport cfg = Transport_Tcp \<lparr> tt_tls_connector = tc_client_tls_config cfg,
     tt_tls_acceptor = tc_server_tls_config cfg, tt_resolver = Resolver ((), ()),
     tt_local_node_id = Keypair_public demo_ed (tc_keypair cfg), tt_connection_timeout = 1, tt_write_buffer_size = 1,
     tt_read_buffer_size = 1, tt_next_session_id = 1 \<rparr>"

definition demo_addr :: segs where
  "demo_addr = [P_Ip4 Ipv4Addr_LOCALHOST, P_Tcp 4432, P_Tls]"


text \<open>C21. What a listener hands out, over TCP and over QUIC: an incoming connection for each event before
  the first one that ends it, in order, with the identity of the certificate presented in the
  handshake and the address it came from; it is running exactly while no such event came.\<close>

theorem listeners_accept:
  "map (\<lambda>(ev, _). conn_peer (event_conn ev)) (fst (listen_loop (tcp_listen_turn D A net task) n evs)) =
     List.map_filter (\<lambda>ev. map_option (\<lambda>(i, addr). (i, tcp_stack_addr A addr, Incoming)) (tcp_peer D net task ev))
       (takeWhile (\<lambda>ev. \<not> tcp_ends D net task ev) evs) \<and>
   (snd (snd (listen_loop (tcp_listen_turn D A net task) n evs)) \<longleftrightarrow> list_all (\<lambda>ev. \<not> tcp_ends D net task ev) evs) \<and>
   map (\<lambda>ev. conn_peer (event_conn ev)) (fst (listen_loop (quic_listen_turn D A qnet qtask) () qevs)) =
     List.map_filter (\<lambda>ev. map_option (\<lambda>(i, q). (i, quic_stack_addr A (qe_remote_address qnet q), Incoming)) (quic_peer D qnet ev))
       (takeWhile (\<lambda>ev. \<not> quic_ends D qnet ev) qevs) \<and>
   (snd (snd (listen_loop (quic_listen_turn D A qnet qtask) () qevs)) \<longleftrightarrow> list_all (\<lambda>ev. \<not> quic_ends D qnet ev) qevs)"
proof (intro conjI)
  show "map (\<lambda>(ev, _). conn_peer (event_conn ev)) (fst (listen_loop (tcp_listen_turn D A net task) n evs)) =
     List.map_filter (\<lambda>ev. map_option (\<lambda>(i, addr). (i, tcp_stack_addr A addr, Incoming)) (tcp_peer D net task ev))
       (takeWhile (\<lambda>ev. \<not> tcp_ends D net task ev) evs)"
    by (rule tcp_listener.loop_shown) (auto simp: tcp_made_def case_prod_beta tcp_accepted_peer)
  show "map (\<lambda>ev. conn_peer (event_conn ev)) (fst (listen_loop (quic_listen_turn D A qnet qtask) () qevs)) =
     List.map_filter (\<lambda>ev. map_option (\<lambda>(i, q). (i, quic_stack_addr A (qe_remote_address qnet q), Incoming)) (quic_peer D qnet ev))
       (takeWhile (\<lambda>ev. \<not> quic_ends D qnet ev) qevs)"
    by (rule quic_listener.loop_shown) (auto simp: quic_made_def quic_accepted_peer)
qed (rule tcp_listener.loop_running_iff, rule quic_listener.loop_running_iff)



end
