(* ===== verification/Endpoint.thy ===== *)
theory Endpoint
  imports Transport
begin

text \<open>
  \<^verbatim>\<open>foctet-net/src/endpoint.rs\<close>: the endpoint, its builder and its actor. Everything outside is the record
  \<open>world\<close>: the parameters of the transports and the default network interface. A \<^verbatim>\<open>HashSet\<close> of addresses is a
  set; where the source iterates over one, the order is an argument. A \<^verbatim>\<open>BTreeMap\<close> is the list of its
  entries by ascending key. A panic is \<open>None\<close>.
\<close>

section \<open>Parameters\<close>

record ('k, 'v, 's, 'c, 'sk, 'cfg, 'opts, 'm, 'qc, 'qs, 'r, 'a, 'st, 't, 'l, 'u, 'e, 'q, 'i) world =
  w_tls :: "('k, 'v, 's, 'c) tls_ops"
  w_rustls :: "'sk rustls_ops"
  w_dns :: "('cfg, 'opts) dns_ops"
  w_quinn :: "('sk, 'm, 'qc, 'qs, 'r) quinn_ops"
  w_addr :: "'a addr_ops"
  w_tcp :: "('sk, 'st, 't, 'l) tcp_net"
  w_quic :: "('u, 'e, 'q, 'i, ('m, 'qc, 'qs, 'r) QuinnConfig) quic_net"
  w_nets :: net_ops
  w_iface :: "Interface result"
  w_debug :: "error \<Rightarrow> string"

definition w_ed :: "('k, 'v, 's, 'c, 'sk, 'cfg, 'opts, 'm, 'qc, 'qs, 'r, 'a, 'st, 't, 'l, 'u, 'e, 'q, 'i) world \<Rightarrow> ('k, 'v, 's) ed_ops" where
  "w_ed W = tls_ed (w_tls W)"

definition w_default_interface :: "('k, 'v, 's, 'c, 'sk, 'cfg, 'opts, 'm, 'qc, 'qs, 'r, 'a, 'st, 't, 'l, 'u, 'e, 'q, 'i) world \<Rightarrow> Interface option" where
  "w_default_interface W = (case w_iface W of Inr i \<Rightarrow> Some i | Inl _ \<Rightarrow> None)"

text \<open>\<^verbatim>\<open>BTreeMap::insert\<close>.\<close>

fun btree_insert :: "'x :: linorder \<Rightarrow> 'y \<Rightarrow> ('x \<times> 'y) list \<Rightarrow> ('x \<times> 'y) list" where
  "btree_insert k v [] = [(k, v)]"
| "btree_insert k v ((k', v') # m) =
     (if k < k' then (k, v) # (k', v') # m
      else if k = k' then (k, v) # m
      else (k', v') # btree_insert k v m)"


section \<open>Listener handles\<close>

text \<open>The receiver is shared: a handle is the address of the queue.\<close>

datatype ListenerHandle = ListenerHandle (conn_receiver: nat)

definition ListenerHandle_new :: "nat \<Rightarrow> ListenerHandle" where
  "ListenerHandle_new queue = ListenerHandle queue"

text \<open>\<open>None\<close>: it waits; \<open>closed\<close>: every sender is gone.\<close>

definition ListenerHandle_accept ::
  "bool \<Rightarrow> ListenerHandle \<Rightarrow> (nat \<Rightarrow> 'conn list) \<Rightarrow> ('conn option \<times> (nat \<Rightarrow> 'conn list)) option" where
  "ListenerHandle_accept closed self queues =
     (case queues (conn_receiver self) of
        conn # rest \<Rightarrow> Some (Some conn, queues(conn_receiver self := rest))
      | [] \<Rightarrow> if closed then Some (None, queues) else None)"

definition ListenerHandle_clone :: "ListenerHandle \<Rightarrow> ListenerHandle" where
  "ListenerHandle_clone self = ListenerHandle (conn_receiver self)"


section \<open>The actor\<close>

datatype 'a EndpointEvent = ConnectionEstablished NodeId 'a | ConnectionClosed NodeId
  | NewListenAddr ListenerId 'a | PeerDiscovered NodeId 'a | EndpointError error

datatype 'a EndpointCommand = CmdConnect 'a | CmdListen 'a | CmdShutdown

record ('k, 'sk, 'cfg, 'opts, 'a) EndpointActor =
  ea_config :: "('k, 'sk, 'cfg, 'opts) TransportConfig"
  ea_addrs :: "'a set"
  ea_listen_enabled :: bool

text \<open>The transport for a listen address.\<close>

definition actor_transport where
  "actor_transport W config addr =
     (case sa_transport (w_addr W) addr of
        Some transport \<Rightarrow>
          (case transport of
             TP_Quic _ \<Rightarrow> panic_bind (QuicTransport_new (w_dns W) (w_ed W) (w_quinn W) config) (\<lambda>t. Some (Ok (Transport_Quic t)))
           | TP_Udp _ \<Rightarrow> panic_bind (QuicTransport_new (w_dns W) (w_ed W) (w_quinn W) config) (\<lambda>t. Some (Ok (Transport_Quic t)))
           | TP_TlsOverTcp _ \<Rightarrow> panic_bind (Some (TcpTransport_new (w_dns W) (w_ed W) config)) (\<lambda>t. Some (Ok (Transport_Tcp t)))
           | TP_Tcp _ \<Rightarrow> panic_bind (Some (TcpTransport_new (w_dns W) (w_ed W) config)) (\<lambda>t. Some (Ok (Transport_Tcp t)))
           | _ \<Rightarrow> Some (Err (Anyhow (''Unsupported transport protocol: '' @ tp_debug (w_addr W) transport))))
      | None \<Rightarrow> Some (Err (Anyhow ''Invalid transport protocol'')))"

text \<open>The loop that makes a listener for each address, in the order the set is iterated; those it made stay
  when it fails.\<close>

fun actor_listen where
  "actor_listen W config listener_id [] listeners = Some (listeners, Ok ())"
| "actor_listen W config listener_id (addr # addrs) listeners =
     (case actor_transport W config addr of
        None \<Rightarrow> None
      | Some (Inl e) \<Rightarrow> Some (listeners, Err e)
      | Some (Inr transport) \<Rightarrow>
          (let (old, listener_id) = ListenerId_fetch_add listener_id 1
           in case Transport_listen_on (w_dns W) (w_addr W) (w_tcp W) (w_quic W) old addr transport of
                Inl e \<Rightarrow> Some (listeners, Err e)
              | Inr l \<Rightarrow> actor_listen W config listener_id addrs (listeners @ [l])))"

text \<open>The task that forwards the connections of one listener: what goes to the connection channel, and to the
  event channel when that refuses (\<open>takes\<close> may depend on what it took before).\<close>

fun forward_loop ::
  "(error \<Rightarrow> string) \<Rightarrow> (('a, 'q) Connection list \<Rightarrow> unit result) \<Rightarrow> ('a, 'q) ConnectionEvent list \<Rightarrow> ('a, 'q) Connection list
     \<Rightarrow> ('a, 'q) Connection list \<times> 'a EndpointEvent list" where
  "forward_loop dbg takes [] sent = (sent, [])"
| "forward_loop dbg takes (Accepted conn # evs) sent =
     (case takes sent of
        Inr _ \<Rightarrow> forward_loop dbg takes evs (sent @ [conn])
      | Inl e \<Rightarrow>
          (let (sent, errs) = forward_loop dbg takes evs sent
           in (sent, EndpointError (Anyhow (''Error sending connection event: '' @ dbg e)) # errs)))"
| "forward_loop dbg takes (Connected conn # evs) sent = forward_loop dbg takes evs sent"

text \<open>What the command loop's \<^verbatim>\<open>select!\<close> takes; \<open>None\<close>: it is still waiting.\<close>

datatype 'a actor_input = ActorCancelled | ActorCommand "'a EndpointCommand"

fun actor_commands :: "'a actor_input list \<Rightarrow> unit result option" where
  "actor_commands [] = None"
| "actor_commands (ActorCancelled # ins) = Some (Ok ())"
| "actor_commands (ActorCommand cmd # ins) =
     (case cmd of
        CmdConnect addr \<Rightarrow> actor_commands ins
      | CmdListen addr \<Rightarrow> actor_commands ins
      | CmdShutdown \<Rightarrow> Some (Ok ()))"

text \<open>The listeners the actor made, and what it returned, if it did.\<close>

definition EndpointActor_run where
  "EndpointActor_run W order ins self =
     (case (if ea_listen_enabled self
            then actor_listen W (ea_config self) (ListenerId_new 1) (order (ea_addrs self)) []
            else Some ([], Ok ())) of
        None \<Rightarrow> None
      | Some (listeners, Inl e) \<Rightarrow> Some (listeners, Some (Err e))
      | Some (listeners, Inr _) \<Rightarrow> Some (listeners, actor_commands ins))"


section \<open>The endpoint\<close>

record ('k, 'sk, 'cfg, 'opts, 'm, 'qc, 'qs, 'r, 'a) Endpoint =
  ep_config :: "('k, 'sk, 'cfg, 'opts) TransportConfig"
  ep_addrs :: "'a set"
  ep_relay_addrs :: "'a RelayAddr option"
  ep_priority_map :: "(u8 \<times> TransportKind) list"
  ep_transports :: "TransportKind \<rightharpoonup> ('sk, 'm, 'qc, 'qs, 'r, 'cfg, 'opts) Transport"
  ep_listener :: ListenerHandle
  ep_allow_loopback :: bool

definition Endpoint_node_id :: "('k, 'v, 's) ed_ops \<Rightarrow> ('k, 'sk, 'cfg, 'opts, 'm, 'qc, 'qs, 'r, 'a) Endpoint \<Rightarrow> NodeId" where
  "Endpoint_node_id E self = Keypair_public E (TransportConfig_keypair (ep_config self))"

definition Endpoint_node_addr ::
  "('k, 'v, 's) ed_ops \<Rightarrow> ('k, 'sk, 'cfg, 'opts, 'm, 'qc, 'qs, 'r, 'a) Endpoint \<Rightarrow> 'a NodeAddr" where
  "Endpoint_node_addr E self =
     \<lparr> na_node_id = Endpoint_node_id E self, na_addresses = ep_addrs self, na_relay_addr = ep_relay_addrs self \<rparr>"

definition Endpoint_global_node_addr ::
  "('k, 'v, 's) ed_ops \<Rightarrow> 'a addr_ops \<Rightarrow> ('k, 'sk, 'cfg, 'opts, 'm, 'qc, 'qs, 'r, 'a) Endpoint \<Rightarrow> 'a NodeAddr" where
  "Endpoint_global_node_addr E A self =
     (let global_addrs = Set.filter (\<lambda>addr. case sa_ip A addr of Some ip \<Rightarrow> is_global_ip ip | None \<Rightarrow> False) (ep_addrs self)
      in \<lparr> na_node_id = Endpoint_node_id E self, na_addresses = global_addrs, na_relay_addr = ep_relay_addrs self \<rparr>)"

definition world_connect where
  "world_connect W addr t = Transport_connect (w_tls W) (w_dns W) (w_addr W) (w_tcp W) (w_quic W) addr t"

text \<open>\<^verbatim>\<open>self.transports.get_mut(&kind).ok_or_else(..)?\<close> followed by \<^verbatim>\<open>connect(addr)\<close>.\<close>

definition connect_with where
  "connect_with W kind missing addr self =
     (case ep_transports self kind of
        None \<Rightarrow> (Some (Err (Anyhow missing)), self)
      | Some t \<Rightarrow>
          (let (r, t) = world_connect W addr t
           in (r, self\<lparr> ep_transports := (ep_transports self)(kind \<mapsto> t) \<rparr>)))"

definition Endpoint_connect where
  "Endpoint_connect W addr self =
     (case sa_transport (w_addr W) addr of
        Some transport \<Rightarrow>
          (case transport of
             TP_Quic _ \<Rightarrow> connect_with W Quic ''QUIC transport not found'' addr self
           | TP_Udp _ \<Rightarrow> connect_with W Quic ''QUIC transport not found'' addr self
           | TP_TlsOverTcp _ \<Rightarrow> connect_with W TlsOverTcp ''TCP transport not found'' addr self
           | TP_Tcp _ \<Rightarrow> connect_with W TlsOverTcp ''TCP transport not found'' addr self
           | _ \<Rightarrow> (Some (Err (Anyhow (''Unsupported transport protocol: '' @ tp_debug (w_addr W) transport))), self))
      | None \<Rightarrow> (Some (Err (Anyhow ''Missing transport protocol in address'')), self))"

text \<open>The loop over the addresses for one transport: the first connection, if any.\<close>

fun connect_addrs where
  "connect_addrs W [] t = (Some None, t)"
| "connect_addrs W (addr # addrs) t =
     (case world_connect W addr t of
        (None, t) \<Rightarrow> (None, t)
      | (Some (Inr conn), t) \<Rightarrow> (Some (Some conn), t)
      | (Some (Inl e), t) \<Rightarrow> connect_addrs W addrs t)"

text \<open>The loop over the transports, by priority.\<close>

fun connect_kinds where
  "connect_kinds W iface node [] self = (Some (Err (Anyhow ''No direct address found for node'')), self)"
| "connect_kinds W iface node (proto # protos) self =
     (case ep_transports self proto of
        None \<Rightarrow> (Some (Err (Anyhow ''Transport not found'')), self)
      | Some t \<Rightarrow>
          (let addrs = NodeAddr_get_direct_addrs (w_addr W) node proto (ep_allow_loopback self);
               sorted_addrs = sort_addrs_by_reachability (w_nets W) (sa_ip (w_addr W)) addrs iface;
               (r, t) = connect_addrs W sorted_addrs t;
               self = self\<lparr> ep_transports := (ep_transports self)(proto \<mapsto> t) \<rparr>
           in case r of
                None \<Rightarrow> (None, self)
              | Some (Some conn) \<Rightarrow> (Some (Ok conn), self)
              | Some None \<Rightarrow> connect_kinds W iface node protos self))"

definition Endpoint_connect_node where
  "Endpoint_connect_node W node self =
     (case w_iface W of
        Inl e \<Rightarrow> (Some (Err (Anyhow (''Failed to get default interface: '' @ w_debug W e))), self)
      | Inr iface \<Rightarrow> connect_kinds W iface node (map snd (ep_priority_map self)) self)"

definition Endpoint_accept where
  "Endpoint_accept closed self queues = ListenerHandle_accept closed (ep_listener self) queues"

definition Endpoint_get_listener where
  "Endpoint_get_listener self = ListenerHandle_clone (ep_listener self)"

text \<open>\<open>sent\<close>: the outcome of handing the command to the actor; the second component of \<^verbatim>\<open>shutdown\<close>: whether the token
  was cancelled.\<close>

definition Endpoint_send_command :: "unit result \<Rightarrow> unit result" where
  "Endpoint_send_command sent = try_bind sent (\<lambda>_. Ok ())"

definition Endpoint_shutdown :: "unit result \<Rightarrow> unit result \<times> bool" where
  "Endpoint_shutdown sent = (case sent of Inl e \<Rightarrow> (Err e, False) | Inr _ \<Rightarrow> (Ok (), True))"

text \<open>The next event of the endpoint's channel; \<open>None\<close>: it waits; \<open>closed\<close>: every sender is gone.\<close>

definition Endpoint_next_event :: "bool \<Rightarrow> 'a EndpointEvent list \<Rightarrow> ('a EndpointEvent option \<times> 'a EndpointEvent list) option" where
  "Endpoint_next_event closed events =
     (case events of
        ev # rest \<Rightarrow> Some (Some ev, rest)
      | [] \<Rightarrow> if closed then Some (None, []) else None)"


section \<open>Addresses\<close>

definition kind_addr :: "'a addr_ops \<Rightarrow> TransportKind \<Rightarrow> IpAddr \<Rightarrow> u16 \<Rightarrow> 'a" where
  "kind_addr A proto ip port = (case proto of Quic \<Rightarrow> quic_addr A ip port | TlsOverTcp \<Rightarrow> tls_addr A ip port)"

definition get_unspecified_stack_addrs :: "'a addr_ops \<Rightarrow> Interface option \<Rightarrow> TransportKind list \<Rightarrow> 'a set" where
  "get_unspecified_stack_addrs A iface protocols =
     (let unspecified_addr = get_unspecified_server_addr iface
      in set (map (\<lambda>proto. kind_addr A proto (sock_ip unspecified_addr) (sock_port unspecified_addr)) protocols))"

definition get_default_stack_addrs :: "'a addr_ops \<Rightarrow> Interface option \<Rightarrow> TransportKind list \<Rightarrow> bool \<Rightarrow> 'a set" where
  "get_default_stack_addrs A iface protocols allow_loopback =
     (let socket_addrs = get_default_server_addrs iface DEFAULT_SERVER_PORT allow_loopback
      in set (concat (map (\<lambda>proto. map (\<lambda>addr. kind_addr A proto (sock_ip addr) (sock_port addr)) socket_addrs) protocols)))"

fun same_family :: "IpAddr \<Rightarrow> IpAddr \<Rightarrow> bool" where
  "same_family (V4 _) (V4 _) = True"
| "same_family (V6 _) (V6 _) = True"
| "same_family _ _ = False"

text \<open>What the loop over the input inserts for one address.\<close>

definition actual_addrs_of ::
  "'a addr_ops \<Rightarrow> SocketAddr list \<Rightarrow> TransportKind list \<Rightarrow> 'a \<Rightarrow> 'a set" where
  "actual_addrs_of A actual_addrs protocols addr =
     (case sa_socket_addr A addr of
        None \<Rightarrow> {}
      | Some sock_addr \<Rightarrow>
          if IpAddr_is_unspecified (sock_ip sock_addr)
          then set (concat (map (\<lambda>actual.
                 if same_family (sock_ip actual) (sock_ip sock_addr)
                 then map (\<lambda>proto. kind_addr A proto (sock_ip actual) (sock_port sock_addr)) protocols
                 else []) actual_addrs))
          else {addr})"

definition replace_with_actual_addrs ::
  "'a addr_ops \<Rightarrow> Interface option \<Rightarrow> 'a set \<Rightarrow> TransportKind list \<Rightarrow> bool \<Rightarrow> 'a set" where
  "replace_with_actual_addrs A iface input_addrs protocols allow_loopback =
     \<Union> (actual_addrs_of A (get_default_server_addrs iface DEFAULT_SERVER_PORT allow_loopback) protocols ` input_addrs)"


section \<open>The builder\<close>

record ('k, 'sk, 'cfg, 'opts, 'a) EndpointBuilder =
  eb_config :: "('k, 'sk, 'cfg, 'opts) TransportConfig"
  eb_protocols :: "TransportKind list"
  eb_addrs :: "'a set"
  eb_listen_enabled :: bool
  eb_allow_loopback :: bool

text \<open>\<open>k\<close>: the generated key, \<open>gens\<close>: the generated certificate keys.\<close>

definition EndpointBuilder_new where
  "EndpointBuilder_new W k gens =
     (let keypair = Keypair_generate (w_ed W) k
      in map_option (\<lambda>config. \<lparr> eb_config = config, eb_protocols = [], eb_addrs = {}, eb_listen_enabled = True,
                                 eb_allow_loopback = False \<rparr>)
           (Option.bind (TransportConfig_new (w_tls W) (w_rustls W) gens keypair) unwrap))"

definition default_listen_addr where
  "default_listen_addr A E keypair =
     sa_with_identity A (sa_with_protocol A (sa_with_protocol A (sa_with_protocol A (sa_empty A)
       (P_Ip4 Ipv4Addr_UNSPECIFIED)) (P_Udp DEFAULT_SERVER_PORT)) P_Quic)
       (PublicKey_to_bytes (Keypair_public E keypair))"

definition EndpointBuilder_default where
  "EndpointBuilder_default W k gens =
     (let keypair = Keypair_generate (w_ed W) k
      in map_option (\<lambda>config. \<lparr> eb_config = config, eb_protocols = [Quic],
                                 eb_addrs = {default_listen_addr (w_addr W) (w_ed W) keypair},
                                 eb_listen_enabled = True, eb_allow_loopback = False \<rparr>)
           (Option.bind (TransportConfig_new (w_tls W) (w_rustls W) gens keypair) unwrap))"

definition EndpointBuilder_with_keypair where
  "EndpointBuilder_with_keypair W gens keypair self =
     (case TransportConfig_set_keypair (w_tls W) (w_rustls W) gens keypair (eb_config self) of
        Some (Inr _, config) \<Rightarrow> Some (self\<lparr> eb_config := config \<rparr>)
      | _ \<Rightarrow> None)"

definition EndpointBuilder_push_protocol ::
  "TransportKind \<Rightarrow> ('k, 'sk, 'cfg, 'opts, 'a) EndpointBuilder \<Rightarrow> ('k, 'sk, 'cfg, 'opts, 'a) EndpointBuilder" where
  "EndpointBuilder_push_protocol proto self =
     (if proto \<notin> set (eb_protocols self) then self\<lparr> eb_protocols := eb_protocols self @ [proto] \<rparr> else self)"

definition EndpointBuilder_with_quic ::
  "('k, 'sk, 'cfg, 'opts, 'a) EndpointBuilder \<Rightarrow> ('k, 'sk, 'cfg, 'opts, 'a) EndpointBuilder" where
  "EndpointBuilder_with_quic self = EndpointBuilder_push_protocol Quic self"

definition EndpointBuilder_with_tcp ::
  "('k, 'sk, 'cfg, 'opts, 'a) EndpointBuilder \<Rightarrow> ('k, 'sk, 'cfg, 'opts, 'a) EndpointBuilder" where
  "EndpointBuilder_with_tcp self = EndpointBuilder_push_protocol TlsOverTcp self"

definition EndpointBuilder_with_addr ::
  "'a addr_ops \<Rightarrow> 'a \<Rightarrow> ('k, 'sk, 'cfg, 'opts, 'a) EndpointBuilder \<Rightarrow> ('k, 'sk, 'cfg, 'opts, 'a) EndpointBuilder result" where
  "EndpointBuilder_with_addr A addr self =
     try_bind (ok_or (sa_transport A addr) (Anyhow ''Missing transport protocol in address'')) (\<lambda>transport.
     try_bind (TransportKind_from_protocol A transport) (\<lambda>kind.
       let self = EndpointBuilder_push_protocol kind self
       in Ok (self\<lparr> eb_addrs := insert addr (eb_addrs self) \<rparr>)))"

definition EndpointBuilder_without_listen ::
  "('k, 'sk, 'cfg, 'opts, 'a) EndpointBuilder \<Rightarrow> ('k, 'sk, 'cfg, 'opts, 'a) EndpointBuilder" where
  "EndpointBuilder_without_listen self = self\<lparr> eb_listen_enabled := False \<rparr>"

definition EndpointBuilder_allow_loopback ::
  "bool \<Rightarrow> ('k, 'sk, 'cfg, 'opts, 'a) EndpointBuilder \<Rightarrow> ('k, 'sk, 'cfg, 'opts, 'a) EndpointBuilder" where
  "EndpointBuilder_allow_loopback allow self = self\<lparr> eb_allow_loopback := allow \<rparr>"

definition EndpointBuilder_with_read_buffer_size ::
  "nat \<Rightarrow> ('k, 'sk, 'cfg, 'opts, 'a) EndpointBuilder \<Rightarrow> ('k, 'sk, 'cfg, 'opts, 'a) EndpointBuilder" where
  "EndpointBuilder_with_read_buffer_size sz self = self\<lparr> eb_config := (eb_config self)\<lparr> tc_read_buffer_size := sz \<rparr> \<rparr>"

definition EndpointBuilder_with_write_buffer_size ::
  "nat \<Rightarrow> ('k, 'sk, 'cfg, 'opts, 'a) EndpointBuilder \<Rightarrow> ('k, 'sk, 'cfg, 'opts, 'a) EndpointBuilder" where
  "EndpointBuilder_with_write_buffer_size sz self = self\<lparr> eb_config := (eb_config self)\<lparr> tc_write_buffer_size := sz \<rparr> \<rparr>"

definition EndpointBuilder_with_max_read_buffer_size ::
  "('k, 'sk, 'cfg, 'opts, 'a) EndpointBuilder \<Rightarrow> ('k, 'sk, 'cfg, 'opts, 'a) EndpointBuilder" where
  "EndpointBuilder_with_max_read_buffer_size self =
     self\<lparr> eb_config := (eb_config self)\<lparr> tc_read_buffer_size := MAX_READ_BUFFER_SIZE \<rparr> \<rparr>"

definition EndpointBuilder_with_max_write_buffer_size ::
  "('k, 'sk, 'cfg, 'opts, 'a) EndpointBuilder \<Rightarrow> ('k, 'sk, 'cfg, 'opts, 'a) EndpointBuilder" where
  "EndpointBuilder_with_max_write_buffer_size self =
     self\<lparr> eb_config := (eb_config self)\<lparr> tc_write_buffer_size := MAX_WRITE_BUFFER_SIZE \<rparr> \<rparr>"

definition Endpoint_builder where
  "Endpoint_builder W k gens = EndpointBuilder_new W k gens"

definition Endpoint_default_builder where
  "Endpoint_default_builder W k gens = EndpointBuilder_default W k gens"

text \<open>A new transport of a kind, and the loop of \<^verbatim>\<open>build\<close> over the protocols: the \<open>i\<close>-th has priority \<open>i + 1\<close>, as a byte.\<close>

definition build_transport where
  "build_transport W config proto =
     (case proto of
        Quic \<Rightarrow> panic_bind (QuicTransport_new (w_dns W) (w_ed W) (w_quinn W) config) (\<lambda>t. Some (Ok (Transport_Quic t)))
      | TlsOverTcp \<Rightarrow> panic_bind (Some (TcpTransport_new (w_dns W) (w_ed W) config)) (\<lambda>t. Some (Ok (Transport_Tcp t))))"

fun build_transports where
  "build_transports W config i [] priority_map transports = Some (Ok (priority_map, transports))"
| "build_transports W config i (proto # protos) priority_map transports =
     panic_bind (build_transport W config proto) (\<lambda>t.
       build_transports W config (Suc i) protos (btree_insert (as_u8 (i + 1)) proto priority_map)
         (transports(proto \<mapsto> t)))"

text \<open>\<open>q\<close>: the address of the connection queue. The result comes with the actor that is spawned.\<close>

definition EndpointBuilder_build where
  "EndpointBuilder_build W q self =
     panic_bind (build_transports W (eb_config self) 0 (eb_protocols self) [] Map.empty) (\<lambda>(priority_map, transports).
       let A = w_addr W; iface = w_default_interface W;
           addrs = (if eb_addrs self = {} then get_unspecified_stack_addrs A iface (eb_protocols self) else eb_addrs self);
           actor = \<lparr> ea_config = eb_config self, ea_addrs = addrs, ea_listen_enabled = eb_listen_enabled self \<rparr>;
           direct_addrs =
             (if eb_addrs self = {} then get_default_stack_addrs A iface (eb_protocols self) (eb_allow_loopback self)
              else replace_with_actual_addrs A iface (eb_addrs self) (eb_protocols self) (eb_allow_loopback self))
       in Some (Ok (\<lparr> ep_config = eb_config self, ep_addrs = direct_addrs, ep_relay_addrs = None,
            ep_priority_map = priority_map, ep_transports = transports, ep_listener = ListenerHandle_new q,
            ep_allow_loopback = eb_allow_loopback self \<rparr>, actor)))"


section \<open>Lemmas\<close>

text \<open>A failed attempt leaves the transport as it was.\<close>

lemma tcp_connect_Err:
  assumes "TcpTransport_connect D N A net addr self = (Some (Err e), self')"
  shows "self' = self"
proof (cases "tcp_reach N A net addr self")
  case (Inl e')
  with assms show ?thesis by (simp add: TcpTransport_connect_def)
next
  case (Inr x)
  obtain addr' sock loc t where x: "x = (addr', sock, loc, t)" by (metis prod_cases4)
  with Inr assms show ?thesis
    by (cases "extract_client_remote_node_id D net t"; cases "the (extract_client_remote_node_id D net t)")
      (auto simp: TcpTransport_connect_def)
qed

lemma world_connect_Err:
  assumes "world_connect W addr t = (Some (Err e), t')"
  shows "t' = t"
proof (cases t)
  case (Transport_Quic q)
  with assms show ?thesis by (simp add: world_connect_def Transport_connect_def)
next
  case (Transport_Tcp self)
  with assms show ?thesis
    by (auto simp: world_connect_def Transport_connect_def try_bind_Inl_iff dest: tcp_connect_Err split: prod.splits)
qed

text \<open>The first of several attempts that succeeds, unless one before it panics.\<close>

fun first_ok :: "('x \<Rightarrow> 'conn result option) \<Rightarrow> 'x list \<Rightarrow> 'conn option option" where
  "first_ok attempt [] = Some None"
| "first_ok attempt (x # xs) =
     (case attempt x of
        None \<Rightarrow> None
      | Some (Inr conn) \<Rightarrow> Some (Some conn)
      | Some (Inl _) \<Rightarrow> first_ok attempt xs)"

lemma first_ok_append:
  "first_ok f (xs @ ys) = (case first_ok f xs of Some None \<Rightarrow> first_ok f ys | r \<Rightarrow> r)"
  by (induction xs) (auto split: option.split sum.split)

lemma first_ok_map: "first_ok f (map g xs) = first_ok (f \<circ> g) xs"
  by (induction xs) (auto split: option.split sum.split)

lemma first_ok_Some:
  assumes "x \<in> set xs" and "f x = Some (Ok c)" and "\<forall>y \<in> set xs. f y \<noteq> None"
  shows "\<exists>c'. first_ok f xs = Some (Some c')"
  using assms by (induction xs) (auto split: option.split sum.split)

lemma connect_addrs_eq:
  "fst (connect_addrs W addrs t) = first_ok (\<lambda>a. fst (world_connect W a t)) addrs \<and>
   (fst (connect_addrs W addrs t) = Some None \<longrightarrow> snd (connect_addrs W addrs t) = t)"
proof (induction addrs)
  case (Cons a addrs)
  obtain r t' where r: "world_connect W a t = (r, t')" by fastforce
  show ?case
  proof (cases r)
    case None
    with r show ?thesis by simp
  next
    case (Some res)
    show ?thesis
    proof (cases res)
      case (Inl e)
      with r Some world_connect_Err [of W a t e t'] have "t' = t" by simp
      with r Some Inl Cons show ?thesis by simp
    next
      case (Inr c)
      with r Some show ?thesis by simp
    qed
  qed
qed simp

text \<open>The attempts of \<^verbatim>\<open>connect_node\<close>, in order.\<close>

definition candidates where
  "candidates W iface node allow kinds =
     concat (map (\<lambda>k. map (Pair k) (sort_addrs_by_reachability (w_nets W) (sa_ip (w_addr W))
       (NodeAddr_get_direct_addrs (w_addr W) node k allow) iface)) kinds)"

lemma connect_kinds_eq:
  assumes "\<forall>k \<in> set kinds. ep_transports self k \<noteq> None"
  shows "fst (connect_kinds W iface node kinds self) =
    (case first_ok (\<lambda>(k, a). fst (world_connect W a (the (ep_transports self k))))
        (candidates W iface node (ep_allow_loopback self) kinds) of
       None \<Rightarrow> None
     | Some (Some conn) \<Rightarrow> Some (Ok conn)
     | Some None \<Rightarrow> Some (Err (Anyhow ''No direct address found for node'')))"
  using assms
proof (induction kinds)
  case Nil
  show ?case by (simp add: candidates_def)
next
  case (Cons k kinds)
  let ?as = "sort_addrs_by_reachability (w_nets W) (sa_ip (w_addr W))
      (NodeAddr_get_direct_addrs (w_addr W) node k (ep_allow_loopback self)) iface"
  from Cons.prems obtain t where t: "ep_transports self k = Some t" by auto
  obtain r t' where r: "connect_addrs W ?as t = (r, t')" by fastforce
  have f: "first_ok (\<lambda>(k, a). fst (world_connect W a (the (ep_transports self k)))) (map (Pair k) ?as) = r"
    using connect_addrs_eq [of W ?as t] r t by (simp add: first_ok_map comp_def)
  have same: "r = Some None \<Longrightarrow> self\<lparr> ep_transports := (ep_transports self)(k \<mapsto> t') \<rparr> = self"
    using connect_addrs_eq [of W ?as t] r t by (simp add: fun_upd_idem)
  have cands: "candidates W iface node (ep_allow_loopback self) (k # kinds) =
      map (Pair k) ?as @ candidates W iface node (ep_allow_loopback self) kinds" by (simp add: candidates_def)
  have IH: "fst (connect_kinds W iface node kinds self) =
    (case first_ok (\<lambda>(k, a). fst (world_connect W a (the (ep_transports self k))))
        (candidates W iface node (ep_allow_loopback self) kinds) of
       None \<Rightarrow> None
     | Some (Some conn) \<Rightarrow> Some (Ok conn)
     | Some None \<Rightarrow> Some (Err (Anyhow ''No direct address found for node'')))" using Cons by simp
  have step: "connect_kinds W iface node (k # kinds) self =
      (let self' = self\<lparr> ep_transports := (ep_transports self)(k \<mapsto> t') \<rparr>
       in case r of None \<Rightarrow> (None, self') | Some (Some conn) \<Rightarrow> (Some (Ok conn), self')
          | Some None \<Rightarrow> connect_kinds W iface node kinds self')"
    by (simp only: connect_kinds.simps t r option.case Let_def prod.case)
  show ?case
  proof (cases "r = Some None")
    case True
    with step same have "connect_kinds W iface node (k # kinds) self = connect_kinds W iface node kinds self"
      by (simp add: Let_def)
    with IH show ?thesis unfolding cands first_ok_append f True by simp
  next
    case False
    then show ?thesis unfolding cands first_ok_append f step Let_def
      by (cases r; cases "the r") auto
  qed
qed

lemma candidates_set:
  assumes "finite (na_addresses node)"
  shows "set (candidates W iface node allow kinds) =
    {(k, a). k \<in> set kinds \<and> a \<in> na_addresses node \<and> direct_addr (w_addr W) k allow a}"
proof -
  have "set (sort_addrs_by_reachability (w_nets W) (sa_ip (w_addr W)) (NodeAddr_get_direct_addrs (w_addr W) node k allow) iface) =
      {a \<in> na_addresses node. direct_addr (w_addr W) k allow a}" for k
    using get_direct_addrs_set [OF assms] by (auto simp: sort_addrs_eq direct_addr_iff)
  then show ?thesis by (auto simp: candidates_def)
qed

text \<open>Inserting a greatest key appends it, so priorities follow the order of the protocols.\<close>

lemma btree_insert_last: "\<forall>e \<in> set m. fst e < k \<Longrightarrow> btree_insert k v m = m @ [(k, v)]"
  by (induction m) fastforce+

lemma unat_as_u8: "n < 256 \<Longrightarrow> unat (as_u8 n) = n"
  by (simp only: as_u8_def unat_of_nat) simp

lemma as_u8_Suc_greater: "i < 255 \<Longrightarrow> unat (k :: u8) \<le> i \<Longrightarrow> k < as_u8 (i + 1)"
  using unat_as_u8 [of "i + 1"] by (simp add: word_less_nat_alt)

lemma build_transports_ok:
  assumes "build_transports W config i protos pm tm = Some (Ok (pm', tm'))" and "i + length protos < 256"
    and "\<forall>e \<in> set pm. unat (fst e) \<le> i"
  shows "map snd pm' = map snd pm @ protos \<and> (\<forall>k. tm' k \<noteq> None \<longleftrightarrow> tm k \<noteq> None \<or> k \<in> set protos)"
  using assms
proof (induction protos arbitrary: i pm tm)
  case (Cons proto protos)
  from Cons.prems(1) obtain t where t: "build_transports W config (Suc i) protos
      (btree_insert (as_u8 (i + 1)) proto pm) (tm(proto \<mapsto> t)) = Some (Ok (pm', tm'))" by auto
  have "\<forall>e \<in> set pm. fst e < as_u8 (i + 1)" using Cons.prems(2,3) as_u8_Suc_greater by simp
  then have ins: "btree_insert (as_u8 (i + 1)) proto pm = pm @ [(as_u8 (i + 1), proto)]" by (rule btree_insert_last)
  have "unat (as_u8 (i + 1)) = Suc i" using unat_as_u8 [of "i + 1"] Cons.prems(2) by simp
  then have "\<forall>e \<in> set (pm @ [(as_u8 (i + 1), proto)]). unat (fst e) \<le> Suc i" using Cons.prems(3) by auto
  with Cons.IH [OF t [unfolded ins]] Cons.prems(2) show ?case by auto
qed simp

lemma distinct_kinds_length: "distinct (ks :: TransportKind list) \<Longrightarrow> length ks \<le> 2"
proof -
  have "set ks \<subseteq> {Quic, TlsOverTcp}" using TransportKind.exhaust by blast
  then have "card (set ks) \<le> card {Quic, TlsOverTcp}" by (intro card_mono) simp_all
  then show "distinct ks \<Longrightarrow> length ks \<le> 2" by (simp add: distinct_card)
qed

text \<open>The calls that change a builder.\<close>

inductive builder_step where
  keypair: "EndpointBuilder_with_keypair W gens kp b = Some b' \<Longrightarrow> builder_step W b b'"
| quic: "builder_step W b (EndpointBuilder_with_quic b)"
| tcp: "builder_step W b (EndpointBuilder_with_tcp b)"
| addr: "EndpointBuilder_with_addr (w_addr W) a b = Ok b' \<Longrightarrow> builder_step W b b'"
| no_listen: "builder_step W b (EndpointBuilder_without_listen b)"
| loopback: "builder_step W b (EndpointBuilder_allow_loopback allow b)"
| read_size: "builder_step W b (EndpointBuilder_with_read_buffer_size n b)"
| write_size: "builder_step W b (EndpointBuilder_with_write_buffer_size n b)"
| max_read: "builder_step W b (EndpointBuilder_with_max_read_buffer_size b)"
| max_write: "builder_step W b (EndpointBuilder_with_max_write_buffer_size b)"

inductive_cases builder_step_cases: "builder_step W b b'"

text \<open>An identity does not change the transport of an address.\<close>

definition identity_keeps :: "'a addr_ops \<Rightarrow> bool" where
  "identity_keeps A \<longleftrightarrow> (\<forall>a b. sa_transport A (sa_with_identity A a b) = sa_transport A a)"

definition builder_init where
  "builder_init W b \<longleftrightarrow> stack_addrs (w_addr W) \<and> identity_keeps (w_addr W) \<and>
     (\<exists>k gens. EndpointBuilder_new W k gens = Some b \<or> EndpointBuilder_default W k gens = Some b)"

definition builder_inv :: "'a addr_ops \<Rightarrow> ('k, 'sk, 'cfg, 'opts, 'a) EndpointBuilder \<Rightarrow> bool" where
  "builder_inv A b \<longleftrightarrow> stack_addrs A \<and> distinct (eb_protocols b) \<and> finite (eb_addrs b) \<and>
     (\<forall>a \<in> eb_addrs b. \<exists>k \<in> set (eb_protocols b). addr_kind A a = Some k)"

lemma default_addr_kind:
  assumes "stack_addrs A" and "identity_keeps A"
  shows "addr_kind A (default_listen_addr A E kp) = Some Quic"
proof -
  have "sa_transport A (default_listen_addr A E kp) = sa_transport A (quic_addr A (V4 Ipv4Addr_UNSPECIFIED) DEFAULT_SERVER_PORT)"
    using assms(2) by (simp add: default_listen_addr_def identity_keeps_def quic_addr_def)
  with assms(1) show ?thesis by (simp add: addr_kind_def stack_addrs_def TransportKind_from_protocol_def)
qed

lemma kind_addr_kind: "stack_addrs A \<Longrightarrow> addr_kind A (kind_addr A k ip port) = Some k"
  by (cases k) (simp_all add: kind_addr_def addr_kind_def stack_addrs_def TransportKind_from_protocol_def)

lemma kind_addr_socket: "stack_addrs A \<Longrightarrow> sa_socket_addr A (kind_addr A k ip port) = Some (SocketAddr ip port)"
  by (cases k) (simp_all add: kind_addr_def stack_addrs_def)

lemmas endpoint_builder_defs = EndpointBuilder_with_quic_def EndpointBuilder_with_tcp_def EndpointBuilder_push_protocol_def
  EndpointBuilder_without_listen_def EndpointBuilder_allow_loopback_def EndpointBuilder_with_read_buffer_size_def
  EndpointBuilder_with_write_buffer_size_def EndpointBuilder_with_max_read_buffer_size_def
  EndpointBuilder_with_max_write_buffer_size_def

interpretation builder: invariant_system "builder_init W" "builder_step W" "builder_inv (w_addr W)" for W
proof (unfold_locales, goal_cases)
  case (1 b)
  then show ?case
    by (auto simp: builder_init_def builder_inv_def EndpointBuilder_new_def EndpointBuilder_default_def Let_def default_addr_kind)
next
  case (2 b b')
  from 2(2,1) show ?case
  proof cases
    case (keypair gens kp)
    then have "eb_protocols b' = eb_protocols b" "eb_addrs b' = eb_addrs b"
      by (auto simp: EndpointBuilder_with_keypair_def split: option.splits prod.splits sum.splits)
    with 2(1) show ?thesis by (simp add: builder_inv_def)
  next
    case (addr a)
    then obtain proto k where "sa_transport (w_addr W) a = Some proto" "TransportKind_from_protocol (w_addr W) proto = Ok k"
      "b' = (EndpointBuilder_push_protocol k b)\<lparr> eb_addrs := insert a (eb_addrs (EndpointBuilder_push_protocol k b)) \<rparr>"
      by (auto simp: EndpointBuilder_with_addr_def Let_def)
    with 2(1) show ?thesis
      by (auto simp: builder_inv_def EndpointBuilder_push_protocol_def addr_kind_def)
  qed (use 2(1) in \<open>auto simp: builder_inv_def endpoint_builder_defs\<close>)
qed

lemma first_ok_Inr_iff:
  "first_ok f xs = Some (Some c) \<longleftrightarrow>
     (\<exists>pre x post. xs = pre @ x # post \<and> f x = Some (Ok c) \<and> (\<forall>y \<in> set pre. \<exists>e. f y = Some (Err e)))"
proof
  assume "first_ok f xs = Some (Some c)"
  then show "\<exists>pre x post. xs = pre @ x # post \<and> f x = Some (Ok c) \<and> (\<forall>y \<in> set pre. \<exists>e. f y = Some (Err e))"
  proof (induction xs)
    case (Cons x xs)
    from Cons.prems consider "f x = Some (Ok c)" | e where "f x = Some (Err e)" "first_ok f xs = Some (Some c)"
      by (auto split: option.splits sum.splits)
    then show ?case
    proof cases
      case 1
      then have "x # xs = [] @ x # xs \<and> f x = Some (Ok c) \<and> (\<forall>y \<in> set []. \<exists>e. f y = Some (Err e))" by simp
      then show ?thesis by blast
    next
      case 2
      with Cons.IH obtain pre x' post where "xs = pre @ x' # post" "f x' = Some (Ok c)" "\<forall>y \<in> set pre. \<exists>e. f y = Some (Err e)"
        by blast
      with 2(1) have "x # xs = (x # pre) @ x' # post \<and> f x' = Some (Ok c) \<and> (\<forall>y \<in> set (x # pre). \<exists>e. f y = Some (Err e))"
        by simp
      then show ?thesis by blast
    qed
  qed simp
next
  assume "\<exists>pre x post. xs = pre @ x # post \<and> f x = Some (Ok c) \<and> (\<forall>y \<in> set pre. \<exists>e. f y = Some (Err e))"
  then obtain pre x post where xs: "xs = pre @ x # post" and x: "f x = Some (Ok c)"
    and pre: "\<forall>y \<in> set pre. \<exists>e. f y = Some (Err e)" by blast
  from pre have "first_ok f pre = Some None" by (induction pre) auto
  with xs x show "first_ok f xs = Some (Some c)" by (simp add: first_ok_append)
qed

lemma connect_kinds_identity:
  "connect_kinds W iface (node\<lparr> na_node_id := i \<rparr>) kinds self = connect_kinds W iface node kinds self"
proof (induction kinds arbitrary: self)
  case (Cons k kinds)
  have "NodeAddr_get_direct_addrs (w_addr W) (node\<lparr> na_node_id := i \<rparr>) k al = NodeAddr_get_direct_addrs (w_addr W) node k al" for al
    by (simp add: NodeAddr_get_direct_addrs_def)
  with Cons show ?case by (simp cong: option.case_cong)
qed simp

lemma kind_addr_eq_iff:
  assumes "stack_addrs A"
  shows "kind_addr A k ip port = kind_addr A k' ip' port' \<longleftrightarrow> k = k' \<and> ip = ip' \<and> port = port'"
  using kind_addr_kind [OF assms] kind_addr_socket [OF assms] by (metis SocketAddr.inject option.inject)


section \<open>Properties\<close>

text \<open>C11. \<^verbatim>\<open>connect_node\<close> returns a connection exactly when some direct address of the node accepts one, and then
  the first one: the transports in the order of their priority, the addresses of each by reachability,
  every earlier attempt having failed. What it tries are the direct addresses of the node for
  the transports of the endpoint.\<close>

theorem connect_node_first:
  assumes "w_iface W = Ok iface" and "\<forall>k \<in> set (map snd (ep_priority_map self)). ep_transports self k \<noteq> None"
    and "finite (na_addresses node)"
  shows "(fst (Endpoint_connect_node W node self) = Some (Ok conn) \<longleftrightarrow>
      (\<exists>pre k a post. candidates W iface node (ep_allow_loopback self) (map snd (ep_priority_map self)) = pre @ (k, a) # post \<and>
         fst (world_connect W a (the (ep_transports self k))) = Some (Ok conn) \<and>
         (\<forall>(k', a') \<in> set pre. \<exists>e. fst (world_connect W a' (the (ep_transports self k'))) = Some (Err e)))) \<and>
    set (candidates W iface node (ep_allow_loopback self) (map snd (ep_priority_map self))) =
      {(k, a). k \<in> snd ` set (ep_priority_map self) \<and> a \<in> na_addresses node \<and> direct_addr (w_addr W) k (ep_allow_loopback self) a}"
proof
  let ?f = "\<lambda>(k, a). fst (world_connect W a (the (ep_transports self k)))"
  let ?cs = "candidates W iface node (ep_allow_loopback self) (map snd (ep_priority_map self))"
  have "fst (Endpoint_connect_node W node self) = Some (Ok conn) \<longleftrightarrow> first_ok ?f ?cs = Some (Some conn)"
    using assms(1) unfolding Endpoint_connect_node_def
    by (simp add: connect_kinds_eq [OF assms(2), of W iface node] del: map_map split: option.split)
  also have "\<dots> \<longleftrightarrow> (\<exists>pre k a post. ?cs = pre @ (k, a) # post \<and>
         fst (world_connect W a (the (ep_transports self k))) = Some (Ok conn) \<and>
         (\<forall>(k', a') \<in> set pre. \<exists>e. fst (world_connect W a' (the (ep_transports self k'))) = Some (Err e)))"
    unfolding first_ok_Inr_iff by (simp add: split_paired_Ex case_prod_beta)
  finally show "fst (Endpoint_connect_node W node self) = Some (Ok conn) \<longleftrightarrow> \<dots>" .
qed (simp add: candidates_set [OF assms(3)])

text \<open>A world where every call succeeds and the peer presents \<open>der\<close>.\<close>

definition demo_world where
  "demo_world der = \<lparr> w_tls = demo_tls, w_rustls = demo_rustls, w_dns = demo_dns, w_quinn = demo_quinn, w_addr = segments,
     w_tcp = demo_tcp_net der, w_quic = demo_quic_net, w_nets = prefix_nets, w_iface = Ok demo_iface, w_debug = (\<lambda>_. []) \<rparr>"

definition demo_endpoint :: "(u8, unit, unit, unit) TransportConfig \<Rightarrow> (u8, unit, unit, unit, nat, unit, unit, bytes, segs) Endpoint" where
  "demo_endpoint cfg = \<lparr> ep_config = cfg, ep_addrs = {}, ep_relay_addrs = None, ep_priority_map = [(1, TlsOverTcp)],
     ep_transports = [TlsOverTcp \<mapsto> demo_tcp_transport cfg], ep_listener = ListenerHandle_new 0, ep_allow_loopback = True \<rparr>"

definition demo_node :: "segs NodeAddr" where
  "demo_node = \<lparr> na_node_id = PublicKey [], na_addresses = {demo_addr}, na_relay_addr = None \<rparr>"

lemma demo_connects:
  "\<exists>der (cfg :: (u8, unit, unit, unit) TransportConfig) conn.
     fst (world_connect (demo_world der) demo_addr (demo_tcp_transport cfg)) = Some (Ok conn)"
proof -
  obtain der where der: "generate demo_tls (Ok ()) (Keypair 9) = Ok (der, [8])" using demo_generate by blast
  have "ed_signatures (tls_ed demo_tls)" "text_roundtrip (tls_text demo_tls)"
    using demo_ed_laws(2) demo_text_laws by (simp_all add: demo_tls_def)
  from generate_parse_ok [OF this demo_tls_laws der] obtain c where "parse demo_tls der = Some (Ok c)" by blast
  then have "\<exists>conn. fst (world_connect (demo_world der) demo_addr (demo_tcp_transport cfg)) = Some (Ok conn)"
    for cfg :: "(u8, unit, unit, unit) TransportConfig"
    by (simp add: world_connect_def demo_world_def Transport_connect_def demo_tcp_transport_def TcpTransport_connect_def tcp_reach_def
        demo_tcp_net_def demo_addr_def segments_def segs_defs resolved_addr_def extract_client_remote_node_id_def Let_def split: prod.split)
  then show ?thesis by blast
qed

lemma demo_candidates:
  "candidates (demo_world der) demo_iface demo_node True [TlsOverTcp] = [(TlsOverTcp, demo_addr)]"
  by (simp add: candidates_def NodeAddr_get_direct_addrs_def demo_node_def demo_world_def sort_addrs_eq direct_addr_def
      demo_addr_def segments_def segs_defs TransportKind_from_protocol_def)

theorem connect_node_first_witness:
  "\<exists>der (cfg :: (u8, unit, unit, unit) TransportConfig) conn.
     fst (Endpoint_connect_node (demo_world der) demo_node (demo_endpoint cfg)) = Some (Ok conn)"
proof -
  obtain der and cfg :: "(u8, unit, unit, unit) TransportConfig" and conn
    where conn: "fst (world_connect (demo_world der) demo_addr (demo_tcp_transport cfg)) = Some (Ok conn)"
    using demo_connects by blast
  have "fst (Endpoint_connect_node (demo_world der) demo_node (demo_endpoint cfg)) = Some (Ok conn)"
    by (subst connect_node_first [where iface = demo_iface, THEN conjunct1])
      (use conn demo_candidates in \<open>simp_all add: demo_world_def demo_endpoint_def demo_node_def Cons_eq_append_conv\<close>)
  then show ?thesis by blast
qed


text \<open>C19. However a builder is set up, an endpoint that it builds has a transport for exactly its protocols, each
  once, with priorities in the order they were added, and every address that its actor listens on
  is of one of them.\<close>

theorem built_endpoint:
  assumes "builder_init W b" and "(builder_step W)\<^sup>*\<^sup>* b b'" and "EndpointBuilder_build W q b' = Some (Ok (ep, actor))"
  shows "map snd (ep_priority_map ep) = eb_protocols b' \<and> distinct (eb_protocols b') \<and>
    (\<forall>k. ep_transports ep k \<noteq> None \<longleftrightarrow> k \<in> set (eb_protocols b')) \<and>
    (\<forall>a \<in> ea_addrs actor. \<exists>k \<in> set (eb_protocols b'). addr_kind (w_addr W) a = Some k)"
proof -
  from builder.inv_reachable [OF assms(1,2)] have inv: "builder_inv (w_addr W) b'" .
  from assms(3) obtain pm tm where bt: "build_transports W (eb_config b') 0 (eb_protocols b') [] Map.empty = Some (Ok (pm, tm))"
    and ep: "ep_priority_map ep = pm" "ep_transports ep = tm"
    and actor: "ea_addrs actor = (if eb_addrs b' = {}
        then get_unspecified_stack_addrs (w_addr W) (w_default_interface W) (eb_protocols b') else eb_addrs b')"
    by (auto simp: EndpointBuilder_build_def Let_def)
  have "0 + length (eb_protocols b') < 256" using distinct_kinds_length [of "eb_protocols b'"] inv by (simp add: builder_inv_def)
  from build_transports_ok [OF bt this] have "map snd pm = eb_protocols b'" "\<forall>k. tm k \<noteq> None \<longleftrightarrow> k \<in> set (eb_protocols b')" by auto
  moreover have "\<exists>k \<in> set (eb_protocols b'). addr_kind (w_addr W) a = Some k" if "a \<in> ea_addrs actor" for a
  proof (cases "eb_addrs b' = {}")
    case True
    with that inv actor kind_addr_kind [of "w_addr W"] show ?thesis
      by (auto simp: builder_inv_def get_unspecified_stack_addrs_def Let_def)
  next
    case False
    with that inv actor show ?thesis by (simp add: builder_inv_def)
  qed
  ultimately show ?thesis using inv ep by (simp add: builder_inv_def)
qed

lemma demo_resolver: "\<exists>r. Resolver_from_option demo_dns opt = Ok r"
  by (cases opt) (simp_all add: Resolver_from_option_def demo_dns_def Resolver_system_def Resolver_new_def)

lemma segments_identity: "identity_keeps segments"
proof -
  have "segs_udp (a @ [P_NodeId b]) = segs_udp a" "segs_tcp (a @ [P_NodeId b]) = segs_tcp a" for a b
    by (simp_all add: segs_udp_def segs_tcp_def find_map_def List.map_filter_def)
  then show ?thesis by (auto simp: identity_keeps_def segments_def segs_transport_def split: option.split)
qed

lemma demo_builder:
  "\<exists>b :: (u8, unit, unit, unit, segs) EndpointBuilder. builder_init (demo_world der) b \<and> eb_protocols b = [] \<and> eb_addrs b = {}"
proof -
  obtain cfg :: "(u8, unit, unit, unit) TransportConfig"
    where "TransportConfig_new demo_tls demo_rustls (Ok (), Ok ()) (Keypair 5) = Some (Ok cfg)" using demo_TransportConfig by blast
  then have "EndpointBuilder_new (demo_world der) 5 (Ok (), Ok ()) = Some \<lparr> eb_config = cfg, eb_protocols = [], eb_addrs = {},
      eb_listen_enabled = True, eb_allow_loopback = False \<rparr>"
    by (simp add: EndpointBuilder_new_def Let_def demo_world_def Keypair_generate_def w_ed_def Keypair_from_SecretKey_def
        SecretKey_generate_def demo_tls_def demo_ed_def)
  moreover have "stack_addrs (w_addr (demo_world der))" "identity_keeps (w_addr (demo_world der))"
    using segments_laws segments_identity by (simp_all add: demo_world_def)
  ultimately have "builder_init (demo_world der) \<lparr> eb_config = cfg, eb_protocols = [], eb_addrs = {}, eb_listen_enabled = True,
      eb_allow_loopback = False \<rparr>" unfolding builder_init_def by blast
  then show ?thesis by fastforce
qed

theorem built_endpoint_witness:
  "\<exists>b (ep :: (u8, unit, unit, unit, nat, unit, unit, bytes, segs) Endpoint) actor.
     EndpointBuilder_build (demo_world []) 0 (EndpointBuilder_with_tcp b) = Some (Ok (ep, actor)) \<and>
     map snd (ep_priority_map ep) = [TlsOverTcp]"
proof -
  obtain b :: "(u8, unit, unit, unit, segs) EndpointBuilder"
    where b: "builder_init (demo_world []) b" "eb_protocols b = []" using demo_builder by blast
  let ?b = "EndpointBuilder_with_tcp b"
  have step: "(builder_step (demo_world []))\<^sup>*\<^sup>* b ?b" by (intro r_into_rtranclp builder_step.tcp)
  have protos: "eb_protocols ?b = [TlsOverTcp]" using b(2) by (simp add: endpoint_builder_defs)
  have "\<exists>ep actor. EndpointBuilder_build (demo_world []) 0 ?b = Some (Ok (ep, actor))"
    using demo_resolver [of "tc_dns_resolver_option (eb_config ?b)"]
    by (auto simp: EndpointBuilder_build_def protos build_transport_def TcpTransport_new_def demo_world_def Let_def)
  then obtain ep actor where ep: "EndpointBuilder_build (demo_world []) 0 ?b = Some (Ok (ep, actor))" by blast
  with built_endpoint [OF b(1) step ep] protos show ?thesis by metis
qed



end
