(* ===== verification/Hash.thy ===== *)
theory Hash
  imports StreamIo Keys
begin

text \<open>
  \<^verbatim>\<open>foctet-core/src/hash.rs\<close>: hashing of byte arrays and files.

  The hash function is the \<^verbatim>\<open>blake3\<close> crate's and the file system the operating system's: both are
  the parameter \<open>hash_ops\<close>. What is relied on is named: \<open>hash_stream\<close> (feeding a hasher in pieces
  is feeding it the whole, and a digest has 32 bytes) and \<open>hash_files\<close> (the three ways to feed it a
  file feed it what the file holds). The loop over a large array is a partial function: with an
  empty buffer it makes no progress and does not return.
\<close>

section \<open>Parameters\<close>

text \<open>\<open>'h\<close>: a hasher, \<open>'p\<close>: a path, \<open>'d\<close>: an open file.\<close>

record ('h, 'p, 'd) hash_ops =
  h_new :: 'h
  h_update :: "'h \<Rightarrow> bytes \<Rightarrow> 'h"
  h_finalize :: "'h \<Rightarrow> bytes"
  h_update_reader :: "'h \<Rightarrow> 'd \<Rightarrow> 'h result"
  h_update_mmap :: "'h \<Rightarrow> 'p \<Rightarrow> 'h result"
  h_update_mmap_rayon :: "'h \<Rightarrow> 'p \<Rightarrow> 'h result"
  fs_open :: "'p \<Rightarrow> 'd result"
  fs_metadata_len :: "'p \<Rightarrow> u64 result"
  available_parallelism :: "nat result"

definition hash_stream :: "('h, 'p, 'd) hash_ops \<Rightarrow> bool" where
  "hash_stream H \<longleftrightarrow>
     (\<forall>cs. h_finalize H (foldl (h_update H) (h_new H) cs) = h_finalize H (h_update H (h_new H) (concat cs))) \<and>
     (\<forall>h. length (h_finalize H h) = 32)"

definition hash_files :: "('h, 'p, 'd) hash_ops \<Rightarrow> ('p \<Rightarrow> bytes) \<Rightarrow> bool" where
  "hash_files H content \<longleftrightarrow>
     (\<forall>h p d h'. fs_open H p = Ok d \<longrightarrow> h_update_reader H h d = Ok h' \<longrightarrow> h' = h_update H h (content p)) \<and>
     (\<forall>h p h'. h_update_mmap H h p = Ok h' \<longrightarrow> h' = h_update H h (content p)) \<and>
     (\<forall>h p h'. h_update_mmap_rayon H h p = Ok h' \<longrightarrow> h' = h_update H h (content p))"


section \<open>Digests\<close>

definition DEFAULT_HASH_LEN :: nat where "DEFAULT_HASH_LEN = 32"
definition DEFAULT_HASH_BUFFER_SIZE :: nat where "DEFAULT_HASH_BUFFER_SIZE = 16384"
definition CHUNK_THRESHOLD :: nat where "CHUNK_THRESHOLD = 1 * 1024 * 1024"
definition MMAP_THRESHOLD :: u64 where "MMAP_THRESHOLD = 64 * 1024 * 1024"

datatype Blake3Hash = Blake3Hash (hash_bytes: bytes)

definition Blake3Hash_new :: "bytes \<Rightarrow> Blake3Hash" where
  "Blake3Hash_new hash = Blake3Hash hash"

definition Blake3Hash_from_blake3_hash :: "bytes \<Rightarrow> Blake3Hash" where
  "Blake3Hash_from_blake3_hash hash = Blake3Hash hash"

text \<open>\<open>None\<close> is the panic of \<^verbatim>\<open>copy_from_slice\<close>.\<close>

definition Blake3Hash_from_hex :: "text_ops \<Rightarrow> string \<Rightarrow> Blake3Hash option" where
  "Blake3Hash_from_hex T hex =
     (let bytes = (case hex_decode T hex of Inr bs \<Rightarrow> bs | Inl _ \<Rightarrow> [])
      in map_option Blake3Hash (copy_from_slice (replicate DEFAULT_HASH_LEN 0) bytes))"

definition Blake3Hash_to_hex :: "text_ops \<Rightarrow> Blake3Hash \<Rightarrow> string" where
  "Blake3Hash_to_hex T self = hex_encode T (hash_bytes self)"

definition Blake3Hash_to_bytes :: "Blake3Hash \<Rightarrow> bytes" where
  "Blake3Hash_to_bytes self = hash_bytes self"

definition Blake3Hash_zero :: Blake3Hash where
  "Blake3Hash_zero = Blake3Hash (replicate DEFAULT_HASH_LEN 0)"

definition Blake3Hash_is_zero :: "Blake3Hash \<Rightarrow> bool" where
  "Blake3Hash_is_zero self = list_all (\<lambda>x. x = 0) (hash_bytes self)"

definition Blake3Hash_len :: "Blake3Hash \<Rightarrow> nat" where
  "Blake3Hash_len self = length (hash_bytes self)"


section \<open>The hasher\<close>

record Blake3Hasher =
  bh_buffer_size :: nat
  bh_mmap_threshold :: u64

definition Blake3Hasher_new :: Blake3Hasher where
  "Blake3Hasher_new = \<lparr> bh_buffer_size = DEFAULT_HASH_BUFFER_SIZE, bh_mmap_threshold = MMAP_THRESHOLD \<rparr>"

definition Blake3Hasher_with_settings :: "nat \<Rightarrow> u64 \<Rightarrow> Blake3Hasher" where
  "Blake3Hasher_with_settings buffer_size mmap_threshold =
     \<lparr> bh_buffer_size = buffer_size, bh_mmap_threshold = mmap_threshold \<rparr>"

definition calc_bytes_hash :: "('h, 'p, 'd) hash_ops \<Rightarrow> Blake3Hasher \<Rightarrow> bytes \<Rightarrow> bytes result" where
  "calc_bytes_hash H self data =
     (let hasher = h_update H (h_new H) data in Ok (h_finalize H hasher))"

text \<open>The offset never passes the length of the data, and adding the buffer size overflows only
  when the buffer is larger than the data, where the addition is made at offset 0.\<close>

partial_function (option) calc_chunk_loop ::
  "('h, 'p, 'd) hash_ops \<Rightarrow> nat \<Rightarrow> bytes \<Rightarrow> nat \<Rightarrow> 'h \<Rightarrow> 'h option" where
  "calc_chunk_loop H buffer_size data offset hasher =
     (if offset < length data
      then let stop = min (offset + buffer_size) (length data)
           in calc_chunk_loop H buffer_size data stop
                (h_update H hasher (take (stop - offset) (drop offset data)))
      else Some hasher)"

definition calc_bytes_hash_chunk :: "('h, 'p, 'd) hash_ops \<Rightarrow> Blake3Hasher \<Rightarrow> bytes \<Rightarrow> bytes result option" where
  "calc_bytes_hash_chunk H self data =
     map_option (\<lambda>hasher. Ok (h_finalize H hasher)) (calc_chunk_loop H (bh_buffer_size self) data 0 (h_new H))"

definition calculate_hash :: "('h, 'p, 'd) hash_ops \<Rightarrow> Blake3Hasher \<Rightarrow> bytes \<Rightarrow> Blake3Hash result option" where
  "calculate_hash H self data =
     map_option (\<lambda>res. try_bind res (\<lambda>hash. Ok (Blake3Hash_from_blake3_hash hash)))
       (if length data > CHUNK_THRESHOLD then calc_bytes_hash_chunk H self data
        else Some (calc_bytes_hash H self data))"

definition calc_file_hash :: "('h, 'p, 'd) hash_ops \<Rightarrow> 'p \<Rightarrow> bytes result" where
  "calc_file_hash H file_path =
     try_bind (fs_open H file_path) (\<lambda>fd.
       try_bind (h_update_reader H (h_new H) fd) (\<lambda>hasher. Ok (h_finalize H hasher)))"

definition calc_file_hash_mmap :: "('h, 'p, 'd) hash_ops \<Rightarrow> 'p \<Rightarrow> bytes result" where
  "calc_file_hash_mmap H file_path =
     try_bind (h_update_mmap H (h_new H) file_path) (\<lambda>hasher. Ok (h_finalize H hasher))"

definition calc_file_hash_mmap_multithread :: "('h, 'p, 'd) hash_ops \<Rightarrow> 'p \<Rightarrow> bytes result" where
  "calc_file_hash_mmap_multithread H file_path =
     try_bind (h_update_mmap_rayon H (h_new H) file_path) (\<lambda>hasher. Ok (h_finalize H hasher))"

definition calculate_file_hash :: "('h, 'p, 'd) hash_ops \<Rightarrow> Blake3Hasher \<Rightarrow> 'p \<Rightarrow> Blake3Hash result" where
  "calculate_file_hash H self file_path =
     try_bind (fs_metadata_len H file_path) (\<lambda>file_size.
       try_bind
         (if file_size > bh_mmap_threshold self
          then try_bind (available_parallelism H) (\<lambda>parallelism.
                 if parallelism > 1 then calc_file_hash_mmap_multithread H file_path
                 else calc_file_hash_mmap H file_path)
          else calc_file_hash H file_path)
         (\<lambda>hash. Ok (Blake3Hash_from_blake3_hash hash)))"


section \<open>Lemmas\<close>

text \<open>The digest a hasher gives for the whole of some data.\<close>

definition digest :: "('h, 'p, 'd) hash_ops \<Rightarrow> bytes \<Rightarrow> Blake3Hash" where
  "digest H data = Blake3Hash (h_finalize H (h_update H (h_new H) data))"

lemma calc_chunk_loop_ok:
  assumes "0 < n"
  shows "calc_chunk_loop H n data off h = Some (foldl (h_update H) h (chunks n (drop off data)))"
proof (induction "length data - off" arbitrary: off h rule: less_induct)
  case less
  show ?case
  proof (cases "off < length data")
    case False
    then show ?thesis by (subst calc_chunk_loop.simps, subst chunks.simps) simp
  next
    case True
    let ?e = "min (off + n) (length data)"
    have "take (?e - off) (drop off data) = take n (drop off data)" by (simp add: min_def)
    moreover have "chunks n (drop ?e data) = chunks n (drop n (drop off data))"
      by (cases "off + n \<le> length data") (simp_all add: min_def add.commute)
    moreover have "calc_chunk_loop H n data ?e (h_update H h (take n (drop off data))) =
        Some (foldl (h_update H) (h_update H h (take n (drop off data))) (chunks n (drop ?e data)))"
      using True assms by (intro less) simp
    ultimately show ?thesis
      using True assms
      by (subst calc_chunk_loop.simps) (simp add: Let_def chunks.simps [of n "drop off data"])
  qed
qed

lemma calc_chunk_loop_stuck:
  assumes "calc_chunk_loop H 0 data off h = Some r"
  shows "\<not> off < length data"
proof -
  let ?P = "\<lambda>(H :: ('h, 'p, 'd) hash_ops) (n :: nat) (data :: bytes) (off :: nat) (h :: 'h) (r :: 'h).
      n = 0 \<longrightarrow> \<not> off < length data"
  have "?P H 0 data off h r"
  proof (rule calc_chunk_loop.raw_induct [where P = ?P, OF _ assms])
    fix loop :: "('h, 'p, 'd) hash_ops \<Rightarrow> nat \<Rightarrow> bytes \<Rightarrow> nat \<Rightarrow> 'h \<Rightarrow> 'h option" and H n data off h r
    assume IH: "\<And>H n data off h r. loop H n data off h = Some r \<Longrightarrow> ?P H n data off h r"
      and step: "(if off < length data
        then let e = min (off + n) (length data)
             in loop H n data e (h_update H h (take (e - off) (drop off data)))
        else Some h) = Some r"
    show "?P H n data off h r"
    proof (intro impI notI)
      assume "n = 0" and off: "off < length data"
      then have "loop H n data off (h_update H h []) = Some r" using step by simp
      from IH [OF this] \<open>n = 0\<close> off show False by simp
    qed
  qed
  then show ?thesis by simp
qed

lemma calculate_hash_eq:
  assumes "hash_stream H"
  shows "calculate_hash H self data =
    (if bh_buffer_size self = 0 \<and> CHUNK_THRESHOLD < length data then None else Some (Ok (digest H data)))"
proof (cases "CHUNK_THRESHOLD < length data")
  case False
  then show ?thesis
    by (simp add: calculate_hash_def calc_bytes_hash_def digest_def Blake3Hash_from_blake3_hash_def Let_def)
next
  case True
  show ?thesis
  proof (cases "bh_buffer_size self = 0")
    case True
    with \<open>CHUNK_THRESHOLD < length data\<close> calc_chunk_loop_stuck [of H data 0 "h_new H"]
    have "calc_chunk_loop H 0 data 0 (h_new H) = None" by (cases "calc_chunk_loop H 0 data 0 (h_new H)") auto
    with True \<open>CHUNK_THRESHOLD < length data\<close> show ?thesis
      by (simp add: calculate_hash_def calc_bytes_hash_chunk_def)
  next
    case False
    with True assms show ?thesis
      by (simp add: calculate_hash_def calc_bytes_hash_chunk_def calc_chunk_loop_ok digest_def
          Blake3Hash_from_blake3_hash_def hash_stream_def concat_chunks)
  qed
qed

lemma calculate_file_hash_Ok:
  assumes "hash_files H content" and "calculate_file_hash H self p = Ok x"
  shows "x = digest H (content p)"
  using assms by (auto simp: calculate_file_hash_def calc_file_hash_def calc_file_hash_mmap_def
      calc_file_hash_mmap_multithread_def digest_def Blake3Hash_from_blake3_hash_def hash_files_def
      try_bind_Inr_iff split: if_splits)


section \<open>Properties\<close>

text \<open>C22. Hashing does not depend on how it is done: a byte array gets its digest whether or not it is
  fed to the hasher in pieces and whatever the buffer size, except that more than a megabyte
  with an empty buffer never returns; a file gets the digest of what it holds whether it is
  read or mapped, with one thread or several. Every digest has 32 bytes.\<close>

theorem hash_path_independent:
  assumes "hash_stream H" and "hash_files H content"
  shows "calculate_hash H self data =
      (if bh_buffer_size self = 0 \<and> 1048576 < length data then None else Some (Ok (digest H data))) \<and>
    (\<forall>x. calculate_file_hash H self p = Ok x \<longrightarrow> x = digest H (content p)) \<and>
    Blake3Hash_len (digest H data) = 32"
  using calculate_hash_eq [OF assms(1)] calculate_file_hash_Ok [OF assms(2)] assms(1)
  by (simp add: CHUNK_THRESHOLD_def Blake3Hash_len_def digest_def hash_stream_def)

text \<open>A hasher that counts: its state is what it was fed, its digest the number of bytes.\<close>

definition demo_hash :: "(bytes, bytes, bytes) hash_ops" where
  "demo_hash = \<lparr> h_new = [], h_update = (@), h_finalize = (\<lambda>h. replicate 31 0 @ [as_u8 (length h)]),
     h_update_reader = (\<lambda>h d. Ok (h @ d)), h_update_mmap = (\<lambda>h p. Ok (h @ p)),
     h_update_mmap_rayon = (\<lambda>h p. Ok (h @ p)), fs_open = Ok,
     fs_metadata_len = (\<lambda>p. Ok (of_nat (length p))), available_parallelism = Ok 4 \<rparr>"

lemma demo_hash_laws: "hash_stream demo_hash" "hash_files demo_hash (\<lambda>p. p)"
proof -
  have "foldl (@) acc cs = acc @ concat cs" for acc :: bytes and cs
    by (induction cs arbitrary: acc) simp_all
  then show "hash_stream demo_hash" by (simp add: hash_stream_def demo_hash_def)
  show "hash_files demo_hash (\<lambda>p. p)" by (simp add: hash_files_def demo_hash_def)
qed

theorem hash_path_independent_witness:
  "calculate_hash demo_hash (Blake3Hasher_with_settings 7 0) (replicate 2000000 1) =
     Some (Ok (digest demo_hash (replicate 2000000 1))) \<and>
   calculate_hash demo_hash (Blake3Hasher_with_settings 0 0) (replicate 2000000 1) = None \<and>
   calculate_file_hash demo_hash (Blake3Hasher_with_settings 7 0) [1, 2, 3] = Ok (digest demo_hash [1, 2, 3])"
  using hash_path_independent [OF demo_hash_laws, of "Blake3Hasher_with_settings 7 0" "replicate 2000000 1" "[1, 2, 3]"]
    hash_path_independent [OF demo_hash_laws, of "Blake3Hasher_with_settings 0 0" "replicate 2000000 1" "[1, 2, 3]"]
  by (simp add: Blake3Hasher_with_settings_def calculate_file_hash_def demo_hash_def
      calc_file_hash_mmap_multithread_def Blake3Hash_from_blake3_hash_def)

text \<open>A digest survives its hexadecimal form; any text that is not the hexadecimal form of
  exactly 32 bytes, malformed text included, makes reading it panic.\<close>

theorem hash_from_hex:
  "(text_roundtrip T \<longrightarrow> Blake3Hash_len h = 32 \<longrightarrow> Blake3Hash_from_hex T (Blake3Hash_to_hex T h) = Some h) \<and>
   (Blake3Hash_from_hex T s = None \<longleftrightarrow> (\<forall>bs. hex_decode T s = Ok bs \<longrightarrow> length bs \<noteq> 32))"
  by (cases h) (auto simp: Blake3Hash_from_hex_def Blake3Hash_to_hex_def Blake3Hash_len_def text_roundtrip_def
      copy_from_slice_def DEFAULT_HASH_LEN_def split: sum.split)

theorem hash_from_hex_witness:
  "Blake3Hash_from_hex demo_text (Blake3Hash_to_hex demo_text Blake3Hash_zero) = Some Blake3Hash_zero \<and>
   Blake3Hash_from_hex demo_text ''xyz'' = None"
  using hash_from_hex [of demo_text Blake3Hash_zero "''xyz''"] demo_text_laws
  by (simp add: Blake3Hash_len_def Blake3Hash_zero_def DEFAULT_HASH_LEN_def demo_text_def)

end
