(* ===== verification/Utils.thy ===== *)
theory Utils
  imports Hash Dns Defaults
begin

text \<open>
  \<^verbatim>\<open>foctet-core/src/time.rs\<close>, \<^verbatim>\<open>metadata.rs\<close>, \<^verbatim>\<open>utils/bytes.rs\<close> and \<^verbatim>\<open>utils/fs.rs\<close>: timestamps, the metadata of
  a file, sizes for people, paths.

  A \<^verbatim>\<open>SystemTime\<close> is the number of nanoseconds since the epoch, its seconds a signed 64-bit number as on
  Unix. A path is a string of its bytes, as on Unix. What the operating system knows of a path is the
  parameter \<open>fs_ops\<close>. An \<^verbatim>\<open>expect\<close> that fails is \<open>None\<close>.
\<close>

section \<open>Timestamps\<close>

type_synonym SystemTime = int

datatype UnixTimestamp = UnixTimestamp (timestamp: u64)

definition duration_since_epoch :: "SystemTime \<Rightarrow> Duration option" where
  "duration_since_epoch t = (if 0 \<le> t then Some (nat t) else None)"

definition UnixTimestamp_from_system_time :: "SystemTime \<Rightarrow> UnixTimestamp option" where
  "UnixTimestamp_from_system_time t =
     map_option (\<lambda>d. UnixTimestamp (of_nat (d div 1000000000))) (duration_since_epoch t)"

text \<open>\<open>t\<close>: what the clock shows.\<close>

definition UnixTimestamp_now :: "SystemTime \<Rightarrow> UnixTimestamp option" where
  "UnixTimestamp_now t =
     map_option (\<lambda>d. UnixTimestamp (of_nat (d div 1000000000))) (duration_since_epoch t)"

definition UnixTimestamp_to_system_time :: "UnixTimestamp \<Rightarrow> SystemTime option" where
  "UnixTimestamp_to_system_time self =
     (if unat (timestamp self) < 2 ^ 63 then Some (int (Duration_from_secs (unat (timestamp self)))) else None)"

definition UnixTimestamp_from_u64 :: "u64 \<Rightarrow> UnixTimestamp" where
  "UnixTimestamp_from_u64 t = UnixTimestamp t"

definition UnixTimestamp_as_u64 :: "UnixTimestamp \<Rightarrow> u64" where
  "UnixTimestamp_as_u64 self = timestamp self"

definition UnixTimestamp_default :: UnixTimestamp where
  "UnixTimestamp_default = UnixTimestamp 0"


section \<open>Metadata\<close>

record Metadata =
  md_name :: string
  md_size :: nat
  md_hash :: string

record ChunkMetadata =
  cm_chunk_id :: u64
  cm_total_chunks :: u64
  cm_chunk_size :: nat
  cm_total_size :: nat
  cm_offset :: nat
  cm_name :: string

record FileMetadata =
  fm_name :: string
  fm_size :: nat
  fm_hash :: Blake3Hash

record LocalFileMetadata =
  lm_name :: string
  lm_path :: string
  lm_size :: nat
  lm_hash :: Blake3Hash
  lm_is_directory :: bool
  lm_created :: UnixTimestamp
  lm_modified :: UnixTimestamp
  lm_accessed :: UnixTimestamp

text \<open>\<open>dec\<close>, \<open>enc\<close>: \<^verbatim>\<open>bincode\<close> for the type.\<close>

definition FileMetadata_from_bytes ::
  "(bytes \<Rightarrow> (FileMetadata \<times> nat) result) \<Rightarrow> (error \<Rightarrow> string) \<Rightarrow> bytes \<Rightarrow> FileMetadata result" where
  "FileMetadata_from_bytes dec disp bs =
     (case dec bs of
        Inr (file_metadata, _) \<Rightarrow> Ok file_metadata
      | Inl e \<Rightarrow> Err (Anyhow (''Failed to decode file metadata: '' @ disp e)))"

definition FileMetadata_to_bytes :: "(FileMetadata \<Rightarrow> bytes result) \<Rightarrow> FileMetadata \<Rightarrow> bytes result" where
  "FileMetadata_to_bytes enc self = try_bind (enc self) (\<lambda>serialized. Ok serialized)"


section \<open>Sizes\<close>

definition KB :: nat where "KB = 1024"
definition MB :: nat where "MB = KB * 1024"
definition GB :: nat where "GB = MB * 1024"

text \<open>The quotient rounded to the nearest number, to the even one of two.\<close>

definition round_even :: "nat \<Rightarrow> nat \<Rightarrow> nat" where
  "round_even a b =
     (let q = a div b; r = a mod b in if 2 * r < b \<or> 2 * r = b \<and> even q then q else q + 1)"

text \<open>A number as a \<^verbatim>\<open>f64\<close>, which has 53 significant bits.\<close>

fun bit_len :: "nat \<Rightarrow> nat" where
  "bit_len n = (if n = 0 then 0 else Suc (bit_len (n div 2)))"

declare bit_len.simps [simp del]

definition as_f64 :: "nat \<Rightarrow> nat" where
  "as_f64 n = (let e = bit_len n - 53 in if n < 2 ^ 53 then n else round_even n (2 ^ e) * 2 ^ e)"

definition show_2 :: "nat \<Rightarrow> string" where
  "show_2 h = show_nat (h div 100) @ ''.'' @ show_nat (h mod 100 div 10) @ show_nat (h mod 10)"

text \<open>The division by a power of two is exact; two decimals are the number of hundredths.\<close>

definition format_bytes :: "nat \<Rightarrow> string" where
  "format_bytes n =
     (if n \<ge> GB then show_2 (round_even (as_f64 n * 100) GB) @ '' GB''
      else if n \<ge> MB then show_2 (round_even (as_f64 n * 100) MB) @ '' MB''
      else if n \<ge> KB then show_2 (round_even (as_f64 n * 100) KB) @ '' KB''
      else show_nat n @ '' B'')"


section \<open>Paths\<close>

text \<open>\<^verbatim>\<open>PathBuf::push\<close> of the standard library: a path that starts at the root replaces the whole.\<close>

definition PathBuf_push :: "string \<Rightarrow> string \<Rightarrow> string" where
  "PathBuf_push path self =
     (let need_sep = self \<noteq> [] \<and> last self \<noteq> CHR ''/''
      in if path \<noteq> [] \<and> hd path = CHR ''/'' then path
         else if need_sep then self @ ''/'' @ path
         else self @ path)"

fun split_path :: "string \<Rightarrow> string list" where
  "split_path [] = [[]]"
| "split_path (c # cs) =
     (if c = CHR ''/'' then [] # split_path cs
      else (case split_path cs of w # ws \<Rightarrow> (c # w) # ws | [] \<Rightarrow> [[c]]))"

text \<open>\<^verbatim>\<open>Path::file_name\<close>: the last component, if it is a name.\<close>

definition path_file_name :: "string \<Rightarrow> string option" where
  "path_file_name path =
     (let cs = filter (\<lambda>c. c \<noteq> [] \<and> c \<noteq> ''.'') (split_path path)
      in if cs = [] \<or> last cs = ''..'' then None else Some (last cs))"

definition os_str_to_str :: "string \<Rightarrow> string option" where
  "os_str_to_str s = (if valid_utf8 (map (\<lambda>c. of_nat (of_char c)) s) then Some s else None)"

definition unwrap_or_default :: "string option \<Rightarrow> string" where
  "unwrap_or_default s = (case s of Some x \<Rightarrow> x | None \<Rightarrow> [])"

record fs_ops =
  path_is_file :: "string \<Rightarrow> bool"
  path_is_dir :: "string \<Rightarrow> bool"
  path_exists :: "string \<Rightarrow> bool"
  fs_create_dir_all :: "string \<Rightarrow> unit result"
  home_dir :: "string option"

text \<open>\<open>'f\<close>: a file, \<open>'t\<close>: an archive being written.\<close>

definition compress_directory ::
  "(string \<Rightarrow> 'f result) \<Rightarrow> ('f \<Rightarrow> 't) \<Rightarrow> ('t \<Rightarrow> string \<Rightarrow> string \<Rightarrow> 't result) \<Rightarrow> ('t \<Rightarrow> unit result)
     \<Rightarrow> string \<Rightarrow> string \<Rightarrow> unit result" where
  "compress_directory create builder append_dir_all finish dir_path output_file =
     try_bind (create output_file) (\<lambda>tar_gz.
     try_bind (append_dir_all (builder tar_gz) ''.'' dir_path) (\<lambda>tar.
     try_bind (finish tar) (\<lambda>_. Ok ())))"

definition get_file_metadata :: "('h, string, 'd) hash_ops \<Rightarrow> fs_ops \<Rightarrow> string \<Rightarrow> FileMetadata result" where
  "get_file_metadata H F path =
     (if \<not> path_is_file F path then Err (Anyhow ''Path is not a file'')
      else
        try_bind (fs_metadata_len H path) (\<lambda>len.
          let name = unwrap_or_default (os_str_to_str (unwrap_or_default (path_file_name path)));
              hasher = Blake3Hasher_new
          in try_bind (calculate_file_hash H hasher path) (\<lambda>hash.
               Ok \<lparr> fm_name = name, fm_size = unat len, fm_hash = hash \<rparr>)))"

definition DEFAULT_CONFIG_DIR :: string where "DEFAULT_CONFIG_DIR = ''.foctet''"

definition get_user_data_dir_path :: "fs_ops \<Rightarrow> string option" where
  "get_user_data_dir_path F =
     (case home_dir F of
        Some path \<Rightarrow>
          (let path = PathBuf_push DEFAULT_CONFIG_DIR path
           in if \<not> path_exists F path
              then (case fs_create_dir_all F path of Inr _ \<Rightarrow> Some path | Inl e \<Rightarrow> None)
              else Some path)
      | None \<Rightarrow> None)"

definition get_user_data_path :: "fs_ops \<Rightarrow> string \<Rightarrow> string option" where
  "get_user_data_path F relative_path =
     (case get_user_data_dir_path F of
        Some path \<Rightarrow> Some (PathBuf_push relative_path path)
      | None \<Rightarrow> None)"


section \<open>Lemmas\<close>

text \<open>A timestamp survives the trip through the system's time; the other way the fraction of a second is lost.\<close>

lemma timestamp_roundtrip:
  assumes "UnixTimestamp_to_system_time t = Some s"
  shows "UnixTimestamp_from_system_time s = Some t"
  using assms by (cases t) (auto simp: UnixTimestamp_to_system_time_def UnixTimestamp_from_system_time_def
      duration_since_epoch_def Duration_from_secs_def nat_mult_distrib split: if_splits)

lemma system_time_roundtrip:
  assumes "0 \<le> s" and "s < 2 ^ 63 * 1000000000"
  shows "Option.bind (UnixTimestamp_from_system_time s) UnixTimestamp_to_system_time = Some (s - s mod 1000000000)"
proof -
  have d: "nat s div 1000000000 < 2 ^ 63" using assms by (simp add: nat_less_iff less_mult_imp_div_less)
  then have "unat (of_nat (nat s div 1000000000) :: u64) = nat s div 1000000000"
    by (simp add: unat_of_nat)
  moreover have "int (nat s div 1000000000 * 1000000000) = s - s mod 1000000000"
    using assms(1) by (simp add: zdiv_int minus_mod_eq_div_mult)
  ultimately show ?thesis using assms(1) d
    by (simp add: UnixTimestamp_to_system_time_def UnixTimestamp_from_system_time_def duration_since_epoch_def
        Duration_from_secs_def)
qed

text \<open>What is shown is within half a hundredth of the size.\<close>

lemma round_even_near:
  assumes "0 < b"
  shows "2 * a \<le> 2 * (round_even a b * b) + b" and "2 * (round_even a b * b) \<le> 2 * a + b"
proof -
  define q r where "q = a div b" and "r = a mod b"
  have a: "a = q * b + r" and "r < b" using assms by (simp_all add: q_def r_def)
  moreover have "round_even a b = (if 2 * r < b \<or> 2 * r = b \<and> even q then q else q + 1)"
    by (simp add: round_even_def q_def r_def Let_def)
  ultimately show "2 * a \<le> 2 * (round_even a b * b) + b" "2 * (round_even a b * b) \<le> 2 * a + b"
    by (simp_all add: a distrib_right)
qed

text \<open>A file name is one component of a path.\<close>

lemma split_path_plain: "w \<in> set (split_path p) \<Longrightarrow> CHR ''/'' \<notin> set w"
  by (induction p arbitrary: w) (auto split: if_splits list.splits)

lemma file_name_plain:
  assumes "path_file_name p = Some n"
  shows "CHR ''/'' \<notin> set n" and "n \<noteq> []" and "n \<noteq> ''.''" and "n \<noteq> ''..''"
proof -
  let ?cs = "filter (\<lambda>c. c \<noteq> [] \<and> c \<noteq> ''.'') (split_path p)"
  from assms have "?cs \<noteq> []" "n = last ?cs" "n \<noteq> ''..''"
    by (auto simp: path_file_name_def Let_def split: if_splits)
  then have "n \<in> set ?cs" using last_in_set [of ?cs] by simp
  then show "CHR ''/'' \<notin> set n" "n \<noteq> []" "n \<noteq> ''.''" using split_path_plain by auto
  show "n \<noteq> ''..''" by fact
qed

lemma push_plain:
  "CHR ''/'' \<notin> set n \<Longrightarrow> PathBuf_push n dir = (if dir = [] \<or> last dir = CHR ''/'' then dir @ n else dir @ ''/'' @ n)"
  by (cases n) (auto simp: PathBuf_push_def)

lemma push_absolute: "PathBuf_push (CHR ''/'' # n) dir = CHR ''/'' # n"
  by (simp add: PathBuf_push_def)

text \<open>What the metadata of a file says of it.\<close>

lemma get_file_metadata_Inr:
  assumes "hash_files H content" and "get_file_metadata H F path = Ok md"
  shows "path_is_file F path" and "fm_hash md = digest H (content path)" and "CHR ''/'' \<notin> set (fm_name md)"
    and "\<exists>len. fs_metadata_len H path = Ok len \<and> fm_size md = unat len"
proof -
  from assms(2) obtain len hash where md: "path_is_file F path" "fs_metadata_len H path = Ok len"
    "calculate_file_hash H Blake3Hasher_new path = Ok hash"
    "md = \<lparr> fm_name = unwrap_or_default (os_str_to_str (unwrap_or_default (path_file_name path))), fm_size = unat len, fm_hash = hash \<rparr>"
    by (auto simp: get_file_metadata_def Let_def try_bind_Inr_iff split: if_splits)
  then show "path_is_file F path" "fm_hash md = digest H (content path)"
    "\<exists>len. fs_metadata_len H path = Ok len \<and> fm_size md = unat len"
    using calculate_file_hash_Ok [OF assms(1)] by auto
  show "CHR ''/'' \<notin> set (fm_name md)"
    using md(4) file_name_plain(1) [of path] by (auto simp: unwrap_or_default_def os_str_to_str_def split: option.splits if_splits)
qed

end
