(* ===== verification/FileTransfer.thy ===== *)
theory FileTransfer
  imports Endpoint Utils
begin

text \<open>
  The programs of \<^verbatim>\<open>foctet-net/examples\<close> that transfer a file: \<^verbatim>\<open>send_file.rs\<close> serves a file to whoever has its ticket,
  \<^verbatim>\<open>receive_file.rs\<close> fetches it. They put the components together: builder, endpoint, connection, stream, frames, tickets, metadata.

  What a stream will deliver is its \<open>inbox\<close>; awaiting a frame of an empty one waits (\<open>None\<close>). The files of
  the two programs are \<open>file_in\<close> and \<open>file_out\<close>. A result \<open>None\<close> means that the program does not
  get there: it waits for ever, or panics.
\<close>

section \<open>Streams\<close>

record inbox =
  in_items :: "item result list"
  in_ended :: bool
  in_rcvs :: "received list"

definition await_frame ::
  "'w io_env \<Rightarrow> ('w, 'r) Stream \<Rightarrow> inbox \<Rightarrow> states \<Rightarrow> (Frame result \<times> inbox \<times> states) option" where
  "await_frame io stream inb h =
     (case stream of
        Stream_Quic _ \<Rightarrow>
          (case in_items inb of
             item # items \<Rightarrow>
               (let (r, h) = Stream_receive_frame io (Some item) (None, True) stream h
                in Some (r, inb\<lparr> in_items := items \<rparr>, h))
           | [] \<Rightarrow>
               if in_ended inb
               then (let (r, h) = Stream_receive_frame io None (None, True) stream h in Some (r, inb, h))
               else None)
      | Stream_Tcp _ \<Rightarrow>
          (case in_rcvs inb of
             rcv # rcvs \<Rightarrow>
               (let (r, h) = Stream_receive_frame io None rcv stream h
                in Some (r, inb\<lparr> in_rcvs := rcvs \<rparr>, h))
           | [] \<Rightarrow> None))"

text \<open>Each frame that is handled makes the inbox shorter.\<close>

lemma await_frame_less:
  assumes "await_frame io stream inb h = Some (Ok frame, inb', h')"
  shows "length (in_items inb') + length (in_rcvs inb') < length (in_items inb) + length (in_rcvs inb)"
  using assms
  by (auto simp: await_frame_def Stream_receive_frame_def QuicStream_receive_frame_def quic_receive_frame_def
      split: Stream.splits list.splits if_splits prod.splits)

text \<open>The loop of both servers over the frames of a stream: what a handler answers, and whether it goes on. The
  result says what was handed out and whether the loop is still running.\<close>

function stream_loop ::
  "'w io_env \<Rightarrow> (Frame \<Rightarrow> (bool \<times> handed) option) \<Rightarrow> ('w, 'r) Stream \<Rightarrow> inbox \<Rightarrow> states
     \<Rightarrow> (handed \<times> states \<times> bool) option" where
  "stream_loop io handler stream inb h =
     (case await_frame io stream inb h of
        None \<Rightarrow> Some ([], h, True)
      | Some (Inl e, inb', h') \<Rightarrow> Some ([], h', False)
      | Some (Inr frame, inb', h') \<Rightarrow>
          (case handler frame of
             None \<Rightarrow> None
           | Some (goes_on, out) \<Rightarrow>
               if goes_on then map_option (apfst ((@) out)) (stream_loop io handler stream inb' h')
               else Some (out, h', False)))"
  by pat_completeness auto
termination
  by (relation "measure (\<lambda>(io, handler, stream, inb, h). length (in_items inb) + length (in_rcvs inb))")
    (auto dest: await_frame_less)

declare stream_loop.simps [simp del]

text \<open>Accepting the streams of a connection, until one cannot be.\<close>

fun accept_loop ::
  "('s, 't, 'w, 'r) stream_source list \<Rightarrow> ('a, 'q) Connection \<Rightarrow> states \<Rightarrow> ('w, 'r) Stream list \<times> ('a, 'q) Connection \<times> states" where
  "accept_loop [] conn h = ([], conn, h)"
| "accept_loop (src # srcs) conn h =
     (case Connection_accept_stream src conn h of
        (Inr stream, conn, h) \<Rightarrow> (let (streams, conn, h) = accept_loop srcs conn h in (stream # streams, conn, h))
      | (Inl e, conn, h) \<Rightarrow> ([], conn, h))"

text \<open>The task of a connection: every accepted stream is handled by a task of its own, which panics without
  touching the others.\<close>

definition serve_connection where
  "serve_connection handler srcs inbs conn h =
     (let (streams, conn, h) = accept_loop srcs conn h
      in (map2 (\<lambda>stream inb. handler stream inb h) streams inbs, conn, h))"

text \<open>The loop of both servers over \<^verbatim>\<open>endpoint.accept()\<close>, which starts a task for each connection: what the tasks do
  and whether the program has ended.\<close>

function serve_loop where
  "serve_loop closed endpoint task queues =
     (case Endpoint_accept closed endpoint queues of
        None \<Rightarrow> ([], False)
      | Some (None, queues') \<Rightarrow> ([], True)
      | Some (Some conn, queues') \<Rightarrow>
          (let (outs, ended) = serve_loop closed endpoint task queues' in (task conn # outs, ended)))"
  by pat_completeness auto
termination
  by (relation "measure (\<lambda>(closed, endpoint, task, queues). length (queues (conn_receiver (ep_listener endpoint))))")
    (auto simp: Endpoint_accept_def ListenerHandle_accept_def split: list.splits if_splits)

declare serve_loop.simps [simp del]


section \<open>Serving a file\<close>

record file_stores =
  METADATA_STORE :: "ContentId \<rightharpoonup> FileMetadata"
  LOCALPATH_STORE :: "ContentId \<rightharpoonup> string"

definition empty_stores :: file_stores where
  "empty_stores = \<lparr> METADATA_STORE = Map.empty, LOCALPATH_STORE = Map.empty \<rparr>"

record file_in =
  f_open :: "string \<Rightarrow> unit result"
  f_reads :: "string \<Rightarrow> bytes result list"

definition metadata_frame :: "StreamId \<Rightarrow> bytes \<Rightarrow> Frame" where
  "metadata_frame stream_id payload =
     FrameBuilder_build (FrameBuilder_with_fin True (FrameBuilder_with_payload payload
       (FrameBuilder_with_frame_type FileMeta (FrameBuilder_as_response
         (FrameBuilder_with_stream_id stream_id Frame_builder)))))"

text \<open>What \<^verbatim>\<open>handle_stream\<close> does with a frame.\<close>

definition handle_frame ::
  "'w io_env \<Rightarrow> (FileMetadata \<Rightarrow> bytes result) \<Rightarrow> file_in \<Rightarrow> file_stores \<Rightarrow> ('w, 'r) Stream \<Rightarrow> Frame
     \<Rightarrow> (bool \<times> handed) option" where
  "handle_frame io enc fi st stream frame =
     (if hdr_frame_type (fr_header frame) = ContentRequest
      then case UuidV4_from_bytes (fr_payload frame) of
             Inl e \<Rightarrow> Some (False, [])
           | Inr cid \<Rightarrow>
               (case METADATA_STORE st cid of
                  None \<Rightarrow> Some (False, [])
                | Some metadata \<Rightarrow>
                    (case FileMetadata_to_bytes enc metadata of
                       Inl e \<Rightarrow> None
                     | Inr payload \<Rightarrow>
                         (case Stream_send_frame io stream (metadata_frame (Stream_stream_id stream) payload) of
                            (Inl e, out) \<Rightarrow> Some (False, out)
                          | (Inr _, out) \<Rightarrow>
                              (case LOCALPATH_STORE st cid of
                                 None \<Rightarrow> Some (False, out)
                               | Some file_path \<Rightarrow>
                                   (case Stream_send_file io (f_open fi file_path) (f_reads fi file_path) stream of
                                      None \<Rightarrow> None
                                    | Some (Inr _, out') \<Rightarrow> Some (True, out @ out')
                                    | Some (Inl e, out') \<Rightarrow> Some (False, out @ out'))))))
      else Some (True, []))"

definition handle_stream ::
  "'w io_env \<Rightarrow> (FileMetadata \<Rightarrow> bytes result) \<Rightarrow> file_in \<Rightarrow> file_stores \<Rightarrow> ('w, 'r) Stream \<Rightarrow> inbox \<Rightarrow> states
     \<Rightarrow> (handed \<times> states \<times> bool) option" where
  "handle_stream io enc fi st stream inb h = stream_loop io (handle_frame io enc fi st stream) stream inb h"

text \<open>The endpoint of the sender: \<open>k\<close>, \<open>gens\<close> are what \<^verbatim>\<open>Endpoint::builder()\<close> generates, \<open>gens'\<close> what setting the keypair
  does.\<close>

definition send_endpoint where
  "send_endpoint W k gens keypair gens' addr allow q =
     Option.bind (Endpoint_builder W k gens) (\<lambda>b.
     Option.bind (EndpointBuilder_with_keypair W gens' keypair b) (\<lambda>b.
       (case EndpointBuilder_with_addr (w_addr W) addr b of
          Inl e \<Rightarrow> Some (Err e)
        | Inr b \<Rightarrow>
            EndpointBuilder_build W q (EndpointBuilder_with_max_write_buffer_size (EndpointBuilder_allow_loopback allow b)))))"

text \<open>\<^verbatim>\<open>main\<close> up to the loop that accepts connections: the ticket, the stores, the endpoint with its actor.
  \<open>key\<close>: the generated key, \<open>uid\<close>: the generated identifier.\<close>

definition send_main where
  "send_main W T H F tenc k gens key gens' uid server_addr file_path allow q =
     panic_bind (Some server_addr) (\<lambda>addr.
       let keypair = Keypair_generate (w_ed W) key
       in panic_bind (send_endpoint W k gens keypair gens' addr allow q) (\<lambda>(endpoint, actor).
          panic_bind (Some (get_file_metadata H F file_path)) (\<lambda>file_metadata.
            Option.bind (UuidV4_new uid) (\<lambda>content_id.
              let st = empty_stores\<lparr> METADATA_STORE := [content_id \<mapsto> file_metadata],
                                     LOCALPATH_STORE := [content_id \<mapsto> file_path] \<rparr>;
                  ticket = TransferTicket_new (Endpoint_node_addr (w_ed W) endpoint) content_id
              in panic_bind (Some (TransferTicket_to_base32 T tenc ticket)) (\<lambda>ticket_base32.
                   Some (Ok (ticket_base32, st, endpoint, actor)))))))"

text \<open>The loop that follows: \<open>inboxes_of\<close> and \<open>srcs_of\<close> say what arrives on a connection.\<close>

definition send_serve where
  "send_serve io enc fi st closed srcs_of inboxes_of endpoint queues h =
     serve_loop closed endpoint
       (\<lambda>conn. fst (serve_connection (handle_stream io enc fi st) (srcs_of conn) (inboxes_of conn) conn h)) queues"


section \<open>Fetching a file\<close>

record file_out =
  f_create :: "string \<Rightarrow> unit result"
  f_write :: "string \<Rightarrow> bytes \<Rightarrow> bytes \<Rightarrow> unit result"
  f_flush :: "string \<Rightarrow> unit result"

definition content_request_frame :: "StreamId \<Rightarrow> ContentId \<Rightarrow> Frame" where
  "content_request_frame stream_id cid =
     FrameBuilder_build (FrameBuilder_with_payload (UuidV4_to_bytes cid)
       (FrameBuilder_with_frame_type ContentRequest (FrameBuilder_with_fin True
         (FrameBuilder_with_stream_id stream_id Frame_builder))))"

definition save_target :: "fs_ops \<Rightarrow> string \<Rightarrow> FileMetadata \<Rightarrow> string" where
  "save_target F save_path file_metadata =
     (if path_is_dir F save_path then PathBuf_push (fm_name file_metadata) save_path else save_path)"

text \<open>The exchange over the stream: the outcome, the file that was written if any, what was handed out.\<close>

definition download ::
  "'w io_env \<Rightarrow> (bytes \<Rightarrow> (FileMetadata \<times> nat) result) \<Rightarrow> (error \<Rightarrow> string) \<Rightarrow> fs_ops \<Rightarrow> file_out \<Rightarrow> string \<Rightarrow> ContentId
     \<Rightarrow> ('w, 'r) Stream \<Rightarrow> inbox \<Rightarrow> states \<Rightarrow> ((unit result \<times> (string \<times> bytes) option) \<times> handed \<times> states) option" where
  "download io dec disp F fo save_path content_id stream inb h =
     (case Stream_send_frame io stream (content_request_frame (Stream_stream_id stream) content_id) of
        (Inl e, out) \<Rightarrow> Some ((Err e, None), out, h)
      | (Inr _, out) \<Rightarrow>
          (case await_frame io stream inb h of
             None \<Rightarrow> None
           | Some (Inl e, inb, h) \<Rightarrow> Some ((Err e, None), out, h)
           | Some (Inr frame, inb, h) \<Rightarrow>
               (if hdr_frame_type (fr_header frame) = FileMeta
                then case FileMetadata_from_bytes dec disp (fr_payload frame) of
                       Inl e \<Rightarrow> Some ((Err e, None), out, h)
                     | Inr file_metadata \<Rightarrow>
                         (let path = save_target F save_path file_metadata
                          in case Stream_receive_file (f_create fo path) (f_write fo path) (f_flush fo path)
                                    (in_items inb) (in_ended inb) (in_rcvs inb) stream (fm_size file_metadata) h of
                               None \<Rightarrow> None
                             | Some ((Inl e, written), h) \<Rightarrow> Some ((Err e, Some (path, written)), out, h)
                             | Some ((Inr len, written), h) \<Rightarrow> Some ((Ok (), Some (path, written)), out, h))
                else Some ((Err (Anyhow ''Invalid frame payload''), None), out, h))))"

definition receive_endpoint where
  "receive_endpoint W k gens keypair gens' allow q =
     Option.bind (Endpoint_builder W k gens) (\<lambda>b.
     Option.bind (EndpointBuilder_with_keypair W gens' keypair b) (\<lambda>b.
       EndpointBuilder_build W q (EndpointBuilder_with_max_read_buffer_size (EndpointBuilder_allow_loopback allow
         (EndpointBuilder_without_listen (EndpointBuilder_with_tcp (EndpointBuilder_with_quic b)))))))"

text \<open>The end of both clients: closing the stream and the connection.\<close>

definition close_both where
  "close_both io cl shut stream conn h =
     (case Stream_close io stream h of
        ((Inl e, out), h) \<Rightarrow> (Err e, out, conn, h)
      | ((Inr _, out), h) \<Rightarrow> (let (r, conn) = Connection_close cl shut conn in (r, out, conn, h)))"

definition receive_main where
  "receive_main W T tdec disp io dec F fo src cl shut k gens key gens' ticket_base32 save_path allow q inb h =
     (case TransferTicket_from_base32 T tdec disp ticket_base32 of
        Inl e \<Rightarrow> Some ((Err e, None), [])
      | Inr ticket \<Rightarrow>
          (case receive_endpoint W k gens (Keypair_generate (w_ed W) key) gens' allow q of
             None \<Rightarrow> None
           | Some (Inl e) \<Rightarrow> Some ((Err e, None), [])
           | Some (Inr (endpoint, actor)) \<Rightarrow>
               (case fst (Endpoint_connect_node W (tt_node_addr ticket) endpoint) of
                  None \<Rightarrow> None
                | Some (Inl e) \<Rightarrow> Some ((Err e, None), [])
                | Some (Inr conn) \<Rightarrow>
                    (case Connection_open_stream src conn h of
                       (Inl e, conn, h) \<Rightarrow> Some ((Err e, None), [])
                     | (Inr stream, conn, h) \<Rightarrow>
                         (case download io dec disp F fo save_path (tt_content_id ticket) stream inb h of
                            None \<Rightarrow> None
                          | Some ((Inl e, written), out, h) \<Rightarrow> Some ((Err e, written), out)
                          | Some ((Inr _, written), out, h) \<Rightarrow>
                              (case close_both io cl shut stream conn h of
                                 (r, out', conn, h) \<Rightarrow> Some ((r, written), out @ out')))))))"


section \<open>Lemmas\<close>

text \<open>What one side hands out, as the other side's inbox.\<close>

definition delivered :: "handed \<Rightarrow> inbox" where
  "delivered out = \<lparr> in_items = map Ok (handed_items out), in_ended = False,
     in_rcvs = arriving (event_frames (handed_events out)) \<rparr>"

lemma handed_append [simp]:
  "handed_items (a @ b) = handed_items a @ handed_items b" "handed_events (a @ b) = handed_events a @ handed_events b"
  by (simp_all add: handed_items_def handed_events_def List.map_filter_def)

lemma event_frames_append [simp]: "event_frames (a @ b) = event_frames a @ event_frames b"
  by (induction a rule: event_frames.induct) simp_all

text \<open>What \<^verbatim>\<open>bincode\<close> documents: decoding what it encoded gives the value back.\<close>

definition serde_roundtrip :: "('x \<Rightarrow> bytes result) \<Rightarrow> (bytes \<Rightarrow> ('x \<times> nat) result) \<Rightarrow> bool" where
  "serde_roundtrip enc dec \<longleftrightarrow> (\<forall>x bs. enc x = Ok bs \<longrightarrow> (\<exists>n. dec bs = Ok (x, n)))"

definition ideal_io :: "'w io_env \<Rightarrow> bool" where
  "ideal_io io \<longleftrightarrow> buf_ints (io_buf io) \<and> io_sink io = sink_ok \<and> io_events io = (\<lambda>_ _. True)"

text \<open>A frame that one side sends is the next frame that the other side receives.\<close>

lemma frame_arrives:
  assumes "same_transport s t" and "ideal_io io" and "Frame_canonical f"
  shows "\<exists>out f'. Stream_send_frame io s f = (Ok (), out) \<and>
    (\<forall>later h. \<exists>h'. await_frame io t (delivered (out @ later)) h = Some (Ok f', delivered later, h')) \<and>
    hdr_frame_type (fr_header f') = hdr_frame_type (fr_header f) \<and> fr_payload f' = fr_payload f"
proof (cases "(s, t)" rule: same_transport.cases)
  case (1 qs qt)
  from assms(2) have B: "buf_ints (io_buf io)" by (simp add: ideal_io_def)
  obtain bs where bs: "Frame_to_bytes (io_buf io) f = Ok bs" by (simp add: Frame_to_bytes_eq)
  have decoded: "Frame_from_bytes (io_buf io) bs = Ok (with_wire_len f)"
    using bs buf_ints.Frame_from_bytes_header [OF B] assms(3)
    by (auto simp: Frame_to_bytes_eq frame_header_bytes_def decoded_header_canonical with_wire_len_def)
  show ?thesis
    by (rule exI [of _ "[Inl bs]"], rule exI [of _ "with_wire_len f"])
      (use 1 assms(2) bs decoded in \<open>auto simp: Stream_send_frame_def QuicStream_send_frame_def ideal_io_def sink_ok_def await_frame_def
        delivered_def Stream_receive_frame_def QuicStream_receive_frame_def quic_receive_frame_def with_wire_len_def
        handed_items_def handed_events_def map_filter_simps\<close>)
next
  case (2 ts tt)
  show ?thesis
    by (rule exI [of _ "[Inr (EvFrame f)]"], rule exI [of _ f])
      (use 2 assms(2) in \<open>auto simp: Stream_send_frame_def LogicalTcpStream_send_frame_def LogicalStreamWriter_send_frame_def
        ideal_io_def await_frame_def delivered_def Stream_receive_frame_def LogicalTcpStream_receive_frame_def
        tcp_receive_frame_def recv_frame_Some handed_items_def handed_events_def map_filter_simps\<close>)
qed (use assms(1) in auto)

lemma await_empty: "await_frame io t (delivered []) h = None"
  by (simp add: await_frame_def delivered_def handed_items_def handed_events_def map_filter_simps split: Stream.split)

lemma transfer_frames_canonical:
  "Frame_canonical (content_request_frame i cid)" "Frame_canonical (metadata_frame i payload)"
  by (simp_all add: content_request_frame_def metadata_frame_def Frame_canonical_def Frame.builder_defs FrameFlags_set_flag_def
      FrameHeader_empty_def)

lemma transfer_frames_fields:
  "hdr_frame_type (fr_header (content_request_frame i cid)) = ContentRequest"
  "fr_payload (content_request_frame i cid) = uuid_bytes cid"
  "hdr_frame_type (fr_header (metadata_frame i payload)) = FileMeta"
  "fr_payload (metadata_frame i payload) = payload"
  by (simp_all add: content_request_frame_def metadata_frame_def Frame.builder_defs UuidV4_to_bytes_def)

lemma same_transport_sym: "same_transport s t \<Longrightarrow> same_transport t s"
  by (cases "(s, t)" rule: same_transport.cases) auto

text \<open>The server's answer to a request for a registered file: the metadata, then the file.\<close>

lemma request_answered:
  assumes "ideal_io io" and "METADATA_STORE st cid = Some md" and "LOCALPATH_STORE st cid = Some path"
    and "enc md = Ok bs" and "Stream_send_frame io s (metadata_frame (Stream_stream_id s) bs) = (Ok (), out1)"
    and "Stream_send_file io (f_open fi path) (f_reads fi path) s = Some (Ok (), out2)"
    and "hdr_frame_type (fr_header f) = ContentRequest" and "fr_payload f = uuid_bytes cid" and "length (uuid_bytes cid) = 16"
  shows "handle_frame io enc fi st s f = Some (True, out1 @ out2)"
  using assms by (cases cid) (simp add: handle_frame_def UuidV4_from_bytes_def UUID_V4_BYTES_LEN_def FileMetadata_to_bytes_def)

text \<open>An endpoint that is built keeps the configuration of its builder.\<close>

lemma built_config: "EndpointBuilder_build W q b = Some (Ok (ep, actor)) \<Longrightarrow> ep_config ep = eb_config b"
  by (auto simp: EndpointBuilder_build_def Let_def)

lemma sender_identity:
  assumes "send_endpoint W k gens kp gens' addr allow q = Some (Ok (ep, actor))"
  shows "Endpoint_node_id (w_ed W) ep = Keypair_public (w_ed W) kp"
proof -
  from assms obtain b b' b'' where b': "EndpointBuilder_with_keypair W gens' kp b = Some b'"
    and b'': "EndpointBuilder_with_addr (w_addr W) addr b' = Ok b''"
    and ep: "EndpointBuilder_build W q (EndpointBuilder_with_max_write_buffer_size (EndpointBuilder_allow_loopback allow b'')) = Some (Ok (ep, actor))"
    by (auto simp: send_endpoint_def Option.bind_eq_Some_conv not_Inl_iff split: sum.splits)
  from b' have "tc_keypair (eb_config b') = kp"
    by (auto simp: EndpointBuilder_with_keypair_def split: option.splits prod.splits sum.splits
        dest: TransportConfig_set_keypair_verifier(2))
  moreover from b'' have "eb_config b'' = eb_config b'"
    by (auto simp: EndpointBuilder_with_addr_def Let_def EndpointBuilder_push_protocol_def)
  ultimately show ?thesis using built_config [OF ep]
    by (simp add: Endpoint_node_id_def EndpointBuilder_with_max_write_buffer_size_def EndpointBuilder_allow_loopback_def)
qed

lemma stream_loop_step:
  assumes "await_frame io s inb h = Some (Ok f, inb', h')" and "handler f = Some (True, out)"
  shows "stream_loop io handler s inb h = map_option (apfst ((@) out)) (stream_loop io handler s inb' h')"
  using assms by (subst stream_loop.simps) simp

lemma stream_loop_waits: "stream_loop io handler s (delivered []) h = Some ([], h, True)"
  by (subst stream_loop.simps) (simp add: await_empty)

text \<open>Every connection that is waiting gets a task; the program ends only when the endpoint is gone.\<close>

lemma serve_loop_all:
  "serve_loop closed endpoint task queues = (map task (queues (conn_receiver (ep_listener endpoint))), closed)"
proof (induction "queues (conn_receiver (ep_listener endpoint))" arbitrary: queues)
  case Nil
  then show ?case
    by (subst serve_loop.simps) (simp add: Endpoint_accept_def ListenerHandle_accept_def split: list.splits)
next
  case (Cons conn conns)
  from Cons.hyps(1) [of "queues(conn_receiver (ep_listener endpoint) := conns)"] Cons.hyps(2) show ?case
    by (subst serve_loop.simps) (simp add: Endpoint_accept_def ListenerHandle_accept_def flip: Cons.hyps(2))
qed


section \<open>Properties\<close>

text \<open>C3. A transfer between the two programs, over either transport: the client's request, delivered to the
  server, is answered with what, delivered to the client, makes it write exactly the file, where
  its arguments say, and end without error; the server goes on serving the stream.\<close>

theorem file_transfer:
  assumes "same_transport client server" and "ideal_io io" and "METADATA_STORE st cid = Some md"
    and "LOCALPATH_STORE st cid = Some path" and "length (uuid_bytes cid) = 16" and "fm_size md = length content"
    and "f_open fi path = Ok ()" and "file_reads n content cs (f_reads fi path)" and "0 < n" and "content \<noteq> []"
    and "enc md = Ok bs" and "dec bs = Ok (md, k)"
    and "fo = \<lparr> f_create = (\<lambda>_. Ok ()), f_write = (\<lambda>_ _ _. Ok ()), f_flush = (\<lambda>_. Ok ()) \<rparr>"
  shows "\<exists>request answer h1 h2.
    Stream_send_frame io client (content_request_frame (Stream_stream_id client) cid) = (Ok (), request) \<and>
    handle_stream io enc fi st server (delivered request) h = Some (answer, h1, True) \<and>
    download io dec disp F fo save_path cid client (delivered answer) h' =
      Some ((Ok (), Some (save_target F save_path md, content)), request, h2)"
proof -
  from frame_arrives [OF assms(1,2) transfer_frames_canonical(1) [of "Stream_stream_id client" cid]] obtain request f h1
    where request: "Stream_send_frame io client (content_request_frame (Stream_stream_id client) cid) = (Ok (), request)"
      and f: "await_frame io server (delivered (request @ [])) h = Some (Ok f, delivered [], h1)"
      "hdr_frame_type (fr_header f) = ContentRequest" "fr_payload f = uuid_bytes cid"
    unfolding transfer_frames_fields by meson
  have rev: "same_transport server client" using assms(1) by (rule same_transport_sym)
  from frame_arrives [OF rev assms(2) transfer_frames_canonical(2) [of "Stream_stream_id server" bs]] obtain out1 g
    where out1: "Stream_send_frame io server (metadata_frame (Stream_stream_id server) bs) = (Ok (), out1)"
      and g: "\<forall>later h. \<exists>h'. await_frame io client (delivered (out1 @ later)) h = Some (Ok g, delivered later, h')"
      "hdr_frame_type (fr_header g) = FileMeta" "fr_payload g = bs"
    unfolding transfer_frames_fields by (elim exE conjE) (rule that; assumption)
  have io: "io_sink io = sink_ok" "io_events io = (\<lambda>_ _. True)" using assms(2) by (simp_all add: ideal_io_def)
  note arrives = stream_file_arrives [OF assms(8,9,10) rev io]
  from arrives [of h] obtain out2 where out2: "Stream_send_file io (Ok ()) (f_reads fi path) server = Some (Ok (), out2)" by blast
  then have out2': "Stream_send_file io (f_open fi path) (f_reads fi path) server = Some (Ok (), out2)" by (simp add: assms(7))
  from g(1) obtain h2 where h2: "await_frame io client (delivered (out1 @ out2)) h' = Some (Ok g, delivered out2, h2)" by blast
  from arrives [of h2] out2 obtain h3 where h3: "Stream_receive_file (Ok ()) (\<lambda>_ _. Ok ()) (Ok ()) (in_items (delivered out2))
      (in_ended (delivered out2)) (in_rcvs (delivered out2)) client (length content) h2 = Some ((Ok (length content), content), h3)"
    by (auto simp: delivered_def)
  have "handle_frame io enc fi st server f = Some (True, out1 @ out2)"
    by (rule request_answered [where enc = enc and md = md and bs = bs, OF assms(2,3,4,11) out1 out2' f(2,3) assms(5)])
  then have "handle_stream io enc fi st server (delivered request) h = Some (out1 @ out2, h1, True)"
    using stream_loop_step [OF f(1) [unfolded append_Nil2]] by (simp add: handle_stream_def stream_loop_waits)
  moreover have "download io dec disp F fo save_path cid client (delivered (out1 @ out2)) h' =
      Some ((Ok (), Some (save_target F save_path md, content)), request, h3)"
    using request h2 g(2,3) assms(6,12,13) h3 by (simp add: download_def FileMetadata_from_bytes_def)
  ultimately show ?thesis using request by blast
qed

definition demo_io :: "unit io_env" where
  "demo_io = \<lparr> io_buf = be_ops, io_sink = sink_ok, io_events = (\<lambda>_ _. True), io_finish = (\<lambda>_. Ok ()) \<rparr>"

definition demo_cid :: ContentId where
  "demo_cid = UuidV4 (replicate 16 7)"

definition demo_md :: "string \<Rightarrow> FileMetadata" where
  "demo_md name = \<lparr> fm_name = name, fm_size = 3, fm_hash = Blake3Hash_zero \<rparr>"

definition demo_stores :: "string \<Rightarrow> file_stores" where
  "demo_stores name = \<lparr> METADATA_STORE = [demo_cid \<mapsto> demo_md name], LOCALPATH_STORE = [demo_cid \<mapsto> ''a.bin''] \<rparr>"

definition demo_in :: file_in where
  "demo_in = \<lparr> f_open = (\<lambda>_. Ok ()), f_reads = (\<lambda>_. [Ok [1, 2], Ok [3], Ok []]) \<rparr>"

definition demo_out :: file_out where
  "demo_out = \<lparr> f_create = (\<lambda>_. Ok ()), f_write = (\<lambda>_ _ _. Ok ()), f_flush = (\<lambda>_. Ok ()) \<rparr>"

definition demo_fs :: fs_ops where
  "demo_fs = \<lparr> path_is_file = (\<lambda>_. True), path_is_dir = (\<lambda>p. p = ''dl''), path_exists = (\<lambda>_. True),
     fs_create_dir_all = (\<lambda>_. Ok ()), home_dir = None \<rparr>"

lemma demo_io_ideal: "ideal_io demo_io"
  using be.buf_ints_axioms by (simp add: ideal_io_def demo_io_def)

theorem file_transfer_witness:
  "\<exists>answer h2. download demo_io (\<lambda>_. Ok (demo_md ''a.bin'', 0)) (\<lambda>_. []) demo_fs demo_out ''dl'' demo_cid
      (Stream_Tcp demo_tcp :: (unit, unit) Stream) (delivered answer) (\<lambda>_. Mutex_new Established) =
    Some ((Ok (), Some (''dl/a.bin'', [1, 2, 3])), [Inr (EvFrame (content_request_frame (tst_stream_id demo_tcp) demo_cid))], h2)"
proof -
  let ?s = "Stream_Tcp demo_tcp :: (unit, unit) Stream"
  have "\<exists>request answer h1 h2.
    Stream_send_frame demo_io ?s (content_request_frame (Stream_stream_id ?s) demo_cid) = (Ok (), request) \<and>
    handle_stream demo_io (\<lambda>_. Ok [9]) demo_in (demo_stores ''a.bin'') ?s (delivered request)
      (\<lambda>_. Mutex_new Established) = Some (answer, h1, True) \<and>
    download demo_io (\<lambda>_. Ok (demo_md ''a.bin'', 0)) (\<lambda>_. []) demo_fs demo_out ''dl'' demo_cid ?s
      (delivered answer) (\<lambda>_. Mutex_new Established) =
      Some ((Ok (), Some (save_target demo_fs ''dl'' (demo_md ''a.bin''), [1, 2, 3])), request, h2)"
    by (rule file_transfer [where n = 2 and cs = "[[1, 2], [3]]" and path = "''a.bin''" and bs = "[9]" and k = 0])
      (simp_all add: demo_io_ideal demo_stores_def demo_cid_def demo_md_def demo_in_def demo_out_def file_reads_def)
  moreover have "save_target demo_fs ''dl'' (demo_md ''a.bin'') = ''dl/a.bin''" by code_simp
  moreover have "Stream_send_frame demo_io ?s (content_request_frame (Stream_stream_id ?s) demo_cid) =
      (Ok (), [Inr (EvFrame (content_request_frame (tst_stream_id demo_tcp) demo_cid))])"
    by (simp add: Stream_send_frame_def LogicalTcpStream_send_frame_def LogicalStreamWriter_send_frame_def demo_io_def
        Stream_stream_id_def LogicalTcpStream_stream_id_def)
  ultimately show ?thesis by (metis Pair_inject)
qed

text \<open>A request for content that is not registered, or with a payload that is no identifier, ends the serving
  of its stream; nothing is sent, whatever came before in the inbox.\<close>

theorem unknown_content_refused:
  assumes "await_frame io s inb h = Some (Ok f, inb', h')" and "hdr_frame_type (fr_header f) = ContentRequest"
    and "length (fr_payload f) = 16 \<longrightarrow> METADATA_STORE st (UuidV4 (fr_payload f)) = None"
  shows "handle_stream io enc fi st s inb h = Some ([], h', False)"
proof -
  have "handle_frame io enc fi st s f = Some (False, [])"
    using assms(2,3) by (simp add: handle_frame_def UuidV4_from_bytes_def UUID_V4_BYTES_LEN_def)
  with assms(1) show ?thesis by (subst handle_stream_def, subst stream_loop.simps) simp
qed

theorem unknown_content_refused_witness:
  "handle_stream demo_io (\<lambda>_. Ok [9]) demo_in (demo_stores ''a.bin'') (Stream_Tcp demo_tcp :: (unit, unit) Stream)
     (delivered [Inr (EvFrame (content_request_frame (StreamId 3) (UuidV4 (replicate 16 8))))]) (\<lambda>_. Mutex_new Established) =
   Some ([], LogicalStreamReader_set_state_from_flags (tst_framed_reader demo_tcp)
     (hdr_flags (fr_header (content_request_frame (StreamId 3) (UuidV4 (replicate 16 8))))) (\<lambda>_. Mutex_new Established), False)"
  by (rule unknown_content_refused [where f = "content_request_frame (StreamId 3) (UuidV4 (replicate 16 8))" and inb' = "delivered []"])
    (simp_all add: await_frame_def delivered_def handed_events_def handed_items_def map_filter_simps Stream_receive_frame_def
      LogicalTcpStream_receive_frame_def tcp_receive_frame_def recv_frame_Some transfer_frames_fields demo_stores_def demo_cid_def)


definition demo_answer :: handed where
  "demo_answer = [Inr (EvFrame (metadata_frame (StreamId 3) [9])), Inr (EvFrame (file_frame (StreamId 3) [1, 2, 3]))]"


text \<open>C40. The ticket that the sender shows, read by the receiver, names the sender: its identity is the
  sender's public key, its addresses are the ones the sender's endpoint advertises, and its content is the
  one content that the sender serves, with the digest and the path of the file.\<close>

theorem ticket_names_sender:
  assumes "send_main W T H F tenc k gens key gens' uid server_addr file_path allow q = Some (Ok (text, st, ep, actor))"
    and "text_roundtrip T" and "serde_roundtrip tenc tdec" and "hash_files H content"
  shows "\<exists>ticket md. TransferTicket_from_base32 T tdec disp text = Ok ticket \<and>
    tt_node_addr ticket = Endpoint_node_addr (w_ed W) ep \<and>
    na_node_id (tt_node_addr ticket) = Keypair_public (w_ed W) (Keypair_generate (w_ed W) key) \<and>
    st = \<lparr> METADATA_STORE = [tt_content_id ticket \<mapsto> md], LOCALPATH_STORE = [tt_content_id ticket \<mapsto> file_path] \<rparr> \<and>
    fm_hash md = digest H (content file_path) \<and> length (uuid_bytes (tt_content_id ticket)) = 16"
proof -
  let ?kp = "Keypair_generate (w_ed W) key"
  from assms(1) obtain addr md cid where e: "send_endpoint W k gens ?kp gens' addr allow q = Some (Ok (ep, actor))"
    and md: "get_file_metadata H F file_path = Ok md" and cid: "UuidV4_new uid = Some cid"
    and st: "st = \<lparr> METADATA_STORE = [cid \<mapsto> md], LOCALPATH_STORE = [cid \<mapsto> file_path] \<rparr>"
    and shown: "TransferTicket_to_base32 T tenc (TransferTicket_new (Endpoint_node_addr (w_ed W) ep) cid) = Ok text"
    by (auto simp: send_main_def Let_def empty_stores_def Option.bind_eq_Some_conv)
  from shown obtain bs where bs: "tenc (TransferTicket_new (Endpoint_node_addr (w_ed W) ep) cid) = Ok bs" "text = base32_encode T bs"
    by (auto simp: TransferTicket_to_base32_def serde_to_base32_def try_bind_Inr_iff)
  from assms(3) bs(1) obtain n where "tdec bs = Ok (TransferTicket_new (Endpoint_node_addr (w_ed W) ep) cid, n)"
    unfolding serde_roundtrip_def by blast
  with bs(2) assms(2)
  have "TransferTicket_from_base32 T tdec disp text = Ok (TransferTicket_new (Endpoint_node_addr (w_ed W) ep) cid)"
    by (auto simp: TransferTicket_from_base32_def serde_from_base32_def text_roundtrip_def)
  moreover have "na_node_id (Endpoint_node_addr (w_ed W) ep) = Keypair_public (w_ed W) ?kp"
    using sender_identity [OF e] by (simp add: Endpoint_node_addr_def)
  moreover have "fm_hash md = digest H (content file_path)" by (rule get_file_metadata_Inr(2) [OF assms(4) md])
  moreover have "length (uuid_bytes cid) = 16"
    using cid by (auto simp: UuidV4_new_def copy_from_slice_def UUID_V4_BYTES_LEN_def split: if_splits)
  ultimately show ?thesis using st by (auto simp: TransferTicket_new_def)
qed

definition demo_files :: "(bytes, string, bytes) hash_ops" where
  "demo_files = \<lparr> h_new = [], h_update = (@), h_finalize = (\<lambda>h. replicate 31 0 @ [as_u8 (length h)]),
     h_update_reader = (\<lambda>h d. Ok (h @ d)), h_update_mmap = (\<lambda>h p. Ok (h @ ascii p)),
     h_update_mmap_rayon = (\<lambda>h p. Ok (h @ ascii p)), fs_open = (\<lambda>p. Ok (ascii p)),
     fs_metadata_len = (\<lambda>p. Ok (of_nat (length p))), available_parallelism = Ok 4 \<rparr>"

lemma demo_files_laws: "hash_files demo_files ascii"
  by (simp add: hash_files_def demo_files_def)

lemma demo_file_metadata: "\<exists>md. get_file_metadata demo_files demo_fs ''a.bin'' = Ok md"
  by (simp add: get_file_metadata_def demo_files_def demo_fs_def calculate_file_hash_def calc_file_hash_def Blake3Hasher_new_def
      MMAP_THRESHOLD_def Let_def)

lemma demo_builder_steps:
  obtains b b' cfg'' where "Endpoint_builder (demo_world []) 5 (Ok (), Ok ()) = Some b"
    "EndpointBuilder_with_keypair (demo_world []) (Ok (), Ok ()) (Keypair 6) b = Some b'"
    "EndpointBuilder_with_addr segments demo_addr b' =
      Ok (\<lparr> eb_config = cfg'', eb_protocols = [TlsOverTcp], eb_addrs = {demo_addr}, eb_listen_enabled = True,
            eb_allow_loopback = False \<rparr> :: (u8, unit, unit, unit, segs) EndpointBuilder)"
proof -
  obtain cfg :: "(u8, unit, unit, unit) TransportConfig"
    where cfg: "TransportConfig_new demo_tls demo_rustls (Ok (), Ok ()) (Keypair 5) = Some (Ok cfg)" using demo_TransportConfig by blast
  obtain cfg' :: "(u8, unit, unit, unit) TransportConfig"
    where "TransportConfig_new demo_tls demo_rustls (Ok (), Ok ()) (Keypair 6) = Some (Ok cfg')" using demo_TransportConfig by blast
  then obtain cfg'' where cfg'': "TransportConfig_set_keypair demo_tls demo_rustls (Ok (), Ok ()) (Keypair 6) cfg = Some (Ok (), cfg'')"
    by (auto simp: TransportConfig_new_def TransportConfig_set_keypair_def)
  let ?b = "\<lparr> eb_config = cfg, eb_protocols = [], eb_addrs = {} :: segs set, eb_listen_enabled = True, eb_allow_loopback = False \<rparr>"
  have "Endpoint_builder (demo_world []) 5 (Ok (), Ok ()) = Some ?b"
    using cfg by (simp add: Endpoint_builder_def EndpointBuilder_new_def Let_def demo_world_def Keypair_generate_def w_ed_def
        Keypair_from_SecretKey_def SecretKey_generate_def demo_tls_def demo_ed_def)
  moreover have "EndpointBuilder_with_keypair (demo_world []) (Ok (), Ok ()) (Keypair 6) ?b = Some (?b\<lparr> eb_config := cfg'' \<rparr>)"
    using cfg'' by (simp add: EndpointBuilder_with_keypair_def demo_world_def)
  moreover have "EndpointBuilder_with_addr segments demo_addr (?b\<lparr> eb_config := cfg'' \<rparr>) =
      Ok (?b\<lparr> eb_config := cfg'', eb_protocols := [TlsOverTcp], eb_addrs := {demo_addr} \<rparr>)"
    by (simp add: EndpointBuilder_with_addr_def demo_addr_def segments_def segs_defs TransportKind_from_protocol_def
        EndpointBuilder_push_protocol_def)
  ultimately show ?thesis using that [of ?b "?b\<lparr> eb_config := cfg'' \<rparr>" cfg''] by simp
qed

lemma demo_sender:
  "\<exists>ep actor. send_endpoint (demo_world []) 5 (Ok (), Ok ()) (Keypair 6) (Ok (), Ok ()) demo_addr True 0 =
     Some (Ok (ep :: (u8, unit, unit, unit, nat, unit, unit, bytes, segs) Endpoint, actor))"
proof (rule demo_builder_steps)
  fix b b' :: "(u8, unit, unit, unit, segs) EndpointBuilder" and cfg''
  assume "Endpoint_builder (demo_world []) 5 (Ok (), Ok ()) = Some b"
    "EndpointBuilder_with_keypair (demo_world []) (Ok (), Ok ()) (Keypair 6) b = Some b'"
    "EndpointBuilder_with_addr segments demo_addr b' = Ok \<lparr> eb_config = cfg'', eb_protocols = [TlsOverTcp],
      eb_addrs = {demo_addr}, eb_listen_enabled = True, eb_allow_loopback = False \<rparr>"
  with demo_resolver [of "tc_dns_resolver_option cfg''"] show ?thesis
    by (auto simp: send_endpoint_def demo_world_def EndpointBuilder_build_def build_transport_def TcpTransport_new_def Let_def
        EndpointBuilder_with_max_write_buffer_size_def EndpointBuilder_allow_loopback_def)
qed

theorem ticket_names_sender_witness:
  "\<exists>tenc tdec shown st (ep :: (u8, unit, unit, unit, nat, unit, unit, bytes, segs) Endpoint) actor (ticket :: segs TransferTicket).
     send_main (demo_world []) demo_text demo_files demo_fs tenc 5 (Ok (), Ok ()) 6 (Ok (), Ok ()) (replicate 16 7) (Ok demo_addr)
       ''a.bin'' True 0 = Some (Ok (shown, st, ep, actor)) \<and>
     TransferTicket_from_base32 demo_text tdec (\<lambda>_. []) shown = Ok ticket \<and> METADATA_STORE st (tt_content_id ticket) \<noteq> None"
proof -
  obtain ep :: "(u8, unit, unit, unit, nat, unit, unit, bytes, segs) Endpoint" and actor
    where ep: "send_endpoint (demo_world []) 5 (Ok (), Ok ()) (Keypair 6) (Ok (), Ok ()) demo_addr True 0 = Some (Ok (ep, actor))"
    using demo_sender by blast
  obtain md where md: "get_file_metadata demo_files demo_fs ''a.bin'' = Ok md" using demo_file_metadata by blast
  define t where "t = TransferTicket_new (Endpoint_node_addr (w_ed (demo_world [])) ep) demo_cid"
  define tenc :: "segs TransferTicket \<Rightarrow> bytes result" where "tenc = (\<lambda>x. if x = t then Ok [1] else Err (Anyhow []))"
  define tdec :: "bytes \<Rightarrow> (segs TransferTicket \<times> nat) result" where "tdec = (\<lambda>_. Ok (t, 1))"
  have kp: "Keypair_generate (w_ed (demo_world [])) 6 = Keypair 6"
    by (simp add: demo_world_def Keypair_generate_def w_ed_def Keypair_from_SecretKey_def SecretKey_generate_def demo_tls_def demo_ed_def)
  have cid: "UuidV4_new (replicate 16 7) = Some demo_cid"
    by (simp add: UuidV4_new_def copy_from_slice_def UUID_V4_BYTES_LEN_def demo_cid_def)
  have "tenc t = Ok [1]" by (simp add: tenc_def)
  then have "\<exists>shown st. send_main (demo_world []) demo_text demo_files demo_fs tenc 5 (Ok (), Ok ()) 6 (Ok (), Ok ()) (replicate 16 7)
      (Ok demo_addr) ''a.bin'' True 0 = Some (Ok (shown, st, ep, actor))"
    using ep md cid kp by (simp add: send_main_def Let_def TransferTicket_to_base32_def serde_to_base32_def t_def)
  then obtain shown st where run: "send_main (demo_world []) demo_text demo_files demo_fs tenc 5 (Ok (), Ok ()) 6 (Ok (), Ok ())
      (replicate 16 7) (Ok demo_addr) ''a.bin'' True 0 = Some (Ok (shown, st, ep, actor))" by blast
  have law: "serde_roundtrip tenc tdec" by (simp add: serde_roundtrip_def tenc_def tdec_def split: if_splits)
  from ticket_names_sender [OF run demo_text_laws law demo_files_laws] obtain ticket md'
    where "TransferTicket_from_base32 demo_text tdec (\<lambda>_. []) shown = Ok ticket"
      "st = \<lparr> METADATA_STORE = [tt_content_id ticket \<mapsto> md'], LOCALPATH_STORE = [tt_content_id ticket \<mapsto> ''a.bin''] \<rparr>" by blast
  moreover from this(2) have "METADATA_STORE st (tt_content_id ticket) \<noteq> None" by simp
  ultimately show ?thesis using run by blast
qed

end
