(* ===== verification/Greeting.thy ===== *)
theory Greeting
  imports FileTransfer
begin

text \<open>
  The programs of \<^verbatim>\<open>foctet-net/examples\<close> that exchange a greeting: \<^verbatim>\<open>listen.rs\<close> answers every frame of
  every stream of every connection, \<^verbatim>\<open>connect.rs\<close> sends one frame and waits for the answer.
\<close>

section \<open>The programs\<close>

definition echo_frame :: "'w io_env \<Rightarrow> ('w, 'r) Stream \<Rightarrow> Frame \<Rightarrow> (bool \<times> handed) option" where
  "echo_frame io stream frame =
     (case Stream_send_frame io stream
             (FrameBuilder_build (FrameBuilder_with_payload (ascii ''Hello, client!'')
               (FrameBuilder_as_response (FrameBuilder_with_stream_id (Stream_stream_id stream) Frame_builder)))) of
        (Inl e, out) \<Rightarrow> Some (False, out)
      | (Inr _, out) \<Rightarrow> Some (True, out))"

definition listen_handle_stream ::
  "'w io_env \<Rightarrow> ('w, 'r) Stream \<Rightarrow> inbox \<Rightarrow> states \<Rightarrow> (handed \<times> states \<times> bool) option" where
  "listen_handle_stream io stream inb h = stream_loop io (echo_frame io stream) stream inb h"

definition listen_endpoint where
  "listen_endpoint W k gens keypair gens' addr allow q =
     Option.bind (Endpoint_builder W k gens) (\<lambda>b.
     Option.bind (EndpointBuilder_with_keypair W gens' keypair b) (\<lambda>b.
       (case EndpointBuilder_with_addr (w_addr W) addr b of
          Inl e \<Rightarrow> Some (Err e)
        | Inr b \<Rightarrow> EndpointBuilder_build W q (EndpointBuilder_allow_loopback allow b))))"

definition listen_main where
  "listen_main W io closed srcs_of inboxes_of k gens key gens' server_addr allow q queues h =
     panic_bind (Some server_addr) (\<lambda>addr.
       panic_bind (listen_endpoint W k gens (Keypair_generate (w_ed W) key) gens' addr allow q) (\<lambda>(endpoint, actor).
         Some (Ok (serve_loop closed endpoint
           (\<lambda>conn. fst (serve_connection (listen_handle_stream io) (srcs_of conn) (inboxes_of conn) conn h)) queues, actor))))"

definition connect_endpoint where
  "connect_endpoint W k gens keypair gens' allow q =
     Option.bind (Endpoint_builder W k gens) (\<lambda>b.
     Option.bind (EndpointBuilder_with_keypair W gens' keypair b) (\<lambda>b.
       EndpointBuilder_build W q (EndpointBuilder_allow_loopback allow
         (EndpointBuilder_without_listen (EndpointBuilder_with_tcp (EndpointBuilder_with_quic b))))))"

definition greeting_frame :: "StreamId \<Rightarrow> Frame" where
  "greeting_frame stream_id =
     FrameBuilder_build (FrameBuilder_with_payload (ascii ''Hello, server!'')
       (FrameBuilder_as_request (FrameBuilder_with_stream_id stream_id Frame_builder)))"

definition greet ::
  "'w io_env \<Rightarrow> ('w, 'r) Stream \<Rightarrow> inbox \<Rightarrow> states \<Rightarrow> (Frame result \<times> handed \<times> states) option" where
  "greet io stream inb h =
     (case Stream_send_frame io stream (greeting_frame (Stream_stream_id stream)) of
        (Inl e, out) \<Rightarrow> Some (Err e, out, h)
      | (Inr _, out) \<Rightarrow>
          (case await_frame io stream inb h of
             None \<Rightarrow> None
           | Some (r, inb, h) \<Rightarrow> Some (r, out, h)))"

definition connect_main where
  "connect_main W io src cl shut k gens key gens' server_addr allow q inb h =
     (case server_addr of
        Inl e \<Rightarrow> Some (Err e, [])
      | Inr addr \<Rightarrow>
          (case connect_endpoint W k gens (Keypair_generate (w_ed W) key) gens' allow q of
             None \<Rightarrow> None
           | Some (Inl e) \<Rightarrow> Some (Err e, [])
           | Some (Inr (endpoint, actor)) \<Rightarrow>
               (case fst (Endpoint_connect W addr endpoint) of
                  None \<Rightarrow> None
                | Some (Inl e) \<Rightarrow> Some (Err e, [])
                | Some (Inr conn) \<Rightarrow>
                    (case Connection_open_stream src conn h of
                       (Inl e, conn, h) \<Rightarrow> Some (Err e, [])
                     | (Inr stream, conn, h) \<Rightarrow>
                         (case greet io stream inb h of
                            None \<Rightarrow> None
                          | Some (Inl e, out, h) \<Rightarrow> Some (Err e, out)
                          | Some (Inr frame, out, h) \<Rightarrow>
                              (case close_both io cl shut stream conn h of
                                 (r, out', conn, h) \<Rightarrow> Some (r, out @ out')))))))"


section \<open>Lemmas\<close>

text \<open>The answer of the server, whatever the frame.\<close>

definition response_frame :: "StreamId \<Rightarrow> Frame" where
  "response_frame i = FrameBuilder_build (FrameBuilder_with_payload (ascii ''Hello, client!'')
     (FrameBuilder_as_response (FrameBuilder_with_stream_id i Frame_builder)))"

lemma echo_frame_eq:
  "echo_frame io s f = (case Stream_send_frame io s (response_frame (Stream_stream_id s)) of
     (Inl e, out) \<Rightarrow> Some (False, out) | (Inr _, out) \<Rightarrow> Some (True, out))"
  by (simp add: echo_frame_def response_frame_def)

lemma greeting_canonical: "Frame_canonical (greeting_frame i)" "Frame_canonical (response_frame i)"
  by (simp_all add: greeting_frame_def response_frame_def Frame_canonical_def Frame.builder_defs FrameFlags_set_flag_def
      FrameHeader_empty_def)

lemma greeting_payload: "fr_payload (response_frame i) = ascii ''Hello, client!''"
  by (simp add: response_frame_def Frame.builder_defs)


lemma built_queue: "EndpointBuilder_build W q b = Some (Ok (ep, actor)) \<Longrightarrow> conn_receiver (ep_listener ep) = q"
  by (auto simp: EndpointBuilder_build_def Let_def ListenerHandle_new_def)

lemma listen_endpoint_queue:
  "listen_endpoint W k gens kp gens' addr allow q = Some (Ok (ep, actor)) \<Longrightarrow> conn_receiver (ep_listener ep) = q"
  by (auto simp: listen_endpoint_def Option.bind_eq_Some_conv not_Inl_iff split: sum.splits dest: built_queue)


section \<open>Properties\<close>

text \<open>C20. The greeting, over either transport: the client's frame, delivered to the server, is answered with
  exactly one frame, which, delivered to the client, is the greeting the client returns; and the server
  goes on serving the stream. A server that listens does so for every stream it accepts of every
  connection that is waiting, and ends only with its endpoint.\<close>

theorem greeting_exchange:
  assumes "same_transport client server" and "ideal_io io"
  shows "(\<exists>request answer h1 f h2.
      Stream_send_frame io client (greeting_frame (Stream_stream_id client)) = (Ok (), request) \<and>
      listen_handle_stream io server (delivered request) h = Some (answer, h1, True) \<and> length answer = 1 \<and>
      greet io client (delivered answer) h' = Some (Ok f, request, h2) \<and> fr_payload f = ascii ''Hello, client!'') \<and>
    (listen_main W io closed srcs_of inboxes_of k gens key gens' server_addr allow q queues hm = Some (Ok ((outs, ended), actor)) \<longrightarrow>
       ended = closed \<and> outs = map (\<lambda>conn. let (streams, conn', h) = accept_loop (srcs_of conn) conn hm in
         map2 (\<lambda>s inb. listen_handle_stream io s inb h) streams (inboxes_of conn)) (queues q))"
proof (intro conjI impI)
  from frame_arrives [OF assms greeting_canonical(1) [of "Stream_stream_id client"]] obtain request f h1
    where request: "Stream_send_frame io client (greeting_frame (Stream_stream_id client)) = (Ok (), request)"
      and f: "await_frame io server (delivered (request @ [])) h = Some (Ok f, delivered [], h1)" by meson
  have "same_transport server client" using assms(1) by (rule same_transport_sym)
  from frame_arrives [OF this assms(2) greeting_canonical(2) [of "Stream_stream_id server"]] obtain answer g
    where answer: "Stream_send_frame io server (response_frame (Stream_stream_id server)) = (Ok (), answer)"
      and g: "\<forall>later h. \<exists>h'. await_frame io client (delivered (answer @ later)) h = Some (Ok g, delivered later, h')"
      "fr_payload g = ascii ''Hello, client!''" unfolding greeting_payload by blast
  from g(1) obtain h2 where h2: "await_frame io client (delivered (answer @ [])) h' = Some (Ok g, delivered [], h2)" by blast
  have "listen_handle_stream io server (delivered request) h = Some (answer, h1, True)"
    using stream_loop_step [OF f [unfolded append_Nil2], of "echo_frame io server" answer] answer
    by (simp add: listen_handle_stream_def echo_frame_eq stream_loop_waits)
  moreover have "length answer = 1"
    using answer assms(2) by (auto simp: Stream_send_frame_def ideal_io_def QuicStream_send_frame_def sink_ok_def Frame_to_bytes_eq
        LogicalTcpStream_send_frame_def LogicalStreamWriter_send_frame_def split: Stream.splits)
  moreover have "greet io client (delivered answer) h' = Some (Ok g, request, h2)"
    using request h2 by (simp add: greet_def)
  ultimately show "\<exists>request answer h1 f h2.
      Stream_send_frame io client (greeting_frame (Stream_stream_id client)) = (Ok (), request) \<and>
      listen_handle_stream io server (delivered request) h = Some (answer, h1, True) \<and> length answer = 1 \<and>
      greet io client (delivered answer) h' = Some (Ok f, request, h2) \<and> fr_payload f = ascii ''Hello, client!''"
    using request g(2) by blast
qed (auto simp: listen_main_def serve_loop_all serve_connection_def Let_def case_prod_beta listen_endpoint_queue)

lemma demo_listener:
  "\<exists>ep actor. listen_endpoint (demo_world []) 5 (Ok (), Ok ()) (Keypair 6) (Ok (), Ok ()) demo_addr True 0 =
     Some (Ok (ep :: (u8, unit, unit, unit, nat, unit, unit, bytes, segs) Endpoint, actor))"
proof (rule demo_builder_steps)
  fix b b' :: "(u8, unit, unit, unit, segs) EndpointBuilder" and cfg''
  assume "Endpoint_builder (demo_world []) 5 (Ok (), Ok ()) = Some b"
    "EndpointBuilder_with_keypair (demo_world []) (Ok (), Ok ()) (Keypair 6) b = Some b'"
    "EndpointBuilder_with_addr segments demo_addr b' = Ok \<lparr> eb_config = cfg'', eb_protocols = [TlsOverTcp],
      eb_addrs = {demo_addr}, eb_listen_enabled = True, eb_allow_loopback = False \<rparr>"
  with demo_resolver [of "tc_dns_resolver_option cfg''"] show ?thesis
    by (auto simp: listen_endpoint_def demo_world_def EndpointBuilder_build_def build_transport_def TcpTransport_new_def Let_def
        EndpointBuilder_allow_loopback_def)
qed

text \<open>A server with one waiting connection, on which no stream is opened.\<close>

theorem greeting_exchange_witness:
  "(\<exists>answer f h2. greet demo_io (Stream_Tcp demo_tcp :: (unit, unit) Stream) (delivered answer) (\<lambda>_. Mutex_new Established) =
      Some (Ok f, [Inr (EvFrame (greeting_frame (tst_stream_id demo_tcp)))], h2) \<and> fr_payload f = ascii ''Hello, client!'') \<and>
   (\<forall>conn :: (segs, unit) Connection. \<exists>actor.
      listen_main (demo_world []) demo_io False (\<lambda>_. [] :: (unit, unit, unit, unit) stream_source list) (\<lambda>_. []) 5 (Ok (), Ok ()) 6
        (Ok (), Ok ()) (Ok demo_addr) True 0 (\<lambda>_. [conn]) (\<lambda>_. Mutex_new Established) = Some (Ok (([[]], False), actor)))"
proof -
  let ?s = "Stream_Tcp demo_tcp :: (unit, unit) Stream"
  note greets = greeting_exchange [of ?s ?s demo_io, OF _ demo_io_ideal]
  have "Stream_send_frame demo_io ?s (greeting_frame (Stream_stream_id ?s)) =
      (Ok (), [Inr (EvFrame (greeting_frame (tst_stream_id demo_tcp)))])"
    by (simp add: Stream_send_frame_def LogicalTcpStream_send_frame_def LogicalStreamWriter_send_frame_def demo_io_def
        Stream_stream_id_def LogicalTcpStream_stream_id_def)
  with greets [THEN conjunct1] have greeted: "\<exists>answer f h2. greet demo_io ?s (delivered answer) (\<lambda>_. Mutex_new Established) =
      Some (Ok f, [Inr (EvFrame (greeting_frame (tst_stream_id demo_tcp)))], h2) \<and> fr_payload f = ascii ''Hello, client!''" by fastforce
  obtain ep :: "(u8, unit, unit, unit, nat, unit, unit, bytes, segs) Endpoint" and actor
    where ep: "listen_endpoint (demo_world []) 5 (Ok (), Ok ()) (Keypair 6) (Ok (), Ok ()) demo_addr True 0 = Some (Ok (ep, actor))"
    using demo_listener by blast
  moreover have "Keypair_generate (w_ed (demo_world [])) 6 = Keypair 6"
    by (simp add: demo_world_def Keypair_generate_def w_ed_def Keypair_from_SecretKey_def SecretKey_generate_def demo_tls_def demo_ed_def)
  with ep have "\<exists>outs ended. listen_main (demo_world []) demo_io False (\<lambda>_. [] :: (unit, unit, unit, unit) stream_source list) (\<lambda>_. []) 5
      (Ok (), Ok ()) 6 (Ok (), Ok ()) (Ok demo_addr) True 0 (\<lambda>_. [conn]) (\<lambda>_. Mutex_new Established) = Some (Ok ((outs, ended), actor))"
    for conn :: "(segs, unit) Connection" by (auto simp: listen_main_def)
  then have "\<exists>actor. listen_main (demo_world []) demo_io False (\<lambda>_. [] :: (unit, unit, unit, unit) stream_source list) (\<lambda>_. []) 5
      (Ok (), Ok ()) 6 (Ok (), Ok ()) (Ok demo_addr) True 0 (\<lambda>_. [conn]) (\<lambda>_. Mutex_new Established) = Some (Ok (([[]], False), actor))"
    for conn :: "(segs, unit) Connection"
    using greets [THEN conjunct2, THEN mp] by fastforce
  with greeted show ?thesis by blast
qed

end
