(* ===== verification/Spec2Isabelle.thy ===== *)
theory Spec2Isabelle
  imports Codec SessionPair SessionTypes Greeting
begin

text \<open>
  A verification development of Foctet, a peer to peer transport library: nodes with Ed25519
  identities connect over QUIC or over TLS on TCP, open streams, and exchange frames and files.

  \<^bold>\<open>The program.\<close> \<^verbatim>\<open>foctet-core\<close> has the identifiers, frames and their codec, keys, hashes, node addresses
  and tickets. \<^verbatim>\<open>foctet-mux\<close> multiplexes logical streams over one framed connection: a session handle
  talks to a session actor, which owns the tables of streams. \<^verbatim>\<open>foctet-net\<close> has the certificates that carry
  an identity, their verification, the two transports with their listeners, connections and
  streams, and the endpoint with its builder and actor. \<^verbatim>\<open>foctet-net/examples\<close> has four programs that put
  this together. An endpoint connects to a node by trying its addresses; the transport performs the
  handshake and reads the identity from the peer's certificate; over TCP a session is started on the
  connection and its actor carries every stream's frames through the codec.

  \<^bold>\<open>Conventions.\<close> A struct is a record, an enum or newtype a datatype, a method a function
  \<open>Type_method\<close>; \<^verbatim>\<open>&mut self\<close> returns the new value. Integers keep their width where they can overflow (u8, u16, u32, u64
  as words); sizes that only count are \<open>nat\<close>. A fallible function returns \<open>error + 'a\<close> (\<open>Err\<close>, \<open>Ok\<close>); a panic, or waiting for
  ever, is \<open>None\<close>. Code of other crates and of the operating system is a parameter, a record of the
  functions that are called (\<open>buf_ops\<close>, \<open>ed_ops\<close>, \<open>text_ops\<close>, \<open>hash_ops\<close>, \<open>addr_ops\<close>, \<open>net_ops\<close>, \<open>tls_ops\<close>, \<open>rustls_ops\<close>, \<open>dns_ops\<close>, \<open>quinn_ops\<close>,
  \<open>tcp_net\<close>, \<open>quic_net\<close>, \<open>fs_ops\<close>); what a property relies on of it is a named predicate (\<open>buf_ints\<close>, \<open>ed_signatures\<close>, \<open>text_roundtrip\<close>,
  \<open>hash_stream\<close>, \<open>hash_files\<close>, \<open>stack_addrs\<close>, \<open>identity_keeps\<close>, \<open>der_roundtrip\<close>, \<open>generator_parser\<close>, \<open>serde_roundtrip\<close>), satisfied by a concrete instance
  in the property's witness. What a channel, a socket or a file answers is an argument of the step that asks.

  \<^bold>\<open>Theories.\<close>
  \<^item> \<open>Foctet_Prelude\<close>: integers, results, the byte accessors, the rule for invariants of step systems.
  \<^item> \<open>Ids\<close> (\<^verbatim>\<open>stream.rs\<close>, \<^verbatim>\<open>connection.rs\<close>, \<^verbatim>\<open>transport.rs\<close> of the core): identifiers and their counters.
  \<^item> \<open>Frame\<close>, \<open>Codec\<close> (\<^verbatim>\<open>frame.rs\<close>, \<^verbatim>\<open>codec.rs\<close>): flags, types, headers, builder, the byte format; the decoder as a state machine.
    Shown: round trips, exactly what fails to parse, independence of how the bytes were cut, the
    decoder's invariant, the wrapping of the length field.
  \<^item> \<open>MuxStream\<close>, \<open>Session\<close>, \<open>SessionTypes\<close>, \<open>SessionPair\<close> (\<^verbatim>\<open>foctet-mux\<close>): logical streams and their halves over a store of
    shared states, the session actor as a loop over its events, two actors joined. Shown: closing refines one
    specification, the halves' states, multiplexing and demultiplexing, when the loop ends, isolation of streams,
    a typing of the actor's channels that every run keeps, the life cycle of streams that it implements, that
    opening completes when one side opens, and that it does not when both do.
  \<^item> \<open>Ip\<close>, \<open>Device\<close> (\<^verbatim>\<open>ip.rs\<close>, \<^verbatim>\<open>device.rs\<close>): classification and ranking of addresses. Shown: equality with the table of
    special-purpose blocks, sorting and picking.
  \<^item> \<open>Keys\<close>, \<open>Hash\<close>, \<open>Addr\<close>, \<open>Defaults\<close>, \<open>Utils\<close> (\<^verbatim>\<open>key.rs\<close>, \<^verbatim>\<open>id.rs\<close>, \<^verbatim>\<open>hash.rs\<close>, \<^verbatim>\<open>addr/node.rs\<close>, \<^verbatim>\<open>content.rs\<close>, \<^verbatim>\<open>default.rs\<close>, \<^verbatim>\<open>time.rs\<close>, \<^verbatim>\<open>metadata.rs\<close>, \<^verbatim>\<open>utils\<close>).
    Shown: parsing of keys, one digest on every path of the hasher, direct addresses, file names and paths.
  \<^item> \<open>StreamIo\<close>, \<open>QuicStream\<close>, \<open>TcpStream\<close>, \<open>Connection\<close> (\<^verbatim>\<open>transport/quic/stream.rs\<close>, \<^verbatim>\<open>tcp/stream.rs\<close>, \<^verbatim>\<open>stream.rs\<close>, the connections): the locale
    \<open>file_channel\<close> is the contract of sending a file, interpreted for both transports. Shown: a file arrives exactly, when
    receiving returns, how data is cut, identifiers of streams.
  \<^item> \<open>Cert\<close>, \<open>Verifier\<close>, \<open>Dns\<close>, \<open>Config\<close> (\<^verbatim>\<open>tls\<close>, \<^verbatim>\<open>dns\<close>, \<^verbatim>\<open>config.rs\<close>, \<^verbatim>\<open>quic/config.rs\<close>): certificates, handshake verification, resolution,
    configurations. Shown: exactly which certificates are accepted, that generated ones are, what each
    side of a handshake checks, that no client pins an identity.
  \<^item> \<open>Transport\<close>, \<open>Endpoint\<close> (\<^verbatim>\<open>tcp/transport.rs\<close>, \<^verbatim>\<open>quic/transport.rs\<close>, \<^verbatim>\<open>endpoint.rs\<close>): the locale \<open>listener\<close> is the contract of a listening
    task, interpreted for both transports. Shown: authentication of connections, what listeners hand out and
    what stops them, the order of connection attempts, the invariant of builders, advertised addresses.
  \<^item> \<open>FileTransfer\<close>, \<open>Greeting\<close> (\<^verbatim>\<open>examples\<close>): the four programs, with the loops of the servers over connections and streams.
    Shown: a transfer between them writes the file, tickets name their sender, a download believes its peer, a
    greeting is answered, every waiting connection is served.
  \<^item> this theory: a file over a TCP stream, and a whole transfer between the programs, through every layer below.

  \<^bold>\<open>Loops.\<close> A loop over what arrives is a recursion over the list of it, so it ends where the list does and
  reports that it waits; there is no fuel. The loops that can run for ever on finite input, sending in
  pieces of a zero-length buffer and hashing with one, are partial functions into \<open>option\<close>, and the properties
  say exactly when they return. The loops of the decoder and of the servers have termination proofs.

  \<^bold>\<open>Not modelled.\<close> The asynchronous runtime: an \<^verbatim>\<open>await\<close> is a step with its outcome, tasks that share nothing are separate
  runs, and the interleavings that matter, between the session actors, are the steps of \<open>SessionPair\<close>. The
  capacity of channels, other than whether one takes a message. Logging, \<^verbatim>\<open>Debug\<close> output, argument parsing of
  the programs. Cryptography, TLS, QUIC, DNS, X.509 and bincode themselves, which are other crates.
  The handle traits, which only declare; module declarations; the empty structs \<^verbatim>\<open>RelayActor\<close> and \<^verbatim>\<open>TcpConfig\<close>, the enum
  \<^verbatim>\<open>AddressFamily\<close>, which nothing uses; the tests; the keep-alive timer of a session, which the source never
  starts. Nothing else of the sources is left out: what is not mapped is imports, attributes and these.
\<close>

section \<open>A file over a session\<close>

text \<open>A frame that the codec can carry, and that opens nothing when it belongs to stream \<open>i\<close>.\<close>

definition carried :: "StreamId \<Rightarrow> Frame \<Rightarrow> bool" where
  "carried i f \<longleftrightarrow> Frame_canonical f \<and> length (fr_payload f) < 2 ^ 32 \<and> (frame_stream f = i \<longrightarrow> \<not> is_open_control f)"

text \<open>
  What stream \<open>i\<close> emits on one side reaches the channel \<open>c\<close> of the other: the one side's actor \<open>A\<close> takes the events
  \<open>es\<close> between whatever else it does in the turns \<open>evs\<close>; the encoder turns what it writes into bytes, which reach the
  peer in arbitrary pieces; the decoder turns them into the frames that the peer's actor \<open>A'\<close> reads in its own
  turns \<open>evs'\<close>, between whatever else it does.
\<close>

definition conveyed ::
  "buf_ops \<Rightarrow> StreamId \<Rightarrow> nat \<Rightarrow> StreamEvent list \<Rightarrow> turn list \<Rightarrow> SessionActor \<Rightarrow> bytes list \<Rightarrow> turn list \<Rightarrow> SessionActor \<Rightarrow> bool" where
  "conveyed B i c es evs A pieces evs' A' \<longleftrightarrow>
     list_all steady evs \<and> filter (\<lambda>f. frame_stream f = i) (frames_emitted evs) = event_frames es \<and>
     list_all (carried i) (wire_frames (snd (fst (SessionActor_run evs A)))) \<and>
     concat pieces = write_frames B FrameCodec_new (wire_frames (snd (fst (SessionActor_run evs A)))) [] \<and>
     frames_read evs' = fst (read_chunks B FrameCodec_new [] pieces) \<and>
     registered i c A' \<and> list_all (keeps i c) evs' \<and> list_all steady evs'"

text \<open>The frames that the actor has put into channel \<open>c\<close>, as what the stream will receive.\<close>

definition channel_inbox :: "nat \<Rightarrow> turn list \<Rightarrow> SessionActor \<Rightarrow> inbox" where
  "channel_inbox c evs A =
     \<lparr> in_items = [], in_ended = False, in_rcvs = arriving (frames_to c (snd (fst (SessionActor_run evs A)))) \<rparr>"

lemma with_wire_len_fields [simp]:
  "fr_payload (with_wire_len f) = fr_payload f" "frame_stream (with_wire_len f) = frame_stream f"
  "hdr_frame_type (fr_header (with_wire_len f)) = hdr_frame_type (fr_header f)"
  by (simp_all add: with_wire_len_def)

lemma emitted_no_control [simp]:
  "\<not> is_open_control (file_frame i c)" "\<not> is_open_control (content_request_frame i cid)"
  "\<not> is_open_control (metadata_frame i payload)"
  by (simp_all add: file_frame_def content_request_frame_def metadata_frame_def is_open_control_def Frame.builder_defs
      control_flag_tests flag_set_values flag_consts FrameFlags_unset_flag_def FrameFlags_set_flag_def FrameHeader_empty_def flags_ops)

text \<open>What arrives in the channel is what the stream emitted.\<close>

lemma conveyed_frames:
  assumes "buf_ints B" and "conveyed B i c es evs A pieces evs' A'" and "list_all (\<lambda>f. \<not> is_open_control f) (event_frames es)"
  shows "frames_to c (snd (fst (SessionActor_run evs' A'))) = map with_wire_len (event_frames es)"
proof -
  let ?ws = "wire_frames (snd (fst (SessionActor_run evs A)))"
  from assms(2) have steady: "list_all steady evs" and em: "filter (\<lambda>f. frame_stream f = i) (frames_emitted evs) = event_frames es"
    and carr: "list_all (carried i) ?ws" and cat: "concat pieces = write_frames B FrameCodec_new ?ws []"
    and read: "frames_read evs' = fst (read_chunks B FrameCodec_new [] pieces)"
    and peer: "registered i c A'" "list_all (keeps i c) evs'" "list_all steady evs'" by (simp_all add: conveyed_def)
  have "\<forall>f \<in> set ?ws. Frame_canonical f \<and> length (fr_payload f) < 2 ^ 32"
    using carr by (simp add: list_all_iff carried_def)
  then have decoded: "frames_read evs' = map with_wire_len ?ws"
    using assms(1) cat read by (simp add: read_chunks_new write_frames_eq buf_ints.decode_all_frames)
  have "frames_to c (snd (fst (SessionActor_run evs' A'))) = filter (\<lambda>f. frame_stream f = i) (frames_read evs')"
    using run_demux [OF peer] by (metis prod.collapse)
  also have "\<dots> = map with_wire_len (filter (\<lambda>f. frame_stream f = i) ?ws)" by (simp add: decoded filter_map comp_def)
  also have "filter (\<lambda>f. frame_stream f = i) ?ws = filter (\<lambda>f. frame_stream f = i) (filter (\<lambda>f. \<not> is_open_control f) ?ws)"
    using carr by (auto simp: list_all_iff carried_def intro!: filter_cong)
  also have "filter (\<lambda>f. \<not> is_open_control f) ?ws = filter (\<lambda>f. \<not> is_open_control f) (frames_emitted evs)"
    using run_mux [OF steady] by (metis prod.collapse)
  also have "filter (\<lambda>f. frame_stream f = i) (filter (\<lambda>f. \<not> is_open_control f) (frames_emitted evs)) =
      filter (\<lambda>f. \<not> is_open_control f) (event_frames es)" by (simp add: em [symmetric] conj_commute)
  also have "\<dots> = event_frames es" using assms(3) by (simp add: list_all_iff filter_True)
  finally show ?thesis .
qed

lemma event_frames_file [simp]: "event_frames (map (\<lambda>c. EvFrame (file_frame i c)) cs) = map (file_frame i) cs"
  by (induction cs) simp_all

lemma tcp_receives_pieces:
  assumes "map fr_payload fs = cs" and "\<forall>c \<in> set cs. c \<noteq> []" and "concat cs = content" and "content \<noteq> []"
  shows "\<exists>h'. LogicalTcpStream_receive_file (Ok ()) (\<lambda>_ _. Ok ()) (Ok ()) (arriving fs) t (length content) h =
    Some ((Ok (length content), content), h')"
proof -
  have "fs \<noteq> []" using assms by auto
  moreover have "\<forall>m \<in> set fs. fr_payload m \<noteq> []" using assms(1,2) by auto
  ultimately have "tcp_file_recv (tst_framed_reader t) h (length content) fs = Some (length content, content)"
    using tcp_files.recv_all [of fs "tst_framed_reader t" h] assms(1,3) by simp
  then show ?thesis by (auto simp: tcp_file_recv_def LogicalTcpStream_receive_file_def split: option.splits sum.splits)
qed

text \<open>A file that can be read, as what is sent for it.\<close>

lemma tcp_file_sent:
  assumes "file_reads n content cs reads" and "0 < n"
  shows "LogicalTcpStream_send_file (Ok ()) reads (\<lambda>_ _. True) s =
      Some (Ok (), map (\<lambda>c. EvFrame (file_frame (tst_stream_id s) c)) cs)"
    and "\<forall>c \<in> set cs. c \<noteq> []" and "concat cs = content"
proof -
  show cs: "\<forall>c \<in> set cs. c \<noteq> []" "concat cs = content" using assms by (auto simp: file_reads_def list_all_iff)
  have "reads = map Ok cs @ [Ok []]" using assms by (simp add: file_reads_def)
  with cs show "LogicalTcpStream_send_file (Ok ()) reads (\<lambda>_ _. True) s =
      Some (Ok (), map (\<lambda>c. EvFrame (file_frame (tst_stream_id s) c)) cs)"
    using tcp_send_file_loop_ok [of "\<lambda>_ _. True" cs "tst_framed_writer s" "tst_stream_id s" "[]"]
    by (simp add: LogicalTcpStream_send_file_def)
qed

lemma await_channel:
  "frames_to c (snd (fst (SessionActor_run evs A))) = f # fs \<Longrightarrow>
   \<exists>h'. await_frame io (Stream_Tcp t) (channel_inbox c evs A) h =
     Some (Ok f, \<lparr> in_items = [], in_ended = False, in_rcvs = arriving fs \<rparr>, h')"
  by (simp add: await_frame_def channel_inbox_def Stream_receive_frame_def LogicalTcpStream_receive_frame_def tcp_receive_frame_def
      recv_frame_Some)

text \<open>A file over TCP, through every layer. A stream sends a file; its session's actor takes the frames
  between whatever else it does and writes them; the encoder turns what is written into bytes,
  which reach the peer in arbitrary pieces; the decoder turns them back into frames; the peer's actor
  hands them to the channel of the stream, between whatever else it does; and receiving the
  file from that channel writes exactly the file.\<close>

theorem file_over_session:
  assumes "file_reads n content cs reads" and "0 < n" and "content \<noteq> []" and "buf_ints B"
    and "LogicalTcpStream_send_file (Ok ()) reads (\<lambda>_ _. True) s = Some (r, es)"
    and "conveyed B i c es evs A pieces evs' A'"
  shows "r = Ok () \<and>
    (\<exists>h'. LogicalTcpStream_receive_file (Ok ()) (\<lambda>_ _. Ok ()) (Ok ()) (arriving (frames_to c (snd (fst (SessionActor_run evs' A')))))
      t (length content) h = Some ((Ok (length content), content), h'))"
proof -
  note sends = tcp_file_sent [OF assms(1,2)]
  then have sent: "r = Ok ()" "es = map (\<lambda>c. EvFrame (file_frame (tst_stream_id s) c)) cs" using assms(5) by simp_all
  have "frames_to c (snd (fst (SessionActor_run evs' A'))) = map with_wire_len (event_frames es)"
    by (rule conveyed_frames [OF assms(4,6)]) (simp add: sent(2) list_all_iff)
  then have "map fr_payload (frames_to c (snd (fst (SessionActor_run evs' A')))) = cs"
    by (simp add: sent(2) comp_def)
  from tcp_receives_pieces [OF this sends(2,3) assms(3)] sent(1) show ?thesis by blast
qed

definition demo_file_turns :: "turn list" where
  "demo_file_turns = [(env_all, 20, StreamEv (EvFrame (file_frame (StreamId 3) [1, 2]))),
     (env_all, 21, StreamEv (EvFrame (demo_frame_on 1 7))), (env_all, 22, StreamEv (EvFrame (file_frame (StreamId 3) [3])))]"

definition demo_wire :: bytes where
  "demo_wire = write_frames be_ops FrameCodec_new (wire_frames (snd (fst (SessionActor_run demo_file_turns demo_actor)))) []"

lemma demo_wire_frames:
  "wire_frames (snd (fst (SessionActor_run demo_file_turns demo_actor))) =
     [file_frame (StreamId 3) [1, 2], demo_frame_on 1 7, file_frame (StreamId 3) [3]]"
  by (simp add: demo_file_turns_def SessionActor_handle_stream_event_def)

lemma demo_file_carried: "list_all (carried (StreamId 3)) (wire_frames (snd (fst (SessionActor_run demo_file_turns demo_actor))))"
  by (simp add: demo_wire_frames carried_def)
    (simp add: file_frame_def demo_frame_on_def Frame_canonical_def Frame.builder_defs FrameFlags_unset_flag_def)

theorem file_over_session_witness:
  "\<exists>h'. LogicalTcpStream_receive_file (Ok ()) (\<lambda>_ _. Ok ()) (Ok ())
     (arriving (frames_to 11 (snd (fst (SessionActor_run
        (map (\<lambda>f. (env_all, 30, FrameRead (Ok f))) (fst (read_chunks be_ops FrameCodec_new [] [take 5 demo_wire, drop 5 demo_wire])))
        demo_actor))))) demo_tcp 3 (\<lambda>_. Mutex_new Established) = Some ((Ok 3, [1, 2, 3]), h')"
proof -
  let ?fs = "fst (read_chunks be_ops FrameCodec_new [] [take 5 demo_wire, drop 5 demo_wire])"
  let ?evs = "map (\<lambda>f. (env_all, 30, FrameRead (Ok f))) ?fs :: turn list"
  have read: "frames_read (map (\<lambda>f. (env_all, 30, FrameRead (Ok f))) fs) = fs" for fs by (induction fs) simp_all
  have reads: "file_reads 2 [1, 2, 3] [[1, 2], [3]] [Ok [1, 2], Ok [3], Ok []]" by (simp add: file_reads_def)
  have send: "LogicalTcpStream_send_file (Ok ()) [Ok [1, 2], Ok [3], Ok []] (\<lambda>_ _. True) demo_tcp =
      Some (Ok (), [EvFrame (file_frame (StreamId 3) [1, 2]), EvFrame (file_frame (StreamId 3) [3])])"
    by (simp add: LogicalTcpStream_send_file_def LogicalStreamWriter_send_frame_def demo_tcp_def LogicalTcpStream_new_def)
  have "list_all steady demo_file_turns" by (simp add: demo_file_turns_def steady_def)
  moreover have "frame_stream (file_frame j c) = j" for j c by (simp add: file_frame_def Frame.builder_defs)
  then have "filter (\<lambda>f. frame_stream f = StreamId 3) (frames_emitted demo_file_turns) =
      event_frames [EvFrame (file_frame (StreamId 3) [1, 2]), EvFrame (file_frame (StreamId 3) [3])]"
    by (simp add: demo_file_turns_def)
  moreover have "concat [take 5 demo_wire, drop 5 demo_wire] =
      write_frames be_ops FrameCodec_new (wire_frames (snd (fst (SessionActor_run demo_file_turns demo_actor)))) []"
    by (simp add: demo_wire_def)
  moreover have "registered (StreamId 3) 11 demo_actor" by (simp add: registered_def demo_actor_def)
  moreover have "list_all (keeps (StreamId 3) 11) ?evs" "list_all steady ?evs" by (simp_all add: list_all_iff keeps_def steady_def)
  ultimately have "conveyed be_ops (StreamId 3) 11 [EvFrame (file_frame (StreamId 3) [1, 2]), EvFrame (file_frame (StreamId 3) [3])]
      demo_file_turns demo_actor [take 5 demo_wire, drop 5 demo_wire] ?evs demo_actor"
    using demo_file_carried by (simp add: conveyed_def read)
  from file_over_session [OF reads _ _ be.buf_ints_axioms send this, where t = demo_tcp and h = "\<lambda>_. Mutex_new Established"]
  show ?thesis by (simp add: numeral_3_eq_3)
qed


section \<open>A transfer over a session\<close>

text \<open>The server's answer to a request that came through its channel.\<close>

lemma request_served:
  assumes "frames_to c (snd (fst (SessionActor_run evs A))) = [with_wire_len (content_request_frame i cid)]" and "ideal_io io"
    and "METADATA_STORE st cid = Some md" and "LOCALPATH_STORE st cid = Some path" and "length (uuid_bytes cid) = 16"
    and "f_open fi path = Ok ()" and "file_reads n content cs (f_reads fi path)" and "0 < n" and "enc md = Ok bs"
  shows "\<exists>h'. handle_stream io enc fi st (Stream_Tcp server :: ('w, 'r) Stream) (channel_inbox c evs A) h =
    Some (map (\<lambda>f. Inr (EvFrame f)) (metadata_frame (tst_stream_id server) bs # map (file_frame (tst_stream_id server)) cs), h', True)"
proof -
  let ?s = "Stream_Tcp server :: ('w, 'r) Stream" and ?m = "metadata_frame (tst_stream_id server) bs"
  let ?out = "map (\<lambda>f. Inr (EvFrame f)) (map (file_frame (tst_stream_id server)) cs)"
  have io: "io_events io = (\<lambda>_ _. True)" using assms(2) by (simp add: ideal_io_def)
  have meta: "Stream_send_frame io ?s (metadata_frame (Stream_stream_id ?s) bs) = (Ok (), [Inr (EvFrame ?m)])"
    by (simp add: Stream_send_frame_def LogicalTcpStream_send_frame_def LogicalStreamWriter_send_frame_def io
        Stream_stream_id_def LogicalTcpStream_stream_id_def)
  have sent: "Stream_send_file io (f_open fi path) (f_reads fi path) ?s = Some (Ok (), ?out)"
    using tcp_file_sent(1) [OF assms(7,8), of server] by (simp add: Stream_send_file_def io assms(6) comp_def)
  have handled: "handle_frame io enc fi st ?s (with_wire_len (content_request_frame i cid)) = Some (True, [Inr (EvFrame ?m)] @ ?out)"
    by (rule request_answered [where enc = enc, OF assms(2,3,4,9) meta sent _ _ assms(5)]) (simp_all add: transfer_frames_fields)
  obtain h' where "await_frame io ?s (channel_inbox c evs A) h = Some (Ok (with_wire_len (content_request_frame i cid)), delivered [], h')"
    using await_channel [OF assms(1), of io server h]
    by (auto simp: delivered_def handed_items_def handed_events_def map_filter_simps)
  from stream_loop_step [where handler = "handle_frame io enc fi st ?s", OF this handled] show ?thesis
    by (auto simp add: handle_stream_def stream_loop_waits)
qed

text \<open>C1. The two file transfer programs over a session, through every layer in both directions. The client's
  request goes through its actor, the codec, bytes in arbitrary pieces, and the server's actor; the server
  answers; and when its answer takes the same way back, the download writes exactly the file that is served, where
  its arguments say, and ends without error. The server goes on serving the stream.\<close>

theorem transfer_over_session:
  assumes "buf_ints B" and "ideal_io io" and "METADATA_STORE st cid = Some md" and "LOCALPATH_STORE st cid = Some path"
    and "length (uuid_bytes cid) = 16" and "fm_size md = length content" and "f_open fi path = Ok ()"
    and "file_reads n content cs (f_reads fi path)" and "0 < n" and "content \<noteq> []" and "enc md = Ok bs" and "dec bs = Ok (md, k)"
    and "fo = \<lparr> f_create = (\<lambda>_. Ok ()), f_write = (\<lambda>_ _ _. Ok ()), f_flush = (\<lambda>_. Ok ()) \<rparr>"
    and "conveyed B i c [EvFrame (content_request_frame (tst_stream_id client) cid)] evs1 C1 pieces1 evs1' S1"
  shows "\<exists>answer h1. handle_stream io enc fi st (Stream_Tcp server :: ('w, 'r) Stream) (channel_inbox c evs1' S1) h = Some (answer, h1, True) \<and>
    (\<forall>c' evs2 S2 pieces2 evs2' C2. conveyed B i c' (handed_events answer) evs2 S2 pieces2 evs2' C2 \<longrightarrow>
       (\<exists>out h2. download io dec disp F fo save_path cid (Stream_Tcp client :: ('w, 'r) Stream) (channel_inbox c' evs2' C2) h' =
          Some ((Ok (), Some (save_target F save_path md, content)), out, h2)))"
proof -
  let ?c = "Stream_Tcp client :: ('w, 'r) Stream"
  let ?fs = "metadata_frame (tst_stream_id server) bs # map (file_frame (tst_stream_id server)) cs"
  let ?answer = "map (\<lambda>f. Inr (EvFrame f)) ?fs :: handed"
  have "frames_to c (snd (fst (SessionActor_run evs1' S1))) = [with_wire_len (content_request_frame (tst_stream_id client) cid)]"
    using conveyed_frames [OF assms(1,14)] by simp
  from request_served [where enc = enc, OF this assms(2-5,7-9,11)] obtain h1
    where served: "handle_stream io enc fi st (Stream_Tcp server :: ('w, 'r) Stream) (channel_inbox c evs1' S1) h = Some (?answer, h1, True)" by blast
  have events: "event_frames (handed_events (map (\<lambda>f. Inr (EvFrame f)) fs)) = fs" for fs
    by (induction fs) (simp_all add: handed_events_def map_filter_simps)
  have "\<exists>out h2. download io dec disp F fo save_path cid ?c (channel_inbox c' evs2' C2) h' =
      Some ((Ok (), Some (save_target F save_path md, content)), out, h2)"
    if "conveyed B i c' (handed_events ?answer) evs2 S2 pieces2 evs2' C2" for c' evs2 S2 pieces2 evs2' C2
  proof -
    let ?file = "map (with_wire_len \<circ> file_frame (tst_stream_id server)) cs"
    have "frames_to c' (snd (fst (SessionActor_run evs2' C2))) = map with_wire_len ?fs"
      using conveyed_frames [OF assms(1) that] unfolding events by (simp add: list_all_iff)
    then obtain h2 where meta: "await_frame io ?c (channel_inbox c' evs2' C2) h' =
        Some (Ok (with_wire_len (metadata_frame (tst_stream_id server) bs)),
          \<lparr> in_items = [], in_ended = False, in_rcvs = arriving ?file \<rparr>, h2)"
      using await_channel [of c' evs2' C2 _ "?file" io client h'] by auto
    have "map fr_payload ?file = cs" by (simp add: comp_def)
    from tcp_receives_pieces [OF this tcp_file_sent(2,3) [OF assms(8,9)] assms(10)] obtain h3
      where recv: "LogicalTcpStream_receive_file (Ok ()) (\<lambda>_ _. Ok ()) (Ok ()) (arriving ?file) client (length content) h2 =
        Some ((Ok (length content), content), h3)" by blast
    have sent: "\<exists>out. Stream_send_frame io ?c f = (Ok (), out)" for f
      using assms(2) by (simp add: Stream_send_frame_def LogicalTcpStream_send_frame_def LogicalStreamWriter_send_frame_def ideal_io_def)
    from sent [of "content_request_frame (Stream_stream_id ?c) cid"] obtain out
      where "Stream_send_frame io ?c (content_request_frame (Stream_stream_id ?c) cid) = (Ok (), out)" by blast
    with meta recv assms(6,12,13) show ?thesis
      by (simp add: download_def transfer_frames_fields FileMetadata_from_bytes_def Stream_receive_file_def)
  qed
  with served show ?thesis by blast
qed

text \<open>A session over which stream 3 sends \<open>fs\<close>, the bytes cut after the fifth.\<close>

definition demo_sends :: "Frame list \<Rightarrow> turn list" where
  "demo_sends fs = map (\<lambda>f. (env_all, 20, StreamEv (EvFrame f))) fs"

definition demo_pieces :: "Frame list \<Rightarrow> bytes list" where
  "demo_pieces fs = (let w = write_frames be_ops FrameCodec_new fs [] in [take 5 w, drop 5 w])"

definition demo_reads :: "Frame list \<Rightarrow> turn list" where
  "demo_reads fs = map (\<lambda>f. (env_all, 30, FrameRead (Ok f))) (fst (read_chunks be_ops FrameCodec_new [] (demo_pieces fs)))"

lemma demo_conveyed:
  assumes "list_all (\<lambda>f. frame_stream f = StreamId 3 \<and> carried (StreamId 3) f) fs" and "event_frames es = fs"
  shows "conveyed be_ops (StreamId 3) 11 es (demo_sends fs) demo_actor (demo_pieces fs) (demo_reads fs) demo_actor"
proof -
  have "SessionActor_run (demo_sends fs) A = ((False, map Wire fs), A)" for A
    by (induction fs) (simp_all add: demo_sends_def SessionActor_handle_stream_event_def)
  moreover have "wire_frames (map Wire fs) = fs" by (induction fs) simp_all
  moreover have "frames_emitted (demo_sends fs) = fs" by (induction fs) (simp_all add: demo_sends_def)
  moreover have "frames_read (map (\<lambda>f. (env_all, 30, FrameRead (Ok f))) gs) = gs" for gs by (induction gs) simp_all
  moreover have "filter (\<lambda>f. frame_stream f = StreamId 3) fs = fs" "list_all (carried (StreamId 3)) fs"
    using assms(1) by (auto simp: list_all_iff intro!: filter_True)
  moreover have "concat (demo_pieces fs) = write_frames be_ops FrameCodec_new fs []" by (simp add: demo_pieces_def Let_def)
  moreover have "registered (StreamId 3) 11 demo_actor" by (simp add: registered_def demo_actor_def)
  moreover have "list_all steady (demo_sends fs)" "list_all steady (demo_reads fs)" "list_all (keeps (StreamId 3) 11) (demo_reads fs)"
    by (simp_all add: list_all_iff demo_sends_def demo_reads_def keeps_def steady_def)
  ultimately show ?thesis using assms(2) by (simp add: conveyed_def demo_reads_def)
qed

theorem transfer_over_session_witness:
  "\<exists>answer out h2. download demo_io (\<lambda>_. Ok (demo_md ''a.bin'', 0)) (\<lambda>_. []) demo_fs demo_out ''dl'' demo_cid
      (Stream_Tcp demo_tcp :: (unit, unit) Stream) (channel_inbox 11 (demo_reads answer) demo_actor) (\<lambda>_. Mutex_new Established) =
    Some ((Ok (), Some (''dl/a.bin'', [1, 2, 3])), out, h2)"
proof -
  let ?s = "Stream_Tcp demo_tcp :: (unit, unit) Stream" and ?req = "content_request_frame (StreamId 3) demo_cid"
  let ?ans = "metadata_frame (StreamId 3) [9] # map (file_frame (StreamId 3)) [[1, 2], [3]]"
  have tid: "tst_stream_id demo_tcp = StreamId 3" by (simp add: demo_tcp_def LogicalTcpStream_new_def)
  have ok: "list_all (\<lambda>f. frame_stream f = StreamId 3 \<and> carried (StreamId 3) f) (?req # ?ans)"
    by (simp add: carried_def transfer_frames_canonical transfer_frames_fields)
      (simp add: demo_cid_def content_request_frame_def metadata_frame_def file_frame_def Frame_canonical_def Frame.builder_defs
        FrameFlags_unset_flag_def)
  have request: "conveyed be_ops (StreamId 3) 11 [EvFrame (content_request_frame (tst_stream_id demo_tcp) demo_cid)] (demo_sends [?req])
      demo_actor (demo_pieces [?req]) (demo_reads [?req]) demo_actor"
    by (rule demo_conveyed) (use ok in \<open>simp_all add: tid\<close>)
  have frames: "frames_to 11 (snd (fst (SessionActor_run (demo_reads [?req]) demo_actor))) = [with_wire_len ?req]"
    using conveyed_frames [OF be.buf_ints_axioms request] by (simp add: tid)
  have "\<exists>h1. handle_stream demo_io (\<lambda>_. Ok [9]) demo_in (demo_stores ''a.bin'') ?s (channel_inbox 11 (demo_reads [?req]) demo_actor)
      (\<lambda>_. Mutex_new Established) = Some (map (\<lambda>f. Inr (EvFrame f)) (metadata_frame (tst_stream_id demo_tcp) [9] #
        map (file_frame (tst_stream_id demo_tcp)) [[1, 2], [3]]), h1, True)"
    by (rule request_served [where n = 2 and content = "[1, 2, 3]" and path = "''a.bin''" and md = "demo_md ''a.bin''", OF frames demo_io_ideal])
      (simp_all add: demo_stores_def demo_in_def demo_cid_def file_reads_def)
  then have served: "\<exists>h1. handle_stream demo_io (\<lambda>_. Ok [9]) demo_in (demo_stores ''a.bin'') ?s
      (channel_inbox 11 (demo_reads [?req]) demo_actor) (\<lambda>_. Mutex_new Established) = Some (map (\<lambda>f. Inr (EvFrame f)) ?ans, h1, True)"
    unfolding tid .
  have "\<exists>answer h1. handle_stream demo_io (\<lambda>_. Ok [9]) demo_in (demo_stores ''a.bin'') ?s (channel_inbox 11 (demo_reads [?req]) demo_actor)
      (\<lambda>_. Mutex_new Established) = Some (answer, h1, True) \<and>
    (\<forall>c' evs2 S2 pieces2 evs2' C2. conveyed be_ops (StreamId 3) c' (handed_events answer) evs2 S2 pieces2 evs2' C2 \<longrightarrow>
       (\<exists>out h2. download demo_io (\<lambda>_. Ok (demo_md ''a.bin'', 0)) (\<lambda>_. []) demo_fs demo_out ''dl'' demo_cid ?s
          (channel_inbox c' evs2' C2) (\<lambda>_. Mutex_new Established) =
          Some ((Ok (), Some (save_target demo_fs ''dl'' (demo_md ''a.bin''), [1, 2, 3])), out, h2)))"
    by (rule transfer_over_session [where n = 2 and cs = "[[1, 2], [3]]" and path = "''a.bin''" and bs = "[9]" and k = 0,
          OF be.buf_ints_axioms demo_io_ideal _ _ _ _ _ _ _ _ _ _ _ request])
      (simp_all add: demo_stores_def demo_cid_def demo_md_def demo_in_def demo_out_def file_reads_def)
  moreover have "event_frames (handed_events (map (\<lambda>f. Inr (EvFrame f)) ?ans)) = ?ans"
    by (simp add: handed_events_def map_filter_simps)
  moreover have "save_target demo_fs ''dl'' (demo_md ''a.bin'') = ''dl/a.bin''" by code_simp
  ultimately show ?thesis using served demo_conveyed [of ?ans] ok by fastforce
qed

end
